(* ===== verification/Prelude.thy ===== *)
theory Prelude
  imports "HOL-Library.Word" "HOL-Library.State_Monad"
begin

unbundle bit_operations_syntax

text \<open>
  What the component theories share: the machine integers of the C code as words, the
  state monad in which every operation that reads or writes the emulator's global state
  is written, predicates that say which part of the state a computation leaves alone,
  and the lemmas on bytes, bits and carries that the component proofs use.
\<close>

subsection \<open>Machine integers\<close>

type_synonym u8 = "8 word"
type_synonym u16 = "16 word"
type_synonym u32 = "32 word"

text \<open>C's \<open>value % 0x100\<close> and \<open>value / 0x100\<close> of a 16-bit value, as the bytes they are
  stored in, and the little-endian word \<open>lo + hi * 0x100\<close> the code assembles.\<close>

definition lo8 :: "u16 \<Rightarrow> u8" where
  "lo8 w = ucast w"

definition hi8 :: "u16 \<Rightarrow> u8" where
  "hi8 w = ucast (drop_bit 8 w)"

definition word16 :: "u8 \<Rightarrow> u8 \<Rightarrow> u16" where
  "word16 lo hi = ucast lo + ucast hi * 0x100"

text \<open>The integer promotions: a byte or a half word as a 32-bit \<open>int\<close>.\<close>

abbreviation int8u :: "u8 \<Rightarrow> u32" where "int8u x \<equiv> ucast x"
abbreviation int16u :: "u16 \<Rightarrow> u32" where "int16u x \<equiv> ucast x"

lemma unat_u8: "unat (x::u8) < 256"
  using unsigned_less [of x, where ?'a = nat] by simp

lemma unat_u16: "unat (x::u16) < 65536"
  using unsigned_less [of x, where ?'a = nat] by simp

lemma unat_u32: "unat (x::u32) < 4294967296"
  using unsigned_less [of x, where ?'a = nat] by simp

lemma unat_int8u [simp]: "unat (int8u x) = unat x"
  by (simp add: unsigned_ucast_eq take_bit_nat_eq_self order_less_le_trans [OF unat_u8])

lemma unat_int16u [simp]: "unat (int16u x) = unat x"
  by (simp add: unsigned_ucast_eq take_bit_nat_eq_self order_less_le_trans [OF unat_u16])

lemma mod_add_left_inj:
  fixes k a b n :: nat
  assumes "(k + a) mod n = (k + b) mod n" and "a < n" and "b < n"
  shows "a = b"
proof -
  have "(int k + int a) mod int n = (int k + int b) mod int n"
    using assms(1) by (metis of_nat_add zmod_int)
  then have d: "int n dvd int a - int b" by (simp add: mod_eq_dvd_iff)
  show ?thesis
  proof (rule ccontr)
    assume "a \<noteq> b"
    then have "int a - int b \<noteq> 0" by simp
    from dvd_imp_le_int [OF this d] show False using assms(2,3) by linarith
  qed
qed

named_theorems word_split_simps

lemma word16_mult: "(x::u16) * 0x100 = push_bit 8 x"
  by (simp add: push_bit_eq_mult)

lemma word16_alt: "word16 lo hi = ucast lo OR push_bit 8 (ucast hi)"
proof -
  have "ucast lo AND push_bit 8 (ucast hi) = (0::u16)"
    by (rule bit_word_eqI) (auto simp: bit_simps dest: bit_imp_le_length)
  then show ?thesis
    by (simp add: word16_def word16_mult disjunctive_add_eq_or)
qed

lemma bit_word16 [word_split_simps]:
  "bit (word16 lo hi) n \<longleftrightarrow> (if n < 8 then bit lo n else n < 16 \<and> bit hi (n - 8))"
  by (auto simp: word16_alt bit_simps dest: bit_imp_le_length)

lemma bit_lo8 [word_split_simps]: "bit (lo8 w) n \<longleftrightarrow> n < 8 \<and> bit w n"
  by (auto simp: lo8_def bit_simps)

lemma bit_hi8 [word_split_simps]: "bit (hi8 w) n \<longleftrightarrow> n < 8 \<and> bit w (n + 8)"
  by (auto simp: hi8_def bit_simps ac_simps)

lemma lo8_word16 [simp]: "lo8 (word16 lo hi) = lo"
  by (rule bit_word_eqI) (simp add: word_split_simps)

lemma hi8_word16 [simp]: "hi8 (word16 lo hi) = hi"
  by (rule bit_word_eqI) (simp add: word_split_simps)

lemma word16_lo8_hi8 [simp]: "word16 (lo8 w) (hi8 w) = w"
  by (rule bit_word_eqI) (auto simp: word_split_simps)

lemma byte_eqI: "(\<And>n. n \<in> {0, 1, 2, 3, 4, 5, 6, 7} \<Longrightarrow> bit a n = bit b n) \<Longrightarrow> a = b" for a b :: u8
proof (rule bit_word_eqI)
  fix n assume "\<And>n. n \<in> {0, 1, 2, 3, 4, 5, 6, 7} \<Longrightarrow> bit a n = bit b n" "n < LENGTH(8)"
  moreover from this(2) have "n \<in> {0, 1, 2, 3, 4, 5, 6, 7}" by auto
  ultimately show "bit a n = bit b n" by blast
qed

subsection \<open>Reading carries, borrows and signs\<close>

text \<open>
  C tests a carry by masking one bit of a wider sum. \<open>mask_bit_simps\<close> turns the masks into
  \<open>bit\<close>, and the lemmas below turn that bit into a statement about the numbers.
\<close>

named_theorems mask_bit_simps

lemma mask_bit_u8 [mask_bit_simps]:
  "((x::u8) AND 0x80 = 0) = (\<not> bit x 7)" "((x::u8) AND 0x40 = 0) = (\<not> bit x 6)"
  "((x::u8) AND 0x10 = 0) = (\<not> bit x 4)"
  using and_exp_eq_0_iff_not_bit [of x 7] and_exp_eq_0_iff_not_bit [of x 6]
    and_exp_eq_0_iff_not_bit [of x 4] by simp_all

lemma mask_bit_u16 [mask_bit_simps]:
  "((x::u16) AND 0x8000 = 0) = (\<not> bit x 15)" "((x::u16) AND 0x100 = 0) = (\<not> bit x 8)"
  using and_exp_eq_0_iff_not_bit [of x 15] and_exp_eq_0_iff_not_bit [of x 8] by simp_all

lemma mask_bit_u32 [mask_bit_simps]:
  "((x::u32) AND 0x10000 = 0) = (\<not> bit x 16)" "((x::u32) AND 0x10 = 0) = (\<not> bit x 4)"
  using and_exp_eq_0_iff_not_bit [of x 16] and_exp_eq_0_iff_not_bit [of x 4] by simp_all

lemma bit_iff_odd_uint: "bit (w::'a::len word) n \<longleftrightarrow> odd (uint w div 2 ^ n)"
  by (metis bit_iff_odd bit_uint_iff bit_imp_le_length)

lemma of_bool_nonneg: "(0::int) \<le> of_bool c" and of_bool_le_one: "of_bool c \<le> (1::int)"
  by simp_all

lemma sum_bit_iff:
  fixes x y :: u32
  assumes "uint x < 2 ^ n" "uint y < 2 ^ n" "n \<le> 16"
  shows "bit (x + y + of_bool c) n \<longleftrightarrow> 2 ^ n \<le> uint x + uint y + of_bool c"
proof -
  define k :: int where "k = 2 ^ n"
  have k: "k \<le> 2 ^ 16" unfolding k_def using assms(3) by (intro power_increasing) auto
  have u: "uint (x + y + of_bool c) = uint x + uint y + of_bool c"
    using assms(1,2) k uint_ge_0 [of x] uint_ge_0 [of y]
    by (cases c) (simp_all add: uint_word_ariths k_def [symmetric])
  have "0 \<le> uint x + uint y + of_bool c" "uint x + uint y + of_bool c < 2 * k"
    using assms(1,2) k_def by (cases c; simp)+
  then have "(uint x + uint y + of_bool c) div k = of_bool (k \<le> uint x + uint y + of_bool c)"
    by (auto simp: div_pos_pos_trivial intro: int_div_pos_eq [where r = "uint x + uint y + of_bool c - k"])
  then show ?thesis
    by (simp add: bit_iff_odd_uint u k_def)
qed

lemma diff_bit_iff:
  fixes x y :: u32
  assumes "uint x < 2 ^ n" "uint y < 2 ^ n" "n \<le> 16"
  shows "bit (x - y - of_bool c) n \<longleftrightarrow> uint x < uint y + of_bool c"
proof (cases "uint x < uint y + of_bool c")
  case False
  have lo: "0 \<le> uint x - uint y - of_bool c" using False by (cases c; simp)
  have "uint x < 2 ^ 32" using uint_lt2p [of x] by simp
  then have hi: "uint x - uint y - of_bool c < 2 ^ 32"
    using uint_ge_0 [of y] of_bool_nonneg [of c] by linarith
  have "uint (x - y - of_bool c) = (uint x - uint y - of_bool c) mod 2 ^ 32"
    by (cases c) (simp_all add: uint_word_ariths mod_simps)
  also have "\<dots> = uint x - uint y - of_bool c"
    by (rule mod_pos_pos_trivial [OF lo hi])
  finally have "uint (x - y - of_bool c) = uint x - uint y - of_bool c" .
  moreover have "(uint x - uint y - of_bool c) div 2 ^ n = 0"
  proof (rule div_pos_pos_trivial [OF lo])
    show "uint x - uint y - of_bool c < 2 ^ n"
      using assms(1) uint_ge_0 [of y] of_bool_nonneg [of c] by linarith
  qed
  ultimately show ?thesis using False by (simp add: bit_iff_odd_uint)
next
  case True
  define d where "d = uint x - uint y - of_bool c"
  have d: "- (2 ^ n) \<le> d" "d < 0"
    using True assms(1,2) uint_ge_0 [of x] of_bool_nonneg [of c] of_bool_le_one [of c]
    unfolding d_def by linarith+
  have n32: "(2::int) ^ 32 = 2 ^ n * 2 ^ (32 - n)" using assms(3) by (simp add: power_add [symmetric])
  have "uint (x - y - of_bool c) = d mod 2 ^ 32"
    unfolding d_def by (cases c) (simp_all add: uint_word_ariths mod_simps)
  also have "\<dots> = d + 2 ^ 32"
  proof -
    have "(2::int) ^ n \<le> 2 ^ 16" using assms(3) by (intro power_increasing) auto
    then show ?thesis using d by (intro int_mod_pos_eq [where q = "-1"]) auto
  qed
  finally have u: "uint (x - y - of_bool c) div 2 ^ n = 2 ^ (32 - n) + d div 2 ^ n"
    unfolding n32 by (simp only: div_mult_self2 [OF power_not_zero [OF zero_neq_numeral [symmetric]]])
  have "d div 2 ^ n = -1"
    using d by (intro int_div_pos_eq [where r = "d + 2 ^ n"]) auto
  then show ?thesis using True assms(3) by (simp add: bit_iff_odd_uint u)
qed

lemma sint_uint_top:
  "sint (w::'a::len word) = uint w - (if bit w (LENGTH('a) - 1) then 2 ^ LENGTH('a) else 0)"
proof -
  have "sint w = signed_take_bit (LENGTH('a) - 1) (uint w)" by (simp add: sint_uint)
  also have "\<dots> = take_bit (LENGTH('a)) (uint w) - (if bit w (LENGTH('a) - 1) then 2 ^ LENGTH('a) else 0)"
    by (simp add: signed_take_bit_eq_take_bit_minus bit_uint_iff Suc_diff_1)
  also have "take_bit (LENGTH('a)) (uint w) = uint w" using uint_lt2p [of w] by (simp add: take_bit_int_eq_self)
  finally show ?thesis .
qed

lemma bit_top_iff: "bit (w::'a::len word) (LENGTH('a) - 1) \<longleftrightarrow> 2 ^ (LENGTH('a) - 1) \<le> uint w"
proof -
  have "(2::int) ^ LENGTH('a) = 2 * 2 ^ (LENGTH('a) - 1)"
    by (metis One_nat_def Suc_pred len_gt_0 power_Suc)
  then have "uint w < 2 * 2 ^ (LENGTH('a) - 1)" using uint_lt2p [of w] by simp
  then have "uint w div 2 ^ (LENGTH('a) - 1) = of_bool (2 ^ (LENGTH('a) - 1) \<le> uint w)"
    by (auto intro: int_div_pos_eq [where r = "uint w - 2 ^ (LENGTH('a) - 1)"])
  then show ?thesis by (simp add: bit_iff_odd_uint)
qed

lemma two_power_length:
  assumes "1 < LENGTH('a::len)"
  shows "(2::int) ^ LENGTH('a) = 2 * 2 ^ (LENGTH('a) - 1)" "(2::int) \<le> 2 ^ (LENGTH('a) - 1)"
proof -
  show "(2::int) ^ LENGTH('a) = 2 * 2 ^ (LENGTH('a) - 1)"
    by (metis One_nat_def Suc_pred len_gt_0 power_Suc)
  have "(2::int) ^ 1 \<le> 2 ^ (LENGTH('a) - 1)" using assms by (intro power_increasing) auto
  then show "(2::int) \<le> 2 ^ (LENGTH('a) - 1)" by simp
qed

lemma add_sign_int:
  fixes A B R k :: int
  assumes "0 \<le> A" "A < 2 * k" "0 \<le> B" "B < 2 * k" "2 \<le> k"
    and "R = (A + B + of_bool c) mod (2 * k)"
  shows "(k \<le> A \<and> k \<le> B \<and> \<not> k \<le> R) \<or> (\<not> k \<le> A \<and> \<not> k \<le> B \<and> k \<le> R) \<longleftrightarrow>
    (A - (if k \<le> A then 2 * k else 0)) + (B - (if k \<le> B then 2 * k else 0)) + of_bool c \<notin> {- k..<k}"
proof -
  have "R = (if A + B + of_bool c < 2 * k then A + B + of_bool c else A + B + of_bool c - 2 * k)"
    using assms by (cases c)
      (auto intro: mod_pos_pos_trivial int_mod_pos_eq [where q = 1] split: if_splits)
  then show ?thesis using assms(1-5) by (cases c) (auto split: if_splits)
qed

lemma diff_sign_int:
  fixes A B R k :: int
  assumes "0 \<le> A" "A < 2 * k" "0 \<le> B" "B < 2 * k" "2 \<le> k"
    and "R = (A - B - of_bool c) mod (2 * k)"
  shows "(k \<le> A \<and> \<not> k \<le> B \<and> \<not> k \<le> R) \<or> (\<not> k \<le> A \<and> k \<le> B \<and> k \<le> R) \<longleftrightarrow>
    (A - (if k \<le> A then 2 * k else 0)) - (B - (if k \<le> B then 2 * k else 0)) - of_bool c \<notin> {- k..<k}"
proof -
  have "R = (if 0 \<le> A - B - of_bool c then A - B - of_bool c else A - B - of_bool c + 2 * k)"
    using assms by (cases c)
      (auto intro: mod_pos_pos_trivial int_mod_pos_eq [where q = "- 1"] split: if_splits)
  then show ?thesis using assms(1-5) by (cases c) (auto split: if_splits)
qed

lemma overflow_iff:
  fixes a b :: "'a::len word"
  defines "m \<equiv> LENGTH('a) - 1"
  assumes "1 < LENGTH('a)"
  shows add_overflow_iff: "r = a + b + of_bool c \<Longrightarrow>
      (bit a m \<and> bit b m \<and> \<not> bit r m) \<or> (\<not> bit a m \<and> \<not> bit b m \<and> bit r m) \<longleftrightarrow>
      sint a + sint b + of_bool c \<notin> {- (2 ^ m)..<2 ^ m}"
    and diff_overflow_iff: "r = a - b - of_bool c \<Longrightarrow>
      (bit a m \<and> \<not> bit b m \<and> \<not> bit r m) \<or> (\<not> bit a m \<and> bit b m \<and> bit r m) \<longleftrightarrow>
      sint a - sint b - of_bool c \<notin> {- (2 ^ m)..<2 ^ m}"
proof -
  define k :: int where "k = 2 ^ m"
  have kk: "(2::int) ^ LENGTH('a) = 2 * k" and k2: "2 \<le> k"
    unfolding k_def m_def using two_power_length [OF assms(2)] by auto
  have b: "0 \<le> uint a" "uint a < 2 * k" "0 \<le> uint b" "uint b < 2 * k"
    using uint_lt2p [of a] uint_lt2p [of b] by (simp_all add: kk)
  note tops = bit_top_iff [where 'a = 'a, folded m_def, folded k_def]
  { assume "r = a + b + of_bool c"
    then have "uint r = (uint a + uint b + of_bool c) mod (2 * k)"
      using assms(2) by (cases c) (simp_all add: uint_word_ariths kk mod_simps)
    from add_sign_int [OF b k2 this]
    show "(bit a m \<and> bit b m \<and> \<not> bit r m) \<or> (\<not> bit a m \<and> \<not> bit b m \<and> bit r m) \<longleftrightarrow>
      sint a + sint b + of_bool c \<notin> {- (2 ^ m)..<2 ^ m}"
      by (simp only: tops k_def [symmetric] sint_uint_top [of a, folded m_def, unfolded kk]
        sint_uint_top [of b, folded m_def, unfolded kk]) }
  { assume "r = a - b - of_bool c"
    then have "uint r = (uint a - uint b - of_bool c) mod (2 * k)"
      using assms(2) by (cases c) (simp_all add: uint_word_ariths kk mod_simps)
    from diff_sign_int [OF b k2 this]
    show "(bit a m \<and> \<not> bit b m \<and> \<not> bit r m) \<or> (\<not> bit a m \<and> bit b m \<and> bit r m) \<longleftrightarrow>
      sint a - sint b - of_bool c \<notin> {- (2 ^ m)..<2 ^ m}"
      by (simp only: tops k_def [symmetric] sint_uint_top [of a, folded m_def, unfolded kk]
        sint_uint_top [of b, folded m_def, unfolded kk]) }
qed

subsection \<open>Computations on the emulator's state\<close>

text \<open>
  The C code works on global structures through pointers. Every function that touches
  them is a computation of type \<open>('s, 'a) state\<close> (HOL-Library.State_Monad): it is run on
  the state before and gives the result and the state after. \<open>gets\<close> reads a part of the
  state and \<open>modify\<close> updates it.
\<close>

abbreviation return :: "'a \<Rightarrow> ('s, 'a) state" where
  "return \<equiv> State_Monad.return"

definition gets :: "('s \<Rightarrow> 'a) \<Rightarrow> ('s, 'a) state" where
  "gets f = State (\<lambda>s. (f s, s))"

definition modify :: "('s \<Rightarrow> 's) \<Rightarrow> ('s, unit) state" where
  "modify f = State (\<lambda>s. ((), f s))"

lemma run_state_gets [simp]: "run_state (gets f) s = (f s, s)"
  by (simp add: gets_def)

lemma run_state_modify [simp]: "run_state (modify f) s = ((), f s)"
  by (simp add: modify_def)

lemma run_state_if [simp]:
  "run_state (if b then x else y) s = (if b then run_state x s else run_state y s)"
  by simp

text \<open>
  \<open>preserves f m\<close>: running \<open>m\<close> does not change what \<open>f\<close> observes of the state. It is
  closed under the monad's constructors, so the frame of a whole instruction follows from
  the frames of the primitives it is built from.
\<close>

definition preserves :: "('s \<Rightarrow> 'b) \<Rightarrow> ('s, 'a) state \<Rightarrow> bool" where
  "preserves f m \<longleftrightarrow> (\<forall>s. f (snd (run_state m s)) = f s)"

named_theorems frame_intros

lemma preservesI: "(\<And>s. f (snd (run_state m s)) = f s) \<Longrightarrow> preserves f m"
  by (simp add: preserves_def)

lemma preservesD: "preserves f m \<Longrightarrow> f (snd (run_state m s)) = f s"
  by (simp add: preserves_def)

lemma preserves_run: "preserves f m \<Longrightarrow> run_state m s = (x, t) \<Longrightarrow> f t = f s"
  by (drule preservesD [of f m s]) simp

lemma preserves_return [frame_intros]: "preserves f (return x)"
  by (simp add: preserves_def)

lemma preserves_gets [frame_intros]: "preserves f (gets g)"
  by (simp add: preserves_def)

lemma preserves_modify: "(\<And>s. f (g s) = f s) \<Longrightarrow> preserves f (modify g)"
  by (simp add: preserves_def)

lemma preserves_bind [frame_intros]:
  "preserves f m \<Longrightarrow> (\<And>x. preserves f (k x)) \<Longrightarrow> preserves f (State_Monad.bind m k)"
  by (auto simp: preserves_def split: prod.split) (metis snd_conv)

lemma preserves_if [frame_intros]:
  "preserves f m \<Longrightarrow> preserves f n \<Longrightarrow> preserves f (if b then m else n)"
  by simp

lemma preserves_case_prod [frame_intros]:
  "(\<And>x y. preserves f (m x y)) \<Longrightarrow> preserves f (case p of (x, y) \<Rightarrow> m x y)"
  by (cases p) simp

lemma preserves_let [frame_intros]: "(\<And>x. preserves f (m x)) \<Longrightarrow> preserves f (let x = e in m x)"
  by simp

lemma preserves_comp: "preserves f m \<Longrightarrow> preserves (\<lambda>s. g (f s)) m"
  by (simp add: preserves_def)

subsection \<open>Loops over a fixed range and repeated computations\<close>

text \<open>\<open>for (i = ...; ...; i++) body(i);\<close> over the listed values, and the results of running a
  computation \<open>n\<close> times.\<close>

primrec for_each :: "'b list \<Rightarrow> ('b \<Rightarrow> ('s, unit) state) \<Rightarrow> ('s, unit) state" where
  "for_each [] body = return ()"
| "for_each (x # xs) body = do { body x; for_each xs body }"

primrec replicate_m :: "nat \<Rightarrow> ('s, 'a) state \<Rightarrow> ('s, 'a list) state" where
  "replicate_m 0 m = return []"
| "replicate_m (Suc n) m = do { x \<leftarrow> m; xs \<leftarrow> replicate_m n m; return (x # xs) }"

lemma preserves_for_each [frame_intros]:
  "(\<And>x. preserves f (body x)) \<Longrightarrow> preserves f (for_each xs body)"
  by (induction xs) (auto intro: frame_intros)

lemma preserves_case_option [frame_intros]:
  "preserves f m \<Longrightarrow> (\<And>x. preserves f (k x)) \<Longrightarrow>
   preserves f (case v of None \<Rightarrow> m | Some x \<Rightarrow> k x)"
  by (cases v) simp_all

lemma length_replicate_m [simp]: "length (fst (run_state (replicate_m n m) s)) = n"
  by (induction n arbitrary: s) (simp_all add: case_prod_beta)

lemma run_replicate_m: "snd (run_state (replicate_m n m) s) = ((\<lambda>s. snd (run_state m s)) ^^ n) s"
  by (induction n arbitrary: s) (simp_all add: case_prod_beta funpow_swap1 [of "\<lambda>s. snd (run_state m s)"])

end
