(* ===== verification/Host.thy ===== *)
theory Host
  imports Prelude
begin

text \<open>
  The part of main.c every component reports to: \<open>panic\<close> stores a message and asks the main
  loop to stop in the debugger; the caller goes on with whatever it does next. The message
  is kept as its format and arguments. The field \<open>uninit\<close> is the indeterminate content of a
  16-bit local variable the C code reads before writing it; nothing writes the field, so a
  theorem about every state covers every content. \<open>wild\<close> records that the code has accessed an
  array outside its bounds: what C does from there on is undefined, and the theorems about the
  components say when it does not happen.
\<close>

record host =
  debugger_break :: bool
  panic_msg :: "(string \<times> u32 list) option"
  uninit :: u16
  wild :: bool

definition panic :: "string \<Rightarrow> u32 list \<Rightarrow> ('a host_scheme, unit) state" where
  "panic format args =
     modify (\<lambda>s. s\<lparr>debugger_break := True, panic_msg := Some (format, args)\<rparr>)"

lemma run_state_panic [simp]:
  "run_state (panic f as) s = ((), s\<lparr>debugger_break := True, panic_msg := Some (f, as)\<rparr>)"
  by (simp add: panic_def)

definition undefined_access :: "('a host_scheme, unit) state" where
  "undefined_access = modify (\<lambda>s. s\<lparr>wild := True\<rparr>)"

lemma run_state_undefined_access [simp]: "run_state undefined_access s = ((), s\<lparr>wild := True\<rparr>)"
  by (simp add: undefined_access_def)

end
