(* ===== verification/Memory.thy ===== *)
theory Memory
  imports Host
begin

text \<open>
  mem.c: one megabyte of bytes in 128 sections of 8 KB, each of which is RAM or read-only.
  The locale \<open>byte_store\<close> is the contract the CPU and the DMA controller rely on: a read
  returns the last byte written to a writable address, a write changes no other address
  and nothing at all where the store is read-only. It is interpreted on the physical
  memory and on the 64 KB window that a segment register gives.
\<close>

subsection \<open>The store and its operations\<close>

record mem_t =
  mem_m :: "u32 \<Rightarrow> u8"
  mem_readonly :: "u32 \<Rightarrow> bool"

definition MEM_SIZE_MAX :: u32 where "MEM_SIZE_MAX = 0x100000"
definition MEM_SECTION :: u32 where "MEM_SECTION = 0x2000"

record bus = host +
  mem :: mem_t

definition mem_init :: mem_t where
  "mem_init = \<lparr>mem_m = (\<lambda>_. 0), mem_readonly = (\<lambda>_. False)\<rparr>"

definition mem_read :: "u32 \<Rightarrow> ('a bus_scheme, u8) state" where
  "mem_read address =
     (if MEM_SIZE_MAX \<le> address then do {
        panic ''Memory read above 1MB: 0x%08x'' [address];
        return 0xFF
      } else gets (\<lambda>s. mem_m (mem s) address))"

definition mem_write :: "u32 \<Rightarrow> u8 \<Rightarrow> ('a bus_scheme, unit) state" where
  "mem_write address val =
     (if MEM_SIZE_MAX \<le> address
      then panic ''Memory write above 1MB: 0x%08x'' [address]
      else do {
        ro \<leftarrow> gets (\<lambda>s. mem_readonly (mem s) (address div MEM_SECTION));
        if ro = False
        then modify (\<lambda>s. s\<lparr>mem := (mem s)\<lparr>mem_m := (mem_m (mem s))(address := val)\<rparr>\<rparr>)
        else return ()
      })"

text \<open>The 20-bit physical address of \<open>segment:offset\<close>, wrapping at one megabyte.\<close>

definition phys :: "u16 \<Rightarrow> u16 \<Rightarrow> u32" where
  "phys segment offset = (push_bit 4 (int16u segment) + int16u offset) AND 0xFFFFF"

definition mem_read_by_segment :: "u16 \<Rightarrow> u16 \<Rightarrow> ('a bus_scheme, u8) state" where
  "mem_read_by_segment segment offset = mem_read (phys segment offset)"

definition mem_write_by_segment :: "u16 \<Rightarrow> u16 \<Rightarrow> u8 \<Rightarrow> ('a bus_scheme, unit) state" where
  "mem_write_by_segment segment offset val = mem_write (phys segment offset) val"

text \<open>
  Loading a ROM image. The file is a parameter: \<open>None\<close> when it cannot be opened, else its
  bytes. The loop stops silently at the end of the address space.
\<close>

fun mem_load_loop :: "u8 list \<Rightarrow> u32 \<Rightarrow> mem_t \<Rightarrow> mem_t" where
  "mem_load_loop [] address mm = mm"
| "mem_load_loop (c # fh) address mm =
     (let mm = mm\<lparr>mem_m := (mem_m mm)(address := c),
                  mem_readonly := (mem_readonly mm)(address div MEM_SECTION := True)\<rparr>;
          address = address + 1
      in if MEM_SIZE_MAX \<le> address then mm else mem_load_loop fh address mm)"

definition mem_load_rom :: "u8 list option \<Rightarrow> u32 \<Rightarrow> mem_t \<Rightarrow> int \<times> mem_t" where
  "mem_load_rom file address mm =
     (if MEM_SIZE_MAX \<le> address then (-2, mm)
      else case file of
        None \<Rightarrow> (-1, mm)
      | Some fh \<Rightarrow> (0, mem_load_loop fh address mm))"

subsection \<open>Physical addresses\<close>

lemma phys_shift: "unat (push_bit 4 (int16u sg)) = 16 * unat sg"
proof -
  have "unat sg < 65536" by (rule unat_u16)
  then show ?thesis
    by (simp add: push_bit_eq_mult unat_word_ariths)
qed

lemma unat_phys: "unat (phys sg off) = (16 * unat sg + unat off) mod 0x100000"
proof -
  have b: "unat sg < 65536" "unat off < 65536"
    by (rule unat_u16)+
  have m: "(0xFFFFF :: u32) = mask 20" by (simp add: mask_eq_exp_minus_1)
  have "unat (phys sg off) = unat (push_bit 4 (int16u sg) + int16u off) mod 2 ^ 20"
    unfolding phys_def m by (simp add: take_bit_eq_mask [symmetric] unsigned_take_bit_eq)
      (simp add: take_bit_eq_mod)
  then show ?thesis
    using b by (simp add: unat_word_ariths phys_shift)
qed

lemma phys_bound: "phys sg off < 0x100000"
  by (simp add: word_less_nat_alt unat_phys)

lemma phys_in_memory [simp]: "\<not> MEM_SIZE_MAX \<le> phys sg off" "phys sg off < MEM_SIZE_MAX"
  using phys_bound [of sg off] by (simp_all add: MEM_SIZE_MAX_def not_le)

lemma phys_inj [simp]: "phys sg a = phys sg b \<longleftrightarrow> a = b"
proof
  assume "phys sg a = phys sg b"
  then have e: "(16 * unat sg + unat a) mod 0x100000 = (16 * unat sg + unat b) mod 0x100000"
    by (metis unat_phys)
  have "unat a < 65536" "unat b < 65536" "unat sg < 65536"
    by (rule unat_u16)+
  with e have "unat a = unat b" by (auto dest: mod_add_left_inj)
  then show "a = b" by (simp add: word_unat_eq_iff)
qed simp

subsection \<open>The contract of a byte store\<close>

primrec put_bytes :: "('m \<Rightarrow> 'a::len word \<Rightarrow> u8 \<Rightarrow> 'm) \<Rightarrow> 'm \<Rightarrow> 'a word \<Rightarrow> u8 list \<Rightarrow> 'm" where
  "put_bytes put mm a [] = mm"
| "put_bytes put mm a (b # bs) = put_bytes put (put mm a b) (a + 1) bs"

locale byte_store =
  fixes get :: "'m \<Rightarrow> 'a::len word \<Rightarrow> u8"
    and put :: "'m \<Rightarrow> 'a word \<Rightarrow> u8 \<Rightarrow> 'm"
    and writable :: "'m \<Rightarrow> 'a word \<Rightarrow> bool"
  assumes get_put_same: "writable mm a \<Longrightarrow> get (put mm a v) a = v"
    and get_put_other: "a \<noteq> b \<Longrightarrow> get (put mm a v) b = get mm b"
    and put_protected: "\<not> writable mm a \<Longrightarrow> put mm a v = mm"
    and writable_put: "writable (put mm a v) b = writable mm b"
begin

lemma get_put: "get (put mm a v) b = (if a = b \<and> writable mm a then v else get mm b)"
  by (metis get_put_same get_put_other put_protected)

lemma get_protected: "\<not> writable mm b \<Longrightarrow> get (put mm a v) b = get mm b"
  by (metis get_put)

lemma writable_put_bytes: "writable (put_bytes put mm a bs) b = writable mm b"
  by (induction bs arbitrary: mm a) (simp_all add: writable_put)

lemma put_bytes_append:
  "put_bytes put mm a (bs @ cs) =
   put_bytes put (put_bytes put mm a bs) (a + of_nat (length bs)) cs"
  by (induction bs arbitrary: mm a) (simp_all add: ac_simps)

lemma get_put_bytes_other:
  "(\<And>i. i < length bs \<Longrightarrow> b \<noteq> a + of_nat i) \<Longrightarrow> get (put_bytes put mm a bs) b = get mm b"
proof (induction bs arbitrary: mm a)
  case (Cons c cs)
  have "b \<noteq> a" using Cons.prems [of 0] by simp
  moreover have "b \<noteq> (a + 1) + of_nat i" if "i < length cs" for i
    using Cons.prems [of "Suc i"] that by (simp add: ac_simps)
  ultimately show ?case
    using Cons.IH [of "a + 1" "put mm a c"] by (simp add: get_put_other)
qed simp

lemma get_put_bytes_protected:
  "\<not> writable mm b \<Longrightarrow> get (put_bytes put mm a bs) b = get mm b"
  by (induction bs arbitrary: mm a) (simp_all add: writable_put get_protected)

lemma get_put_bytes:
  assumes "length bs \<le> 2 ^ LENGTH('a)"
    and "writable mm (a + of_nat i)"
    and "i < length bs"
  shows "get (put_bytes put mm a bs) (a + of_nat i) = bs ! i"
  using assms
proof (induction bs arbitrary: mm a i)
  case (Cons c cs)
  show ?case
  proof (cases i)
    case 0
    have "a \<noteq> (a + 1) + of_nat j" if "j < length cs" for j
    proof -
      have "Suc j < 2 ^ LENGTH('a)" using that Cons.prems(1) by simp
      then have "unat (of_nat (Suc j) :: 'a word) = Suc j"
        by (simp only: unat_of_nat mod_less)
      then have "a + of_nat (Suc j) \<noteq> a" by auto
      then show ?thesis by (simp add: ac_simps)
    qed
    then have "get (put_bytes put (put mm a c) (a + 1) cs) a = get (put mm a c) a"
      by (rule get_put_bytes_other)
    then show ?thesis
      using 0 Cons.prems(2) by (simp add: get_put_same)
  next
    case (Suc j)
    have "get (put_bytes put (put mm a c) (a + 1) cs) ((a + 1) + of_nat j) = cs ! j"
    proof (rule Cons.IH)
      show "length cs \<le> 2 ^ LENGTH('a)" using Cons.prems(1) by simp
      show "writable (put mm a c) ((a + 1) + of_nat j)"
        using Cons.prems(2) Suc by (simp add: writable_put ac_simps)
      show "j < length cs" using Cons.prems(3) Suc by simp
    qed
    then show ?thesis using Suc by (simp add: ac_simps)
  qed
qed simp

text \<open>Filling a block with one byte, for a block no longer than the address space.\<close>

lemma get_fill:
  fixes a b :: "'a word"
  assumes "n \<le> 2 ^ LENGTH('a)"
  shows "get (put_bytes put mm a (replicate n v)) b =
    (if unat (b - a) < n \<and> writable mm b then v else get mm b)"
proof -
  have b: "a + of_nat (unat (b - a)) = b" by simp
  consider "\<not> writable mm b" | "\<not> unat (b - a) < n" | "unat (b - a) < n" "writable mm b" by blast
  then show ?thesis
  proof cases
    case 1
    then show ?thesis by (simp add: get_put_bytes_protected)
  next
    case 2
    have "b \<noteq> a + of_nat i" if "i < n" for i
      using 2 that assms by (auto simp: unat_of_nat)
    then have "get (put_bytes put mm a (replicate n v)) b = get mm b"
      by (intro get_put_bytes_other) simp
    then show ?thesis using 2 by simp
  next
    case 3
    then show ?thesis
      using get_put_bytes [of "replicate n v" mm a "unat (b - a)"] assms by (simp add: b)
  qed
qed

end

subsection \<open>The memory meets the contract\<close>

definition mem_get :: "mem_t \<Rightarrow> u32 \<Rightarrow> u8" where
  "mem_get mm a = (if MEM_SIZE_MAX \<le> a then 0xFF else mem_m mm a)"

definition mem_writable :: "mem_t \<Rightarrow> u32 \<Rightarrow> bool" where
  "mem_writable mm a \<longleftrightarrow> a < MEM_SIZE_MAX \<and> \<not> mem_readonly mm (a div MEM_SECTION)"

definition mem_put :: "mem_t \<Rightarrow> u32 \<Rightarrow> u8 \<Rightarrow> mem_t" where
  "mem_put mm a v = (if mem_writable mm a then mm\<lparr>mem_m := (mem_m mm)(a := v)\<rparr> else mm)"

interpretation phys_store: byte_store mem_get mem_put mem_writable
  by unfold_locales (auto simp: mem_get_def mem_put_def mem_writable_def)

interpretation seg_store: byte_store
  "\<lambda>mm off. mem_get mm (phys sg off)" "\<lambda>mm off v. mem_put mm (phys sg off) v"
  "\<lambda>mm off. mem_writable mm (phys sg off)" for sg
  by unfold_locales
    (auto simp: phys_store.get_put_same phys_store.get_put_other phys_store.put_protected
      phys_store.writable_put)

text \<open>The operations of mem.c in terms of the contract.\<close>

lemma run_mem_read: 
  "run_state (mem_read a) s =
     (mem_get (mem s) a,
      if MEM_SIZE_MAX \<le> a
      then s\<lparr>debugger_break := True, panic_msg := Some (''Memory read above 1MB: 0x%08x'', [a])\<rparr>
      else s)"
  by (simp add: mem_read_def mem_get_def)

lemma run_mem_write:
  "a < MEM_SIZE_MAX \<Longrightarrow> run_state (mem_write a v) s = ((), s\<lparr>mem := mem_put (mem s) a v\<rparr>)"
  by (simp add: mem_write_def mem_put_def mem_writable_def not_le)

lemma run_mem_read_by_segment [simp]:
  "run_state (mem_read_by_segment sg off) s = (mem_get (mem s) (phys sg off), s)"
  by (simp add: mem_read_by_segment_def run_mem_read)

lemma run_mem_write_by_segment [simp]:
  "run_state (mem_write_by_segment sg off v) s = ((), s\<lparr>mem := mem_put (mem s) (phys sg off) v\<rparr>)"
  by (simp add: mem_write_by_segment_def run_mem_write)

text \<open>What a read-only section holds: no operation of the running machine changes it.\<close>

definition rom_of :: "mem_t \<Rightarrow> (u32 \<Rightarrow> bool) \<times> (u32 \<Rightarrow> u8 option)" where
  "rom_of mm =
     (mem_readonly mm,
      \<lambda>a. if mem_readonly mm (a div MEM_SECTION) then Some (mem_get mm a) else None)"

definition rom_view :: "'a bus_scheme \<Rightarrow> (u32 \<Rightarrow> bool) \<times> (u32 \<Rightarrow> u8 option)" where
  "rom_view s = rom_of (mem s)"

lemma mem_readonly_put [simp]: "mem_readonly (mem_put mm a v) = mem_readonly mm"
  by (simp add: mem_put_def)

lemma rom_of_put [simp]: "rom_of (mem_put mm a v) = rom_of mm"
proof -
  have "mem_get (mem_put mm a v) b = mem_get mm b" if "mem_readonly mm (b div MEM_SECTION)" for b
    using that by (simp add: phys_store.get_protected mem_writable_def)
  then show ?thesis by (auto simp: rom_of_def)
qed

lemma host_rom [frame_intros]:
  "preserves rom_view (panic f as)" "preserves rom_view undefined_access"
  by (simp_all add: preserves_def rom_view_def)

lemma mem_read_rom [frame_intros]: "preserves rom_view (mem_read a)"
  by (rule preservesI) (simp add: run_mem_read rom_view_def)

lemma mem_write_rom [frame_intros]: "preserves rom_view (mem_write a v)"
  by (cases "a < MEM_SIZE_MAX", rule preservesI)
    (simp_all add: run_mem_write preserves_def rom_view_def, simp add: mem_write_def not_less)

lemma mem_read_by_segment_rom [frame_intros]: "preserves rom_view (mem_read_by_segment sg off)"
  by (rule preservesI) (simp add: rom_view_def)

lemma mem_write_by_segment_rom [frame_intros]:
  "preserves rom_view (mem_write_by_segment sg off v)"
  by (rule preservesI) (simp add: rom_view_def)

subsection \<open>ROM images\<close>

lemma mem_load_loop_bytes:
  assumes "unat a < 0x100000"
  shows "mem_m (mem_load_loop fh a mm) b =
    (if unat a \<le> unat b \<and> unat b < 0x100000 \<and> unat b - unat a < length fh
     then fh ! (unat b - unat a) else mem_m mm b)"
  using assms
proof (induction fh arbitrary: a mm)
  case (Cons c fh)
  have s: "unat (a + 1) = Suc (unat a)"
    using Cons.prems by (simp add: unat_word_ariths)
  have eq: "b = a \<longleftrightarrow> unat b = unat a" by (simp add: word_unat_eq_iff)
  show ?case
  proof (cases "Suc (unat a) < 0x100000")
    case True
    then have "\<not> MEM_SIZE_MAX \<le> a + 1" by (simp add: MEM_SIZE_MAX_def word_le_nat_alt s)
    then show ?thesis
      using Cons.IH [of "a + 1"] True by (auto simp: s eq nth_Cons' Suc_le_eq Let_def)
  next
    case False
    then have "MEM_SIZE_MAX \<le> a + 1" by (simp add: MEM_SIZE_MAX_def word_le_nat_alt s)
    then show ?thesis using False Cons.prems by (auto simp: eq nth_Cons' Let_def)
  qed
qed simp

lemma mem_load_loop_readonly:
  assumes "unat a < 0x100000"
  shows "mem_readonly (mem_load_loop fh a mm) k \<longleftrightarrow>
    mem_readonly mm k \<or> (\<exists>i. i < length fh \<and> unat a + i < 0x100000 \<and> k = (a + of_nat i) div MEM_SECTION)"
  using assms
proof (induction fh arbitrary: a mm)
  case (Cons c fh)
  have s: "unat (a + 1) = Suc (unat a)"
    using Cons.prems by (simp add: unat_word_ariths)
  have ex: "(\<exists>i. i < length (c # fh) \<and> P i) \<longleftrightarrow> P 0 \<or> (\<exists>i. i < length fh \<and> P (Suc i))" for P
    by (auto simp: less_Suc_eq_0_disj)
  show ?case
  proof (cases "Suc (unat a) < 0x100000")
    case True
    then have "\<not> MEM_SIZE_MAX \<le> a + 1" by (simp add: MEM_SIZE_MAX_def word_le_nat_alt s)
    moreover have "a + of_nat (Suc i) = (a + 1) + of_nat i" for i by (simp add: add.assoc)
    ultimately show ?thesis
      using True Cons.prems
      by (simp only: ex mem_load_loop.simps Let_def if_False Cons.IH s)
        (auto simp: add.assoc)
  next
    case False
    then have "MEM_SIZE_MAX \<le> a + 1" by (simp add: MEM_SIZE_MAX_def word_le_nat_alt s)
    then show ?thesis using False Cons.prems unfolding ex by (auto simp: Let_def)
  qed
qed simp

text \<open>Loading a ROM image: above the address space and for a file that cannot be opened the
  code reports an error and changes nothing; otherwise the bytes of the file appear from the load
  address on, cut off at one megabyte, no other byte changes, and exactly the sections that
  received a byte become read-only.\<close>

theorem mem_load_rom_loads:
  "case mem_load_rom file a mm of (result, mm') \<Rightarrow>
     (if 0x100000 \<le> unat a then result = -2 \<and> mm' = mm
      else case file of
        None \<Rightarrow> result = -1 \<and> mm' = mm
      | Some fh \<Rightarrow> result = 0 \<and>
          mem_m mm' b = (if unat a \<le> unat b \<and> unat b < 0x100000 \<and> unat b - unat a < length fh
                         then fh ! (unat b - unat a) else mem_m mm b) \<and>
          mem_readonly mm' k = (mem_readonly mm k \<or>
            (\<exists>i. i < length fh \<and> unat a + i < 0x100000 \<and> k = (a + of_nat i) div MEM_SECTION)))"
proof (cases "0x100000 \<le> unat a")
  case True
  then have "MEM_SIZE_MAX \<le> a" by (simp add: MEM_SIZE_MAX_def word_le_nat_alt)
  then show ?thesis using True by (simp add: mem_load_rom_def)
next
  case False
  then have "\<not> MEM_SIZE_MAX \<le> a" by (simp add: MEM_SIZE_MAX_def word_le_nat_alt)
  then show ?thesis
    using False by (auto simp: mem_load_rom_def mem_load_loop_bytes mem_load_loop_readonly
        split: option.splits)
qed

end
