(* ===== verification/Cpu_State.thy ===== *)
theory Cpu_State
  imports Prelude
begin

text \<open>
  i8088.h: the register file. The unions of a 16-bit register with its two bytes are kept as
  the 16-bit register, with the byte halves as accessors; the union of the flag word with its
  bit field is kept as the word, with one accessor per flag.
\<close>

datatype segment_t = SEGMENT_NONE | SEGMENT_CS | SEGMENT_DS | SEGMENT_ES | SEGMENT_SS

datatype repeat_t = REPEAT_NONE | REPEAT_EZ | REPEAT_NENZ

record i8088 =
  es :: u16
  cs :: u16
  ss :: u16
  ds :: u16
  ip :: u16
  sp :: u16
  bp :: u16
  si :: u16
  di :: u16
  ax :: u16
  bx :: u16
  cx :: u16
  dx :: u16
  flags :: u16
  segment_override :: segment_t
  repeat_mode :: repeat_t
  halt :: bool

subsection \<open>Byte registers\<close>

definition al :: "i8088 \<Rightarrow> u8" where "al r = lo8 (ax r)"
definition ah :: "i8088 \<Rightarrow> u8" where "ah r = hi8 (ax r)"
definition bl :: "i8088 \<Rightarrow> u8" where "bl r = lo8 (bx r)"
definition bh :: "i8088 \<Rightarrow> u8" where "bh r = hi8 (bx r)"
definition cl :: "i8088 \<Rightarrow> u8" where "cl r = lo8 (cx r)"
definition ch :: "i8088 \<Rightarrow> u8" where "ch r = hi8 (cx r)"
definition dl :: "i8088 \<Rightarrow> u8" where "dl r = lo8 (dx r)"
definition dh :: "i8088 \<Rightarrow> u8" where "dh r = hi8 (dx r)"

definition set_al :: "u8 \<Rightarrow> i8088 \<Rightarrow> i8088" where "set_al v r = r\<lparr>ax := word16 v (ah r)\<rparr>"
definition set_ah :: "u8 \<Rightarrow> i8088 \<Rightarrow> i8088" where "set_ah v r = r\<lparr>ax := word16 (al r) v\<rparr>"
definition set_bl :: "u8 \<Rightarrow> i8088 \<Rightarrow> i8088" where "set_bl v r = r\<lparr>bx := word16 v (bh r)\<rparr>"
definition set_bh :: "u8 \<Rightarrow> i8088 \<Rightarrow> i8088" where "set_bh v r = r\<lparr>bx := word16 (bl r) v\<rparr>"
definition set_cl :: "u8 \<Rightarrow> i8088 \<Rightarrow> i8088" where "set_cl v r = r\<lparr>cx := word16 v (ch r)\<rparr>"
definition set_ch :: "u8 \<Rightarrow> i8088 \<Rightarrow> i8088" where "set_ch v r = r\<lparr>cx := word16 (cl r) v\<rparr>"
definition set_dl :: "u8 \<Rightarrow> i8088 \<Rightarrow> i8088" where "set_dl v r = r\<lparr>dx := word16 v (dh r)\<rparr>"
definition set_dh :: "u8 \<Rightarrow> i8088 \<Rightarrow> i8088" where "set_dh v r = r\<lparr>dx := word16 (dl r) v\<rparr>"

lemmas byte_reg_defs =
  al_def ah_def bl_def bh_def cl_def ch_def dl_def dh_def
  set_al_def set_ah_def set_bl_def set_bh_def set_cl_def set_ch_def set_dl_def set_dh_def

text \<open>Writing one half of a register changes that half only.\<close>

lemma al_ah_set [simp]:
  "al (set_al v r) = v" "ah (set_al v r) = ah r" "ah (set_ah v r) = v" "al (set_ah v r) = al r"
  by (simp_all add: byte_reg_defs)

lemma bl_bh_set [simp]:
  "bl (set_bl v r) = v" "bh (set_bl v r) = bh r" "bh (set_bh v r) = v" "bl (set_bh v r) = bl r"
  by (simp_all add: byte_reg_defs)

lemma cl_ch_set [simp]:
  "cl (set_cl v r) = v" "ch (set_cl v r) = ch r" "ch (set_ch v r) = v" "cl (set_ch v r) = cl r"
  by (simp_all add: byte_reg_defs)

lemma dl_dh_set [simp]:
  "dl (set_dl v r) = v" "dh (set_dl v r) = dh r" "dh (set_dh v r) = v" "dl (set_dh v r) = dl r"
  by (simp_all add: byte_reg_defs)

subsection \<open>Flags\<close>

definition flag :: "nat \<Rightarrow> i8088 \<Rightarrow> bool" where
  "flag n r = bit (flags r) n"

definition set_flag :: "nat \<Rightarrow> bool \<Rightarrow> i8088 \<Rightarrow> i8088" where
  "set_flag n b r =
     r\<lparr>flags := if b then flags r OR push_bit n 1 else flags r AND NOT (push_bit n 1)\<rparr>"

abbreviation "flag_c \<equiv> flag 0"
abbreviation "flag_p \<equiv> flag 2"
abbreviation "flag_a \<equiv> flag 4"
abbreviation "flag_z \<equiv> flag 6"
abbreviation "flag_s \<equiv> flag 7"
abbreviation "flag_t \<equiv> flag 8"
abbreviation "flag_i \<equiv> flag 9"
abbreviation "flag_d \<equiv> flag 10"
abbreviation "flag_o \<equiv> flag 11"

abbreviation "set_c \<equiv> set_flag 0"
abbreviation "set_p \<equiv> set_flag 2"
abbreviation "set_a \<equiv> set_flag 4"
abbreviation "set_z \<equiv> set_flag 6"
abbreviation "set_s \<equiv> set_flag 7"
abbreviation "set_t \<equiv> set_flag 8"
abbreviation "set_i \<equiv> set_flag 9"
abbreviation "set_d \<equiv> set_flag 10"
abbreviation "set_o \<equiv> set_flag 11"

lemma flag_set_flag [simp]:
  "n < 16 \<Longrightarrow> flag n (set_flag m b r) = (if n = m then b else flag n r)"
  by (auto simp: flag_def set_flag_def bit_simps)

text \<open>Flags and the other registers do not interfere.\<close>

lemma set_flag_regs [simp]:
  "es (set_flag n b r) = es r" "cs (set_flag n b r) = cs r" "ss (set_flag n b r) = ss r"
  "ds (set_flag n b r) = ds r" "ip (set_flag n b r) = ip r" "sp (set_flag n b r) = sp r"
  "bp (set_flag n b r) = bp r" "si (set_flag n b r) = si r" "di (set_flag n b r) = di r"
  "ax (set_flag n b r) = ax r" "bx (set_flag n b r) = bx r" "cx (set_flag n b r) = cx r"
  "dx (set_flag n b r) = dx r" "segment_override (set_flag n b r) = segment_override r"
  "repeat_mode (set_flag n b r) = repeat_mode r" "halt (set_flag n b r) = halt r"
  by (simp_all add: set_flag_def)

lemma set_flag_bytes [simp]:
  "al (set_flag n b r) = al r" "ah (set_flag n b r) = ah r"
  "cl (set_flag n b r) = cl r"
  by (simp_all add: byte_reg_defs)

lemma flag_regs [simp]:
  "flag n (r\<lparr>ax := v\<rparr>) = flag n r" "flag n (r\<lparr>bx := v\<rparr>) = flag n r"
  "flag n (r\<lparr>cx := v\<rparr>) = flag n r" "flag n (r\<lparr>dx := v\<rparr>) = flag n r"
  "flag n (r\<lparr>si := v\<rparr>) = flag n r" "flag n (r\<lparr>di := v\<rparr>) = flag n r"
  "flag n (r\<lparr>sp := v\<rparr>) = flag n r" "flag n (r\<lparr>bp := v\<rparr>) = flag n r"
  "flag n (r\<lparr>ip := v\<rparr>) = flag n r" "flag n (r\<lparr>cs := v\<rparr>) = flag n r"
  "flag n (r\<lparr>ds := v\<rparr>) = flag n r" "flag n (r\<lparr>es := v\<rparr>) = flag n r"
  "flag n (r\<lparr>ss := v\<rparr>) = flag n r" "flag n (r\<lparr>halt := h\<rparr>) = flag n r"
  "flag n (r\<lparr>segment_override := g\<rparr>) = flag n r" "flag n (r\<lparr>repeat_mode := m\<rparr>) = flag n r"
  by (simp_all add: flag_def)

lemma flag_bytes [simp]:
  "flag n (set_al v r) = flag n r" "flag n (set_ah v r) = flag n r"
  "flag n (set_bl v r) = flag n r" "flag n (set_bh v r) = flag n r"
  "flag n (set_cl v r) = flag n r" "flag n (set_ch v r) = flag n r"
  "flag n (set_dl v r) = flag n r" "flag n (set_dh v r) = flag n r"
  by (simp_all add: byte_reg_defs)

subsection \<open>Initialisation and reset\<close>

definition i8088_init :: i8088 where
  "i8088_init = \<lparr>es = 0, cs = 0, ss = 0, ds = 0, ip = 0, sp = 0, bp = 0, si = 0, di = 0,
     ax = 0, bx = 0, cx = 0, dx = 0, flags = 0, segment_override = SEGMENT_NONE,
     repeat_mode = REPEAT_NONE, halt = False\<rparr>"

definition i8088_reset :: "i8088 \<Rightarrow> i8088" where
  "i8088_reset r =
     r\<lparr>flags := 0x0000, ip := 0x0000, cs := 0xFFFF, ds := 0x0000, ss := 0x0000, es := 0x0000\<rparr>"

end
