(* ===== verification/Alu_Arith.thy ===== *)
theory Alu_Arith
  imports Cpu_State
begin

unbundle bit_operations_syntax

text \<open>
  The arithmetic and logic routines of i8088.c. Each takes the operands and the registers
  and gives the result and the registers with the flags set, in the order the code sets
  them. Intermediate values that C computes as \<open>int\<close> are 32-bit words, so that the carry
  and borrow tests of bits 4, 8 and 16 read the bits the code reads.
\<close>

subsection \<open>Parity\<close>

definition parity_even :: "u16 \<Rightarrow> bool" where
  "parity_even v =
     (let v = v XOR drop_bit 4 v;
          v = v XOR drop_bit 2 v;
          v = v XOR drop_bit 1 v
      in NOT v AND 1 \<noteq> 0)"

subsection \<open>Addition, subtraction, comparison and logic\<close>

definition i8088_add_8 :: "u8 \<Rightarrow> u8 \<Rightarrow> i8088 \<Rightarrow> u8 \<times> i8088" where
  "i8088_add_8 input1 input2 r =
     (let result = input1 + input2;
       r = set_a ((int8u (input1 AND 0xF) + int8u (input2 AND 0xF)) AND 0x10 \<noteq> 0) r;
       r = set_c ((ucast (int8u input1 + int8u input2) :: u16) AND 0x100 \<noteq> 0) r;
       r = set_o ((input1 AND 0x80 \<noteq> 0 \<and> input2 AND 0x80 \<noteq> 0 \<and> \<not> result AND 0x80 \<noteq> 0) \<or>
                  (\<not> input1 AND 0x80 \<noteq> 0 \<and> \<not> input2 AND 0x80 \<noteq> 0 \<and> result AND 0x80 \<noteq> 0)) r;
       r = set_p (parity_even (ucast result)) r;
       r = set_s (bit result 7) r;
       r = set_z (result = 0) r
      in (result, r))"

definition i8088_add_16 :: "u16 \<Rightarrow> u16 \<Rightarrow> i8088 \<Rightarrow> u16 \<times> i8088" where
  "i8088_add_16 input1 input2 r =
     (let result = input1 + input2;
       r = set_a ((int16u (input1 AND 0xF) + int16u (input2 AND 0xF)) AND 0x10 \<noteq> 0) r;
       r = set_c ((ucast (int16u input1 + int16u input2) :: u32) AND 0x10000 \<noteq> 0) r;
       r = set_o ((input1 AND 0x8000 \<noteq> 0 \<and> input2 AND 0x8000 \<noteq> 0 \<and> \<not> result AND 0x8000 \<noteq> 0) \<or>
                  (\<not> input1 AND 0x8000 \<noteq> 0 \<and> \<not> input2 AND 0x8000 \<noteq> 0 \<and> result AND 0x8000 \<noteq> 0)) r;
       r = set_p (parity_even result) r;
       r = set_s (bit result 15) r;
       r = set_z (result = 0) r
      in (result, r))"

definition i8088_adc_8 :: "u8 \<Rightarrow> u8 \<Rightarrow> i8088 \<Rightarrow> u8 \<times> i8088" where
  "i8088_adc_8 input1 input2 r =
     (let result = input1 + input2 + of_bool (flag_c r);
       r = set_a ((int8u (input1 AND 0xF) + int8u (input2 AND 0xF) + of_bool (flag_c r)) AND 0x10 \<noteq> 0) r;
       r = set_c ((ucast (int8u input1 + int8u input2 + of_bool (flag_c r)) :: u16) AND 0x100 \<noteq> 0) r;
       r = set_o ((input1 AND 0x80 \<noteq> 0 \<and> input2 AND 0x80 \<noteq> 0 \<and> \<not> result AND 0x80 \<noteq> 0) \<or>
                  (\<not> input1 AND 0x80 \<noteq> 0 \<and> \<not> input2 AND 0x80 \<noteq> 0 \<and> result AND 0x80 \<noteq> 0)) r;
       r = set_p (parity_even (ucast result)) r;
       r = set_s (bit result 7) r;
       r = set_z (result = 0) r
      in (result, r))"

definition i8088_adc_16 :: "u16 \<Rightarrow> u16 \<Rightarrow> i8088 \<Rightarrow> u16 \<times> i8088" where
  "i8088_adc_16 input1 input2 r =
     (let result = input1 + input2 + of_bool (flag_c r);
       r = set_a ((int16u (input1 AND 0xF) + int16u (input2 AND 0xF) + of_bool (flag_c r)) AND 0x10 \<noteq> 0) r;
       r = set_c ((ucast (int16u input1 + int16u input2 + of_bool (flag_c r)) :: u32) AND 0x10000 \<noteq> 0) r;
       r = set_o ((input1 AND 0x8000 \<noteq> 0 \<and> input2 AND 0x8000 \<noteq> 0 \<and> \<not> result AND 0x8000 \<noteq> 0) \<or>
                  (\<not> input1 AND 0x8000 \<noteq> 0 \<and> \<not> input2 AND 0x8000 \<noteq> 0 \<and> result AND 0x8000 \<noteq> 0)) r;
       r = set_p (parity_even result) r;
       r = set_s (bit result 15) r;
       r = set_z (result = 0) r
      in (result, r))"

definition i8088_sub_8 :: "u8 \<Rightarrow> u8 \<Rightarrow> i8088 \<Rightarrow> u8 \<times> i8088" where
  "i8088_sub_8 input1 input2 r =
     (let result = input1 - input2;
       r = set_a ((int8u (input1 AND 0xF) - int8u (input2 AND 0xF)) AND 0x10 \<noteq> 0) r;
       r = set_c ((ucast (int8u input1 - int8u input2) :: u16) AND 0x100 \<noteq> 0) r;
       r = set_o ((input1 AND 0x80 \<noteq> 0 \<and> \<not> input2 AND 0x80 \<noteq> 0 \<and> \<not> result AND 0x80 \<noteq> 0) \<or>
                  (\<not> input1 AND 0x80 \<noteq> 0 \<and> input2 AND 0x80 \<noteq> 0 \<and> result AND 0x80 \<noteq> 0)) r;
       r = set_p (parity_even (ucast result)) r;
       r = set_s (bit result 7) r;
       r = set_z (result = 0) r
      in (result, r))"

definition i8088_sub_16 :: "u16 \<Rightarrow> u16 \<Rightarrow> i8088 \<Rightarrow> u16 \<times> i8088" where
  "i8088_sub_16 input1 input2 r =
     (let result = input1 - input2;
       r = set_a ((int16u (input1 AND 0xF) - int16u (input2 AND 0xF)) AND 0x10 \<noteq> 0) r;
       r = set_c ((ucast (int16u input1 - int16u input2) :: u32) AND 0x10000 \<noteq> 0) r;
       r = set_o ((input1 AND 0x8000 \<noteq> 0 \<and> \<not> input2 AND 0x8000 \<noteq> 0 \<and> \<not> result AND 0x8000 \<noteq> 0) \<or>
                  (\<not> input1 AND 0x8000 \<noteq> 0 \<and> input2 AND 0x8000 \<noteq> 0 \<and> result AND 0x8000 \<noteq> 0)) r;
       r = set_p (parity_even result) r;
       r = set_s (bit result 15) r;
       r = set_z (result = 0) r
      in (result, r))"

definition i8088_sbb_8 :: "u8 \<Rightarrow> u8 \<Rightarrow> i8088 \<Rightarrow> u8 \<times> i8088" where
  "i8088_sbb_8 input1 input2 r =
     (let result = input1 - input2 - of_bool (flag_c r);
       r = set_a ((int8u (input1 AND 0xF) - int8u (input2 AND 0xF) - of_bool (flag_c r)) AND 0x10 \<noteq> 0) r;
       r = set_c ((ucast (int8u input1 - int8u input2 - of_bool (flag_c r)) :: u16) AND 0x100 \<noteq> 0) r;
       r = set_o ((input1 AND 0x80 \<noteq> 0 \<and> \<not> input2 AND 0x80 \<noteq> 0 \<and> \<not> result AND 0x80 \<noteq> 0) \<or>
                  (\<not> input1 AND 0x80 \<noteq> 0 \<and> input2 AND 0x80 \<noteq> 0 \<and> result AND 0x80 \<noteq> 0)) r;
       r = set_p (parity_even (ucast result)) r;
       r = set_s (bit result 7) r;
       r = set_z (result = 0) r
      in (result, r))"

definition i8088_sbb_16 :: "u16 \<Rightarrow> u16 \<Rightarrow> i8088 \<Rightarrow> u16 \<times> i8088" where
  "i8088_sbb_16 input1 input2 r =
     (let result = input1 - input2 - of_bool (flag_c r);
       r = set_a ((int16u (input1 AND 0xF) - int16u (input2 AND 0xF) - of_bool (flag_c r)) AND 0x10 \<noteq> 0) r;
       r = set_c ((ucast (int16u input1 - int16u input2 - of_bool (flag_c r)) :: u32) AND 0x10000 \<noteq> 0) r;
       r = set_o ((input1 AND 0x8000 \<noteq> 0 \<and> \<not> input2 AND 0x8000 \<noteq> 0 \<and> \<not> result AND 0x8000 \<noteq> 0) \<or>
                  (\<not> input1 AND 0x8000 \<noteq> 0 \<and> input2 AND 0x8000 \<noteq> 0 \<and> result AND 0x8000 \<noteq> 0)) r;
       r = set_p (parity_even result) r;
       r = set_s (bit result 15) r;
       r = set_z (result = 0) r
      in (result, r))"

definition i8088_cmp_8 :: "u8 \<Rightarrow> u8 \<Rightarrow> i8088 \<Rightarrow> i8088" where
  "i8088_cmp_8 input1 input2 r =
     (let result = input1 - input2;
       r = set_a ((int8u (input1 AND 0xF) - int8u (input2 AND 0xF)) AND 0x10 \<noteq> 0) r;
       r = set_c ((ucast (int8u input1 - int8u input2) :: u16) AND 0x100 \<noteq> 0) r;
       r = set_o ((input1 AND 0x80 \<noteq> 0 \<and> \<not> input2 AND 0x80 \<noteq> 0 \<and> \<not> result AND 0x80 \<noteq> 0) \<or>
                  (\<not> input1 AND 0x80 \<noteq> 0 \<and> input2 AND 0x80 \<noteq> 0 \<and> result AND 0x80 \<noteq> 0)) r;
       r = set_p (parity_even (ucast result)) r;
       r = set_s (bit result 7) r;
       r = set_z (result = 0) r
      in r)"

definition i8088_cmp_16 :: "u16 \<Rightarrow> u16 \<Rightarrow> i8088 \<Rightarrow> i8088" where
  "i8088_cmp_16 input1 input2 r =
     (let result = input1 - input2;
       r = set_a ((int16u (input1 AND 0xF) - int16u (input2 AND 0xF)) AND 0x10 \<noteq> 0) r;
       r = set_c ((ucast (int16u input1 - int16u input2) :: u32) AND 0x10000 \<noteq> 0) r;
       r = set_o ((input1 AND 0x8000 \<noteq> 0 \<and> \<not> input2 AND 0x8000 \<noteq> 0 \<and> \<not> result AND 0x8000 \<noteq> 0) \<or>
                  (\<not> input1 AND 0x8000 \<noteq> 0 \<and> input2 AND 0x8000 \<noteq> 0 \<and> result AND 0x8000 \<noteq> 0)) r;
       r = set_p (parity_even result) r;
       r = set_s (bit result 15) r;
       r = set_z (result = 0) r
      in r)"

definition i8088_and_8 :: "u8 \<Rightarrow> u8 \<Rightarrow> i8088 \<Rightarrow> u8 \<times> i8088" where
  "i8088_and_8 input1 input2 r =
     (let result = input1 AND input2;
       r = set_c False r;
       r = set_o ((input1 AND 0x80 \<noteq> 0 \<and> input2 AND 0x80 \<noteq> 0 \<and> \<not> result AND 0x80 \<noteq> 0) \<or>
                  (\<not> input1 AND 0x80 \<noteq> 0 \<and> \<not> input2 AND 0x80 \<noteq> 0 \<and> result AND 0x80 \<noteq> 0)) r;
       r = set_p (parity_even (ucast result)) r;
       r = set_s (bit result 7) r;
       r = set_z (result = 0) r
      in (result, r))"

definition i8088_and_16 :: "u16 \<Rightarrow> u16 \<Rightarrow> i8088 \<Rightarrow> u16 \<times> i8088" where
  "i8088_and_16 input1 input2 r =
     (let result = input1 AND input2;
       r = set_c False r;
       r = set_o ((input1 AND 0x8000 \<noteq> 0 \<and> input2 AND 0x8000 \<noteq> 0 \<and> \<not> result AND 0x8000 \<noteq> 0) \<or>
                  (\<not> input1 AND 0x8000 \<noteq> 0 \<and> \<not> input2 AND 0x8000 \<noteq> 0 \<and> result AND 0x8000 \<noteq> 0)) r;
       r = set_p (parity_even result) r;
       r = set_s (bit result 15) r;
       r = set_z (result = 0) r
      in (result, r))"

definition i8088_or_8 :: "u8 \<Rightarrow> u8 \<Rightarrow> i8088 \<Rightarrow> u8 \<times> i8088" where
  "i8088_or_8 input1 input2 r =
     (let result = input1 OR input2;
       r = set_c False r;
       r = set_o False r;
       r = set_p (parity_even (ucast result)) r;
       r = set_s (bit result 7) r;
       r = set_z (result = 0) r
      in (result, r))"

definition i8088_or_16 :: "u16 \<Rightarrow> u16 \<Rightarrow> i8088 \<Rightarrow> u16 \<times> i8088" where
  "i8088_or_16 input1 input2 r =
     (let result = input1 OR input2;
       r = set_c False r;
       r = set_o False r;
       r = set_p (parity_even result) r;
       r = set_s (bit result 15) r;
       r = set_z (result = 0) r
      in (result, r))"

definition i8088_xor_8 :: "u8 \<Rightarrow> u8 \<Rightarrow> i8088 \<Rightarrow> u8 \<times> i8088" where
  "i8088_xor_8 input1 input2 r =
     (let result = input1 XOR input2;
       r = set_c False r;
       r = set_o False r;
       r = set_p (parity_even (ucast result)) r;
       r = set_s (bit result 7) r;
       r = set_z (result = 0) r
      in (result, r))"

definition i8088_xor_16 :: "u16 \<Rightarrow> u16 \<Rightarrow> i8088 \<Rightarrow> u16 \<times> i8088" where
  "i8088_xor_16 input1 input2 r =
     (let result = input1 XOR input2;
       r = set_c False r;
       r = set_o False r;
       r = set_p (parity_even result) r;
       r = set_s (bit result 15) r;
       r = set_z (result = 0) r
      in (result, r))"

definition i8088_inc_8 :: "u8 \<Rightarrow> i8088 \<Rightarrow> u8 \<times> i8088" where
  "i8088_inc_8 input r =
     (let result = input + 1;
       r = set_a (result AND 0xF = 0) r;
       r = set_o (input = 0x7F) r;
       r = set_p (parity_even (ucast result)) r;
       r = set_s (bit result 7) r;
       r = set_z (result = 0) r
      in (result, r))"

definition i8088_dec_8 :: "u8 \<Rightarrow> i8088 \<Rightarrow> u8 \<times> i8088" where
  "i8088_dec_8 input r =
     (let result = input - 1;
       r = set_a (input AND 0xF = 0) r;
       r = set_o (input AND 0x80 \<noteq> 0 \<and> \<not> result AND 0x80 \<noteq> 0) r;
       r = set_p (parity_even (ucast result)) r;
       r = set_s (bit result 7) r;
       r = set_z (result = 0) r
      in (result, r))"

definition i8088_inc_16 :: "u16 \<Rightarrow> i8088 \<Rightarrow> u16 \<times> i8088" where
  "i8088_inc_16 input r =
     (let result = input + 1;
       r = set_a (result AND 0xF = 0) r;
       r = set_o (input = 0x7FFF) r;
       r = set_p (parity_even result) r;
       r = set_s (bit result 15) r;
       r = set_z (result = 0) r
      in (result, r))"

definition i8088_dec_16 :: "u16 \<Rightarrow> i8088 \<Rightarrow> u16 \<times> i8088" where
  "i8088_dec_16 input r =
     (let result = input - 1;
       r = set_a (input AND 0xF = 0) r;
       r = set_o False r;
       r = set_p (parity_even result) r;
       r = set_s (bit result 15) r;
       r = set_z (result = 0) r
      in (result, r))"

subsection \<open>Decimal adjustments\<close>

definition i8088_aaa :: "i8088 \<Rightarrow> i8088" where
  "i8088_aaa r =
     (let initial = al r;
       r = (if al r AND 0x0F > 9 \<or> flag_a r
            then set_c True (set_a True
                  (let r = set_ah (ah r + 1) r in set_al (al r + 6) r))
            else set_c False (set_a False r));
       r = set_o (\<not> initial AND 0x80 \<noteq> 0 \<and> al r AND 0x80 \<noteq> 0) r;
       r = set_p (parity_even (ucast (al r))) r;
       r = set_s (bit (al r) 7) r;
       r = set_z (al r = 0) r
      in set_al (al r AND 0x0F) r)"

definition i8088_aas :: "i8088 \<Rightarrow> i8088" where
  "i8088_aas r =
     (let initial = al r;
       r = (if al r AND 0x0F > 9 \<or> flag_a r
            then set_c True (set_a True
                  (let r = set_al (al r - 6) r in set_ah (ah r - 1) r))
            else set_c False (set_a False r));
       r = set_o (initial AND 0x80 \<noteq> 0 \<and> \<not> al r AND 0x80 \<noteq> 0) r;
       r = set_p (parity_even (ucast (al r))) r;
       r = set_s (bit (al r) 7) r;
       r = set_z (al r = 0) r
      in set_al (al r AND 0x0F) r)"

definition i8088_daa :: "i8088 \<Rightarrow> i8088" where
  "i8088_daa r =
     (let initial = al r;
       temp_a = flag_a r;
       r = (if al r AND 0x0F > 9 \<or> flag_a r
            then set_a True (set_al (al r + 6) r) else r);
       r = (if temp_a
            then (if initial > 0x9F \<or> flag_c r
                  then set_c True (set_al (al r + 0x60) r) else r)
            else (if initial > 0x99 \<or> flag_c r
                  then set_c True (set_al (al r + 0x60) r) else r));
       r = set_o (\<not> initial AND 0x80 \<noteq> 0 \<and> al r AND 0x80 \<noteq> 0) r;
       r = set_p (parity_even (ucast (al r))) r;
       r = set_s (bit (al r) 7) r
      in set_z (al r = 0) r)"

definition i8088_das :: "i8088 \<Rightarrow> i8088" where
  "i8088_das r =
     (let initial = al r;
       temp_a = flag_a r;
       r = (if al r AND 0x0F > 9 \<or> flag_a r
            then set_a True (set_al (al r - 6) r) else r);
       r = (if temp_a
            then (if initial > 0x9F \<or> flag_c r
                  then set_c True (set_al (al r - 0x60) r) else r)
            else (if initial > 0x99 \<or> flag_c r
                  then set_c True (set_al (al r - 0x60) r) else r));
       r = set_o (initial AND 0x80 \<noteq> 0 \<and> \<not> al r AND 0x80 \<noteq> 0) r;
       r = set_p (parity_even (ucast (al r))) r;
       r = set_s (bit (al r) 7) r
      in set_z (al r = 0) r)"

subsection \<open>Multiplication\<close>

definition i8088_mul_8 :: "u8 \<Rightarrow> i8088 \<Rightarrow> i8088" where
  "i8088_mul_8 input r =
     (let r = r\<lparr>ax := ucast (int8u (al r) * int8u input)\<rparr>;
       r = set_c (drop_bit 8 (ax r) > 0) r;
       r = set_o (flag_c r) r;
       r = set_p (parity_even (drop_bit 8 (ax r))) r;
       r = set_s (bit (ax r) 15) r
      in set_z (drop_bit 8 (ax r) = 0) r)"

text \<open>The product of two 16-bit values is computed in C's \<open>int\<close>; where it exceeds the
  signed range the code relies on it wrapping at 32 bits, as the word product does.\<close>

definition i8088_mul_16 :: "u16 \<Rightarrow> i8088 \<Rightarrow> i8088" where
  "i8088_mul_16 input r =
     (let result = int16u (ax r) * int16u input;
       r = r\<lparr>ax := ucast (result AND 0xFFFF)\<rparr>;
       r = r\<lparr>dx := ucast (drop_bit 16 result)\<rparr>;
       r = set_c (drop_bit 16 result > 0) r;
       r = set_o (flag_c r) r;
       r = set_p (parity_even (ucast (drop_bit 16 result))) r;
       r = set_s (bit result 31) r
      in set_z (drop_bit 16 result = 0) r)"

definition i8088_imul_8 :: "u8 \<Rightarrow> i8088 \<Rightarrow> i8088" where
  "i8088_imul_8 input r =
     (let r = r\<lparr>ax := ucast ((scast (al r) :: u32) * scast input)\<rparr>;
       r = set_c (sint (ax r) \<noteq> sint (ucast (ax r) :: u8)) r;
       r = set_o (flag_c r) r;
       r = set_p (parity_even (drop_bit 8 (ax r))) r;
       r = set_s (bit (ax r) 15) r
      in set_z (drop_bit 8 (ax r) = 0) r)"

definition i8088_imul_16 :: "u16 \<Rightarrow> i8088 \<Rightarrow> i8088" where
  "i8088_imul_16 input r =
     (let result = (scast (ax r) :: u32) * scast input;
       r = r\<lparr>ax := ucast (result AND 0xFFFF)\<rparr>;
       r = r\<lparr>dx := ucast (signed_drop_bit 16 result)\<rparr>;
       r = set_c (sint result \<noteq> sint (ucast result :: u16)) r;
       r = set_o (flag_c r) r;
       r = set_p (parity_even (ucast (signed_drop_bit 16 result))) r;
       r = set_s (bit (signed_drop_bit 31 result) 0) r
      in set_z (signed_drop_bit 16 result = 0) r)"

subsection \<open>What the flags mean\<close>

text \<open>The carry tests of the code, as statements about the operands.\<close>

lemma carry_unat:
  fixes x y :: u32
  assumes "unat x < 2 ^ n" "unat y < 2 ^ n" "n \<le> 16"
  shows "bit (x + y + of_bool c) n \<longleftrightarrow> 2 ^ n \<le> unat x + unat y + of_bool c"
    and "bit (x - y - of_bool c) n \<longleftrightarrow> unat x < unat y + of_bool c"
proof -
  have u: "uint x = int (unat x)" "uint y = int (unat y)" by simp_all
  have lt: "uint x < 2 ^ n" "uint y < 2 ^ n"
    unfolding u using assms(1,2) by (metis of_nat_less_iff of_nat_numeral of_nat_power)+
  have "2 ^ n \<le> uint x + uint y + of_bool c \<longleftrightarrow> int (2 ^ n) \<le> int (unat x + unat y + of_bool c)"
    unfolding u by simp
  then show "bit (x + y + of_bool c) n \<longleftrightarrow> 2 ^ n \<le> unat x + unat y + of_bool c"
    unfolding sum_bit_iff [OF lt assms(3)] of_nat_le_iff by simp
  have "uint x < uint y + of_bool c \<longleftrightarrow> int (unat x) < int (unat y + of_bool c)"
    unfolding u by simp
  then show "bit (x - y - of_bool c) n \<longleftrightarrow> unat x < unat y + of_bool c"
    unfolding diff_bit_iff [OF lt assms(3)] of_nat_less_iff by simp
qed

lemmas carry_8 = carry_unat [of "int8u a" 8 "int8u b" for a b, simplified, OF unat_u8 unat_u8]
lemmas carry_16 = carry_unat [of "int16u a" 16 "int16u b" for a b, simplified, OF unat_u16 unat_u16]

lemma unat_and_0xF [simp]:
  "unat ((x::u8) AND 0xF) = unat x mod 16" "unat ((y::u16) AND 0xF) = unat y mod 16"
proof -
  have m: "(0xF::u8) = mask 4" "(0xF::u16) = mask 4" by (simp_all add: mask_eq_exp_minus_1)
  show "unat (x AND 0xF) = unat x mod 16" "unat (y AND 0xF) = unat y mod 16"
    unfolding m by (simp_all add: take_bit_eq_mask [symmetric] unsigned_take_bit_eq)
      (simp_all add: take_bit_eq_mod)
qed

lemmas half_carry_8 =
  carry_unat [of "int8u (a AND 0xF)" 4 "int8u (b AND 0xF)" for a b, simplified]
lemmas half_carry_16 =
  carry_unat [of "int16u (a AND 0xF)" 4 "int16u (b AND 0xF)" for a b, simplified]

lemma sign_8: "bit (x::u8) 7 \<longleftrightarrow> sint x < 0" and sign_16: "bit (y::u16) 15 \<longleftrightarrow> sint y < 0"
  using bit_last_iff [of x] bit_last_iff [of y] by simp_all

lemma overflow_8:
  "(bit a 7 \<and> bit b 7 \<and> \<not> bit (a + b + of_bool c) 7) \<or>
   (\<not> bit a 7 \<and> \<not> bit b 7 \<and> bit (a + b + of_bool c) 7) \<longleftrightarrow>
   sint (a::u8) + sint b + of_bool c \<notin> {- 128..<128}"
  "(bit a 7 \<and> \<not> bit b 7 \<and> \<not> bit (a - b - of_bool c) 7) \<or>
   (\<not> bit a 7 \<and> bit b 7 \<and> bit (a - b - of_bool c) 7) \<longleftrightarrow>
   sint (a::u8) - sint b - of_bool c \<notin> {- 128..<128}"
  using add_overflow_iff [OF _ refl, of a b c] diff_overflow_iff [OF _ refl, of a b c] by simp_all

lemma overflow_16:
  "(bit a 15 \<and> bit b 15 \<and> \<not> bit (a + b + of_bool c) 15) \<or>
   (\<not> bit a 15 \<and> \<not> bit b 15 \<and> bit (a + b + of_bool c) 15) \<longleftrightarrow>
   sint (a::u16) + sint b + of_bool c \<notin> {- 32768..<32768}"
  "(bit a 15 \<and> \<not> bit b 15 \<and> \<not> bit (a - b - of_bool c) 15) \<or>
   (\<not> bit a 15 \<and> bit b 15 \<and> bit (a - b - of_bool c) 15) \<longleftrightarrow>
   sint (a::u16) - sint b - of_bool c \<notin> {- 32768..<32768}"
  using add_overflow_iff [OF _ refl, of a b c] diff_overflow_iff [OF _ refl, of a b c] by simp_all

lemma bit_ucast_16 [simp]: "bit (ucast (x::u32) :: u16) 8 = bit x 8"
  by (simp add: bit_ucast_iff)

lemma ucast_same [simp]: "ucast (x::'a::len word) = x"
  by simp

lemmas carry_simps = mask_bit_simps carry_8 carry_16 half_carry_8 half_carry_16

lemma set_flag_more [simp]: "(set_flag n b r)\<lparr>flags := f\<rparr> = r\<lparr>flags := f\<rparr>"
  by (simp add: set_flag_def)

lemma set_flag_same [simp]: "set_flag n b (set_flag n c r) = set_flag n b r"
proof -
  have "(f AND NOT (push_bit n 1)) OR push_bit n 1 = f OR push_bit n (1::u16)"
    "(f OR push_bit n 1) AND NOT (push_bit n 1) = f AND NOT (push_bit n (1::u16))" for f
    by (rule bit_word_eqI; auto simp: bit_simps)+
  then show ?thesis by (simp add: set_flag_def)
qed

lemma set_flag_commute: "m < n \<Longrightarrow> set_flag n b (set_flag m c r) = set_flag m c (set_flag n b r)"
  unfolding set_flag_def
  by (auto intro!: bit_word_eqI arg_cong [where f = "\<lambda>f. r\<lparr>flags := f\<rparr>"] simp: bit_simps)

text \<open>Addition and subtraction without a carry are the same with a clear carry.\<close>

lemma no_carry:
  "i8088_add_8 a b r = i8088_adc_8 a b (set_c False r)"
  "i8088_sub_8 a b r = i8088_sbb_8 a b (set_c False r)"
  "i8088_cmp_8 a b r = snd (i8088_sub_8 a b r)"
  "i8088_add_16 x y r = i8088_adc_16 x y (set_c False r)"
  "i8088_sub_16 x y r = i8088_sbb_16 x y (set_c False r)"
  "i8088_cmp_16 x y r = snd (i8088_sub_16 x y r)"
  by (simp_all add: i8088_add_8_def i8088_adc_8_def i8088_sub_8_def i8088_sbb_8_def
    i8088_cmp_8_def i8088_add_16_def i8088_adc_16_def i8088_sub_16_def i8088_sbb_16_def
    i8088_cmp_16_def Let_def set_flag_commute)

lemma adc_8_run:
  "fst (i8088_adc_8 a b r) = a + b + of_bool (flag_c r)"
  "flag_c (snd (i8088_adc_8 a b r)) \<longleftrightarrow> 256 \<le> unat a + unat b + of_bool (flag_c r)"
  "flag_a (snd (i8088_adc_8 a b r)) \<longleftrightarrow> 16 \<le> unat a mod 16 + unat b mod 16 + of_bool (flag_c r)"
  "flag_o (snd (i8088_adc_8 a b r)) \<longleftrightarrow> sint a + sint b + of_bool (flag_c r) \<notin> {- 128..<128}"
  "flag_s (snd (i8088_adc_8 a b r)) \<longleftrightarrow> sint (a + b + of_bool (flag_c r)) < 0"
  "flag_z (snd (i8088_adc_8 a b r)) \<longleftrightarrow> a + b + of_bool (flag_c r) = 0"
  "flag_p (snd (i8088_adc_8 a b r)) \<longleftrightarrow> parity_even (ucast (a + b + of_bool (flag_c r)))"
  by (simp_all add: i8088_adc_8_def Let_def carry_simps overflow_8 flip: sign_8
        del: atLeastLessThan_iff)

lemma adc_16_run:
  "fst (i8088_adc_16 a b r) = a + b + of_bool (flag_c r)"
  "flag_c (snd (i8088_adc_16 a b r)) \<longleftrightarrow> 65536 \<le> unat a + unat b + of_bool (flag_c r)"
  "flag_a (snd (i8088_adc_16 a b r)) \<longleftrightarrow> 16 \<le> unat a mod 16 + unat b mod 16 + of_bool (flag_c r)"
  "flag_o (snd (i8088_adc_16 a b r)) \<longleftrightarrow> sint a + sint b + of_bool (flag_c r) \<notin> {- 32768..<32768}"
  "flag_s (snd (i8088_adc_16 a b r)) \<longleftrightarrow> sint (a + b + of_bool (flag_c r)) < 0"
  "flag_z (snd (i8088_adc_16 a b r)) \<longleftrightarrow> a + b + of_bool (flag_c r) = 0"
  "flag_p (snd (i8088_adc_16 a b r)) \<longleftrightarrow> parity_even (a + b + of_bool (flag_c r))"
  by (simp_all add: i8088_adc_16_def Let_def carry_simps overflow_16 flip: sign_16
        del: atLeastLessThan_iff)

lemma sbb_8_run:
  "fst (i8088_sbb_8 a b r) = a - b - of_bool (flag_c r)"
  "flag_c (snd (i8088_sbb_8 a b r)) \<longleftrightarrow> unat a < unat b + of_bool (flag_c r)"
  "flag_a (snd (i8088_sbb_8 a b r)) \<longleftrightarrow> unat a mod 16 < unat b mod 16 + of_bool (flag_c r)"
  "flag_o (snd (i8088_sbb_8 a b r)) \<longleftrightarrow> sint a - sint b - of_bool (flag_c r) \<notin> {- 128..<128}"
  "flag_s (snd (i8088_sbb_8 a b r)) \<longleftrightarrow> sint (a - b - of_bool (flag_c r)) < 0"
  "flag_z (snd (i8088_sbb_8 a b r)) \<longleftrightarrow> a - b - of_bool (flag_c r) = 0"
  "flag_p (snd (i8088_sbb_8 a b r)) \<longleftrightarrow> parity_even (ucast (a - b - of_bool (flag_c r)))"
  by (simp_all add: i8088_sbb_8_def Let_def carry_simps overflow_8 flip: sign_8
        del: atLeastLessThan_iff)

lemma sbb_16_run:
  "fst (i8088_sbb_16 a b r) = a - b - of_bool (flag_c r)"
  "flag_c (snd (i8088_sbb_16 a b r)) \<longleftrightarrow> unat a < unat b + of_bool (flag_c r)"
  "flag_a (snd (i8088_sbb_16 a b r)) \<longleftrightarrow> unat a mod 16 < unat b mod 16 + of_bool (flag_c r)"
  "flag_o (snd (i8088_sbb_16 a b r)) \<longleftrightarrow> sint a - sint b - of_bool (flag_c r) \<notin> {- 32768..<32768}"
  "flag_s (snd (i8088_sbb_16 a b r)) \<longleftrightarrow> sint (a - b - of_bool (flag_c r)) < 0"
  "flag_z (snd (i8088_sbb_16 a b r)) \<longleftrightarrow> a - b - of_bool (flag_c r) = 0"
  "flag_p (snd (i8088_sbb_16 a b r)) \<longleftrightarrow> parity_even (a - b - of_bool (flag_c r))"
  by (simp_all add: i8088_sbb_16_def Let_def carry_simps overflow_16 flip: sign_16
        del: atLeastLessThan_iff)

lemma alu_frame [simp]:
  "(snd (i8088_adc_8 a b r))\<lparr>flags := f\<rparr> = r\<lparr>flags := f\<rparr>"
  "(snd (i8088_adc_16 x y r))\<lparr>flags := f\<rparr> = r\<lparr>flags := f\<rparr>"
  "(snd (i8088_sbb_8 a b r))\<lparr>flags := f\<rparr> = r\<lparr>flags := f\<rparr>"
  "(snd (i8088_sbb_16 x y r))\<lparr>flags := f\<rparr> = r\<lparr>flags := f\<rparr>"
  by (simp_all add: i8088_adc_8_def i8088_adc_16_def i8088_sbb_8_def i8088_sbb_16_def Let_def)

text \<open>Parity is that of the number of one bits in the low byte.\<close>

lemma sum_bits_card: "(\<Sum>i<n. of_bool (P i)) = card {i. i < n \<and> P i}" for n :: nat
proof -
  have "{i. i < n \<and> P i} = {..<n} \<inter> {i. P i}" by auto
  then show ?thesis by (simp add: of_bool_def sum.If_cases)
qed

lemma parity_even_bits:
  "parity_even v \<longleftrightarrow>
   (bit v 0 = (bit v 1 = (bit v 2 = (bit v 3 = (bit v 4 = (bit v 5 = (bit v 6 = bit v 7)))))))"
proof -
  have "w AND 1 \<noteq> 0 \<longleftrightarrow> bit w 0" for w :: u16
    using and_exp_eq_0_iff_not_bit [of w 0] by simp
  then show ?thesis
    unfolding parity_even_def Let_def by (simp add: bit_not_iff bit_xor_iff bit_drop_bit_eq eval_nat_numeral) argo
qed

lemma parity_even_card: "parity_even v \<longleftrightarrow> even (card {i. i < 8 \<and> bit v i})"
proof -
  have "card {i. i < 8 \<and> bit v i} = (\<Sum>i<8. of_bool (bit v i))"
    by (simp only: sum_bits_card)
  also have "\<dots> = (\<Sum>i\<leftarrow>[0,1,2,3,4,5,6,7]. of_bool (bit v i))"
    by (simp add: numeral_eq_Suc)
  finally show ?thesis by (simp add: parity_even_bits of_bool_def del: One_nat_def)
qed

lemma parity_even_byte: "parity_even (ucast (x::u8)) \<longleftrightarrow> even (card {i. i < 8 \<and> bit x i})"
proof -
  have "{i. i < 8 \<and> bit (ucast x :: u16) i} = {i. i < 8 \<and> bit x i}"
    by (auto simp: bit_simps)
  then show ?thesis by (simp add: parity_even_card)
qed

lemma adc_8_other:
  "flag_t (snd (i8088_adc_8 a b r)) = flag_t r" "flag_i (snd (i8088_adc_8 a b r)) = flag_i r"
  "flag_d (snd (i8088_adc_8 a b r)) = flag_d r"
  by (simp_all add: i8088_adc_8_def Let_def)

lemma sbb_16_other:
  "flag_t (snd (i8088_sbb_16 a b r)) = flag_t r" "flag_i (snd (i8088_sbb_16 a b r)) = flag_i r"
  "flag_d (snd (i8088_sbb_16 a b r)) = flag_d r"
  by (simp_all add: i8088_sbb_16_def Let_def)

text \<open>A 32-bit value is its low and its high half.\<close>

lemma halves_32:
  fixes x :: u32
  defines "l \<equiv> ucast x :: u16" and "h \<equiv> ucast (drop_bit 16 x) :: u16"
  shows "uint x = uint l + 65536 * uint h" and "sint x = uint l + 65536 * sint h"
proof -
  have l: "uint l = uint x mod 65536"
    unfolding l_def by (simp add: unsigned_ucast_eq take_bit_eq_mod) 
  have "X div 65536 mod 65536 = X div 65536" if "0 \<le> X" "X < 4294967296" for X :: int
  proof (rule mod_pos_pos_trivial)
    show "X div 65536 < 65536"
      using that mult_div_mod_eq [of 65536 X] pos_mod_sign [of 65536 X] by linarith
  qed (use that in \<open>simp add: pos_imp_zdiv_nonneg_iff\<close>)
  from this [of "uint x"] have "uint x div 65536 mod 65536 = uint x div 65536"
    using uint_lt2p [of x] by simp
  then have h: "uint h = uint x div 65536"
    unfolding h_def by (simp add: unsigned_ucast_eq take_bit_eq_mod drop_bit_eq_div uint_div)
  show u: "uint x = uint l + 65536 * uint h"
    unfolding l h by simp
  have "bit h 15 = bit x 31" unfolding h_def by (simp add: bit_simps)
  then show "sint x = uint l + 65536 * sint h"
    unfolding sint_uint_top [of x] sint_uint_top [of h] by (simp add: u)
qed

lemma add_halves:
  fixes xl xh yl yh :: int
  assumes "0 \<le> xl" "xl < 65536" "0 \<le> yl" "yl < 65536"
    and "0 \<le> xh" "xh < 65536" "0 \<le> yh" "yh < 65536"
    and c: "c \<longleftrightarrow> 65536 \<le> xl + yl"
  shows "(xl + yl) mod 65536 + 65536 * ((xh + yh + of_bool c) mod 65536) =
         (xl + 65536 * xh + (yl + 65536 * yh)) mod 4294967296"
    and "65536 \<le> xh + yh + of_bool c \<longleftrightarrow> 4294967296 \<le> xl + 65536 * xh + (yl + 65536 * yh)"
proof -
  define d where "d \<longleftrightarrow> 65536 \<le> xh + yh + of_bool c"
  have l: "(xl + yl) mod 65536 = xl + yl - 65536 * of_bool c"
    using assms by (cases c) (auto intro: mod_pos_pos_trivial int_mod_pos_eq [where q = "1"])
  have h: "(xh + yh + of_bool c) mod 65536 = xh + yh + of_bool c - 65536 * of_bool d"
    using assms by (cases c; cases d)
      (auto simp: d_def intro: mod_pos_pos_trivial int_mod_pos_eq [where q = "1"])
  have "(xl + 65536 * xh + (yl + 65536 * yh)) mod 4294967296 =
      (xl + yl) mod 65536 + 65536 * ((xh + yh + of_bool c) mod 65536)"
    unfolding l h using assms
    by (intro int_mod_pos_eq [where q = "of_bool d"]; cases c; cases d) (auto simp: d_def)
  then show "(xl + yl) mod 65536 + 65536 * ((xh + yh + of_bool c) mod 65536) = (xl + 65536 * xh + (yl + 65536 * yh)) mod 4294967296"
    by simp
  show "65536 \<le> xh + yh + of_bool c \<longleftrightarrow> 4294967296 \<le> xl + 65536 * xh + (yl + 65536 * yh)"
    using assms by (cases c) auto
qed

lemma add_halves_signed:
  fixes xl xh yl yh :: int
  assumes "0 \<le> xl" "xl < 65536" "0 \<le> yl" "yl < 65536" and c: "c \<longleftrightarrow> 65536 \<le> xl + yl"
  shows "xh + yh + of_bool c \<notin> {- 32768..<32768} \<longleftrightarrow>
         xl + 65536 * xh + (yl + 65536 * yh) \<notin> {- 2147483648..<2147483648}"
  using assms by (cases c) auto

lemma sub_halves:
  fixes xl xh yl yh :: int
  assumes "0 \<le> xl" "xl < 65536" "0 \<le> yl" "yl < 65536"
    and "0 \<le> xh" "xh < 65536" "0 \<le> yh" "yh < 65536"
    and c: "c \<longleftrightarrow> xl < yl"
  shows "(xl - yl) mod 65536 + 65536 * ((xh - yh - of_bool c) mod 65536) =
         (xl + 65536 * xh - (yl + 65536 * yh)) mod 4294967296"
    and "xh < yh + of_bool c \<longleftrightarrow> xl + 65536 * xh < yl + 65536 * yh"
proof -
  define d where "d \<longleftrightarrow> xh < yh + of_bool c"
  have l: "(xl - yl) mod 65536 = xl - yl + 65536 * of_bool c"
    using assms by (cases c) (auto intro: mod_pos_pos_trivial int_mod_pos_eq [where q = "- 1"])
  have h: "(xh - yh - of_bool c) mod 65536 = xh - yh - of_bool c + 65536 * of_bool d"
    using assms by (cases c; cases d)
      (auto simp: d_def intro: mod_pos_pos_trivial int_mod_pos_eq [where q = "- 1"])
  have "(xl + 65536 * xh - (yl + 65536 * yh)) mod 4294967296 =
      (xl - yl) mod 65536 + 65536 * ((xh - yh - of_bool c) mod 65536)"
    unfolding l h using assms
    by (intro int_mod_pos_eq [where q = "- of_bool d"]; cases c; cases d) (auto simp: d_def)
  then show "(xl - yl) mod 65536 + 65536 * ((xh - yh - of_bool c) mod 65536) = (xl + 65536 * xh - (yl + 65536 * yh)) mod 4294967296"
    by simp
  show "xh < yh + of_bool c \<longleftrightarrow> xl + 65536 * xh < yl + 65536 * yh"
    using assms by (cases c) auto
qed

lemma sub_halves_signed:
  fixes xl xh yl yh :: int
  assumes "0 \<le> xl" "xl < 65536" "0 \<le> yl" "yl < 65536" and c: "c \<longleftrightarrow> xl < yl"
  shows "xh - yh - of_bool c \<notin> {- 32768..<32768} \<longleftrightarrow>
         xl + 65536 * xh - (yl + 65536 * yh) \<notin> {- 2147483648..<2147483648}"
  using assms by (cases c) auto

lemma u16_bounds: "0 \<le> uint (x::u16)" "uint x < 65536"
  using uint_lt2p [of x] by simp_all
lemma uint_eq_iff_unat: "uint (x::'a::len word) = int (unat x)" by simp

lemma inc_overflow_8: "a = (0x7F::u8) \<longleftrightarrow> sint a + 1 \<notin> {- 128..<128}"
proof -
  have "sint a + 1 \<notin> {- 128..<128} \<longleftrightarrow> sint a = 127"
    using sint_greater_eq [of a] sint_less [of a] by auto
  also have "\<dots> \<longleftrightarrow> sint a = sint (0x7F::u8)" by simp
  also have "\<dots> \<longleftrightarrow> a = 0x7F" by (rule word_eq_iff_signed [symmetric])
  finally show ?thesis by (rule sym)
qed

lemma nibble_zero: "a AND 0xF = (0::u8) \<longleftrightarrow> unat a mod 16 < 1"
  unfolding word_unat_eq_iff by simp

lemma inc_nibble_zero: "(a + 1) AND 0xF = (0::u8) \<longleftrightarrow> 16 \<le> unat a mod 16 + 1"
proof -
  have "(a + 1) AND 0xF = 0 \<longleftrightarrow> (unat a + 1) mod 256 mod 16 = 0"
    unfolding word_unat_eq_iff by (simp add: unat_word_ariths)
  also have "(unat a + 1) mod 256 mod 16 = (unat a + 1) mod (16::nat)"
    by (simp add: mod_mod_cancel)
  also have "\<dots> = 0 \<longleftrightarrow> 16 \<le> unat a mod 16 + 1" by presburger
  finally show ?thesis .
qed

lemma inc_zero: "a + 1 = (0::u8) \<longleftrightarrow> unat a = 255"
  using unat_u8 [of a] unfolding word_unat_eq_iff by (auto simp: unat_word_ariths) presburger+

lemma one_unat_8: "a = (1::u8) \<longleftrightarrow> unat a = 1"
  unfolding word_unat_eq_iff by simp

lemma dec_overflow_8: "bit a 7 \<and> \<not> bit (a - 1) 7 \<longleftrightarrow> sint (a::u8) - 1 \<notin> {- 128..<128}"
  using overflow_8(2) [of a 1 False] by simp

lemma narrow_mult_u32:
  "unat (int16u x * int16u y) = unat x * unat y" "unat (int8u v * int8u w) = unat v * unat w"
proof -
  have "unat x * unat y \<le> 65535 * 65535"
    using unat_u16 [of x] unat_u16 [of y] by (intro mult_le_mono) auto
  then show "unat (int16u x * int16u y) = unat x * unat y" by (simp add: unat_word_ariths)
  have "unat v * unat w \<le> 255 * 255"
    using unat_u8 [of v] unat_u8 [of w] by (intro mult_le_mono) auto
  then show "unat (int8u v * int8u w) = unat v * unat w" by (simp add: unat_word_ariths)
qed

lemma halves_32_unat:
  "unat (x::u32) = 65536 * unat (ucast (drop_bit 16 x) :: u16) + unat (ucast x :: u16)"
  using halves_32 (1) [of x] unfolding uint_nat by linarith

lemma halves_32_s:
  "sint (x::u32) = 65536 * sint (ucast (signed_drop_bit 16 x) :: u16) + uint (ucast x :: u16)"
proof -
  have "ucast (signed_drop_bit 16 x) = (ucast (drop_bit 16 x) :: u16)"
    by (rule bit_word_eqI) (auto simp: bit_simps)
  then show ?thesis using halves_32 (2) [of x] by simp
qed

lemma and_low_16: "ucast ((x::u32) AND 0xFFFF) = (ucast x :: u16)"
proof -
  have m: "(0xFFFF::u32) = mask 16" by (simp add: mask_eq_exp_minus_1)
  show ?thesis unfolding m by (rule bit_word_eqI) (auto simp: bit_simps)
qed

lemma drop_16_pos: "0 < drop_bit 16 (x::u32) \<longleftrightarrow> 65536 \<le> unat x"
  by (simp add: word_less_nat_alt drop_bit_eq_div unat_div div_greater_zero_iff)

lemma fits_16: "sint (w::u32) \<noteq> sint (ucast w :: u16) \<longleftrightarrow> sint w \<notin> {- 32768..<32768}"
proof -
  have "sint (ucast w :: u16) = signed_take_bit 15 (sint w)"
    by (simp add: sint_uint unsigned_ucast_eq signed_take_bit_take_bit)
  then have "sint w = sint (ucast w :: u16) \<longleftrightarrow> signed_take_bit 15 (sint w) = sint w" by auto
  then show ?thesis by (simp add: signed_take_bit_int_eq_self_iff)
qed

lemma sint_u16_range: "- 32768 \<le> sint (x::u16)" "sint x < 32768"
  and sint_u8_range: "- 128 \<le> sint (y::u8)" "sint y < 128"
  using sint_greater_eq [of x] sint_less [of x] sint_greater_eq [of y] sint_less [of y] by simp_all

lemma signed_product_bound:
  fixes u v n :: int
  assumes "- n \<le> u" "u < n" "- n \<le> v" "v < n"
  shows "- (n * n) \<le> u * v" "u * v \<le> n * n"
proof -
  have "\<bar>u * v\<bar> \<le> n * n" unfolding abs_mult using assms by (intro mult_mono) auto
  then show "- (n * n) \<le> u * v" "u * v \<le> n * n" by auto
qed

lemma sint_widen: "sint (scast (x::u16) :: u32) = sint x" "sint (scast (y::u8) :: u32) = sint y"
  using sint_u16_range [of x] sint_u8_range [of y]
  by (simp_all add: signed_scast_eq signed_take_bit_int_eq_self_iff)

lemma sint_product:
  "sint ((scast (x::u16) :: u32) * scast (y::u16)) = sint x * sint y"
  "sint ((scast (v::u8) :: u32) * scast (w::u8)) = sint v * sint w"
  using signed_product_bound [OF sint_u16_range [of x] sint_u16_range [of y]]
    signed_product_bound [OF sint_u8_range [of v] sint_u8_range [of w]]
  by (simp_all add: sint_word_ariths sint_widen signed_take_bit_int_eq_self_iff)

lemma fits_8: "sint (w::u16) \<noteq> sint (ucast w :: u8) \<longleftrightarrow> sint w \<notin> {- 128..<128}"
proof -
  have "sint (ucast w :: u8) = signed_take_bit 7 (sint w)"
    by (simp add: sint_uint unsigned_ucast_eq signed_take_bit_take_bit)
  then have "sint w = sint (ucast w :: u8) \<longleftrightarrow> signed_take_bit 7 (sint w) = sint w" by auto
  then show ?thesis by (simp add: signed_take_bit_int_eq_self_iff)
qed

lemma sint_product_8_16: "sint (ucast ((scast (v::u8) :: u32) * scast (w::u8)) :: u16) = sint v * sint w"
  using fits_16 [of "scast v * scast w"]
    signed_product_bound [OF sint_u8_range [of v] sint_u8_range [of w]]
  by (auto simp: sint_product)

subsection \<open>Properties\<close>

text \<open>C22. The parity helper: \<open>parity_even\<close> holds exactly when the low byte of its argument
  has an even number of one bits.\<close>

theorem parity_even_correct: "parity_even v \<longleftrightarrow> even (card {i. i < 8 \<and> bit v i})"
  by (rule parity_even_card)

text \<open>C12. \<open>ADC\<close> of two bytes is addition of the operands and the carry modulo 256, and every
  flag says what it stands for: CF an unsigned and OF a signed overflow, AF a carry out of
  the low nibble, SF and ZF the sign and the value of the result, PF its parity. No other
  flag and no register changes.\<close>

theorem i8088_adc_8_correct:
  "case i8088_adc_8 a b r of (res, r') \<Rightarrow>
     unat res = (unat a + unat b + of_bool (flag_c r)) mod 256 \<and>
     (flag_c r' \<longleftrightarrow> 256 \<le> unat a + unat b + of_bool (flag_c r)) \<and>
     (flag_o r' \<longleftrightarrow> sint a + sint b + of_bool (flag_c r) \<notin> {- 128..<128}) \<and>
     (flag_a r' \<longleftrightarrow> 16 \<le> unat a mod 16 + unat b mod 16 + of_bool (flag_c r)) \<and>
     (flag_s r' \<longleftrightarrow> sint res < 0) \<and> (flag_z r' \<longleftrightarrow> res = 0) \<and>
     (flag_p r' \<longleftrightarrow> even (card {i. i < 8 \<and> bit res i})) \<and>
     flag_t r' = flag_t r \<and> flag_i r' = flag_i r \<and> flag_d r' = flag_d r \<and>
     r'\<lparr>flags := flags r\<rparr> = r"
  by (simp add: case_prod_beta adc_8_run adc_8_other parity_even_byte unat_word_ariths mod_simps
      del: atLeastLessThan_iff)

text \<open>C12. \<open>SBB\<close> of two 16-bit values is subtraction of the source and the borrow modulo 65536;
  CF is the unsigned borrow, OF the signed overflow, AF the borrow of the low nibble.\<close>

theorem i8088_sbb_16_correct:
  "case i8088_sbb_16 a b r of (res, r') \<Rightarrow>
     uint res = (uint a - uint b - of_bool (flag_c r)) mod 65536 \<and>
     (flag_c r' \<longleftrightarrow> unat a < unat b + of_bool (flag_c r)) \<and>
     (flag_o r' \<longleftrightarrow> sint a - sint b - of_bool (flag_c r) \<notin> {- 32768..<32768}) \<and>
     (flag_a r' \<longleftrightarrow> unat a mod 16 < unat b mod 16 + of_bool (flag_c r)) \<and>
     (flag_s r' \<longleftrightarrow> sint res < 0) \<and> (flag_z r' \<longleftrightarrow> res = 0) \<and>
     (flag_p r' \<longleftrightarrow> even (card {i. i < 8 \<and> bit res i})) \<and>
     flag_t r' = flag_t r \<and> flag_i r' = flag_i r \<and> flag_d r' = flag_d r \<and>
     r'\<lparr>flags := flags r\<rparr> = r"
  by (simp add: case_prod_beta sbb_16_run sbb_16_other parity_even_card uint_word_ariths mod_simps
      del: atLeastLessThan_iff)

text \<open>C8. Multi-word addition: adding the low halves with \<open>ADD\<close> and then the high halves with
  \<open>ADC\<close> adds the 32-bit values, and the final CF and OF are the unsigned and the signed
  overflow of the 32-bit addition.\<close>

theorem add_adc_32:
  fixes x y :: u32
  shows
  "case i8088_add_16 (ucast x) (ucast y) r of (l, r1) \<Rightarrow>
     case i8088_adc_16 (ucast (drop_bit 16 x)) (ucast (drop_bit 16 y)) r1 of (h, r2) \<Rightarrow>
       uint l + 65536 * uint h = (uint x + uint y) mod 4294967296 \<and>
       (flag_c r2 \<longleftrightarrow> 4294967296 \<le> uint x + uint y) \<and>
       (flag_o r2 \<longleftrightarrow> sint x + sint y \<notin> {- 2147483648..<2147483648})"
proof -
  define xl xh yl yh where "xl = (ucast x :: u16)" and "xh = (ucast (drop_bit 16 x) :: u16)"
    and "yl = (ucast y :: u16)" and "yh = (ucast (drop_bit 16 y) :: u16)"
  note d = xl_def xh_def yl_def yh_def
  note h = halves_32 [of x, folded d] halves_32 [of y, folded d]
  define c where "c \<longleftrightarrow> 65536 \<le> uint xl + uint yl"
  have c: "65536 \<le> unat xl + unat yl \<longleftrightarrow> c"
    unfolding c_def uint_nat by linarith
  note bs = u16_bounds [of xl] u16_bounds [of yl]
  note bu = bs u16_bounds [of xh] u16_bounds [of yh]
  have cy: "65536 \<le> unat xh + unat yh \<longleftrightarrow> 65536 \<le> uint xh + uint yh"
    "65535 \<le> unat xh + unat yh \<longleftrightarrow> 65535 \<le> uint xh + uint yh"
    unfolding uint_nat by linarith+
  show ?thesis
    using add_halves [OF bu c_def] add_halves_signed [OF bs c_def, of "sint xh" "sint yh"]
    unfolding d [symmetric] h
    by (cases c) (simp_all add: case_prod_beta no_carry adc_16_run c cy uint_word_ariths mod_simps
        del: atLeastLessThan_iff)
qed

text \<open>C9. Multi-word subtraction: subtracting the low halves with \<open>SUB\<close> and then the high
  halves with \<open>SBB\<close> subtracts the 32-bit values, and the final CF and OF are the unsigned
  borrow and the signed overflow of the 32-bit subtraction.\<close>

theorem sub_sbb_32:
  fixes x y :: u32
  shows
  "case i8088_sub_16 (ucast x) (ucast y) r of (l, r1) \<Rightarrow>
     case i8088_sbb_16 (ucast (drop_bit 16 x)) (ucast (drop_bit 16 y)) r1 of (h, r2) \<Rightarrow>
       uint l + 65536 * uint h = (uint x - uint y) mod 4294967296 \<and>
       (flag_c r2 \<longleftrightarrow> uint x < uint y) \<and>
       (flag_o r2 \<longleftrightarrow> sint x - sint y \<notin> {- 2147483648..<2147483648})"
proof -
  define xl xh yl yh where "xl = (ucast x :: u16)" and "xh = (ucast (drop_bit 16 x) :: u16)"
    and "yl = (ucast y :: u16)" and "yh = (ucast (drop_bit 16 y) :: u16)"
  note d = xl_def xh_def yl_def yh_def
  note h = halves_32 [of x, folded d] halves_32 [of y, folded d]
  define c where "c \<longleftrightarrow> uint xl < uint yl"
  have c: "unat xl < unat yl \<longleftrightarrow> c"
    unfolding c_def uint_nat by linarith
  note bs = u16_bounds [of xl] u16_bounds [of yl]
  note bu = bs u16_bounds [of xh] u16_bounds [of yh]
  have cy: "unat xh < unat yh \<longleftrightarrow> uint xh < uint yh"
    "unat xh < unat yh + 1 \<longleftrightarrow> uint xh < uint yh + 1"
    unfolding uint_nat by linarith+
  show ?thesis
    using sub_halves [OF bu c_def] sub_halves_signed [OF bs c_def, of "sint xh" "sint yh"] cy
    unfolding d [symmetric] h
    by (cases c) (simp_all add: case_prod_beta no_carry sbb_16_run c uint_word_ariths mod_simps
        del: atLeastLessThan_iff)
qed


text \<open>C21. \<open>INC\<close> and \<open>DEC\<close> of a byte add and subtract one modulo 256 and leave the carry flag as
  it was, which is what lets a program count in the middle of a multi-byte addition; OF, AF and
  ZF describe the step as for an addition or subtraction of one.\<close>

theorem i8088_inc_dec_8_correct:
  "(case i8088_inc_8 a r of (res, r') \<Rightarrow>
     res = a + 1 \<and> flag_c r' = flag_c r \<and> (flag_z r' \<longleftrightarrow> unat a = 255) \<and>
     (flag_o r' \<longleftrightarrow> sint a + 1 \<notin> {- 128..<128}) \<and>
     (flag_a r' \<longleftrightarrow> 16 \<le> unat a mod 16 + 1) \<and> r'\<lparr>flags := flags r\<rparr> = r) \<and>
   (case i8088_dec_8 a r of (res, r') \<Rightarrow>
     res = a - 1 \<and> flag_c r' = flag_c r \<and> (flag_z r' \<longleftrightarrow> unat a = 1) \<and>
     (flag_o r' \<longleftrightarrow> sint a - 1 \<notin> {- 128..<128}) \<and>
     (flag_a r' \<longleftrightarrow> unat a mod 16 < 1) \<and> r'\<lparr>flags := flags r\<rparr> = r)"
  by (rule conjI)
    (simp add: i8088_inc_8_def Let_def inc_overflow_8 inc_nibble_zero inc_zero
      del: atLeastLessThan_iff,
     simp add: i8088_dec_8_def Let_def mask_bit_simps dec_overflow_8 nibble_zero one_unat_8
      del: atLeastLessThan_iff)

text \<open>C11. \<open>MUL\<close>: the double-length result is the exact product of the unsigned operands, and CF
  and OF are set exactly when its upper half is needed.\<close>

theorem i8088_mul_correct:
  "unat (ax (i8088_mul_8 x r)) = unat (al r) * unat x \<and>
   (flag_c (i8088_mul_8 x r) \<longleftrightarrow> 256 \<le> unat (al r) * unat x) \<and>
   (flag_o (i8088_mul_8 x r) \<longleftrightarrow> 256 \<le> unat (al r) * unat x) \<and>
   65536 * unat (dx (i8088_mul_16 y r)) + unat (ax (i8088_mul_16 y r)) = unat (ax r) * unat y \<and>
   (flag_c (i8088_mul_16 y r) \<longleftrightarrow> 65536 \<le> unat (ax r) * unat y) \<and>
   (flag_o (i8088_mul_16 y r) \<longleftrightarrow> 65536 \<le> unat (ax r) * unat y)"
proof -
  have "unat (al r) * unat x \<le> 255 * 255"
    using unat_u8 [of "al r"] unat_u8 [of x] by (intro mult_le_mono) auto
  then have a: "unat (ucast (int8u (al r) * int8u x) :: u16) = unat (al r) * unat x"
    by (simp add: unsigned_ucast_eq narrow_mult_u32 take_bit_nat_eq_self)
  then have b: "0 < drop_bit 8 (ucast (int8u (al r) * int8u x) :: u16) \<longleftrightarrow>
      256 \<le> unat (al r) * unat x"
    by (simp add: word_less_nat_alt drop_bit_eq_div unat_div div_greater_zero_iff)
  show ?thesis
    using halves_32_unat [of "int16u (ax r) * int16u y"]
    by (simp add: i8088_mul_8_def i8088_mul_16_def Let_def a b and_low_16 drop_16_pos
        narrow_mult_u32)
qed

text \<open>C14. \<open>IMUL\<close>: the double-length result is the exact product of the signed operands, and CF
  and OF are set exactly when it does not fit in the lower half as a signed value.\<close>

theorem i8088_imul_correct:
  "sint (ax (i8088_imul_8 x r)) = sint (al r) * sint x \<and>
   (flag_c (i8088_imul_8 x r) \<longleftrightarrow> sint (al r) * sint x \<notin> {- 128..<128}) \<and>
   (flag_o (i8088_imul_8 x r) \<longleftrightarrow> sint (al r) * sint x \<notin> {- 128..<128}) \<and>
   65536 * sint (dx (i8088_imul_16 y r)) + uint (ax (i8088_imul_16 y r)) = sint (ax r) * sint y \<and>
   (flag_c (i8088_imul_16 y r) \<longleftrightarrow> sint (ax r) * sint y \<notin> {- 32768..<32768}) \<and>
   (flag_o (i8088_imul_16 y r) \<longleftrightarrow> sint (ax r) * sint y \<notin> {- 32768..<32768})"
  using halves_32_s [of "scast (ax r) * scast y"]
  by (simp add: i8088_imul_8_def i8088_imul_16_def Let_def fits_8 fits_16 sint_product_8_16
      sint_product and_low_16 del: atLeastLessThan_iff)

text \<open>DAA on its inputs: \<open>AL\<close>, the auxiliary carry and the carry.\<close>

lemma daa_al_c:
  "al (i8088_daa r) =
     al r + (if 9 < unat (al r) mod 16 \<or> flag_a r then 6 else 0) +
     (if (if flag_a r then 0x9F else 0x99) < unat (al r) \<or> flag_c r then 0x60 else 0)"
  "flag_c (i8088_daa r) \<longleftrightarrow>
     (if flag_a r then 0x9F else 0x99) < unat (al r) \<or> flag_c r"
  by (simp_all add: i8088_daa_def Let_def word_less_nat_alt)

definition bcd :: "nat \<Rightarrow> u8" where
  "bcd n = of_nat (16 * (n div 10 mod 10) + n mod 10)"

text \<open>C9. Decimal arithmetic: after adding two packed BCD bytes with \<open>ADD\<close>, \<open>DAA\<close> leaves the
  packed BCD representation of the decimal sum modulo 100 in \<open>AL\<close> and the decimal carry in CF.\<close>

theorem add_daa_bcd:
  assumes "m < 100" and "n < 100"
  shows "case i8088_add_8 (bcd m) (bcd n) r of (res, r') \<Rightarrow>
           al (i8088_daa (set_al res r')) = bcd (m + n) \<and>
           (flag_c (i8088_daa (set_al res r')) \<longleftrightarrow> 100 \<le> m + n)"
proof -
  have u: "unat (bcd k) = 16 * (k div 10) + k mod 10" "k div 10 < 10" if "k < 100" for k
  proof -
    show q: "k div 10 < 10" using that by (simp add: div_less_iff_less_mult)
    have "16 * (k div 10) + k mod 10 < 256" using q mod_less_divisor [of 10 k] by linarith
    with q show "unat (bcd k) = 16 * (k div 10) + k mod 10"
      unfolding bcd_def unat_of_nat by simp
  qed
  define d1 d0 where "d1 = m div 10 + n div 10" and "d0 = m mod 10 + n mod 10"
  define lo hi where "lo \<longleftrightarrow> 10 \<le> d0" and "hi \<longleftrightarrow> 10 \<le> d1 + of_bool lo"
  define t1 t0 where "t1 = d1 + of_bool lo" and "t0 = d0 - 10 * of_bool lo"
  have d: "d1 < 19" "d0 < 19" "m + n = 10 * d1 + d0"
    using u(2) [OF assms(1)] u(2) [OF assms(2)] unfolding d1_def d0_def by simp_all
  have t: "m + n = 10 * t1 + t0" "t0 < 10" "t1 < 20"
    using d by (auto simp: t1_def t0_def lo_def)
  have hi_t1: "hi \<longleftrightarrow> 10 \<le> t1" by (simp add: hi_def t1_def)
  from t have q: "(m + n) div 10 = t1" "(m + n) mod 10 = t0" "t1 mod 10 = t1 - 10 * of_bool hi"
    using hi_t1 by (simp_all add: le_mod_geq)
  have s: "unat (bcd m + bcd n) = (16 * d1 + d0) mod 256"
    using assms by (simp add: unat_word_ariths u d1_def d0_def algebra_simps)
  have lo: "9 < (16 * d1 + d0) mod 256 mod 16 \<or> 16 \<le> d0 \<longleftrightarrow> lo"
    using d(2) unfolding lo_def by (cases "16 \<le> d0") (auto simp: mod_mod_cancel le_mod_geq)
  have hi: "(if 16 \<le> d0 then 0x9F else 0x99) < (16 * d1 + d0) mod 256 \<or> 256 \<le> 16 * d1 + d0 \<longleftrightarrow> hi"
    using d(1,2) unfolding hi_def lo_def
    by (cases "256 \<le> 16 * d1 + d0") (auto simp: le_mod_geq)
  have sum: "bcd m + bcd n = of_nat (16 * d1 + d0)"
    by (rule word_unat_eq_iff [THEN iffD2]) (simp add: s unat_of_nat del: of_nat_add of_nat_mult)
  have "16 * d1 + d0 + 6 * of_bool lo = 16 * t1 + t0"
    using d by (auto simp: t1_def t0_def lo_def)
  moreover have "16 * t1 + t0 + 96 * of_bool hi = 16 * (t1 mod 10) + t0 + 256 * of_bool hi"
    unfolding q(3) hi_t1 by (cases "10 \<le> t1") (simp_all add: diff_mult_distrib2)
  ultimately have e: "(of_nat (16 * d1 + d0 + 6 * of_bool lo + 96 * of_bool hi) :: u8) =
      of_nat (16 * (t1 mod 10) + t0 + 256 * of_bool hi)" by simp
  have "(of_nat 256 :: u8) = 0" by simp
  then have r: "of_nat (16 * d1 + d0) + (if lo then 6 else 0) + (if hi then 0x60 else 0) = bcd (m + n)"
    using e by (cases lo; cases hi) (simp_all add: bcd_def q)
  have "100 \<le> m + n \<longleftrightarrow> hi"
    using t d by (auto simp: hi_def t1_def)
  moreover define r' where "r' = set_al (bcd m + bcd n) (snd (i8088_add_8 (bcd m) (bcd n) r))"
  have "al r' = bcd m + bcd n" "flag_a r' \<longleftrightarrow> 16 \<le> d0" "flag_c r' \<longleftrightarrow> 256 \<le> 16 * d1 + d0"
    using u(1) [OF assms(1)] u(1) [OF assms(2)]
    by (simp_all add: r'_def no_carry adc_8_run d1_def d0_def algebra_simps)
  then have "al (i8088_daa r') = bcd (m + n)" "flag_c (i8088_daa r') \<longleftrightarrow> hi"
    using r by (simp_all only: daa_al_c sum s [unfolded sum] lo hi)
  ultimately show ?thesis
    by (simp add: case_prod_beta r'_def no_carry adc_8_run)
qed

text \<open>The hypotheses hold for 58 and 67, whose sum carries out of both digits.\<close>

theorem add_daa_bcd_witness:
  "case i8088_add_8 (bcd 58) (bcd 67) i8088_init of (res, r') \<Rightarrow>
     al (i8088_daa (set_al res r')) = 0x25 \<and> flag_c (i8088_daa (set_al res r'))"
  using add_daa_bcd [of 58 67 i8088_init] by (simp add: bcd_def case_prod_beta)

text \<open>\<open>DEC\<close> of a 16-bit operand never reports a signed overflow: the code clears OF where the
  8-bit routine computes it.\<close>

lemma i8088_dec_16_overflow_lost:
  "\<not> flag_o (snd (i8088_dec_16 0x8000 r)) \<and> sint (0x8000 :: u16) - 1 \<notin> {- 32768..<32768}"
  by (simp add: i8088_dec_16_def Let_def)

end
