(* ===== verification/Alu_Shift.thy ===== *)
theory Alu_Shift
  imports Alu_Arith
begin

unbundle bit_operations_syntax

text \<open>
  The rotates and shifts of i8088.c. The 8088 does not mask the count, and the code loops
  \<open>count\<close> times over a one-bit step; the loop \<open>while (count > 0) { ...; count--; }\<close> is the
  step iterated \<open>unat count\<close> times. A count of one also sets the overflow flag.
\<close>

subsection \<open>Rotates\<close>

definition rcl_8_step :: "u8 \<times> i8088 \<Rightarrow> u8 \<times> i8088" where
  "rcl_8_step = (\<lambda>(input, r).
     (let temp_c = flag_c r;
          r = set_c (bit input 7) r;
          input = push_bit 1 input;
          input = input OR of_bool temp_c
      in (input, r)))"

definition i8088_rcl_8 :: "u8 \<Rightarrow> u8 \<Rightarrow> i8088 \<Rightarrow> u8 \<times> i8088" where
  "i8088_rcl_8 input count r =
     (if count = 0 then (input, r)
      else if count = 1
      then (let (input, r) = rcl_8_step (input, r) in (input, set_o (bit input 7 \<noteq> flag_c r) r))
      else (rcl_8_step ^^ unat count) (input, r))"

definition rcl_16_step :: "u16 \<times> i8088 \<Rightarrow> u16 \<times> i8088" where
  "rcl_16_step = (\<lambda>(input, r).
     (let temp_c = flag_c r;
          r = set_c (bit input 15) r;
          input = push_bit 1 input;
          input = input OR of_bool temp_c
      in (input, r)))"

definition i8088_rcl_16 :: "u16 \<Rightarrow> u8 \<Rightarrow> i8088 \<Rightarrow> u16 \<times> i8088" where
  "i8088_rcl_16 input count r =
     (if count = 0 then (input, r)
      else if count = 1
      then (let (input, r) = rcl_16_step (input, r) in (input, set_o (bit input 15 \<noteq> flag_c r) r))
      else (rcl_16_step ^^ unat count) (input, r))"

definition rcr_8_step :: "u8 \<times> i8088 \<Rightarrow> u8 \<times> i8088" where
  "rcr_8_step = (\<lambda>(input, r).
     (let temp_c = flag_c r;
          r = set_c (bit input 0) r;
          input = drop_bit 1 input;
          input = input OR push_bit 7 (of_bool temp_c)
      in (input, r)))"

definition i8088_rcr_8 :: "u8 \<Rightarrow> u8 \<Rightarrow> i8088 \<Rightarrow> u8 \<times> i8088" where
  "i8088_rcr_8 input count r =
     (if count = 0 then (input, r)
      else if count = 1
      then (let (input, r) = rcr_8_step (input, r) in (input, set_o (bit input 7 \<noteq> bit input 6) r))
      else (rcr_8_step ^^ unat count) (input, r))"

definition rcr_16_step :: "u16 \<times> i8088 \<Rightarrow> u16 \<times> i8088" where
  "rcr_16_step = (\<lambda>(input, r).
     (let temp_c = flag_c r;
          r = set_c (bit input 0) r;
          input = drop_bit 1 input;
          input = input OR push_bit 15 (of_bool temp_c)
      in (input, r)))"

definition i8088_rcr_16 :: "u16 \<Rightarrow> u8 \<Rightarrow> i8088 \<Rightarrow> u16 \<times> i8088" where
  "i8088_rcr_16 input count r =
     (if count = 0 then (input, r)
      else if count = 1
      then (let (input, r) = rcr_16_step (input, r) in (input, set_o (bit input 15 \<noteq> bit input 14) r))
      else (rcr_16_step ^^ unat count) (input, r))"

definition rol_8_step :: "u8 \<times> i8088 \<Rightarrow> u8 \<times> i8088" where
  "rol_8_step = (\<lambda>(input, r).
     (let r = set_c (bit input 7) r;
          input = push_bit 1 input;
          input = input OR of_bool (flag_c r)
      in (input, r)))"

definition i8088_rol_8 :: "u8 \<Rightarrow> u8 \<Rightarrow> i8088 \<Rightarrow> u8 \<times> i8088" where
  "i8088_rol_8 input count r =
     (if count = 0 then (input, r)
      else if count = 1
      then (let (input, r) = rol_8_step (input, r) in (input, set_o (bit input 7 \<noteq> flag_c r) r))
      else (rol_8_step ^^ unat count) (input, r))"

definition rol_16_step :: "u16 \<times> i8088 \<Rightarrow> u16 \<times> i8088" where
  "rol_16_step = (\<lambda>(input, r).
     (let r = set_c (bit input 15) r;
          input = push_bit 1 input;
          input = input OR of_bool (flag_c r)
      in (input, r)))"

definition i8088_rol_16 :: "u16 \<Rightarrow> u8 \<Rightarrow> i8088 \<Rightarrow> u16 \<times> i8088" where
  "i8088_rol_16 input count r =
     (if count = 0 then (input, r)
      else if count = 1
      then (let (input, r) = rol_16_step (input, r) in (input, set_o (bit input 15 \<noteq> flag_c r) r))
      else (rol_16_step ^^ unat count) (input, r))"

definition ror_8_step :: "u8 \<times> i8088 \<Rightarrow> u8 \<times> i8088" where
  "ror_8_step = (\<lambda>(input, r).
     (let r = set_c (bit input 0) r;
          input = drop_bit 1 input;
          input = input OR push_bit 7 (of_bool (flag_c r))
      in (input, r)))"

definition i8088_ror_8 :: "u8 \<Rightarrow> u8 \<Rightarrow> i8088 \<Rightarrow> u8 \<times> i8088" where
  "i8088_ror_8 input count r =
     (if count = 0 then (input, r)
      else if count = 1
      then (let (input, r) = ror_8_step (input, r) in (input, set_o (bit input 7 \<noteq> bit input 6) r))
      else (ror_8_step ^^ unat count) (input, r))"

definition ror_16_step :: "u16 \<times> i8088 \<Rightarrow> u16 \<times> i8088" where
  "ror_16_step = (\<lambda>(input, r).
     (let r = set_c (bit input 0) r;
          input = drop_bit 1 input;
          input = input OR push_bit 15 (of_bool (flag_c r))
      in (input, r)))"

definition i8088_ror_16 :: "u16 \<Rightarrow> u8 \<Rightarrow> i8088 \<Rightarrow> u16 \<times> i8088" where
  "i8088_ror_16 input count r =
     (if count = 0 then (input, r)
      else if count = 1
      then (let (input, r) = ror_16_step (input, r) in (input, set_o (bit input 15 \<noteq> bit input 14) r))
      else (ror_16_step ^^ unat count) (input, r))"

subsection \<open>Shifts\<close>

definition sar_8_step :: "u8 \<Rightarrow> u8 \<times> i8088 \<Rightarrow> u8 \<times> i8088" where
  "sar_8_step input = (\<lambda>(result, r).
     (let r = set_c (bit result 0) r;
          result = drop_bit 1 result;
          result = result OR (input AND 0x80)
      in (result, r)))"

definition i8088_sar_8 :: "u8 \<Rightarrow> u8 \<Rightarrow> i8088 \<Rightarrow> u8 \<times> i8088" where
  "i8088_sar_8 input count r =
     (if count = 0 then (input, r)
      else
       (let (result, r) =
          (if count = 1
           then (let (result, r) = sar_8_step input (input, r)
                 in (result, set_o (input AND 0x80 \<noteq> 0 \<and> \<not> result AND 0x80 \<noteq> 0) r))
           else (sar_8_step input ^^ unat count) (input, r));
         r = set_p (parity_even (ucast result)) r;
         r = set_s (bit result 7) r;
         r = set_z (result = 0) r
        in (result, r)))"

definition sar_16_step :: "u16 \<Rightarrow> u16 \<times> i8088 \<Rightarrow> u16 \<times> i8088" where
  "sar_16_step input = (\<lambda>(result, r).
     (let r = set_c (bit result 0) r;
          result = drop_bit 1 result;
          result = result OR (input AND 0x8000)
      in (result, r)))"

definition i8088_sar_16 :: "u16 \<Rightarrow> u8 \<Rightarrow> i8088 \<Rightarrow> u16 \<times> i8088" where
  "i8088_sar_16 input count r =
     (if count = 0 then (input, r)
      else
       (let (result, r) =
          (if count = 1
           then (let (result, r) = sar_16_step input (input, r)
                 in (result, set_o (input AND 0x8000 \<noteq> 0 \<and> \<not> result AND 0x8000 \<noteq> 0) r))
           else (sar_16_step input ^^ unat count) (input, r));
         r = set_p (parity_even result) r;
         r = set_s (bit result 15) r;
         r = set_z (result = 0) r
        in (result, r)))"

definition shl_8_step :: "u8 \<times> i8088 \<Rightarrow> u8 \<times> i8088" where
  "shl_8_step = (\<lambda>(input, r).
     (let r = set_c (bit input 7) r;
          input = push_bit 1 input
      in (input, r)))"

definition i8088_shl_8 :: "u8 \<Rightarrow> u8 \<Rightarrow> i8088 \<Rightarrow> u8 \<times> i8088" where
  "i8088_shl_8 input count r =
     (if count = 0 then (input, r)
      else
       (let (input, r) =
          (if count = 1
           then (let (input, r) = shl_8_step (input, r)
                 in (input, set_o (flag_c r \<noteq> bit input 7) r))
           else (shl_8_step ^^ unat count) (input, r));
         r = set_p (parity_even (ucast input)) r;
         r = set_s (bit input 7) r;
         r = set_z (input = 0) r
        in (input, r)))"

definition shl_16_step :: "u16 \<times> i8088 \<Rightarrow> u16 \<times> i8088" where
  "shl_16_step = (\<lambda>(input, r).
     (let r = set_c (bit input 15) r;
          input = push_bit 1 input
      in (input, r)))"

definition i8088_shl_16 :: "u16 \<Rightarrow> u16 \<Rightarrow> i8088 \<Rightarrow> u16 \<times> i8088" where
  "i8088_shl_16 input count r =
     (if count = 0 then (input, r)
      else
       (let (input, r) =
          (if count = 1
           then (let (input, r) = shl_16_step (input, r)
                 in (input, set_o (flag_c r \<noteq> bit input 15) r))
           else (shl_16_step ^^ unat count) (input, r));
         r = set_p (parity_even input) r;
         r = set_s (bit input 15) r;
         r = set_z (input = 0) r
        in (input, r)))"

definition shr_8_step :: "u8 \<times> i8088 \<Rightarrow> u8 \<times> i8088" where
  "shr_8_step = (\<lambda>(result, r).
     (let r = set_c (bit result 0) r;
          result = drop_bit 1 result
      in (result, r)))"

definition i8088_shr_8 :: "u8 \<Rightarrow> u8 \<Rightarrow> i8088 \<Rightarrow> u8 \<times> i8088" where
  "i8088_shr_8 input count r =
     (if count = 0 then (input, r)
      else
       (let (result, r) =
          (if count = 1
           then (let (result, r) = shr_8_step (input, r)
                 in (result, set_o (input AND 0x80 \<noteq> 0 \<and> \<not> result AND 0x80 \<noteq> 0) r))
           else (shr_8_step ^^ unat count) (input, r));
         r = set_p (parity_even (ucast result)) r;
         r = set_s (bit result 7) r;
         r = set_z (result = 0) r
        in (result, r)))"

definition shr_16_step :: "u16 \<times> i8088 \<Rightarrow> u16 \<times> i8088" where
  "shr_16_step = (\<lambda>(result, r).
     (let r = set_c (bit result 0) r;
          result = drop_bit 1 result
      in (result, r)))"

definition i8088_shr_16 :: "u16 \<Rightarrow> u8 \<Rightarrow> i8088 \<Rightarrow> u16 \<times> i8088" where
  "i8088_shr_16 input count r =
     (if count = 0 then (input, r)
      else
       (let (result, r) =
          (if count = 1
           then (let (result, r) = shr_16_step (input, r)
                 in (result, set_o (input AND 0x8000 \<noteq> 0 \<and> \<not> result AND 0x8000 \<noteq> 0) r))
           else (shr_16_step ^^ unat count) (input, r));
         r = set_p (parity_even result) r;
         r = set_s (bit result 15) r;
         r = set_z (result = 0) r
        in (result, r)))"

subsection \<open>The loops as word operations\<close>

text \<open>A step that transforms the operand and moves one of its bits to the carry, iterated.\<close>

lemma funpow_carry:
  assumes "\<And>x r. step (x, r) = (f x, set_c (p x) r)"
  shows "(step ^^ n) (x, r) = ((f ^^ n) x, if n = 0 then r else set_c (p ((f ^^ (n - 1)) x)) r)"
proof (induction n)
  case (Suc n)
  then show ?case by (cases n) (simp_all add: assms)
qed simp

lemma word_rot_0: "word_rotl 0 (x::'a::len word) = x" "word_rotr 0 (x::'a::len word) = x"
  by (auto intro!: bit_word_eqI simp: bit_word_rotl_iff bit_word_rotr_iff)

lemma rotl_roti: "word_rotl n (x::'a::len word) = word_roti (- int n) x"
  and rotr_roti: "word_rotr n (x::'a::len word) = word_roti (int n) x"
  by (auto simp: word_roti_eq_word_rotr_word_rotl word_rot_0)

lemma rot_Suc:
  "word_rotl (Suc n) (x::'a::len word) = word_rotl 1 (word_rotl n x)"
  "word_rotr (Suc n) (x::'a::len word) = word_rotr 1 (word_rotr n x)"
proof -
  have "- int (Suc n) = - int 1 + - int n" "int (Suc n) = int 1 + int n" by simp_all
  then show "word_rotl (Suc n) x = word_rotl 1 (word_rotl n x)"
    "word_rotr (Suc n) x = word_rotr 1 (word_rotr n x)"
    unfolding rotl_roti rotr_roti by (simp_all only: word_roti_add)
qed

lemma funpow_rotl: "(word_rotl 1 ^^ n) (x::'a::len word) = word_rotl n x"
  by (induction n) (simp_all only: funpow.simps o_apply id_apply word_rot_0 rot_Suc)

lemma funpow_rotr: "(word_rotr 1 ^^ n) (x::'a::len word) = word_rotr n x"
  by (induction n) (simp_all only: funpow.simps o_apply id_apply word_rot_0 rot_Suc)

lemma funpow_push_bit: "(push_bit 1 ^^ n) (x::'a::len word) = push_bit n x"
  by (induction n) (simp_all add: push_bit_push_bit del: push_bit_Suc)

lemma funpow_drop_bit: "(drop_bit 1 ^^ n) (x::'a::len word) = drop_bit n x"
  by (induction n) (simp_all add: drop_bit_drop_bit del: drop_bit_Suc)

lemma funpow_signed_drop_bit: "(signed_drop_bit 1 ^^ n) (x::'a::len word) = signed_drop_bit n x"
  by (induction n) (simp_all add: signed_drop_bit_signed_drop_bit)

lemma rotl_1: "word_rotl 1 (x::'a::len word) = push_bit 1 x OR of_bool (bit x (LENGTH('a) - 1))"
proof (rule bit_word_eqI)
  fix k assume k: "k < LENGTH('a)"
  show "bit (word_rotl 1 x) k = bit (push_bit 1 x OR of_bool (bit x (LENGTH('a) - 1))) k"
  proof (cases k)
    case 0
    then show ?thesis using k
      by (cases "LENGTH('a) = 1")
        (simp_all only: bit_word_rotl_iff bit_or_iff bit_push_bit_iff bit_of_bool_iff, simp_all)
  next
    case (Suc j)
    have "(k + (LENGTH('a) - 1 mod LENGTH('a))) mod LENGTH('a) = j"
      using k Suc by (simp add: le_mod_geq)
    then show ?thesis using k Suc
      by (simp only: bit_word_rotl_iff bit_or_iff bit_push_bit_iff bit_of_bool_iff) simp
  qed
qed

lemma rotr_1: "word_rotr 1 (x::'a::len word) =
    drop_bit 1 x OR push_bit (LENGTH('a) - 1) (of_bool (bit x 0))"
proof (rule bit_word_eqI)
  fix k assume k: "k < LENGTH('a)"
  show "bit (word_rotr 1 x) k =
      bit (drop_bit 1 x OR push_bit (LENGTH('a) - 1) (of_bool (bit x 0))) k"
  proof (cases "k = LENGTH('a) - 1")
    case True
    then show ?thesis using k
      by (simp add: bit_word_rotr_iff bit_or_iff bit_push_bit_iff bit_of_bool_iff bit_drop_bit_eq
        impossible_bit)
  next
    case False
    then show ?thesis using k
      by (auto simp: bit_word_rotr_iff bit_or_iff bit_push_bit_iff bit_of_bool_iff bit_drop_bit_eq)
  qed
qed

lemma rol_steps:
  "rol_8_step (x, r) = (word_rotl 1 x, set_c (bit x 7) r)"
  "rol_16_step (y, r) = (word_rotl 1 y, set_c (bit y 15) r)"
  unfolding rol_8_step_def rol_16_step_def rotl_1 Let_def prod.case by simp_all

lemma ror_steps:
  "ror_8_step (x, r) = (word_rotr 1 x, set_c (bit x 0) r)"
  "ror_16_step (y, r) = (word_rotr 1 y, set_c (bit y 0) r)"
  unfolding ror_8_step_def ror_16_step_def rotr_1 Let_def prod.case by simp_all

lemma shl_steps:
  "shl_8_step (x, r) = (push_bit 1 x, set_c (bit x 7) r)"
  "shl_16_step (y, r) = (push_bit 1 y, set_c (bit y 15) r)"
  by (simp_all add: shl_8_step_def shl_16_step_def)

lemma shr_steps:
  "shr_8_step (x, r) = (drop_bit 1 x, set_c (bit x 0) r)"
  "shr_16_step (y, r) = (drop_bit 1 y, set_c (bit y 0) r)"
  by (simp_all add: shr_8_step_def shr_16_step_def)


lemma signed_drop_1:
  "signed_drop_bit 1 (x::'a::len word) = drop_bit 1 x OR (x AND push_bit (LENGTH('a) - 1) 1)"
proof (rule bit_word_eqI)
  fix k assume k: "k < LENGTH('a)"
  show "bit (signed_drop_bit 1 x) k = bit (drop_bit 1 x OR (x AND push_bit (LENGTH('a) - 1) 1)) k"
  proof (cases "k = LENGTH('a) - 1")
    case True
    then show ?thesis using k
      by (simp add: bit_signed_drop_bit_iff bit_or_iff bit_and_iff bit_exp_iff
        bit_drop_bit_eq impossible_bit)
  next
    case False
    then have "\<not> LENGTH('a) - 1 \<le> k" using k by auto
    then show ?thesis using k False
      by (simp add: bit_signed_drop_bit_iff bit_or_iff bit_and_iff bit_exp_iff
        bit_drop_bit_eq)
  qed
qed

lemma signed_drop_top:
  "signed_drop_bit n (x::'a::len word) AND push_bit (LENGTH('a) - 1) 1 =
   x AND push_bit (LENGTH('a) - 1) 1"
proof (rule bit_word_eqI)
  fix k assume k: "k < LENGTH('a)"
  show "bit (signed_drop_bit n x AND push_bit (LENGTH('a) - 1) 1) k =
      bit (x AND push_bit (LENGTH('a) - 1) 1) k"
  proof (cases "k = LENGTH('a) - 1")
    case True
    have "bit (signed_drop_bit n x) (LENGTH('a) - 1) = bit x (LENGTH('a) - 1)"
      by (cases n) (auto simp: bit_signed_drop_bit_iff)
    then show ?thesis using True by (simp add: bit_and_iff)
  next
    case False
    then have "\<not> LENGTH('a) - 1 \<le> k" using k by auto
    then show ?thesis using False by (simp add: bit_and_iff bit_exp_iff)
  qed
qed

text \<open>The step of the arithmetic shift keeps the sign of the operand it started from.\<close>

lemma sar_steps:
  "sar_8_step x (signed_drop_bit n x, r) =
     (signed_drop_bit (Suc n) x, set_c (bit (signed_drop_bit n x) 0) r)"
  "sar_16_step y (signed_drop_bit n y, r) =
     (signed_drop_bit (Suc n) y, set_c (bit (signed_drop_bit n y) 0) r)"
proof -
  have d: "signed_drop_bit (Suc n) w = signed_drop_bit 1 (signed_drop_bit n w)"
    for n and w :: "'b::len word"
    by (simp add: signed_drop_bit_signed_drop_bit)
  have "drop_bit 1 (signed_drop_bit n x) OR (x AND 0x80) = signed_drop_bit (Suc n) x"
    "drop_bit 1 (signed_drop_bit n y) OR (y AND 0x8000) = signed_drop_bit (Suc n) y"
    unfolding d signed_drop_1 signed_drop_top by simp_all
  then show "sar_8_step x (signed_drop_bit n x, r) =
     (signed_drop_bit (Suc n) x, set_c (bit (signed_drop_bit n x) 0) r)"
    "sar_16_step y (signed_drop_bit n y, r) =
     (signed_drop_bit (Suc n) y, set_c (bit (signed_drop_bit n y) 0) r)"
    unfolding sar_8_step_def sar_16_step_def Let_def prod.case by simp_all
qed

lemma funpow_sar:
  "(sar_8_step x ^^ n) (x, r) =
     (signed_drop_bit n x, if n = 0 then r else set_c (bit (signed_drop_bit (n - 1) x) 0) r)"
  "(sar_16_step y ^^ n) (y, r) =
     (signed_drop_bit n y, if n = 0 then r else set_c (bit (signed_drop_bit (n - 1) y) 0) r)"
  by (induction n) (simp_all add: sar_steps)

lemmas funpow_steps =
  funpow_carry [of rol_8_step, OF rol_steps(1), unfolded funpow_rotl]
  funpow_carry [of rol_16_step, OF rol_steps(2), unfolded funpow_rotl]
  funpow_carry [of ror_8_step, OF ror_steps(1), unfolded funpow_rotr]
  funpow_carry [of ror_16_step, OF ror_steps(2), unfolded funpow_rotr]
  funpow_carry [of shl_8_step, OF shl_steps(1), unfolded funpow_push_bit]
  funpow_carry [of shl_16_step, OF shl_steps(2), unfolded funpow_push_bit]
  funpow_carry [of shr_8_step, OF shr_steps(1), unfolded funpow_drop_bit]
  funpow_carry [of shr_16_step, OF shr_steps(2), unfolded funpow_drop_bit]
  funpow_sar

text \<open>Rotating through the carry rotates the operand and the carry together.\<close>

definition carry_cat_8 :: "u8 \<times> i8088 \<Rightarrow> 9 word" where
  "carry_cat_8 = (\<lambda>(x, r). ucast x OR push_bit 8 (of_bool (flag_c r)))"

definition carry_cat_16 :: "u16 \<times> i8088 \<Rightarrow> 17 word" where
  "carry_cat_16 = (\<lambda>(x, r). ucast x OR push_bit 16 (of_bool (flag_c r)))"

lemma bit_carry_cat:
  "bit (carry_cat_8 (x, r)) k \<longleftrightarrow> (if k < 8 then bit x k else k = 8 \<and> flag_c r)"
  "bit (carry_cat_16 (y, r)) k \<longleftrightarrow> (if k < 16 then bit y k else k = 16 \<and> flag_c r)"
  unfolding carry_cat_8_def carry_cat_16_def prod.case
  by (auto simp: bit_or_iff bit_ucast_iff bit_push_bit_iff bit_of_bool_iff
    simp del: push_bit_of_1 push_bit_numeral of_bool_eq dest: bit_imp_le_length)

lemma rotl_1_bit: "bit (word_rotl 1 (x::'a::len word)) k \<longleftrightarrow>
    k < LENGTH('a) \<and> (if k = 0 then bit x (LENGTH('a) - 1) else bit x (k - 1))"
  unfolding rotl_1 by (simp only: bit_or_iff bit_push_bit_iff bit_of_bool_iff)
    (auto dest: bit_imp_le_length)

lemma rotr_1_bit: "bit (word_rotr 1 (x::'a::len word)) k \<longleftrightarrow>
    k < LENGTH('a) \<and> (if k = LENGTH('a) - 1 then bit x 0 else bit x (Suc k))"
  by (auto simp: bit_word_rotr_iff)

lemma less_9_17: "(k::nat) < 9 \<longleftrightarrow> k < 8 \<or> k = 8" "(k::nat) < 17 \<longleftrightarrow> k < 16 \<or> k = 16"
  "k < 8 \<longleftrightarrow> k < 7 \<or> k = 7" "k < 16 \<longleftrightarrow> k < 15 \<or> k = 15"
  by auto

lemma rcl_steps:
  "carry_cat_8 (rcl_8_step p) = word_rotl 1 (carry_cat_8 p)"
  "carry_cat_16 (rcl_16_step q) = word_rotl 1 (carry_cat_16 q)"
proof -
  show "carry_cat_8 (rcl_8_step p) = word_rotl 1 (carry_cat_8 p)"
    unfolding rcl_8_step_def Let_def
    by (cases p, rule bit_word_eqI)
      (simp only: prod.case bit_carry_cat rotl_1_bit bit_or_iff bit_push_bit_iff bit_of_bool_iff,
        auto simp: less_9_17(1,2))
  show "carry_cat_16 (rcl_16_step q) = word_rotl 1 (carry_cat_16 q)"
    unfolding rcl_16_step_def Let_def
    by (cases q, rule bit_word_eqI)
      (simp only: prod.case bit_carry_cat rotl_1_bit bit_or_iff bit_push_bit_iff bit_of_bool_iff,
        auto simp: less_9_17(1,2))
qed

lemma rcr_steps:
  "carry_cat_8 (rcr_8_step p) = word_rotr 1 (carry_cat_8 p)"
  "carry_cat_16 (rcr_16_step q) = word_rotr 1 (carry_cat_16 q)"
proof -
  show "carry_cat_8 (rcr_8_step p) = word_rotr 1 (carry_cat_8 p)"
    unfolding rcr_8_step_def Let_def
    by (cases p, rule bit_word_eqI)
      (simp only: prod.case bit_carry_cat rotr_1_bit bit_or_iff bit_push_bit_iff bit_of_bool_iff
        bit_drop_bit_eq, auto simp: less_9_17 dest: bit_imp_le_length)
  show "carry_cat_16 (rcr_16_step q) = word_rotr 1 (carry_cat_16 q)"
    unfolding rcr_16_step_def Let_def
    by (cases q, rule bit_word_eqI)
      (simp only: prod.case bit_carry_cat rotr_1_bit bit_or_iff bit_push_bit_iff bit_of_bool_iff
        bit_drop_bit_eq, auto simp: less_9_17 dest: bit_imp_le_length)
qed

lemma funpow_homo:
  assumes "\<And>p. h (step p) = g (h p)"
  shows "h ((step ^^ n) p) = (g ^^ n) (h p)"
  by (induction n) (simp_all add: assms)

lemmas funpow_rcl_rcr =
  funpow_homo [of carry_cat_8 rcl_8_step, OF rcl_steps(1), unfolded funpow_rotl]
  funpow_homo [of carry_cat_16 rcl_16_step, OF rcl_steps(2), unfolded funpow_rotl]
  funpow_homo [of carry_cat_8 rcr_8_step, OF rcr_steps(1), unfolded funpow_rotr]
  funpow_homo [of carry_cat_16 rcr_16_step, OF rcr_steps(2), unfolded funpow_rotr]

lemma carry_cat_set_o [simp]:
  "carry_cat_8 (x, set_o b r) = carry_cat_8 (x, r)"
  "carry_cat_16 (y, set_o b r) = carry_cat_16 (y, r)"
  by (simp_all add: carry_cat_8_def carry_cat_16_def)

lemma carry_cat_inj:
  "carry_cat_8 (x, r) = carry_cat_8 (y, s) \<longleftrightarrow> x = y \<and> flag_c r = flag_c s"
  "carry_cat_16 (v, r) = carry_cat_16 (w, s) \<longleftrightarrow> v = w \<and> flag_c r = flag_c s"
proof -
  show "carry_cat_8 (x, r) = carry_cat_8 (y, s) \<longleftrightarrow> x = y \<and> flag_c r = flag_c s"
  proof
    assume "carry_cat_8 (x, r) = carry_cat_8 (y, s)"
    then have b: "bit (carry_cat_8 (x, r)) k = bit (carry_cat_8 (y, s)) k" for k by simp
    have "bit x k = bit y k" if "k < 8" for k
      using b [of k] that by (simp add: bit_carry_cat)
    then have "x = y" by (intro bit_word_eqI) simp
    with b [of 8] show "x = y \<and> flag_c r = flag_c s" by (simp add: bit_carry_cat)
  qed (simp add: carry_cat_8_def)
  show "carry_cat_16 (v, r) = carry_cat_16 (w, s) \<longleftrightarrow> v = w \<and> flag_c r = flag_c s"
  proof
    assume "carry_cat_16 (v, r) = carry_cat_16 (w, s)"
    then have b: "bit (carry_cat_16 (v, r)) k = bit (carry_cat_16 (w, s)) k" for k by simp
    have "bit v k = bit w k" if "k < 16" for k
      using b [of k] that by (simp add: bit_carry_cat)
    then have "v = w" by (intro bit_word_eqI) simp
    with b [of 16] show "v = w \<and> flag_c r = flag_c s" by (simp add: bit_carry_cat)
  qed (simp add: carry_cat_16_def)
qed


lemma rot_carry:
  assumes "n \<noteq> 0"
  shows "bit (word_rotl (n - 1) (x::'a::len word)) (LENGTH('a) - 1) = bit (word_rotl n x) 0"
    and "bit (word_rotr (n - 1) x) 0 = bit (word_rotr n x) (LENGTH('a) - 1)"
proof -
  obtain m where "n = Suc m" using assms not0_implies_Suc by blast
  then show "bit (word_rotl (n - 1) x) (LENGTH('a) - 1) = bit (word_rotl n x) 0"
    "bit (word_rotr (n - 1) x) 0 = bit (word_rotr n x) (LENGTH('a) - 1)"
    by (simp_all only: rot_Suc rotl_1_bit rotr_1_bit) simp_all
qed

lemma unat_pos: "n \<noteq> 0 \<Longrightarrow> unat n \<noteq> 0" for n :: "'a::len word"
  by (simp add: unat_eq_zero)

lemma rot_carry_unat:
  fixes n x :: u8 and y :: u16
  assumes "n \<noteq> 0"
  shows "bit (word_rotl (unat n - Suc 0) x) 7 = bit (word_rotl (unat n) x) 0"
    "bit (word_rotl (unat n - Suc 0) y) 15 = bit (word_rotl (unat n) y) 0"
    "bit (word_rotr (unat n - Suc 0) x) 0 = bit (word_rotr (unat n) x) 7"
    "bit (word_rotr (unat n - Suc 0) y) 0 = bit (word_rotr (unat n) y) 15"
  using rot_carry [OF unat_pos [OF assms], of x] rot_carry [OF unat_pos [OF assms], of y]
  by simp_all

lemma rot_1_bits:
  "bit (word_rotl (Suc 0) (x::u8)) 0 = bit x 7" "bit (word_rotl (Suc 0) (y::u16)) 0 = bit y 15"
  "bit (word_rotr (Suc 0) x) 7 = bit x 0" "bit (word_rotr (Suc 0) y) 15 = bit y 0"
  using rotl_1_bit [of x 0] rotl_1_bit [of y 0] rotr_1_bit [of x 7] rotr_1_bit [of y 15]
  by simp_all

lemma rcl_rcr_8:
  "carry_cat_8 (i8088_rcl_8 x n r) = word_rotl (unat n) (carry_cat_8 (x, r))"
  "carry_cat_8 (i8088_rcr_8 x n r) = word_rotr (unat n) (carry_cat_8 (x, r))"
  by (simp_all add: i8088_rcl_8_def i8088_rcr_8_def Let_def funpow_rcl_rcr case_prod_beta
      word_rot_0 rcl_steps rcr_steps del: One_nat_def)

lemma rcl_rcr_16:
  "carry_cat_16 (i8088_rcl_16 x n r) = word_rotl (unat n) (carry_cat_16 (x, r))"
  "carry_cat_16 (i8088_rcr_16 x n r) = word_rotr (unat n) (carry_cat_16 (x, r))"
  by (simp_all add: i8088_rcl_16_def i8088_rcr_16_def Let_def funpow_rcl_rcr case_prod_beta
      word_rot_0 rcl_steps rcr_steps del: One_nat_def)

lemma rcl_then_rcr_8:
  assumes "i8088_rcl_8 x n r = (x', r')" and "i8088_rcr_8 x' n r' = (x'', r'')"
  shows "x'' = x \<and> flag_c r'' = flag_c r"
  using rcl_rcr_8(1) [of x n r] rcl_rcr_8(2) [of x' n r']
  by (simp add: assms word_rot_lr carry_cat_inj)

lemma rcl_then_rcr_16:
  assumes "i8088_rcl_16 x n r = (x', r')" and "i8088_rcr_16 x' n r' = (x'', r'')"
  shows "x'' = x \<and> flag_c r'' = flag_c r"
  using rcl_rcr_16(1) [of x n r] rcl_rcr_16(2) [of x' n r']
  by (simp add: assms word_rot_lr carry_cat_inj)

subsection \<open>Properties\<close>

text \<open>C12. \<open>ROL\<close> and \<open>ROR\<close>: for every count from 0 to 255 the loop rotates the operand by that
  many places, and after at least one step CF is the bit that went around: the low bit of the
  result of \<open>ROL\<close>, the high bit of the result of \<open>ROR\<close>.\<close>

theorem i8088_rol_ror_rotate:
  "fst (i8088_rol_8 x n r) = word_rotl (unat n) x \<and>
   flag_c (snd (i8088_rol_8 x n r)) =
     (if n = 0 then flag_c r else bit (word_rotl (unat n) x) 0) \<and>
   fst (i8088_rol_16 y n r) = word_rotl (unat n) y \<and>
   flag_c (snd (i8088_rol_16 y n r)) =
     (if n = 0 then flag_c r else bit (word_rotl (unat n) y) 0) \<and>
   fst (i8088_ror_8 x n r) = word_rotr (unat n) x \<and>
   flag_c (snd (i8088_ror_8 x n r)) =
     (if n = 0 then flag_c r else bit (word_rotr (unat n) x) 7) \<and>
   fst (i8088_ror_16 y n r) = word_rotr (unat n) y \<and>
   flag_c (snd (i8088_ror_16 y n r)) =
     (if n = 0 then flag_c r else bit (word_rotr (unat n) y) 15)"
  by (simp add: i8088_rol_8_def i8088_rol_16_def i8088_ror_8_def i8088_ror_16_def Let_def
      funpow_steps rol_steps ror_steps word_rot_0 rot_1_bits rot_carry_unat unat_pos)

text \<open>C10. \<open>RCL\<close> and \<open>RCR\<close> rotate the operand together with the carry, as a word of one more bit,
  by the count; so rotating back by the same count restores operand and carry.\<close>

theorem i8088_rcl_rcr_rotate:
  "carry_cat_8 (i8088_rcl_8 x n r) = word_rotl (unat n) (carry_cat_8 (x, r)) \<and>
   carry_cat_16 (i8088_rcl_16 y n r) = word_rotl (unat n) (carry_cat_16 (y, r)) \<and>
   carry_cat_8 (i8088_rcr_8 x n r) = word_rotr (unat n) (carry_cat_8 (x, r)) \<and>
   carry_cat_16 (i8088_rcr_16 y n r) = word_rotr (unat n) (carry_cat_16 (y, r)) \<and>
   (case i8088_rcl_8 x n r of (x', r') \<Rightarrow> case i8088_rcr_8 x' n r' of (x'', r'') \<Rightarrow>
      x'' = x \<and> flag_c r'' = flag_c r) \<and>
   (case i8088_rcl_16 y n r of (y', r') \<Rightarrow> case i8088_rcr_16 y' n r' of (y'', r'') \<Rightarrow>
      y'' = y \<and> flag_c r'' = flag_c r)"
  by (intro conjI rcl_rcr_8 rcl_rcr_16)
    (auto dest: rcl_then_rcr_8 rcl_then_rcr_16 split: prod.split)

text \<open>C18. The 16-bit shifts by any count: \<open>SHL\<close> multiplies by a power of two modulo 65536,
  \<open>SHR\<close> divides the unsigned and \<open>SAR\<close> the signed operand by it, rounding down; the results
  are right also for counts beyond the operand width. CF is the last bit shifted out.\<close>

theorem i8088_shift_16_correct:
  "unat (fst (i8088_shl_16 x k r)) = unat x * 2 ^ unat k mod 65536 \<and>
   unat (fst (i8088_shr_16 x n r)) = unat x div 2 ^ unat n \<and>
   sint (fst (i8088_sar_16 x n r)) = sint x div 2 ^ unat n \<and>
   flag_c (snd (i8088_shl_16 x k r)) =
     (if k = 0 then flag_c r else unat k \<le> 16 \<and> bit x (16 - unat k)) \<and>
   flag_c (snd (i8088_shr_16 x n r)) = (if n = 0 then flag_c r else bit x (unat n - 1)) \<and>
   flag_c (snd (i8088_sar_16 x n r)) = (if n = 0 then flag_c r else bit (sint x) (unat n - 1))"
proof -
  have l: "unat (push_bit m x) = unat x * 2 ^ m mod 65536" for m
    by (simp only: unsigned_push_bit_eq take_bit_eq_mod) (simp add: push_bit_eq_mult)
  have r: "unat (drop_bit m x) = unat x div 2 ^ m" for m
    using unat_u16 [of x]
    by (simp only: unsigned_drop_bit_eq) (simp add: drop_bit_eq_div take_bit_nat_eq_self
      order_le_less_trans [OF div_le_dividend])
  have s: "sint (signed_drop_bit m x) = sint x div 2 ^ m" for m
    by (simp add: sint_signed_drop_bit_eq drop_bit_eq_div)
  have b: "bit (push_bit (m - Suc 0) x) 15 \<longleftrightarrow> m \<le> 16 \<and> bit x (16 - m)" if "m \<noteq> 0" for m
    using that by (auto simp: bit_push_bit_iff)
  have e: "bit (signed_drop_bit m x) 0 \<longleftrightarrow> bit (sint x) m" for m
  proof -
    have "bit (sint (signed_drop_bit m x)) 0 = bit (signed_drop_bit m x) 0"
      by (simp add: bit_sint_iff)
    then show ?thesis
      by (simp add: sint_signed_drop_bit_eq bit_drop_bit_eq)
  qed
  have st: "sar_16_step x (x, r) = (signed_drop_bit 1 x, set_c (bit x 0) r)"
    using sar_steps(2) [of x 0 r] by simp
  have d: "bit (drop_bit m x) 0 = bit x m" for m
    by (simp add: bit_drop_bit_eq)
  show ?thesis
    using l [of 0] l [of 1] r [of 1] s [of 1] e [of 0]
    by (simp add: i8088_shl_16_def i8088_shr_16_def i8088_sar_16_def Let_def case_prod_beta
        funpow_steps shl_steps shr_steps st l r s b d e unat_pos)
qed

text \<open>The byte shifts set the result flags from the result and, for a count of one, OF from
  the change of sign; a count of zero changes nothing at all.\<close>

theorem i8088_shift_8_flags:
  "(case i8088_shl_8 x n r of (res, r') \<Rightarrow>
     if n = 0 then res = x \<and> r' = r
     else res = push_bit (unat n) x \<and> (flag_z r' \<longleftrightarrow> res = 0) \<and> (flag_s r' \<longleftrightarrow> sint res < 0) \<and>
       (flag_p r' \<longleftrightarrow> even (card {i. i < 8 \<and> bit res i})) \<and>
       flag_o r' = (if n = 1 then bit x 7 \<noteq> bit res 7 else flag_o r) \<and>
       r'\<lparr>flags := flags r\<rparr> = r) \<and>
   (case i8088_sar_8 x n r of (res, r') \<Rightarrow>
     if n = 0 then res = x \<and> r' = r
     else res = signed_drop_bit (unat n) x \<and> (flag_z r' \<longleftrightarrow> res = 0) \<and>
       (flag_s r' \<longleftrightarrow> sint res < 0) \<and>
       (flag_p r' \<longleftrightarrow> even (card {i. i < 8 \<and> bit res i})) \<and>
       flag_o r' = (if n = 1 then False else flag_o r) \<and>
       r'\<lparr>flags := flags r\<rparr> = r)"
proof -
  have s: "sar_8_step x (x, r) = (signed_drop_bit 1 x, set_c (bit x 0) r)"
    using sar_steps(1) [of x 0 r] by simp
  have o: "\<not> (bit x 7 \<and> \<not> bit (signed_drop_bit (Suc 0) x) 7)"
    by (auto simp: bit_signed_drop_bit_iff)
  show ?thesis
    using o by (simp add: i8088_shl_8_def i8088_sar_8_def Let_def case_prod_beta funpow_steps
        shl_steps s sign_8 [symmetric] parity_even_byte mask_bit_simps unat_pos)
qed

end
