(* ===== verification/Machine.thy ===== *)
theory Machine
  imports Memory Alu_Shift
begin

unbundle bit_operations_syntax

text \<open>
  The processor on the bus: the machine state, instruction fetch, the stack, interrupts, the
  divide instructions (which can interrupt) and the I/O port table of io.c. A computation that
  only touches the registers is lifted with \<open>getc\<close>, \<open>modc\<close> and \<open>alu\<close>.
\<close>

subsection \<open>The machine state\<close>

record machine = bus +
  cpu :: i8088

definition getc :: "(i8088 \<Rightarrow> 'x) \<Rightarrow> ('a machine_scheme, 'x) state" where
  "getc f = gets (\<lambda>s. f (cpu s))"

definition modc :: "(i8088 \<Rightarrow> i8088) \<Rightarrow> ('a machine_scheme, unit) state" where
  "modc f = modify (\<lambda>s. s\<lparr>cpu := f (cpu s)\<rparr>)"

definition alu :: "(i8088 \<Rightarrow> 'x \<times> i8088) \<Rightarrow> ('a machine_scheme, 'x) state" where
  "alu f = do { x \<leftarrow> getc (\<lambda>r. fst (f r)); modc (\<lambda>r. snd (f r)); return x }"

lemma run_state_getc [simp]: "run_state (getc f) s = (f (cpu s), s)"
  by (simp add: getc_def)

lemma run_state_modc [simp]: "run_state (modc f) s = ((), s\<lparr>cpu := f (cpu s)\<rparr>)"
  by (simp add: modc_def)

lemma run_state_alu [simp]:
  "run_state (alu f) s = (fst (f (cpu s)), s\<lparr>cpu := snd (f (cpu s))\<rparr>)"
  by (simp add: alu_def)

lemma cpu_only_mem [frame_intros]:
  "preserves mem (getc f)" "preserves mem (modc g)" "preserves mem (alu h)"
  by (simp_all add: preserves_def)

lemma cpu_only_rom [frame_intros]:
  "preserves rom_view (getc f)" "preserves rom_view (modc g)" "preserves rom_view (alu h)"
  by (simp_all add: preserves_def rom_view_def)

subsection \<open>The I/O port table\<close>

text \<open>
  io.c holds for every port a read and a write hook: a function pointer and the device it is
  called on. A hook is modelled as the computation it performs, \<open>None\<close> is the null pointer.
\<close>

record 's io_t =
  io_read_hook :: "u16 \<Rightarrow> (u16 \<Rightarrow> ('s, u8) state) option"
  io_write_hook :: "u16 \<Rightarrow> (u16 \<Rightarrow> u8 \<Rightarrow> ('s, unit) state) option"

definition io_init :: "'s io_t" where
  "io_init = \<lparr>io_read_hook = (\<lambda>_. None), io_write_hook = (\<lambda>_. None)\<rparr>"

definition io_read :: "'s io_t \<Rightarrow> u16 \<Rightarrow> ('s, u8) state" where
  "io_read io port =
     (case io_read_hook io port of Some func \<Rightarrow> func port | None \<Rightarrow> return 0xFF)"

definition io_write :: "'s io_t \<Rightarrow> u16 \<Rightarrow> u8 \<Rightarrow> ('s, unit) state" where
  "io_write io port value =
     (case io_write_hook io port of Some func \<Rightarrow> func port value | None \<Rightarrow> return ())"

text \<open>The devices behind a port table leave \<open>f\<close> alone.\<close>

definition io_preserves :: "('s \<Rightarrow> 'b) \<Rightarrow> 's io_t \<Rightarrow> bool" where
  "io_preserves f io \<longleftrightarrow>
     (\<forall>port func. io_read_hook io port = Some func \<longrightarrow> preserves f (func port)) \<and>
     (\<forall>port func value. io_write_hook io port = Some func \<longrightarrow> preserves f (func port value))"

lemma io_read_preserves: "io_preserves f io \<Longrightarrow> preserves f (io_read io port)"
  by (auto simp: io_preserves_def io_read_def preserves_return split: option.split)

lemma io_write_preserves: "io_preserves f io \<Longrightarrow> preserves f (io_write io port value)"
  by (auto simp: io_preserves_def io_write_def preserves_return split: option.split)

lemma io_preserves_init: "io_preserves f io_init"
  by (simp add: io_preserves_def io_init_def)

subsection \<open>Instruction fetch\<close>

definition fetch :: "('a machine_scheme, u8) state" where
  "fetch = do {
     sg \<leftarrow> getc cs;
     off \<leftarrow> getc ip;
     mc \<leftarrow> mem_read_by_segment sg off;
     modc (\<lambda>r. r\<lparr>ip := ip r + 1\<rparr>);
     return mc
   }"

text \<open>\<open>x = fetch(cpu, mem); x += fetch(cpu, mem) * 0x100;\<close>\<close>

definition fetch_16 :: "('a machine_scheme, u16) state" where
  "fetch_16 = do { lo \<leftarrow> fetch; hi \<leftarrow> fetch; return (word16 lo hi) }"

text \<open>The byte of the code segment at an offset.\<close>

definition code_byte :: "'a machine_scheme \<Rightarrow> u16 \<Rightarrow> u8" where
  "code_byte s off = mem_get (mem s) (phys (cs (cpu s)) off)"

lemma run_fetch [simp]:
  "run_state fetch s = (code_byte s (ip (cpu s)), s\<lparr>cpu := (cpu s)\<lparr>ip := ip (cpu s) + 1\<rparr>\<rparr>)"
  by (simp add: fetch_def code_byte_def)

lemma code_byte_cpu [simp]:
  "cs r = cs (cpu s) \<Longrightarrow> code_byte (s\<lparr>cpu := r\<rparr>) off = code_byte s off"
  by (simp add: code_byte_def)

lemma run_fetch_16 [simp]:
  "run_state fetch_16 s =
     (word16 (code_byte s (ip (cpu s))) (code_byte s (ip (cpu s) + 1)),
      s\<lparr>cpu := (cpu s)\<lparr>ip := ip (cpu s) + 2\<rparr>\<rparr>)"
  by (simp add: fetch_16_def)

lemma fetch_frame [frame_intros]:
  "preserves mem fetch" "preserves mem fetch_16"
  "preserves rom_view fetch" "preserves rom_view fetch_16"
  by (simp_all add: preserves_def rom_view_def)

subsection \<open>Words in memory\<close>

text \<open>\<open>x = mem_read_by_segment(mem, seg, off); x += mem_read_by_segment(mem, seg, off+1) * 0x100;\<close>
  and the pair of writes that stores a word. The offset wraps in the segment.\<close>

definition mem_read_16 :: "u16 \<Rightarrow> u16 \<Rightarrow> ('a bus_scheme, u16) state" where
  "mem_read_16 segment offset = do {
     lo \<leftarrow> mem_read_by_segment segment offset;
     hi \<leftarrow> mem_read_by_segment segment (offset + 1);
     return (word16 lo hi)
   }"

definition mem_write_16 :: "u16 \<Rightarrow> u16 \<Rightarrow> u16 \<Rightarrow> ('a bus_scheme, unit) state" where
  "mem_write_16 segment offset value = do {
     mem_write_by_segment segment offset (lo8 value);
     mem_write_by_segment segment (offset + 1) (hi8 value)
   }"

definition seg_get_16 :: "mem_t \<Rightarrow> u16 \<Rightarrow> u16 \<Rightarrow> u16" where
  "seg_get_16 mm sg off = word16 (mem_get mm (phys sg off)) (mem_get mm (phys sg (off + 1)))"

definition seg_put_16 :: "mem_t \<Rightarrow> u16 \<Rightarrow> u16 \<Rightarrow> u16 \<Rightarrow> mem_t" where
  "seg_put_16 mm sg off v =
     mem_put (mem_put mm (phys sg off) (lo8 v)) (phys sg (off + 1)) (hi8 v)"

lemma run_mem_read_16 [simp]:
  "run_state (mem_read_16 sg off) s = (seg_get_16 (mem s) sg off, s)"
  by (simp add: mem_read_16_def seg_get_16_def)

lemma run_mem_write_16 [simp]:
  "run_state (mem_write_16 sg off v) s = ((), s\<lparr>mem := seg_put_16 (mem s) sg off v\<rparr>)"
  by (simp add: mem_write_16_def seg_put_16_def)

lemma mem_16_rom [frame_intros]:
  "preserves rom_view (mem_read_16 sg off)" "preserves rom_view (mem_write_16 sg off v)"
  by (simp_all add: preserves_def rom_view_def seg_put_16_def)

lemma off_neq_Suc [simp]: "(off::u16) \<noteq> off + 1" "off + 1 \<noteq> off"
  by simp_all

text \<open>A word is read back where both its bytes are writable.\<close>

definition word_writable :: "mem_t \<Rightarrow> u16 \<Rightarrow> u16 \<Rightarrow> bool" where
  "word_writable mm sg off \<longleftrightarrow>
     mem_writable mm (phys sg off) \<and> mem_writable mm (phys sg (off + 1))"

lemma seg_get_put_16:
  "word_writable mm sg off \<Longrightarrow> seg_get_16 (seg_put_16 mm sg off v) sg off = v"
  by (simp add: word_writable_def seg_get_16_def seg_put_16_def seg_store.get_put
      seg_store.writable_put)

lemma seg_get_16_other:
  "off \<notin> {o', o' + 1} \<Longrightarrow> off + 1 \<notin> {o', o' + 1} \<Longrightarrow>
   seg_get_16 (seg_put_16 mm sg o' v) sg off = seg_get_16 mm sg off"
  by (auto simp: seg_get_16_def seg_put_16_def seg_store.get_put)

lemma word_writable_put_16 [simp]:
  "word_writable (seg_put_16 mm sg' o' v) sg off = word_writable mm sg off"
  by (simp add: word_writable_def seg_put_16_def phys_store.writable_put)

subsection \<open>The stack\<close>

text \<open>\<open>cpu->sp -= 2;\<close> and the two writes of a word below it; the two reads and \<open>cpu->sp += 2;\<close>.\<close>

definition push_16 :: "u16 \<Rightarrow> ('a machine_scheme, unit) state" where
  "push_16 value = do {
     modc (\<lambda>r. r\<lparr>sp := sp r - 2\<rparr>);
     sg \<leftarrow> getc ss;
     off \<leftarrow> getc sp;
     mem_write_16 sg off value
   }"

definition pop_16 :: "('a machine_scheme, u16) state" where
  "pop_16 = do {
     sg \<leftarrow> getc ss;
     off \<leftarrow> getc sp;
     value \<leftarrow> mem_read_16 sg off;
     modc (\<lambda>r. r\<lparr>sp := sp r + 2\<rparr>);
     return value
   }"

lemma run_push_16 [simp]:
  "run_state (push_16 v) s =
     ((), s\<lparr>cpu := (cpu s)\<lparr>sp := sp (cpu s) - 2\<rparr>,
            mem := seg_put_16 (mem s) (ss (cpu s)) (sp (cpu s) - 2) v\<rparr>)"
  by (simp add: push_16_def)

lemma run_pop_16 [simp]:
  "run_state pop_16 s =
     (seg_get_16 (mem s) (ss (cpu s)) (sp (cpu s)), s\<lparr>cpu := (cpu s)\<lparr>sp := sp (cpu s) + 2\<rparr>\<rparr>)"
  by (simp add: pop_16_def)

lemma stack_rom [frame_intros]: "preserves rom_view (push_16 v)" "preserves rom_view pop_16"
  by (simp_all add: preserves_def rom_view_def seg_put_16_def)

subsection \<open>Interrupts\<close>

definition INT_DIVIDE_ERROR :: u8 where "INT_DIVIDE_ERROR = 0"
definition INT_1_BYTE :: u8 where "INT_1_BYTE = 3"
definition INT_OVERFLOW :: u8 where "INT_OVERFLOW = 4"

definition i8088_interrupt :: "u8 \<Rightarrow> ('a machine_scheme, unit) state" where
  "i8088_interrupt int_no = do {
     modc (\<lambda>r. r\<lparr>sp := sp r - 6\<rparr>);
     r \<leftarrow> getc id;
     mem_write_by_segment (ss r) (sp r) (lo8 (ip r));
     mem_write_by_segment (ss r) (sp r + 1) (hi8 (ip r));
     mem_write_by_segment (ss r) (sp r + 2) (lo8 (cs r));
     mem_write_by_segment (ss r) (sp r + 3) (hi8 (cs r));
     mem_write_by_segment (ss r) (sp r + 4) (lo8 (flags r));
     mem_write_by_segment (ss r) (sp r + 5) (hi8 (flags r));
     a \<leftarrow> mem_read (int8u int_no * 4);
     b \<leftarrow> mem_read (int8u int_no * 4 + 1);
     modc (\<lambda>r. r\<lparr>ip := word16 a b\<rparr>);
     c \<leftarrow> mem_read (int8u int_no * 4 + 2);
     d \<leftarrow> mem_read (int8u int_no * 4 + 3);
     modc (\<lambda>r. r\<lparr>cs := word16 c d\<rparr>);
     modc (set_t False)
   }"

definition i8088_irq :: "u8 \<Rightarrow> ('a machine_scheme, bool) state" where
  "i8088_irq irq_no = do {
     modc (\<lambda>r. r\<lparr>halt := False\<rparr>);
     enabled \<leftarrow> getc flag_i;
     if \<not> enabled then return True
     else do {
       i8088_interrupt (irq_no + 8);
       modc (set_i False);
       return False
     }
   }"

lemma i8088_interrupt_rom [frame_intros]: "preserves rom_view (i8088_interrupt n)"
  unfolding i8088_interrupt_def by (intro frame_intros)

lemma i8088_irq_rom [frame_intros]: "preserves rom_view (i8088_irq n)"
  unfolding i8088_irq_def by (intro frame_intros)

end
