(* ===== verification/ModRM.thy ===== *)
theory ModRM
  imports Machine
begin

unbundle bit_operations_syntax

text \<open>
  Operand decoding: the ModRM byte of i8088.h and the \<open>modrm_\<close> functions of i8088.c. The code
  repeats the decoding of the displacement and the table of the eight address forms in every
  one of its functions; here they are \<open>modrm_disp\<close> and \<open>modrm_address\<close>, and each function is the
  register case of its own and the memory access at the decoded address. The out-parameter
  \<open>eaddr\<close> of the read functions is a second result; in the register case the code leaves the
  caller's variable as it is, here \<open>uninit\<close>.
\<close>

subsection \<open>Fields of the ModRM byte\<close>

definition MOD_DISP_ZERO :: u8 where "MOD_DISP_ZERO = 0"
definition MOD_DISP_LO_SIGN :: u8 where "MOD_DISP_LO_SIGN = 1"
definition MOD_DISP_HI_LO :: u8 where "MOD_DISP_HI_LO = 2"
definition MOD_REGISTER :: u8 where "MOD_REGISTER = 3"

definition REG8_AL :: u8 where "REG8_AL = 0"
definition REG8_CL :: u8 where "REG8_CL = 1"
definition REG8_DL :: u8 where "REG8_DL = 2"
definition REG8_BL :: u8 where "REG8_BL = 3"
definition REG8_AH :: u8 where "REG8_AH = 4"
definition REG8_CH :: u8 where "REG8_CH = 5"
definition REG8_DH :: u8 where "REG8_DH = 6"
definition REG8_BH :: u8 where "REG8_BH = 7"

definition REG16_AX :: u8 where "REG16_AX = 0"
definition REG16_CX :: u8 where "REG16_CX = 1"
definition REG16_DX :: u8 where "REG16_DX = 2"
definition REG16_BX :: u8 where "REG16_BX = 3"
definition REG16_SP :: u8 where "REG16_SP = 4"
definition REG16_BP :: u8 where "REG16_BP = 5"
definition REG16_SI :: u8 where "REG16_SI = 6"
definition REG16_DI :: u8 where "REG16_DI = 7"

definition REGSEG_ES :: u8 where "REGSEG_ES = 0"
definition REGSEG_CS :: u8 where "REGSEG_CS = 1"
definition REGSEG_SS :: u8 where "REGSEG_SS = 2"
definition REGSEG_DS :: u8 where "REGSEG_DS = 3"

definition EADDR_BX_SI :: u8 where "EADDR_BX_SI = 0"
definition EADDR_BX_DI :: u8 where "EADDR_BX_DI = 1"
definition EADDR_BP_SI :: u8 where "EADDR_BP_SI = 2"
definition EADDR_BP_DI :: u8 where "EADDR_BP_DI = 3"
definition EADDR_SI :: u8 where "EADDR_SI = 4"
definition EADDR_DI :: u8 where "EADDR_DI = 5"
definition EADDR_BP :: u8 where "EADDR_BP = 6"
definition EADDR_BX :: u8 where "EADDR_BX = 7"

lemmas mod_defs = MOD_DISP_ZERO_def MOD_DISP_LO_SIGN_def MOD_DISP_HI_LO_def MOD_REGISTER_def
lemmas reg8_defs = REG8_AL_def REG8_CL_def REG8_DL_def REG8_BL_def REG8_AH_def REG8_CH_def REG8_DH_def REG8_BH_def
lemmas reg16_defs = REG16_AX_def REG16_CX_def REG16_DX_def REG16_BX_def REG16_SP_def REG16_BP_def REG16_SI_def REG16_DI_def
lemmas regseg_defs = REGSEG_ES_def REGSEG_CS_def REGSEG_SS_def REGSEG_DS_def
lemmas eaddr_defs = EADDR_BX_SI_def EADDR_BX_DI_def EADDR_BP_SI_def EADDR_BP_DI_def EADDR_SI_def EADDR_DI_def EADDR_BP_def EADDR_BX_def

definition modrm_mod :: "u8 \<Rightarrow> u8" where "modrm_mod x = drop_bit 6 x"
definition modrm_reg :: "u8 \<Rightarrow> u8" where "modrm_reg x = drop_bit 3 x AND 7"
definition modrm_opcode :: "u8 \<Rightarrow> u8" where "modrm_opcode x = drop_bit 3 x AND 7"
definition modrm_rm :: "u8 \<Rightarrow> u8" where "modrm_rm x = x AND 7"

subsection \<open>The register file by number\<close>

definition get_reg8 :: "u8 \<Rightarrow> i8088 \<Rightarrow> u8" where
  "get_reg8 n r =
    (if n = REG8_AL then al r
     else if n = REG8_CL then cl r
     else if n = REG8_DL then dl r
     else if n = REG8_BL then bl r
     else if n = REG8_AH then ah r
     else if n = REG8_CH then ch r
     else if n = REG8_DH then dh r
     else if n = REG8_BH then bh r
     else 0)"

definition set_reg8 :: "u8 \<Rightarrow> u8 \<Rightarrow> i8088 \<Rightarrow> i8088" where
  "set_reg8 n value r =
    (if n = REG8_AL then set_al value r
     else if n = REG8_CL then set_cl value r
     else if n = REG8_DL then set_dl value r
     else if n = REG8_BL then set_bl value r
     else if n = REG8_AH then set_ah value r
     else if n = REG8_CH then set_ch value r
     else if n = REG8_DH then set_dh value r
     else if n = REG8_BH then set_bh value r
     else r)"

definition get_reg16 :: "u8 \<Rightarrow> i8088 \<Rightarrow> u16" where
  "get_reg16 n r =
    (if n = REG16_AX then ax r
     else if n = REG16_CX then cx r
     else if n = REG16_DX then dx r
     else if n = REG16_BX then bx r
     else if n = REG16_SP then sp r
     else if n = REG16_BP then bp r
     else if n = REG16_SI then si r
     else if n = REG16_DI then di r
     else 0)"

definition set_reg16 :: "u8 \<Rightarrow> u16 \<Rightarrow> i8088 \<Rightarrow> i8088" where
  "set_reg16 n value r =
    (if n = REG16_AX then r\<lparr>ax := value\<rparr>
     else if n = REG16_CX then r\<lparr>cx := value\<rparr>
     else if n = REG16_DX then r\<lparr>dx := value\<rparr>
     else if n = REG16_BX then r\<lparr>bx := value\<rparr>
     else if n = REG16_SP then r\<lparr>sp := value\<rparr>
     else if n = REG16_BP then r\<lparr>bp := value\<rparr>
     else if n = REG16_SI then r\<lparr>si := value\<rparr>
     else if n = REG16_DI then r\<lparr>di := value\<rparr>
     else r)"

definition modrm_get_reg_8 :: "u8 \<Rightarrow> i8088 \<Rightarrow> u8" where
  "modrm_get_reg_8 modrm r = get_reg8 (modrm_reg modrm) r"

definition modrm_set_reg_8 :: "u8 \<Rightarrow> u8 \<Rightarrow> i8088 \<Rightarrow> i8088" where
  "modrm_set_reg_8 modrm value r = set_reg8 (modrm_reg modrm) value r"

definition modrm_get_reg_16 :: "u8 \<Rightarrow> i8088 \<Rightarrow> u16" where
  "modrm_get_reg_16 modrm r = get_reg16 (modrm_reg modrm) r"

definition modrm_set_reg_16 :: "u8 \<Rightarrow> u16 \<Rightarrow> i8088 \<Rightarrow> i8088" where
  "modrm_set_reg_16 modrm value r = set_reg16 (modrm_reg modrm) value r"

definition modrm_get_reg_seg :: "u8 \<Rightarrow> i8088 \<Rightarrow> u16" where
  "modrm_get_reg_seg modrm r =
    (let n = modrm_reg modrm AND 3 in
     if n = REGSEG_ES then es r
     else if n = REGSEG_CS then cs r
     else if n = REGSEG_SS then ss r
     else if n = REGSEG_DS then ds r
     else 0)"

definition modrm_set_reg_seg :: "u8 \<Rightarrow> u16 \<Rightarrow> i8088 \<Rightarrow> i8088" where
  "modrm_set_reg_seg modrm value r =
    (let n = modrm_reg modrm AND 3 in
     if n = REGSEG_ES then r\<lparr>es := value\<rparr>
     else if n = REGSEG_CS then r\<lparr>cs := value\<rparr>
     else if n = REGSEG_SS then r\<lparr>ss := value\<rparr>
     else if n = REGSEG_DS then r\<lparr>ds := value\<rparr>
     else r)"

subsection \<open>Memory operands\<close>

text \<open>The segment of a memory operand: the override prefix, or the default of the address form.\<close>

definition eaddr_segment :: "u16 \<Rightarrow> i8088 \<Rightarrow> u16" where
  "eaddr_segment segment_default r =
     (case segment_override r of
        SEGMENT_CS \<Rightarrow> cs r
      | SEGMENT_DS \<Rightarrow> ds r
      | SEGMENT_ES \<Rightarrow> es r
      | SEGMENT_SS \<Rightarrow> ss r
      | SEGMENT_NONE \<Rightarrow> segment_default)"

definition eaddr_read_8 :: "u16 \<Rightarrow> u16 \<Rightarrow> ('a machine_scheme, u8) state" where
  "eaddr_read_8 segment_default address = do {
     sg \<leftarrow> getc (eaddr_segment segment_default);
     mem_read_by_segment sg address
   }"

definition eaddr_write_8 :: "u16 \<Rightarrow> u16 \<Rightarrow> u8 \<Rightarrow> ('a machine_scheme, unit) state" where
  "eaddr_write_8 segment_default address value = do {
     sg \<leftarrow> getc (eaddr_segment segment_default);
     mem_write_by_segment sg address value
   }"

definition eaddr_read_16 :: "u16 \<Rightarrow> u16 \<Rightarrow> ('a machine_scheme, u16) state" where
  "eaddr_read_16 segment_default address = do {
     sg \<leftarrow> getc (eaddr_segment segment_default);
     mem_read_16 sg address
   }"

definition eaddr_write_16 :: "u16 \<Rightarrow> u16 \<Rightarrow> u16 \<Rightarrow> ('a machine_scheme, unit) state" where
  "eaddr_write_16 segment_default address value = do {
     sg \<leftarrow> getc (eaddr_segment segment_default);
     mem_write_16 sg address value
   }"

text \<open>The displacement that follows the ModRM byte.\<close>

definition modrm_disp :: "u8 \<Rightarrow> ('a machine_scheme, u16) state" where
  "modrm_disp modrm =
     (if modrm_mod modrm = MOD_DISP_LO_SIGN then do { d \<leftarrow> fetch; return (scast d) }
      else if modrm_mod modrm = MOD_DISP_HI_LO then fetch_16
      else return 0)"

text \<open>The address form: the default segment and the offset. Mode 0 with the \<open>bp\<close> form is the
  direct address that follows in the instruction.\<close>

definition modrm_address :: "u8 \<Rightarrow> u16 \<Rightarrow> ('a machine_scheme, u16 \<times> u16) state" where
  "modrm_address modrm disp =
     (let rm = modrm_rm modrm in
      if rm = EADDR_BX_SI then getc (\<lambda>r. (ds r, bx r + si r + disp))
      else if rm = EADDR_BX_DI then getc (\<lambda>r. (ds r, bx r + di r + disp))
      else if rm = EADDR_BP_SI then getc (\<lambda>r. (ss r, bp r + si r + disp))
      else if rm = EADDR_BP_DI then getc (\<lambda>r. (ss r, bp r + di r + disp))
      else if rm = EADDR_SI then getc (\<lambda>r. (ds r, si r + disp))
      else if rm = EADDR_DI then getc (\<lambda>r. (ds r, di r + disp))
      else if rm = EADDR_BP then
        if modrm_mod modrm = MOD_DISP_ZERO
        then do { direct \<leftarrow> fetch_16; sg \<leftarrow> getc ds; return (sg, direct) }
        else getc (\<lambda>r. (ss r, bp r + disp))
      else getc (\<lambda>r. (ds r, bx r + disp)))"

text \<open>The default segment of the address form, when the offset is known already.\<close>

definition modrm_segment :: "u8 \<Rightarrow> i8088 \<Rightarrow> u16" where
  "modrm_segment modrm r =
     (let rm = modrm_rm modrm in
      if rm = EADDR_BX_SI then ds r
      else if rm = EADDR_BX_DI then ds r
      else if rm = EADDR_BP_SI then ss r
      else if rm = EADDR_BP_DI then ss r
      else if rm = EADDR_SI then ds r
      else if rm = EADDR_DI then ds r
      else if rm = EADDR_BP then (if modrm_mod modrm = MOD_DISP_ZERO then ds r else ss r)
      else ds r)"

definition modrm_get_rm_8 :: "u8 \<Rightarrow> ('a machine_scheme, u8 \<times> u16) state" where
  "modrm_get_rm_8 modrm =
     (if modrm_mod modrm = MOD_REGISTER
      then do {
        value \<leftarrow> getc (get_reg8 (modrm_rm modrm));
        eaddr \<leftarrow> gets uninit;
        return (value, eaddr)
      }
      else do {
        disp \<leftarrow> modrm_disp modrm;
        (sg, address) \<leftarrow> modrm_address modrm disp;
        value \<leftarrow> eaddr_read_8 sg address;
        return (value, address)
      })"

definition modrm_set_rm_8 :: "u8 \<Rightarrow> u8 \<Rightarrow> ('a machine_scheme, unit) state" where
  "modrm_set_rm_8 modrm value =
     (if modrm_mod modrm = MOD_REGISTER
      then modc (set_reg8 (modrm_rm modrm) value)
      else do {
        disp \<leftarrow> modrm_disp modrm;
        (sg, address) \<leftarrow> modrm_address modrm disp;
        eaddr_write_8 sg address value
      })"

definition modrm_set_rm_eaddr_8 :: "u8 \<Rightarrow> u16 \<Rightarrow> u8 \<Rightarrow> ('a machine_scheme, unit) state" where
  "modrm_set_rm_eaddr_8 modrm eaddr value =
     (if modrm_mod modrm = MOD_REGISTER
      then modc (set_reg8 (modrm_rm modrm) value)
      else do {
        sg \<leftarrow> getc (modrm_segment modrm);
        eaddr_write_8 sg eaddr value
      })"

definition modrm_get_rm_16 :: "u8 \<Rightarrow> ('a machine_scheme, u16 \<times> u16) state" where
  "modrm_get_rm_16 modrm =
     (if modrm_mod modrm = MOD_REGISTER
      then do {
        value \<leftarrow> getc (get_reg16 (modrm_rm modrm));
        eaddr \<leftarrow> gets uninit;
        return (value, eaddr)
      }
      else do {
        disp \<leftarrow> modrm_disp modrm;
        (sg, address) \<leftarrow> modrm_address modrm disp;
        value \<leftarrow> eaddr_read_16 sg address;
        return (value, address)
      })"

definition modrm_set_rm_16 :: "u8 \<Rightarrow> u16 \<Rightarrow> ('a machine_scheme, unit) state" where
  "modrm_set_rm_16 modrm value =
     (if modrm_mod modrm = MOD_REGISTER
      then modc (set_reg16 (modrm_rm modrm) value)
      else do {
        disp \<leftarrow> modrm_disp modrm;
        (sg, address) \<leftarrow> modrm_address modrm disp;
        eaddr_write_16 sg address value
      })"

definition modrm_set_rm_eaddr_16 :: "u8 \<Rightarrow> u16 \<Rightarrow> u16 \<Rightarrow> ('a machine_scheme, unit) state" where
  "modrm_set_rm_eaddr_16 modrm eaddr value =
     (if modrm_mod modrm = MOD_REGISTER
      then modc (set_reg16 (modrm_rm modrm) value)
      else do {
        sg \<leftarrow> getc (modrm_segment modrm);
        eaddr_write_16 sg eaddr value
      })"

definition modrm_get_rm_eaddr_16 :: "u8 \<Rightarrow> u16 \<Rightarrow> ('a machine_scheme, u16) state" where
  "modrm_get_rm_eaddr_16 modrm eaddr =
     (if modrm_mod modrm = MOD_REGISTER
      then getc (get_reg16 (modrm_rm modrm))
      else do {
        sg \<leftarrow> getc (modrm_segment modrm);
        eaddr_read_16 sg eaddr
      })"

text \<open>\<open>modrm_void_rm_16\<close> decodes an operand without accessing it.\<close>

definition modrm_void_rm_16 :: "u8 \<Rightarrow> ('a machine_scheme, unit) state" where
  "modrm_void_rm_16 modrm =
     (if modrm_mod modrm = MOD_REGISTER
      then return ()
      else do {
        disp \<leftarrow> modrm_disp modrm;
        (sg, address) \<leftarrow> modrm_address modrm disp;
        return ()
      })"

subsection \<open>Frames\<close>

lemma eaddr_rom [frame_intros]:
  "preserves rom_view (eaddr_read_8 sg a)" "preserves rom_view (eaddr_write_8 sg a v)"
  "preserves rom_view (eaddr_read_16 sg a)" "preserves rom_view (eaddr_write_16 sg a w)"
  unfolding eaddr_read_8_def eaddr_write_8_def eaddr_read_16_def eaddr_write_16_def
  by (intro frame_intros)+

lemma modrm_address_rom [frame_intros]:
  "preserves rom_view (modrm_disp m)" "preserves rom_view (modrm_address m d)"
  unfolding modrm_disp_def modrm_address_def Let_def by (intro frame_intros)+

lemma modrm_rom [frame_intros]:
  "preserves rom_view (modrm_get_rm_8 m)" "preserves rom_view (modrm_get_rm_16 m)"
  "preserves rom_view (modrm_set_rm_8 m v)" "preserves rom_view (modrm_set_rm_16 m w)"
  "preserves rom_view (modrm_set_rm_eaddr_8 m a v)"
  "preserves rom_view (modrm_set_rm_eaddr_16 m a w)"
  "preserves rom_view (modrm_get_rm_eaddr_16 m a)" "preserves rom_view (modrm_void_rm_16 m)"
  unfolding modrm_get_rm_8_def modrm_get_rm_16_def modrm_set_rm_8_def modrm_set_rm_16_def
    modrm_set_rm_eaddr_8_def modrm_set_rm_eaddr_16_def modrm_get_rm_eaddr_16_def
    modrm_void_rm_16_def
  by (intro frame_intros)+

end
