(* ===== verification/Cpu_Ops.thy ===== *)
theory Cpu_Ops
  imports ModRM
begin

unbundle bit_operations_syntax

text \<open>
  The routines of i8088.c that use both registers and memory: the divisions, which raise the
  divide-error interrupt, and the string operations.
\<close>

subsection \<open>Division\<close>

text \<open>C's division truncates towards zero: \<open>cdiv\<close> and \<open>cmod\<close> below are \<open>/\<close> and \<open>%\<close> on
  \<open>int\<close>.\<close>

definition cdiv :: "int \<Rightarrow> int \<Rightarrow> int" where
  "cdiv a b = sgn a * sgn b * (\<bar>a\<bar> div \<bar>b\<bar>)"

definition cmod :: "int \<Rightarrow> int \<Rightarrow> int" where
  "cmod a b = a - cdiv a b * b"

definition i8088_div_8 :: "u8 \<Rightarrow> ('a machine_scheme, unit) state" where
  "i8088_div_8 input =
     (if input = 0 then i8088_interrupt INT_DIVIDE_ERROR
      else do {
        quotient \<leftarrow> getc (\<lambda>r. ax r div ucast input);
        remainder \<leftarrow> getc (\<lambda>r. ucast (ax r mod ucast input) :: u8);
        if quotient > 0xFF then i8088_interrupt INT_DIVIDE_ERROR
        else do {
          modc (set_al (ucast (quotient AND 0xFF)));
          modc (set_ah remainder)
        }
      })"

definition i8088_div_16 :: "u16 \<Rightarrow> ('a machine_scheme, unit) state" where
  "i8088_div_16 input =
     (if input = 0 then i8088_interrupt INT_DIVIDE_ERROR
      else do {
        quotient \<leftarrow> getc (\<lambda>r. (push_bit 16 (int16u (dx r)) + int16u (ax r)) div int16u input);
        remainder \<leftarrow> getc (\<lambda>r. ucast ((push_bit 16 (int16u (dx r)) + int16u (ax r)) mod int16u input) :: u16);
        if quotient > 0xFFFF then i8088_interrupt INT_DIVIDE_ERROR
        else do {
          modc (\<lambda>r. r\<lparr>ax := ucast (quotient AND 0xFFFF)\<rparr>);
          modc (\<lambda>r. r\<lparr>dx := remainder\<rparr>)
        }
      })"

text \<open>In the signed divisions the quotient fits the type the code stores it in, because the one
  dividend whose quotient does not is rejected first; the quotient is kept as an integer.\<close>

definition i8088_idiv_8 :: "u8 \<Rightarrow> ('a machine_scheme, unit) state" where
  "i8088_idiv_8 input =
     (if input = 0 then i8088_interrupt INT_DIVIDE_ERROR
      else do {
        ax0 \<leftarrow> getc ax;
        if ax0 = 0x8000 then i8088_interrupt INT_DIVIDE_ERROR
        else (let quotient = cdiv (sint ax0) (sint input);
                  remainder = (word_of_int (cmod (sint ax0) (sint input)) :: u8)
              in if quotient > 127 \<or> quotient \<le> -128 then i8088_interrupt INT_DIVIDE_ERROR
                 else do {
                   modc (set_al (word_of_int quotient));
                   modc (set_ah remainder)
                 })
      })"

definition i8088_idiv_16 :: "u16 \<Rightarrow> ('a machine_scheme, unit) state" where
  "i8088_idiv_16 input =
     (if input = 0 then i8088_interrupt INT_DIVIDE_ERROR
      else do {
        dx0 \<leftarrow> getc dx;
        ax0 \<leftarrow> getc ax;
        if dx0 = 0x8000 \<and> ax0 = 0 then i8088_interrupt INT_DIVIDE_ERROR
        else (let dividend = sint (push_bit 16 (int16u dx0) + int16u ax0);
                  quotient = cdiv dividend (sint input);
                  remainder = (word_of_int (cmod dividend (sint input)) :: u16)
              in if quotient > 32767 \<or> quotient \<le> -32768 then i8088_interrupt INT_DIVIDE_ERROR
                 else do {
                   modc (\<lambda>r. r\<lparr>ax := word_of_int quotient\<rparr>);
                   modc (\<lambda>r. r\<lparr>dx := remainder\<rparr>)
                 })
      })"

subsection \<open>String operations\<close>

definition i8088_cmpsb :: "('a machine_scheme, unit) state" where
  "i8088_cmpsb = do {
     r \<leftarrow> getc id;
     a \<leftarrow> eaddr_read_8 (ds r) (si r);
     b \<leftarrow> mem_read_by_segment (es r) (di r);
     modc (i8088_cmp_8 a b);
     d \<leftarrow> getc flag_d;
     if d then modc (\<lambda>r. r\<lparr>di := di r - 1, si := si r - 1\<rparr>)
     else modc (\<lambda>r. r\<lparr>di := di r + 1, si := si r + 1\<rparr>)
   }"

definition i8088_cmpsw :: "('a machine_scheme, unit) state" where
  "i8088_cmpsw = do {
     r \<leftarrow> getc id;
     data \<leftarrow> mem_read_16 (es r) (di r);
     a \<leftarrow> eaddr_read_16 (ds r) (si r);
     modc (i8088_cmp_16 a data);
     d \<leftarrow> getc flag_d;
     if d then modc (\<lambda>r. r\<lparr>di := di r - 2, si := si r - 2\<rparr>)
     else modc (\<lambda>r. r\<lparr>di := di r + 2, si := si r + 2\<rparr>)
   }"

definition i8088_lodsb :: "('a machine_scheme, unit) state" where
  "i8088_lodsb = do {
     r \<leftarrow> getc id;
     v \<leftarrow> eaddr_read_8 (ds r) (si r);
     modc (set_al v);
     if flag_d r then modc (\<lambda>r. r\<lparr>si := si r - 1\<rparr>) else modc (\<lambda>r. r\<lparr>si := si r + 1\<rparr>)
   }"

text \<open>\<open>lodsw\<close> reads two overlapping words and keeps the low byte of each.\<close>

definition i8088_lodsw :: "('a machine_scheme, unit) state" where
  "i8088_lodsw = do {
     r \<leftarrow> getc id;
     v \<leftarrow> eaddr_read_16 (ds r) (si r);
     modc (set_al (lo8 v));
     w \<leftarrow> eaddr_read_16 (ds r) (si r + 1);
     modc (set_ah (lo8 w));
     if flag_d r then modc (\<lambda>r. r\<lparr>si := si r - 2\<rparr>) else modc (\<lambda>r. r\<lparr>si := si r + 2\<rparr>)
   }"

definition i8088_movsb :: "('a machine_scheme, unit) state" where
  "i8088_movsb = do {
     r \<leftarrow> getc id;
     v \<leftarrow> eaddr_read_8 (ds r) (si r);
     mem_write_by_segment (es r) (di r) v;
     if flag_d r then modc (\<lambda>r. r\<lparr>di := di r - 1, si := si r - 1\<rparr>)
     else modc (\<lambda>r. r\<lparr>di := di r + 1, si := si r + 1\<rparr>)
   }"

definition i8088_movsw :: "('a machine_scheme, unit) state" where
  "i8088_movsw = do {
     r \<leftarrow> getc id;
     v \<leftarrow> eaddr_read_8 (ds r) (si r);
     mem_write_by_segment (es r) (di r) v;
     w \<leftarrow> eaddr_read_8 (ds r) (si r + 1);
     mem_write_by_segment (es r) (di r + 1) w;
     if flag_d r then modc (\<lambda>r. r\<lparr>di := di r - 2, si := si r - 2\<rparr>)
     else modc (\<lambda>r. r\<lparr>di := di r + 2, si := si r + 2\<rparr>)
   }"

definition i8088_scasb :: "('a machine_scheme, unit) state" where
  "i8088_scasb = do {
     r \<leftarrow> getc id;
     v \<leftarrow> mem_read_by_segment (es r) (di r);
     modc (i8088_cmp_8 (al r) v);
     d \<leftarrow> getc flag_d;
     if d then modc (\<lambda>r. r\<lparr>di := di r - 1\<rparr>) else modc (\<lambda>r. r\<lparr>di := di r + 1\<rparr>)
   }"

definition i8088_scasw :: "('a machine_scheme, unit) state" where
  "i8088_scasw = do {
     r \<leftarrow> getc id;
     data \<leftarrow> mem_read_16 (es r) (di r);
     modc (i8088_cmp_16 (ax r) data);
     d \<leftarrow> getc flag_d;
     if d then modc (\<lambda>r. r\<lparr>di := di r - 2\<rparr>) else modc (\<lambda>r. r\<lparr>di := di r + 2\<rparr>)
   }"

definition i8088_stosb :: "('a machine_scheme, unit) state" where
  "i8088_stosb = do {
     r \<leftarrow> getc id;
     mem_write_by_segment (es r) (di r) (al r);
     if flag_d r then modc (\<lambda>r. r\<lparr>di := di r - 1\<rparr>) else modc (\<lambda>r. r\<lparr>di := di r + 1\<rparr>)
   }"

definition i8088_stosw :: "('a machine_scheme, unit) state" where
  "i8088_stosw = do {
     r \<leftarrow> getc id;
     mem_write_by_segment (es r) (di r) (al r);
     mem_write_by_segment (es r) (di r + 1) (ah r);
     if flag_d r then modc (\<lambda>r. r\<lparr>di := di r - 2\<rparr>) else modc (\<lambda>r. r\<lparr>di := di r + 2\<rparr>)
   }"

subsection \<open>Frames\<close>

lemma div_rom [frame_intros]:
  "preserves rom_view (i8088_div_8 x)" "preserves rom_view (i8088_div_16 y)"
  "preserves rom_view (i8088_idiv_8 x)" "preserves rom_view (i8088_idiv_16 y)"
  unfolding i8088_div_8_def i8088_div_16_def i8088_idiv_8_def i8088_idiv_16_def
  by (intro frame_intros)+

lemma string_rom [frame_intros]:
  "preserves rom_view i8088_cmpsb" "preserves rom_view i8088_cmpsw"
  "preserves rom_view i8088_lodsb" "preserves rom_view i8088_lodsw"
  "preserves rom_view i8088_movsb" "preserves rom_view i8088_movsw"
  "preserves rom_view i8088_scasb" "preserves rom_view i8088_scasw"
  "preserves rom_view i8088_stosb" "preserves rom_view i8088_stosw"
  unfolding i8088_cmpsb_def i8088_cmpsw_def i8088_lodsb_def i8088_lodsw_def i8088_movsb_def
    i8088_movsw_def i8088_scasb_def i8088_scasw_def i8088_stosb_def i8088_stosw_def
  by (intro frame_intros)+

end
