(* ===== verification/Opcode_Groups.thy ===== *)
theory Opcode_Groups
  imports Cpu_Ops
begin

unbundle bit_operations_syntax

text \<open>
  The opcode groups of i8088.c whose operation is the middle field of the ModRM byte:
  \<open>i8088_opcode_80\<close> to \<open>i8088_opcode_ff\<close>. Each fetches the ModRM byte, reads the operand, computes
  and writes the operand back to where it came from, except where the code returns early. The
  selection of the operation is the switch of the code over \<open>modrm_opcode\<close>.
\<close>

subsection \<open>Operation codes\<close>

definition MODRM_OPCODE_ADD :: u8 where "MODRM_OPCODE_ADD = 0"
definition MODRM_OPCODE_OR :: u8 where "MODRM_OPCODE_OR = 1"
definition MODRM_OPCODE_ADC :: u8 where "MODRM_OPCODE_ADC = 2"
definition MODRM_OPCODE_SBB :: u8 where "MODRM_OPCODE_SBB = 3"
definition MODRM_OPCODE_AND :: u8 where "MODRM_OPCODE_AND = 4"
definition MODRM_OPCODE_SUB :: u8 where "MODRM_OPCODE_SUB = 5"
definition MODRM_OPCODE_XOR :: u8 where "MODRM_OPCODE_XOR = 6"
definition MODRM_OPCODE_CMP :: u8 where "MODRM_OPCODE_CMP = 7"

definition MODRM_OPCODE_ROL :: u8 where "MODRM_OPCODE_ROL = 0"
definition MODRM_OPCODE_ROR :: u8 where "MODRM_OPCODE_ROR = 1"
definition MODRM_OPCODE_RCL :: u8 where "MODRM_OPCODE_RCL = 2"
definition MODRM_OPCODE_RCR :: u8 where "MODRM_OPCODE_RCR = 3"
definition MODRM_OPCODE_SHL :: u8 where "MODRM_OPCODE_SHL = 4"
definition MODRM_OPCODE_SHR :: u8 where "MODRM_OPCODE_SHR = 5"
definition MODRM_OPCODE_SAR :: u8 where "MODRM_OPCODE_SAR = 7"

definition MODRM_OPCODE_TEST :: u8 where "MODRM_OPCODE_TEST = 0"
definition MODRM_OPCODE_TEST_2 :: u8 where "MODRM_OPCODE_TEST_2 = 1"
definition MODRM_OPCODE_NOT :: u8 where "MODRM_OPCODE_NOT = 2"
definition MODRM_OPCODE_NEG :: u8 where "MODRM_OPCODE_NEG = 3"
definition MODRM_OPCODE_MUL :: u8 where "MODRM_OPCODE_MUL = 4"
definition MODRM_OPCODE_IMUL :: u8 where "MODRM_OPCODE_IMUL = 5"
definition MODRM_OPCODE_DIV :: u8 where "MODRM_OPCODE_DIV = 6"
definition MODRM_OPCODE_IDIV :: u8 where "MODRM_OPCODE_IDIV = 7"

definition MODRM_OPCODE_INC :: u8 where "MODRM_OPCODE_INC = 0"
definition MODRM_OPCODE_DEC :: u8 where "MODRM_OPCODE_DEC = 1"
definition MODRM_OPCODE_CALL :: u8 where "MODRM_OPCODE_CALL = 2"
definition MODRM_OPCODE_CALL_FAR :: u8 where "MODRM_OPCODE_CALL_FAR = 3"
definition MODRM_OPCODE_JMP :: u8 where "MODRM_OPCODE_JMP = 4"
definition MODRM_OPCODE_JMP_FAR :: u8 where "MODRM_OPCODE_JMP_FAR = 5"
definition MODRM_OPCODE_PUSH :: u8 where "MODRM_OPCODE_PUSH = 6"
definition MODRM_OPCODE_PUSH_2 :: u8 where "MODRM_OPCODE_PUSH_2 = 7"

lemmas modrm_opcode_defs =
  MODRM_OPCODE_ADD_def MODRM_OPCODE_OR_def MODRM_OPCODE_ADC_def
  MODRM_OPCODE_SBB_def MODRM_OPCODE_AND_def MODRM_OPCODE_SUB_def
  MODRM_OPCODE_XOR_def MODRM_OPCODE_CMP_def MODRM_OPCODE_ROL_def
  MODRM_OPCODE_ROR_def MODRM_OPCODE_RCL_def MODRM_OPCODE_RCR_def
  MODRM_OPCODE_SHL_def MODRM_OPCODE_SHR_def MODRM_OPCODE_SAR_def
  MODRM_OPCODE_TEST_def MODRM_OPCODE_TEST_2_def MODRM_OPCODE_NOT_def
  MODRM_OPCODE_NEG_def MODRM_OPCODE_MUL_def MODRM_OPCODE_IMUL_def
  MODRM_OPCODE_DIV_def MODRM_OPCODE_IDIV_def MODRM_OPCODE_INC_def
  MODRM_OPCODE_DEC_def MODRM_OPCODE_CALL_def MODRM_OPCODE_CALL_FAR_def
  MODRM_OPCODE_JMP_def MODRM_OPCODE_JMP_FAR_def MODRM_OPCODE_PUSH_def
  MODRM_OPCODE_PUSH_2_def

subsection \<open>Immediate arithmetic: 80, 81, 83\<close>

definition group_arith_8 :: "u8 \<Rightarrow> u8 \<Rightarrow> u8 \<Rightarrow> i8088 \<Rightarrow> u8 \<times> i8088" where
  "group_arith_8 opc value data r =
     (if opc = MODRM_OPCODE_ADD then i8088_add_8 value data r
      else if opc = MODRM_OPCODE_OR then i8088_or_8 value data r
      else if opc = MODRM_OPCODE_ADC then i8088_adc_8 value data r
      else if opc = MODRM_OPCODE_SBB then i8088_sbb_8 value data r
      else if opc = MODRM_OPCODE_AND then i8088_and_8 value data r
      else if opc = MODRM_OPCODE_SUB then i8088_sub_8 value data r
      else if opc = MODRM_OPCODE_XOR then i8088_xor_8 value data r
      else if opc = MODRM_OPCODE_CMP then (value, i8088_cmp_8 value data r)
      else (value, r))"

definition group_arith_16 :: "u8 \<Rightarrow> u16 \<Rightarrow> u16 \<Rightarrow> i8088 \<Rightarrow> u16 \<times> i8088" where
  "group_arith_16 opc value data r =
     (if opc = MODRM_OPCODE_ADD then i8088_add_16 value data r
      else if opc = MODRM_OPCODE_OR then i8088_or_16 value data r
      else if opc = MODRM_OPCODE_ADC then i8088_adc_16 value data r
      else if opc = MODRM_OPCODE_SBB then i8088_sbb_16 value data r
      else if opc = MODRM_OPCODE_AND then i8088_and_16 value data r
      else if opc = MODRM_OPCODE_SUB then i8088_sub_16 value data r
      else if opc = MODRM_OPCODE_XOR then i8088_xor_16 value data r
      else if opc = MODRM_OPCODE_CMP then (value, i8088_cmp_16 value data r)
      else (value, r))"

definition i8088_opcode_80 :: "('a machine_scheme, unit) state" where
  "i8088_opcode_80 = do {
     modrm \<leftarrow> fetch;
     (value, eaddr) \<leftarrow> modrm_get_rm_8 modrm;
     data \<leftarrow> fetch;
     value \<leftarrow> alu (group_arith_8 (modrm_opcode modrm) value data);
     modrm_set_rm_eaddr_8 modrm eaddr value
   }"

definition i8088_opcode_81 :: "('a machine_scheme, unit) state" where
  "i8088_opcode_81 = do {
     modrm \<leftarrow> fetch;
     (value, eaddr) \<leftarrow> modrm_get_rm_16 modrm;
     data \<leftarrow> fetch_16;
     value \<leftarrow> alu (group_arith_16 (modrm_opcode modrm) value data);
     modrm_set_rm_eaddr_16 modrm eaddr value
   }"

text \<open>The byte operand of 83 is signed; passing it as a 16-bit argument extends it.\<close>

definition i8088_opcode_83 :: "('a machine_scheme, unit) state" where
  "i8088_opcode_83 = do {
     modrm \<leftarrow> fetch;
     (value, eaddr) \<leftarrow> modrm_get_rm_16 modrm;
     data \<leftarrow> fetch;
     value \<leftarrow> alu (group_arith_16 (modrm_opcode modrm) value (scast data));
     modrm_set_rm_eaddr_16 modrm eaddr value
   }"

subsection \<open>Shifts and rotates: D0 to D3\<close>

text \<open>\<open>None\<close> is the operation code the switch does not handle.\<close>

definition group_shift_8 :: "u8 \<Rightarrow> u8 \<Rightarrow> u8 \<Rightarrow> (i8088 \<Rightarrow> u8 \<times> i8088) option" where
  "group_shift_8 opc value count =
     (if opc = MODRM_OPCODE_ROL then Some (i8088_rol_8 value count)
      else if opc = MODRM_OPCODE_ROR then Some (i8088_ror_8 value count)
      else if opc = MODRM_OPCODE_RCL then Some (i8088_rcl_8 value count)
      else if opc = MODRM_OPCODE_RCR then Some (i8088_rcr_8 value count)
      else if opc = MODRM_OPCODE_SHL then Some (i8088_shl_8 value count)
      else if opc = MODRM_OPCODE_SHR then Some (i8088_shr_8 value count)
      else if opc = MODRM_OPCODE_SAR then Some (i8088_sar_8 value count)
      else None)"

definition group_shift_16 :: "u8 \<Rightarrow> u16 \<Rightarrow> u8 \<Rightarrow> (i8088 \<Rightarrow> u16 \<times> i8088) option" where
  "group_shift_16 opc value count =
     (if opc = MODRM_OPCODE_ROL then Some (i8088_rol_16 value count)
      else if opc = MODRM_OPCODE_ROR then Some (i8088_ror_16 value count)
      else if opc = MODRM_OPCODE_RCL then Some (i8088_rcl_16 value count)
      else if opc = MODRM_OPCODE_RCR then Some (i8088_rcr_16 value count)
      else if opc = MODRM_OPCODE_SHL then Some (i8088_shl_16 value (ucast count))
      else if opc = MODRM_OPCODE_SHR then Some (i8088_shr_16 value count)
      else if opc = MODRM_OPCODE_SAR then Some (i8088_sar_16 value count)
      else None)"

definition i8088_opcode_d0_d2 :: "u8 \<Rightarrow> ('a machine_scheme, unit) state" where
  "i8088_opcode_d0_d2 count = do {
     modrm \<leftarrow> fetch;
     (value, eaddr) \<leftarrow> modrm_get_rm_8 modrm;
     value \<leftarrow> (case group_shift_8 (modrm_opcode modrm) value count of
        Some f \<Rightarrow> alu f
      | None \<Rightarrow> do {
          panic ''Unhandled 0xD0/0xD2 opcode: 0x%x'' [int8u (modrm_opcode modrm)];
          return value
        });
     modrm_set_rm_eaddr_8 modrm eaddr value
   }"

definition i8088_opcode_d1_d3 :: "u8 \<Rightarrow> ('a machine_scheme, unit) state" where
  "i8088_opcode_d1_d3 count = do {
     modrm \<leftarrow> fetch;
     (value, eaddr) \<leftarrow> modrm_get_rm_16 modrm;
     value \<leftarrow> (case group_shift_16 (modrm_opcode modrm) value count of
        Some f \<Rightarrow> alu f
      | None \<Rightarrow> do {
          panic ''Unhandled 0xD1/0xD3 opcode: 0x%x'' [int8u (modrm_opcode modrm)];
          return value
        });
     modrm_set_rm_eaddr_16 modrm eaddr value
   }"

subsection \<open>Unary operations: F6, F7\<close>

definition i8088_opcode_f6 :: "('a machine_scheme, unit) state" where
  "i8088_opcode_f6 = do {
     modrm \<leftarrow> fetch;
     (value, eaddr) \<leftarrow> modrm_get_rm_8 modrm;
     let opc = modrm_opcode modrm;
     if opc = MODRM_OPCODE_TEST \<or> opc = MODRM_OPCODE_TEST_2 then do {
       data \<leftarrow> fetch;
       alu (i8088_and_8 data value);
       modrm_set_rm_eaddr_8 modrm eaddr value
     }
     else if opc = MODRM_OPCODE_NOT then modrm_set_rm_eaddr_8 modrm eaddr (NOT value)
     else if opc = MODRM_OPCODE_NEG then do {
       value \<leftarrow> alu (i8088_sub_8 0 value);
       modrm_set_rm_eaddr_8 modrm eaddr value
     }
     else if opc = MODRM_OPCODE_MUL then modc (i8088_mul_8 value)
     else if opc = MODRM_OPCODE_IMUL then modc (i8088_imul_8 value)
     else if opc = MODRM_OPCODE_DIV then i8088_div_8 value
     else i8088_idiv_8 value
   }"

definition i8088_opcode_f7 :: "('a machine_scheme, unit) state" where
  "i8088_opcode_f7 = do {
     modrm \<leftarrow> fetch;
     (value, eaddr) \<leftarrow> modrm_get_rm_16 modrm;
     let opc = modrm_opcode modrm;
     if opc = MODRM_OPCODE_TEST \<or> opc = MODRM_OPCODE_TEST_2 then do {
       data \<leftarrow> fetch_16;
       alu (i8088_and_16 data value);
       modrm_set_rm_eaddr_16 modrm eaddr value
     }
     else if opc = MODRM_OPCODE_NOT then modrm_set_rm_eaddr_16 modrm eaddr (NOT value)
     else if opc = MODRM_OPCODE_NEG then do {
       value \<leftarrow> alu (i8088_sub_16 0 value);
       modrm_set_rm_eaddr_16 modrm eaddr value
     }
     else if opc = MODRM_OPCODE_MUL then modc (i8088_mul_16 value)
     else if opc = MODRM_OPCODE_IMUL then modc (i8088_imul_16 value)
     else if opc = MODRM_OPCODE_DIV then i8088_div_16 value
     else i8088_idiv_16 value
   }"

subsection \<open>FE, FF\<close>

definition i8088_opcode_fe :: "('a machine_scheme, unit) state" where
  "i8088_opcode_fe = do {
     modrm \<leftarrow> fetch;
     (value, eaddr) \<leftarrow> modrm_get_rm_8 modrm;
     let opc = modrm_opcode modrm;
     value \<leftarrow>
       (if opc = MODRM_OPCODE_INC then alu (i8088_inc_8 value)
        else if opc = MODRM_OPCODE_DEC then alu (i8088_dec_8 value)
        else do { panic ''Unhandled 0xFE opcode: 0x%x'' [int8u opc]; return value });
     modrm_set_rm_eaddr_8 modrm eaddr value
   }"

text \<open>A far pointer on the stack: the code lowers \<open>sp\<close> by 4 and writes \<open>ip\<close> and \<open>cs\<close> above it.\<close>

definition push_far :: "('a machine_scheme, unit) state" where
  "push_far = do {
     modc (\<lambda>r. r\<lparr>sp := sp r - 4\<rparr>);
     r \<leftarrow> getc id;
     mem_write_16 (ss r) (sp r) (ip r);
     mem_write_by_segment (ss r) (sp r + 2) (lo8 (cs r));
     mem_write_by_segment (ss r) (sp r + 3) (hi8 (cs r))
   }"

definition i8088_opcode_ff :: "('a machine_scheme, unit) state" where
  "i8088_opcode_ff = do {
     modrm \<leftarrow> fetch;
     (value, eaddr) \<leftarrow> modrm_get_rm_16 modrm;
     let opc = modrm_opcode modrm;
     if opc = MODRM_OPCODE_INC then do {
       value \<leftarrow> alu (i8088_inc_16 value);
       modrm_set_rm_eaddr_16 modrm eaddr value
     }
     else if opc = MODRM_OPCODE_DEC then do {
       value \<leftarrow> alu (i8088_dec_16 value);
       modrm_set_rm_eaddr_16 modrm eaddr value
     }
     else if opc = MODRM_OPCODE_CALL then do {
       i \<leftarrow> getc ip;
       push_16 i;
       modc (\<lambda>r. r\<lparr>ip := value\<rparr>)
     }
     else if opc = MODRM_OPCODE_CALL_FAR then do {
       push_far;
       modc (\<lambda>r. r\<lparr>ip := value\<rparr>);
       sg \<leftarrow> modrm_get_rm_eaddr_16 modrm (eaddr + 2);
       modc (\<lambda>r. r\<lparr>cs := sg\<rparr>)
     }
     else if opc = MODRM_OPCODE_JMP then modc (\<lambda>r. r\<lparr>ip := value\<rparr>)
     else if opc = MODRM_OPCODE_JMP_FAR then do {
       modc (\<lambda>r. r\<lparr>ip := value\<rparr>);
       sg \<leftarrow> modrm_get_rm_eaddr_16 modrm (eaddr + 2);
       modc (\<lambda>r. r\<lparr>cs := sg\<rparr>)
     }
     else push_16 (if modrm_mod modrm = MOD_REGISTER \<and> modrm_rm modrm = REG16_SP
                   then value - 2 else value)
   }"

subsection \<open>Frames\<close>

lemma push_far_rom [frame_intros]: "preserves rom_view push_far"
  unfolding push_far_def by (intro frame_intros)

lemma groups_rom [frame_intros]:
  "preserves rom_view i8088_opcode_80" "preserves rom_view i8088_opcode_81"
  "preserves rom_view i8088_opcode_83" "preserves rom_view (i8088_opcode_d0_d2 n)"
  "preserves rom_view (i8088_opcode_d1_d3 n)" "preserves rom_view i8088_opcode_f6"
  "preserves rom_view i8088_opcode_f7" "preserves rom_view i8088_opcode_fe"
  "preserves rom_view i8088_opcode_ff"
  unfolding i8088_opcode_80_def i8088_opcode_81_def i8088_opcode_83_def
    i8088_opcode_d0_d2_def i8088_opcode_d1_d3_def i8088_opcode_f6_def i8088_opcode_f7_def
    i8088_opcode_fe_def i8088_opcode_ff_def
  by (intro frame_intros)+

end
