(* ===== verification/Execute.thy ===== *)
theory Execute
  imports Opcode_Groups
begin

unbundle bit_operations_syntax

text \<open>
  \<open>i8088_execute\<close>: one instruction. The switch over the opcode is split into one definition per
  sixteen opcodes, \<open>exec_0\<close> to \<open>exec_F\<close>; operand patterns that the code spells out once per
  opcode (\<open>op r/m,reg\<close>; \<open>op AL,imm\<close>; the conditional jumps) are one definition each. The I/O
  port table is the argument \<open>io\<close>, the pointer \<open>cpu->io\<close> of the code.
\<close>

subsection \<open>Operand patterns\<close>

definition op_rm_reg_8 :: "(u8 \<Rightarrow> u8 \<Rightarrow> i8088 \<Rightarrow> u8 \<times> i8088) \<Rightarrow> ('a machine_scheme, unit) state" where
  "op_rm_reg_8 f = do {
     modrm \<leftarrow> fetch;
     (data, eaddr) \<leftarrow> modrm_get_rm_8 modrm;
     reg \<leftarrow> getc (modrm_get_reg_8 modrm);
     value \<leftarrow> alu (f data reg);
     modrm_set_rm_eaddr_8 modrm eaddr value
   }"

definition op_reg_rm_8 :: "(u8 \<Rightarrow> u8 \<Rightarrow> i8088 \<Rightarrow> u8 \<times> i8088) \<Rightarrow> ('a machine_scheme, unit) state" where
  "op_reg_rm_8 f = do {
     modrm \<leftarrow> fetch;
     data \<leftarrow> getc (modrm_get_reg_8 modrm);
     (rm, eaddr) \<leftarrow> modrm_get_rm_8 modrm;
     value \<leftarrow> alu (f data rm);
     modc (modrm_set_reg_8 modrm value)
   }"

definition cmp_rm_reg_8 :: "('a machine_scheme, unit) state" where
  "cmp_rm_reg_8 = do {
     modrm \<leftarrow> fetch;
     (data, eaddr) \<leftarrow> modrm_get_rm_8 modrm;
     reg \<leftarrow> getc (modrm_get_reg_8 modrm);
     modc (i8088_cmp_8 data reg)
   }"

definition cmp_reg_rm_8 :: "('a machine_scheme, unit) state" where
  "cmp_reg_rm_8 = do {
     modrm \<leftarrow> fetch;
     data \<leftarrow> getc (modrm_get_reg_8 modrm);
     (rm, eaddr) \<leftarrow> modrm_get_rm_8 modrm;
     modc (i8088_cmp_8 data rm)
   }"

definition test_rm_reg_8 :: "('a machine_scheme, unit) state" where
  "test_rm_reg_8 = do {
     modrm \<leftarrow> fetch;
     reg \<leftarrow> getc (modrm_get_reg_8 modrm);
     (rm, eaddr) \<leftarrow> modrm_get_rm_8 modrm;
     alu (i8088_and_8 reg rm);
     return ()
   }"

definition xchg_rm_reg_8 :: "('a machine_scheme, unit) state" where
  "xchg_rm_reg_8 = do {
     modrm \<leftarrow> fetch;
     data \<leftarrow> getc (modrm_get_reg_8 modrm);
     (rm, eaddr) \<leftarrow> modrm_get_rm_8 modrm;
     modc (modrm_set_reg_8 modrm rm);
     modrm_set_rm_eaddr_8 modrm eaddr data
   }"

definition op_rm_reg_16 :: "(u16 \<Rightarrow> u16 \<Rightarrow> i8088 \<Rightarrow> u16 \<times> i8088) \<Rightarrow> ('a machine_scheme, unit) state" where
  "op_rm_reg_16 f = do {
     modrm \<leftarrow> fetch;
     (data, eaddr) \<leftarrow> modrm_get_rm_16 modrm;
     reg \<leftarrow> getc (modrm_get_reg_16 modrm);
     value \<leftarrow> alu (f data reg);
     modrm_set_rm_eaddr_16 modrm eaddr value
   }"

definition op_reg_rm_16 :: "(u16 \<Rightarrow> u16 \<Rightarrow> i8088 \<Rightarrow> u16 \<times> i8088) \<Rightarrow> ('a machine_scheme, unit) state" where
  "op_reg_rm_16 f = do {
     modrm \<leftarrow> fetch;
     data \<leftarrow> getc (modrm_get_reg_16 modrm);
     (rm, eaddr) \<leftarrow> modrm_get_rm_16 modrm;
     value \<leftarrow> alu (f data rm);
     modc (modrm_set_reg_16 modrm value)
   }"

definition cmp_rm_reg_16 :: "('a machine_scheme, unit) state" where
  "cmp_rm_reg_16 = do {
     modrm \<leftarrow> fetch;
     (data, eaddr) \<leftarrow> modrm_get_rm_16 modrm;
     reg \<leftarrow> getc (modrm_get_reg_16 modrm);
     modc (i8088_cmp_16 data reg)
   }"

definition cmp_reg_rm_16 :: "('a machine_scheme, unit) state" where
  "cmp_reg_rm_16 = do {
     modrm \<leftarrow> fetch;
     data \<leftarrow> getc (modrm_get_reg_16 modrm);
     (rm, eaddr) \<leftarrow> modrm_get_rm_16 modrm;
     modc (i8088_cmp_16 data rm)
   }"

definition test_rm_reg_16 :: "('a machine_scheme, unit) state" where
  "test_rm_reg_16 = do {
     modrm \<leftarrow> fetch;
     reg \<leftarrow> getc (modrm_get_reg_16 modrm);
     (rm, eaddr) \<leftarrow> modrm_get_rm_16 modrm;
     alu (i8088_and_16 reg rm);
     return ()
   }"

definition xchg_rm_reg_16 :: "('a machine_scheme, unit) state" where
  "xchg_rm_reg_16 = do {
     modrm \<leftarrow> fetch;
     data \<leftarrow> getc (modrm_get_reg_16 modrm);
     (rm, eaddr) \<leftarrow> modrm_get_rm_16 modrm;
     modc (modrm_set_reg_16 modrm rm);
     modrm_set_rm_eaddr_16 modrm eaddr data
   }"

text \<open>Operations on the accumulator and an immediate operand.\<close>

definition op_al_imm :: "(u8 \<Rightarrow> u8 \<Rightarrow> i8088 \<Rightarrow> u8 \<times> i8088) \<Rightarrow> ('a machine_scheme, unit) state" where
  "op_al_imm f = do {
     data \<leftarrow> fetch;
     a \<leftarrow> getc al;
     value \<leftarrow> alu (f a data);
     modc (set_al value)
   }"

definition op_ax_imm :: "(u16 \<Rightarrow> u16 \<Rightarrow> i8088 \<Rightarrow> u16 \<times> i8088) \<Rightarrow> ('a machine_scheme, unit) state" where
  "op_ax_imm f = do {
     data \<leftarrow> fetch_16;
     a \<leftarrow> getc ax;
     value \<leftarrow> alu (f a data);
     modc (\<lambda>r. r\<lparr>ax := value\<rparr>)
   }"

text \<open>Relative jumps: the displacement byte is signed and relative to the next instruction.\<close>

definition jump_if :: "(i8088 \<Rightarrow> bool) \<Rightarrow> ('a machine_scheme, unit) state" where
  "jump_if cond = do {
     disp \<leftarrow> fetch;
     taken \<leftarrow> getc cond;
     if taken then modc (\<lambda>r. r\<lparr>ip := ip r + scast disp\<rparr>) else return ()
   }"

definition loop_if :: "(i8088 \<Rightarrow> bool) \<Rightarrow> ('a machine_scheme, unit) state" where
  "loop_if cond = do {
     disp \<leftarrow> fetch;
     modc (\<lambda>r. r\<lparr>cx := cx r - 1\<rparr>);
     taken \<leftarrow> getc (\<lambda>r. cond r \<and> cx r \<noteq> 0);
     if taken then modc (\<lambda>r. r\<lparr>ip := ip r + scast disp\<rparr>) else return ()
   }"

text \<open>
  The repeat prefixes. \<open>while (cpu->cx != 0 && cond) { body; cpu->cx--; }\<close> runs the body at
  most \<open>cx\<close> times, because no string operation writes \<open>cx\<close>; the recursion is on that number.
\<close>

primrec rep_loop :: "nat \<Rightarrow> (i8088 \<Rightarrow> bool) \<Rightarrow> ('a machine_scheme, unit) state \<Rightarrow> ('a machine_scheme, unit) state" where
  "rep_loop 0 cond body = return ()"
| "rep_loop (Suc n) cond body = do {
     go \<leftarrow> getc (\<lambda>r. cx r \<noteq> 0 \<and> cond r);
     if go then do {
       body;
       modc (\<lambda>r. r\<lparr>cx := cx r - 1\<rparr>);
       rep_loop n cond body
     } else return ()
   }"

definition rep_while :: "(i8088 \<Rightarrow> bool) \<Rightarrow> ('a machine_scheme, unit) state \<Rightarrow> ('a machine_scheme, unit) state" where
  "rep_while cond body = do { count \<leftarrow> getc (\<lambda>r. unat (cx r)); rep_loop count cond body }"

text \<open>\<open>MOVS\<close>, \<open>STOS\<close>, \<open>LODS\<close>: both repeat prefixes repeat \<open>cx\<close> times.\<close>

definition rep_string :: "('a machine_scheme, unit) state \<Rightarrow> ('a machine_scheme, unit) state" where
  "rep_string body = do {
     rep \<leftarrow> getc repeat_mode;
     if rep = REPEAT_NONE then body else rep_while (\<lambda>_. True) body
   }"

text \<open>\<open>CMPS\<close>, \<open>SCAS\<close>: the prefix also names the value of ZF that keeps the loop going.\<close>

definition rep_compare :: "(i8088 \<Rightarrow> bool) \<Rightarrow> ('a machine_scheme, unit) state \<Rightarrow> ('a machine_scheme, unit) state" where
  "rep_compare cond body = do {
     c \<leftarrow> getc cx;
     if c \<noteq> 0 then do {
       body;
       modc (\<lambda>r. r\<lparr>cx := cx r - 1\<rparr>);
       go \<leftarrow> getc cond;
       if go then rep_while cond body else return ()
     } else return ()
   }"

definition rep_scan :: "('a machine_scheme, unit) state \<Rightarrow> ('a machine_scheme, unit) state" where
  "rep_scan body = do {
     rep \<leftarrow> getc repeat_mode;
     if rep = REPEAT_NONE then body
     else if rep = REPEAT_EZ then rep_compare flag_z body
     else rep_compare (\<lambda>r. \<not> flag_z r) body
   }"

subsection \<open>The opcodes\<close>

definition unhandled_opcode :: "u8 \<Rightarrow> ('a machine_scheme, unit) state" where
  "unhandled_opcode opcode = panic ''Unhandled opcode: 0x%02x'' [int8u opcode]"

definition exec_0 :: "u8 \<Rightarrow> ('a machine_scheme, unit) state" where
  "exec_0 opcode =
    (if opcode = 0x00 then op_rm_reg_8 i8088_add_8
     else if opcode = 0x01 then op_rm_reg_16 i8088_add_16
     else if opcode = 0x02 then op_reg_rm_8 i8088_add_8
     else if opcode = 0x03 then op_reg_rm_16 i8088_add_16
     else if opcode = 0x04 then op_al_imm i8088_add_8
     else if opcode = 0x05 then op_ax_imm i8088_add_16
     else if opcode = 0x06 then do { v \<leftarrow> getc es; push_16 v }
     else if opcode = 0x07 then do { v \<leftarrow> pop_16; modc (\<lambda>r. r\<lparr>es := v\<rparr>) }
     else if opcode = 0x08 then op_rm_reg_8 i8088_or_8
     else if opcode = 0x09 then op_rm_reg_16 i8088_or_16
     else if opcode = 0x0A then op_reg_rm_8 i8088_or_8
     else if opcode = 0x0B then op_reg_rm_16 i8088_or_16
     else if opcode = 0x0C then op_al_imm i8088_or_8
     else if opcode = 0x0D then op_ax_imm i8088_or_16
     else if opcode = 0x0E then do { v \<leftarrow> getc cs; push_16 v }
     else if opcode = 0x0F then do { v \<leftarrow> pop_16; modc (\<lambda>r. r\<lparr>cs := v\<rparr>) }
     else unhandled_opcode opcode)"

definition exec_1 :: "u8 \<Rightarrow> ('a machine_scheme, unit) state" where
  "exec_1 opcode =
    (if opcode = 0x10 then op_rm_reg_8 i8088_adc_8
     else if opcode = 0x11 then op_rm_reg_16 i8088_adc_16
     else if opcode = 0x12 then op_reg_rm_8 i8088_adc_8
     else if opcode = 0x13 then op_reg_rm_16 i8088_adc_16
     else if opcode = 0x14 then op_al_imm i8088_adc_8
     else if opcode = 0x15 then op_ax_imm i8088_adc_16
     else if opcode = 0x16 then do { v \<leftarrow> getc ss; push_16 v }
     else if opcode = 0x17 then do { v \<leftarrow> pop_16; modc (\<lambda>r. r\<lparr>ss := v\<rparr>) }
     else if opcode = 0x18 then op_rm_reg_8 i8088_sbb_8
     else if opcode = 0x19 then op_rm_reg_16 i8088_sbb_16
     else if opcode = 0x1A then op_reg_rm_8 i8088_sbb_8
     else if opcode = 0x1B then op_reg_rm_16 i8088_sbb_16
     else if opcode = 0x1C then op_al_imm i8088_sbb_8
     else if opcode = 0x1D then op_ax_imm i8088_sbb_16
     else if opcode = 0x1E then do { v \<leftarrow> getc ds; push_16 v }
     else if opcode = 0x1F then do { v \<leftarrow> pop_16; modc (\<lambda>r. r\<lparr>ds := v\<rparr>) }
     else unhandled_opcode opcode)"

definition exec_2 :: "u8 \<Rightarrow> ('a machine_scheme, unit) state" where
  "exec_2 opcode =
    (if opcode = 0x20 then op_rm_reg_8 i8088_and_8
     else if opcode = 0x21 then op_rm_reg_16 i8088_and_16
     else if opcode = 0x22 then op_reg_rm_8 i8088_and_8
     else if opcode = 0x23 then op_reg_rm_16 i8088_and_16
     else if opcode = 0x24 then op_al_imm i8088_and_8
     else if opcode = 0x25 then op_ax_imm i8088_and_16
     else if opcode = 0x27 then modc i8088_daa
     else if opcode = 0x28 then op_rm_reg_8 i8088_sub_8
     else if opcode = 0x29 then op_rm_reg_16 i8088_sub_16
     else if opcode = 0x2A then op_reg_rm_8 i8088_sub_8
     else if opcode = 0x2B then op_reg_rm_16 i8088_sub_16
     else if opcode = 0x2C then op_al_imm i8088_sub_8
     else if opcode = 0x2D then op_ax_imm i8088_sub_16
     else if opcode = 0x2F then modc i8088_das
     else unhandled_opcode opcode)"

definition exec_3 :: "u8 \<Rightarrow> ('a machine_scheme, unit) state" where
  "exec_3 opcode =
    (if opcode = 0x30 then op_rm_reg_8 i8088_xor_8
     else if opcode = 0x31 then op_rm_reg_16 i8088_xor_16
     else if opcode = 0x32 then op_reg_rm_8 i8088_xor_8
     else if opcode = 0x33 then op_reg_rm_16 i8088_xor_16
     else if opcode = 0x34 then op_al_imm i8088_xor_8
     else if opcode = 0x35 then op_ax_imm i8088_xor_16
     else if opcode = 0x37 then modc i8088_aaa
     else if opcode = 0x38 then cmp_rm_reg_8
     else if opcode = 0x39 then cmp_rm_reg_16
     else if opcode = 0x3A then cmp_reg_rm_8
     else if opcode = 0x3B then cmp_reg_rm_16
     else if opcode = 0x3C then do { data \<leftarrow> fetch; modc (\<lambda>r. i8088_cmp_8 (al r) data r) }
     else if opcode = 0x3D then do { data \<leftarrow> fetch_16; modc (\<lambda>r. i8088_cmp_16 (ax r) data r) }
     else if opcode = 0x3F then modc i8088_aas
     else unhandled_opcode opcode)"

definition exec_4 :: "u8 \<Rightarrow> ('a machine_scheme, unit) state" where
  "exec_4 opcode =
    (if opcode = 0x40 then do { x \<leftarrow> getc ax; v \<leftarrow> alu (i8088_inc_16 x); modc (\<lambda>r. r\<lparr>ax := v\<rparr>) }
     else if opcode = 0x41 then do { x \<leftarrow> getc cx; v \<leftarrow> alu (i8088_inc_16 x); modc (\<lambda>r. r\<lparr>cx := v\<rparr>) }
     else if opcode = 0x42 then do { x \<leftarrow> getc dx; v \<leftarrow> alu (i8088_inc_16 x); modc (\<lambda>r. r\<lparr>dx := v\<rparr>) }
     else if opcode = 0x43 then do { x \<leftarrow> getc bx; v \<leftarrow> alu (i8088_inc_16 x); modc (\<lambda>r. r\<lparr>bx := v\<rparr>) }
     else if opcode = 0x44 then do { x \<leftarrow> getc sp; v \<leftarrow> alu (i8088_inc_16 x); modc (\<lambda>r. r\<lparr>sp := v\<rparr>) }
     else if opcode = 0x45 then do { x \<leftarrow> getc bp; v \<leftarrow> alu (i8088_inc_16 x); modc (\<lambda>r. r\<lparr>bp := v\<rparr>) }
     else if opcode = 0x46 then do { x \<leftarrow> getc si; v \<leftarrow> alu (i8088_inc_16 x); modc (\<lambda>r. r\<lparr>si := v\<rparr>) }
     else if opcode = 0x47 then do { x \<leftarrow> getc di; v \<leftarrow> alu (i8088_inc_16 x); modc (\<lambda>r. r\<lparr>di := v\<rparr>) }
     else if opcode = 0x48 then do { x \<leftarrow> getc ax; v \<leftarrow> alu (i8088_dec_16 x); modc (\<lambda>r. r\<lparr>ax := v\<rparr>) }
     else if opcode = 0x49 then do { x \<leftarrow> getc cx; v \<leftarrow> alu (i8088_dec_16 x); modc (\<lambda>r. r\<lparr>cx := v\<rparr>) }
     else if opcode = 0x4A then do { x \<leftarrow> getc dx; v \<leftarrow> alu (i8088_dec_16 x); modc (\<lambda>r. r\<lparr>dx := v\<rparr>) }
     else if opcode = 0x4B then do { x \<leftarrow> getc bx; v \<leftarrow> alu (i8088_dec_16 x); modc (\<lambda>r. r\<lparr>bx := v\<rparr>) }
     else if opcode = 0x4C then do { x \<leftarrow> getc sp; v \<leftarrow> alu (i8088_dec_16 x); modc (\<lambda>r. r\<lparr>sp := v\<rparr>) }
     else if opcode = 0x4D then do { x \<leftarrow> getc bp; v \<leftarrow> alu (i8088_dec_16 x); modc (\<lambda>r. r\<lparr>bp := v\<rparr>) }
     else if opcode = 0x4E then do { x \<leftarrow> getc si; v \<leftarrow> alu (i8088_dec_16 x); modc (\<lambda>r. r\<lparr>si := v\<rparr>) }
     else if opcode = 0x4F then do { x \<leftarrow> getc di; v \<leftarrow> alu (i8088_dec_16 x); modc (\<lambda>r. r\<lparr>di := v\<rparr>) }
     else unhandled_opcode opcode)"

text \<open>\<open>PUSH SP\<close> stores the lowered stack pointer, as the 8088 does; \<open>POP SP\<close> loads the word and
  does not raise the pointer again.\<close>

definition exec_5 :: "u8 \<Rightarrow> ('a machine_scheme, unit) state" where
  "exec_5 opcode =
    (if opcode = 0x50 then do { v \<leftarrow> getc ax; push_16 v }
     else if opcode = 0x51 then do { v \<leftarrow> getc cx; push_16 v }
     else if opcode = 0x52 then do { v \<leftarrow> getc dx; push_16 v }
     else if opcode = 0x53 then do { v \<leftarrow> getc bx; push_16 v }
     else if opcode = 0x54 then do { v \<leftarrow> getc (\<lambda>r. sp r - 2); push_16 v }
     else if opcode = 0x55 then do { v \<leftarrow> getc bp; push_16 v }
     else if opcode = 0x56 then do { v \<leftarrow> getc si; push_16 v }
     else if opcode = 0x57 then do { v \<leftarrow> getc di; push_16 v }
     else if opcode = 0x58 then do { v \<leftarrow> pop_16; modc (\<lambda>r. r\<lparr>ax := v\<rparr>) }
     else if opcode = 0x59 then do { v \<leftarrow> pop_16; modc (\<lambda>r. r\<lparr>cx := v\<rparr>) }
     else if opcode = 0x5A then do { v \<leftarrow> pop_16; modc (\<lambda>r. r\<lparr>dx := v\<rparr>) }
     else if opcode = 0x5B then do { v \<leftarrow> pop_16; modc (\<lambda>r. r\<lparr>bx := v\<rparr>) }
     else if opcode = 0x5C then do { v \<leftarrow> pop_16; modc (\<lambda>r. r\<lparr>sp := v\<rparr>) }
     else if opcode = 0x5D then do { v \<leftarrow> pop_16; modc (\<lambda>r. r\<lparr>bp := v\<rparr>) }
     else if opcode = 0x5E then do { v \<leftarrow> pop_16; modc (\<lambda>r. r\<lparr>si := v\<rparr>) }
     else if opcode = 0x5F then do { v \<leftarrow> pop_16; modc (\<lambda>r. r\<lparr>di := v\<rparr>) }
     else unhandled_opcode opcode)"

text \<open>The opcodes 60 to 6F are not handled.\<close>

definition exec_7 :: "u8 \<Rightarrow> ('a machine_scheme, unit) state" where
  "exec_7 opcode =
    (if opcode = 0x70 then jump_if (\<lambda>r. flag_o r)
     else if opcode = 0x71 then jump_if (\<lambda>r. \<not> flag_o r)
     else if opcode = 0x72 then jump_if (\<lambda>r. flag_c r)
     else if opcode = 0x73 then jump_if (\<lambda>r. \<not> flag_c r)
     else if opcode = 0x74 then jump_if (\<lambda>r. flag_z r)
     else if opcode = 0x75 then jump_if (\<lambda>r. \<not> flag_z r)
     else if opcode = 0x76 then jump_if (\<lambda>r. flag_c r \<or> flag_z r)
     else if opcode = 0x77 then jump_if (\<lambda>r. \<not> flag_c r \<and> \<not> flag_z r)
     else if opcode = 0x78 then jump_if (\<lambda>r. flag_s r)
     else if opcode = 0x79 then jump_if (\<lambda>r. \<not> flag_s r)
     else if opcode = 0x7A then jump_if (\<lambda>r. flag_p r)
     else if opcode = 0x7B then jump_if (\<lambda>r. \<not> flag_p r)
     else if opcode = 0x7C then jump_if (\<lambda>r. flag_s r \<noteq> flag_o r)
     else if opcode = 0x7D then jump_if (\<lambda>r. flag_s r = flag_o r)
     else if opcode = 0x7E then jump_if (\<lambda>r. flag_z r \<or> flag_s r \<noteq> flag_o r)
     else if opcode = 0x7F then jump_if (\<lambda>r. \<not> flag_z r \<and> flag_s r = flag_o r)
     else unhandled_opcode opcode)"

definition exec_8 :: "u8 \<Rightarrow> ('a machine_scheme, unit) state" where
  "exec_8 opcode =
    (if opcode = 0x80 \<or> opcode = 0x82 then i8088_opcode_80
     else if opcode = 0x81 then i8088_opcode_81
     else if opcode = 0x83 then i8088_opcode_83
     else if opcode = 0x84 then test_rm_reg_8
     else if opcode = 0x85 then test_rm_reg_16
     else if opcode = 0x86 then xchg_rm_reg_8
     else if opcode = 0x87 then xchg_rm_reg_16
     else if opcode = 0x88 then do {
       modrm \<leftarrow> fetch;
       v \<leftarrow> getc (modrm_get_reg_8 modrm);
       modrm_set_rm_8 modrm v
     }
     else if opcode = 0x89 then do {
       modrm \<leftarrow> fetch;
       v \<leftarrow> getc (modrm_get_reg_16 modrm);
       modrm_set_rm_16 modrm v
     }
     else if opcode = 0x8A then do {
       modrm \<leftarrow> fetch;
       (v, eaddr) \<leftarrow> modrm_get_rm_8 modrm;
       modc (modrm_set_reg_8 modrm v)
     }
     else if opcode = 0x8B then do {
       modrm \<leftarrow> fetch;
       (v, eaddr) \<leftarrow> modrm_get_rm_16 modrm;
       modc (modrm_set_reg_16 modrm v)
     }
     else if opcode = 0x8C then do {
       modrm \<leftarrow> fetch;
       v \<leftarrow> getc (modrm_get_reg_seg modrm);
       modrm_set_rm_16 modrm v
     }
     else if opcode = 0x8D then do {
       modrm \<leftarrow> fetch;
       (v, eaddr) \<leftarrow> modrm_get_rm_16 modrm;
       modc (modrm_set_reg_16 modrm eaddr)
     }
     else if opcode = 0x8E then do {
       modrm \<leftarrow> fetch;
       (v, eaddr) \<leftarrow> modrm_get_rm_16 modrm;
       modc (modrm_set_reg_seg modrm v)
     }
     else if opcode = 0x8F then do {
       modrm \<leftarrow> fetch;
       (v, eaddr) \<leftarrow> modrm_get_rm_16 modrm;
       data \<leftarrow> pop_16;
       modrm_set_rm_eaddr_16 modrm eaddr data
     }
     else unhandled_opcode opcode)"

text \<open>The unused flags after \<open>POPF\<close> and \<open>IRET\<close>; \<open>SAHF\<close> and \<open>LAHF\<close>.\<close>

definition fix_flags :: "u16 \<Rightarrow> u16" where
  "fix_flags f = (f OR 0b1111000000000010) AND NOT 0b0000000000101000"

definition i8088_sahf :: "i8088 \<Rightarrow> i8088" where
  "i8088_sahf r =
     (let r = set_s (bit (ah r) 7) r;
          r = set_z (bit (ah r) 6) r;
          r = set_a (bit (ah r) 4) r;
          r = set_p (bit (ah r) 2) r
      in set_c (bit (ah r) 0) r)"

definition i8088_lahf :: "i8088 \<Rightarrow> i8088" where
  "i8088_lahf r =
     set_ah (push_bit 7 (of_bool (flag_s r)) OR push_bit 6 (of_bool (flag_z r)) OR
             push_bit 4 (of_bool (flag_a r)) OR push_bit 2 (of_bool (flag_p r)) OR
             push_bit 1 1 OR of_bool (flag_c r)) r"

definition exec_9 :: "u8 \<Rightarrow> ('a machine_scheme, unit) state" where
  "exec_9 opcode =
    (if opcode = 0x90 then return ()
     else if opcode = 0x91 then modc (\<lambda>r. r\<lparr>ax := cx r, cx := ax r\<rparr>)
     else if opcode = 0x92 then modc (\<lambda>r. r\<lparr>ax := dx r, dx := ax r\<rparr>)
     else if opcode = 0x93 then modc (\<lambda>r. r\<lparr>ax := bx r, bx := ax r\<rparr>)
     else if opcode = 0x94 then modc (\<lambda>r. r\<lparr>ax := sp r, sp := ax r\<rparr>)
     else if opcode = 0x95 then modc (\<lambda>r. r\<lparr>ax := bp r, bp := ax r\<rparr>)
     else if opcode = 0x96 then modc (\<lambda>r. r\<lparr>ax := si r, si := ax r\<rparr>)
     else if opcode = 0x97 then modc (\<lambda>r. r\<lparr>ax := di r, di := ax r\<rparr>)
     else if opcode = 0x98 then modc (\<lambda>r. if al r < 0x80 then set_ah 0 r else set_ah 0xFF r)
     else if opcode = 0x99 then modc (\<lambda>r. if ax r < 0x8000 then r\<lparr>dx := 0\<rparr> else r\<lparr>dx := 0xFFFF\<rparr>)
     else if opcode = 0x9A then do {
       offset \<leftarrow> fetch_16;
       segment \<leftarrow> fetch_16;
       push_far;
       modc (\<lambda>r. r\<lparr>ip := offset, cs := segment\<rparr>)
     }
     else if opcode = 0x9B then panic ''WAIT not implemented!'' []
     else if opcode = 0x9C then do { v \<leftarrow> getc flags; push_16 v }
     else if opcode = 0x9D then do { v \<leftarrow> pop_16; modc (\<lambda>r. r\<lparr>flags := fix_flags v\<rparr>) }
     else if opcode = 0x9E then modc i8088_sahf
     else if opcode = 0x9F then modc i8088_lahf
     else unhandled_opcode opcode)"

definition exec_A :: "u8 \<Rightarrow> ('a machine_scheme, unit) state" where
  "exec_A opcode =
    (if opcode = 0xA0 then do { eaddr \<leftarrow> fetch_16; sg \<leftarrow> getc ds; v \<leftarrow> eaddr_read_8 sg eaddr; modc (set_al v) }
     else if opcode = 0xA1 then do { eaddr \<leftarrow> fetch_16; sg \<leftarrow> getc ds; v \<leftarrow> eaddr_read_16 sg eaddr; modc (\<lambda>r. r\<lparr>ax := v\<rparr>) }
     else if opcode = 0xA2 then do { eaddr \<leftarrow> fetch_16; r \<leftarrow> getc id; eaddr_write_8 (ds r) eaddr (al r) }
     else if opcode = 0xA3 then do { eaddr \<leftarrow> fetch_16; r \<leftarrow> getc id; eaddr_write_16 (ds r) eaddr (ax r) }
     else if opcode = 0xA4 then rep_string i8088_movsb
     else if opcode = 0xA5 then rep_string i8088_movsw
     else if opcode = 0xA6 then rep_scan i8088_cmpsb
     else if opcode = 0xA7 then rep_scan i8088_cmpsw
     else if opcode = 0xA8 then do { data \<leftarrow> fetch; a \<leftarrow> getc al; alu (i8088_and_8 a data); return () }
     else if opcode = 0xA9 then do { data \<leftarrow> fetch_16; a \<leftarrow> getc ax; alu (i8088_and_16 a data); return () }
     else if opcode = 0xAA then rep_string i8088_stosb
     else if opcode = 0xAB then rep_string i8088_stosw
     else if opcode = 0xAC then rep_string i8088_lodsb
     else if opcode = 0xAD then rep_string i8088_lodsw
     else if opcode = 0xAE then rep_scan i8088_scasb
     else if opcode = 0xAF then rep_scan i8088_scasw
     else unhandled_opcode opcode)"

definition exec_B :: "u8 \<Rightarrow> ('a machine_scheme, unit) state" where
  "exec_B opcode =
    (if opcode = 0xB0 then do { data \<leftarrow> fetch; modc (set_al data) }
     else if opcode = 0xB1 then do { data \<leftarrow> fetch; modc (set_cl data) }
     else if opcode = 0xB2 then do { data \<leftarrow> fetch; modc (set_dl data) }
     else if opcode = 0xB3 then do { data \<leftarrow> fetch; modc (set_bl data) }
     else if opcode = 0xB4 then do { data \<leftarrow> fetch; modc (set_ah data) }
     else if opcode = 0xB5 then do { data \<leftarrow> fetch; modc (set_ch data) }
     else if opcode = 0xB6 then do { data \<leftarrow> fetch; modc (set_dh data) }
     else if opcode = 0xB7 then do { data \<leftarrow> fetch; modc (set_bh data) }
     else if opcode = 0xB8 then do { data \<leftarrow> fetch_16; modc (\<lambda>r. r\<lparr>ax := data\<rparr>) }
     else if opcode = 0xB9 then do { data \<leftarrow> fetch_16; modc (\<lambda>r. r\<lparr>cx := data\<rparr>) }
     else if opcode = 0xBA then do { data \<leftarrow> fetch_16; modc (\<lambda>r. r\<lparr>dx := data\<rparr>) }
     else if opcode = 0xBB then do { data \<leftarrow> fetch_16; modc (\<lambda>r. r\<lparr>bx := data\<rparr>) }
     else if opcode = 0xBC then do { data \<leftarrow> fetch_16; modc (\<lambda>r. r\<lparr>sp := data\<rparr>) }
     else if opcode = 0xBD then do { data \<leftarrow> fetch_16; modc (\<lambda>r. r\<lparr>bp := data\<rparr>) }
     else if opcode = 0xBE then do { data \<leftarrow> fetch_16; modc (\<lambda>r. r\<lparr>si := data\<rparr>) }
     else if opcode = 0xBF then do { data \<leftarrow> fetch_16; modc (\<lambda>r. r\<lparr>di := data\<rparr>) }
     else unhandled_opcode opcode)"

text \<open>The far return: offset and segment from the stack; \<open>IRET\<close> also the flags.\<close>

definition pop_far :: "('a machine_scheme, unit) state" where
  "pop_far = do {
     r \<leftarrow> getc id;
     i \<leftarrow> mem_read_16 (ss r) (sp r);
     modc (\<lambda>r. r\<lparr>ip := i\<rparr>);
     a \<leftarrow> mem_read_by_segment (ss r) (sp r + 2);
     b \<leftarrow> mem_read_by_segment (ss r) (sp r + 3);
     modc (\<lambda>r. r\<lparr>cs := word16 a b\<rparr>);
     modc (\<lambda>r. r\<lparr>sp := sp r + 4\<rparr>)
   }"

definition i8088_iret :: "('a machine_scheme, unit) state" where
  "i8088_iret = do {
     r \<leftarrow> getc id;
     i \<leftarrow> mem_read_16 (ss r) (sp r);
     modc (\<lambda>r. r\<lparr>ip := i\<rparr>);
     a \<leftarrow> mem_read_by_segment (ss r) (sp r + 2);
     b \<leftarrow> mem_read_by_segment (ss r) (sp r + 3);
     modc (\<lambda>r. r\<lparr>cs := word16 a b\<rparr>);
     a \<leftarrow> mem_read_by_segment (ss r) (sp r + 4);
     b \<leftarrow> mem_read_by_segment (ss r) (sp r + 5);
     modc (\<lambda>r. r\<lparr>sp := sp r + 6\<rparr>);
     modc (\<lambda>r. r\<lparr>flags := fix_flags (word16 a b)\<rparr>)
   }"

definition exec_C :: "u8 \<Rightarrow> ('a machine_scheme, unit) state" where
  "exec_C opcode =
    (if opcode = 0xC2 then do {
       data \<leftarrow> fetch_16;
       v \<leftarrow> pop_16;
       modc (\<lambda>r. r\<lparr>ip := v, sp := sp r + data\<rparr>)
     }
     else if opcode = 0xC3 then do { v \<leftarrow> pop_16; modc (\<lambda>r. r\<lparr>ip := v\<rparr>) }
     else if opcode = 0xC4 then do {
       modrm \<leftarrow> fetch;
       (data, eaddr) \<leftarrow> modrm_get_rm_16 modrm;
       modc (modrm_set_reg_16 modrm data);
       sg \<leftarrow> modrm_get_rm_eaddr_16 modrm (eaddr + 2);
       modc (\<lambda>r. r\<lparr>es := sg\<rparr>)
     }
     else if opcode = 0xC5 then do {
       modrm \<leftarrow> fetch;
       (data, eaddr) \<leftarrow> modrm_get_rm_16 modrm;
       modc (modrm_set_reg_16 modrm data);
       sg \<leftarrow> modrm_get_rm_eaddr_16 modrm (eaddr + 2);
       modc (\<lambda>r. r\<lparr>ds := sg\<rparr>)
     }
     else if opcode = 0xC6 then do {
       modrm \<leftarrow> fetch;
       (v, eaddr) \<leftarrow> modrm_get_rm_8 modrm;
       data \<leftarrow> fetch;
       modrm_set_rm_eaddr_8 modrm eaddr data
     }
     else if opcode = 0xC7 then do {
       modrm \<leftarrow> fetch;
       (v, eaddr) \<leftarrow> modrm_get_rm_16 modrm;
       data \<leftarrow> fetch_16;
       modrm_set_rm_eaddr_16 modrm eaddr data
     }
     else if opcode = 0xCA then do {
       data \<leftarrow> fetch_16;
       pop_far;
       modc (\<lambda>r. r\<lparr>sp := sp r + data\<rparr>)
     }
     else if opcode = 0xCB then pop_far
     else if opcode = 0xCC then i8088_interrupt INT_1_BYTE
     else if opcode = 0xCD then do { data \<leftarrow> fetch; i8088_interrupt data }
     else if opcode = 0xCE then do { ov \<leftarrow> getc flag_o; if ov then i8088_interrupt INT_OVERFLOW else return () }
     else if opcode = 0xCF then i8088_iret
     else unhandled_opcode opcode)"

text \<open>\<open>AAM\<close> splits \<open>AL\<close> into its digits in the given base, \<open>AAD\<close> puts them together.\<close>

definition set_psz :: "i8088 \<Rightarrow> i8088" where
  "set_psz r =
     (let r = set_p (parity_even (ucast (al r))) r;
          r = set_s (bit (al r) 7) r
      in set_z (al r = 0) r)"

definition i8088_aam :: "u8 \<Rightarrow> i8088 \<Rightarrow> i8088" where
  "i8088_aam data r =
     (let r = set_ah (al r div data) r; r = set_al (al r mod data) r in set_psz r)"

definition i8088_aad :: "u8 \<Rightarrow> i8088 \<Rightarrow> i8088" where
  "i8088_aad data r =
     (let r = set_al (ah r * data + al r) r; r = set_ah 0 r in set_psz r)"

definition exec_D :: "u8 \<Rightarrow> ('a machine_scheme, unit) state" where
  "exec_D opcode =
    (if opcode = 0xD0 then i8088_opcode_d0_d2 1
     else if opcode = 0xD1 then i8088_opcode_d1_d3 1
     else if opcode = 0xD2 then do { count \<leftarrow> getc cl; i8088_opcode_d0_d2 count }
     else if opcode = 0xD3 then do { count \<leftarrow> getc cl; i8088_opcode_d1_d3 count }
     else if opcode = 0xD4 then do {
       data \<leftarrow> fetch;
       if data = 0 then i8088_interrupt INT_DIVIDE_ERROR else modc (i8088_aam data)
     }
     else if opcode = 0xD5 then do { data \<leftarrow> fetch; modc (i8088_aad data) }
     else if opcode = 0xD7 then do { r \<leftarrow> getc id; v \<leftarrow> eaddr_read_8 (ds r) (bx r + ucast (al r)); modc (set_al v) }
     else if opcode = 0xD8 \<or> opcode = 0xD9 \<or> opcode = 0xDA \<or> opcode = 0xDB \<or> opcode = 0xDC \<or> opcode = 0xDD \<or> opcode = 0xDE \<or> opcode = 0xDF then do { modrm \<leftarrow> fetch; modrm_void_rm_16 modrm }
     else unhandled_opcode opcode)"

definition exec_E :: "'a machine_scheme io_t \<Rightarrow> u8 \<Rightarrow> ('a machine_scheme, unit) state" where
  "exec_E io opcode =
    (if opcode = 0xE0 then loop_if (\<lambda>r. \<not> flag_z r)
     else if opcode = 0xE1 then loop_if flag_z
     else if opcode = 0xE2 then loop_if (\<lambda>_. True)
     else if opcode = 0xE3 then jump_if (\<lambda>r. cx r = 0)
     else if opcode = 0xE4 then do { data \<leftarrow> fetch; v \<leftarrow> io_read io (ucast data); modc (set_al v) }
     else if opcode = 0xE5 then do {
       data \<leftarrow> fetch;
       v \<leftarrow> io_read io (ucast data);
       modc (set_al v);
       w \<leftarrow> io_read io (ucast data + 1);
       modc (set_ah w)
     }
     else if opcode = 0xE6 then do { data \<leftarrow> fetch; v \<leftarrow> getc al; io_write io (ucast data) v }
     else if opcode = 0xE7 then do {
       data \<leftarrow> fetch;
       v \<leftarrow> getc al;
       io_write io (ucast data) v;
       w \<leftarrow> getc ah;
       io_write io (ucast data + 1) w
     }
     else if opcode = 0xE8 then do {
       offset \<leftarrow> fetch_16;
       i \<leftarrow> getc ip;
       push_16 i;
       modc (\<lambda>r. r\<lparr>ip := ip r + offset\<rparr>)
     }
     else if opcode = 0xE9 then do { offset \<leftarrow> fetch_16; modc (\<lambda>r. r\<lparr>ip := ip r + offset\<rparr>) }
     else if opcode = 0xEA then do {
       offset \<leftarrow> fetch_16;
       segment \<leftarrow> fetch_16;
       modc (\<lambda>r. r\<lparr>ip := offset, cs := segment\<rparr>)
     }
     else if opcode = 0xEB then jump_if (\<lambda>_. True)
     else if opcode = 0xEC then do { port \<leftarrow> getc dx; v \<leftarrow> io_read io port; modc (set_al v) }
     else if opcode = 0xED then do {
       port \<leftarrow> getc dx;
       v \<leftarrow> io_read io port;
       modc (set_al v);
       port \<leftarrow> getc dx;
       w \<leftarrow> io_read io (port + 1);
       modc (set_ah w)
     }
     else if opcode = 0xEE then do { r \<leftarrow> getc id; io_write io (dx r) (al r) }
     else if opcode = 0xEF then do {
       r \<leftarrow> getc id;
       io_write io (dx r) (al r);
       r \<leftarrow> getc id;
       io_write io (dx r + 1) (ah r)
     }
     else unhandled_opcode opcode)"

definition exec_F :: "u8 \<Rightarrow> ('a machine_scheme, unit) state" where
  "exec_F opcode =
    (if opcode = 0xF4 then modc (\<lambda>r. r\<lparr>halt := True\<rparr>)
     else if opcode = 0xF5 then modc (\<lambda>r. set_c (\<not> flag_c r) r)
     else if opcode = 0xF6 then i8088_opcode_f6
     else if opcode = 0xF7 then i8088_opcode_f7
     else if opcode = 0xF8 then modc (set_c False)
     else if opcode = 0xF9 then modc (set_c True)
     else if opcode = 0xFA then modc (set_i False)
     else if opcode = 0xFB then modc (set_i True)
     else if opcode = 0xFC then modc (set_d False)
     else if opcode = 0xFD then modc (set_d True)
     else if opcode = 0xFE then i8088_opcode_fe
     else if opcode = 0xFF then i8088_opcode_ff
     else unhandled_opcode opcode)"

definition exec_opcode :: "'a machine_scheme io_t \<Rightarrow> u8 \<Rightarrow> ('a machine_scheme, unit) state" where
  "exec_opcode io opcode =
    (let row = drop_bit 4 opcode in
     if row = 0x0 then exec_0 opcode
     else if row = 0x1 then exec_1 opcode
     else if row = 0x2 then exec_2 opcode
     else if row = 0x3 then exec_3 opcode
     else if row = 0x4 then exec_4 opcode
     else if row = 0x5 then exec_5 opcode
     else if row = 0x7 then exec_7 opcode
     else if row = 0x8 then exec_8 opcode
     else if row = 0x9 then exec_9 opcode
     else if row = 0xA then exec_A opcode
     else if row = 0xB then exec_B opcode
     else if row = 0xC then exec_C opcode
     else if row = 0xD then exec_D opcode
     else if row = 0xE then exec_E io opcode
     else if row = 0xF then exec_F opcode
     else unhandled_opcode opcode)"

subsection \<open>Prefixes\<close>

text \<open>
  One pass over the prefix code: at most one segment override or lock prefix, then at most one
  repeat prefix; the result is the opcode fetched last. The switch jumps back to the start of
  this code for a segment override, so any number of prefixes can precede an instruction. The
  offset wraps in the code segment, so a segment that holds nothing but overrides is decoded
  for ever: the loop takes a fuel, and \<open>None\<close> is running out of it.
\<close>

definition is_segment_override :: "u8 \<Rightarrow> bool" where
  "is_segment_override opcode \<longleftrightarrow>
     opcode = 0x26 \<or> opcode = 0x2E \<or> opcode = 0x36 \<or> opcode = 0x3E"

definition segment_prefix :: "segment_t \<Rightarrow> ('a machine_scheme, u8) state" where
  "segment_prefix sg = do { modc (\<lambda>r. r\<lparr>segment_override := sg\<rparr>); fetch }"

definition i8088_prefix_pass :: "u8 \<Rightarrow> ('a machine_scheme, u8) state" where
  "i8088_prefix_pass opcode = do {
     opcode \<leftarrow>
       (if opcode = 0x26 then segment_prefix SEGMENT_ES
        else if opcode = 0x2E then segment_prefix SEGMENT_CS
        else if opcode = 0x36 then segment_prefix SEGMENT_SS
        else if opcode = 0x3E then segment_prefix SEGMENT_DS
        else if opcode = 0xF0 then do { panic ''LOCK not implemented!'' []; fetch }
        else return opcode);
     (if opcode = 0xF2 then do { modc (\<lambda>r. r\<lparr>repeat_mode := REPEAT_NENZ\<rparr>); fetch }
      else if opcode = 0xF3 then do { modc (\<lambda>r. r\<lparr>repeat_mode := REPEAT_EZ\<rparr>); fetch }
      else return opcode)
   }"

primrec i8088_prefixes :: "nat \<Rightarrow> u8 \<Rightarrow> ('a machine_scheme, u8 option) state" where
  "i8088_prefixes 0 opcode = return None"
| "i8088_prefixes (Suc fuel) opcode = do {
     opcode \<leftarrow> i8088_prefix_pass opcode;
     if is_segment_override opcode then i8088_prefixes fuel opcode else return (Some opcode)
   }"

text \<open>One call of \<open>i8088_execute\<close>; the result says whether it returns.\<close>

definition i8088_execute :: "'a machine_scheme io_t \<Rightarrow> ('a machine_scheme, bool) state" where
  "i8088_execute io = do {
     halted \<leftarrow> getc halt;
     if halted then return True
     else do {
       modc (\<lambda>r. r\<lparr>segment_override := SEGMENT_NONE, repeat_mode := REPEAT_NONE\<rparr>);
       opcode \<leftarrow> fetch;
       decoded \<leftarrow> i8088_prefixes 0x10000 opcode;
       case decoded of
         None \<Rightarrow> return False
       | Some opcode \<Rightarrow> do { exec_opcode io opcode; return True }
     }
   }"

subsection \<open>Read-only memory is never changed\<close>

lemma operand_rom [frame_intros]:
  "preserves rom_view (op_rm_reg_8 f)" "preserves rom_view (op_rm_reg_16 g)"
  "preserves rom_view (op_reg_rm_8 f)" "preserves rom_view (op_reg_rm_16 g)"
  "preserves rom_view cmp_rm_reg_8" "preserves rom_view cmp_rm_reg_16"
  "preserves rom_view cmp_reg_rm_8" "preserves rom_view cmp_reg_rm_16"
  "preserves rom_view test_rm_reg_8" "preserves rom_view test_rm_reg_16"
  "preserves rom_view xchg_rm_reg_8" "preserves rom_view xchg_rm_reg_16"
  "preserves rom_view (op_al_imm f)" "preserves rom_view (op_ax_imm g)"
  "preserves rom_view (jump_if c)" "preserves rom_view (loop_if c)"
  "preserves rom_view (unhandled_opcode x)"
  unfolding op_rm_reg_8_def op_rm_reg_16_def op_reg_rm_8_def op_reg_rm_16_def cmp_rm_reg_8_def
    cmp_rm_reg_16_def cmp_reg_rm_8_def cmp_reg_rm_16_def test_rm_reg_8_def test_rm_reg_16_def
    xchg_rm_reg_8_def xchg_rm_reg_16_def op_al_imm_def op_ax_imm_def jump_if_def loop_if_def
    unhandled_opcode_def
  by (intro frame_intros)+

lemma rep_loop_preserves:
  assumes "preserves f body" and "preserves f (modc (\<lambda>r. r\<lparr>cx := cx r - 1\<rparr>))"
    and "\<And>g :: i8088 \<Rightarrow> bool. preserves f (getc g)"
  shows "preserves f (rep_loop n cond body)"
  by (induction n) (auto intro!: assms frame_intros)

lemma rep_rom [frame_intros]:
  "preserves rom_view body \<Longrightarrow> preserves rom_view (rep_while cond body)"
  "preserves rom_view body \<Longrightarrow> preserves rom_view (rep_string body)"
  "preserves rom_view body \<Longrightarrow> preserves rom_view (rep_compare cond body)"
  "preserves rom_view body \<Longrightarrow> preserves rom_view (rep_scan body)"
  unfolding rep_while_def rep_string_def rep_compare_def rep_scan_def
  by (intro frame_intros rep_loop_preserves; assumption)+

lemma return_far_rom [frame_intros]: "preserves rom_view pop_far" "preserves rom_view i8088_iret"
  unfolding pop_far_def i8088_iret_def by (intro frame_intros)+

lemma rows_rom [frame_intros]:
  "preserves rom_view (exec_0 x)" "preserves rom_view (exec_1 x)" "preserves rom_view (exec_2 x)"
  "preserves rom_view (exec_3 x)" "preserves rom_view (exec_4 x)" "preserves rom_view (exec_5 x)"
  "preserves rom_view (exec_7 x)" "preserves rom_view (exec_8 x)" "preserves rom_view (exec_9 x)"
  "preserves rom_view (exec_A x)" "preserves rom_view (exec_B x)" "preserves rom_view (exec_C x)"
  "preserves rom_view (exec_D x)" "preserves rom_view (exec_F x)"
  unfolding exec_0_def exec_1_def exec_2_def exec_3_def exec_4_def exec_5_def exec_7_def exec_8_def
    exec_9_def exec_A_def exec_B_def exec_C_def exec_D_def exec_F_def
  by (intro frame_intros)+

lemma exec_E_rom:
  assumes "io_preserves rom_view io"
  shows "preserves rom_view (exec_E io x)"
  unfolding exec_E_def
  by (intro frame_intros io_read_preserves [OF assms] io_write_preserves [OF assms])

lemma exec_opcode_rom:
  assumes "io_preserves rom_view io"
  shows "preserves rom_view (exec_opcode io x)"
  unfolding exec_opcode_def Let_def by (intro frame_intros exec_E_rom [OF assms])

lemma prefix_pass_rom [frame_intros]: "preserves rom_view (i8088_prefix_pass x)"
  unfolding i8088_prefix_pass_def segment_prefix_def by (intro frame_intros)

lemma prefixes_rom [frame_intros]: "preserves rom_view (i8088_prefixes n x)"
proof (induction n arbitrary: x)
  case 0
  show ?case by (simp add: preserves_return)
next
  case (Suc n)
  show ?case unfolding i8088_prefixes.simps by (intro frame_intros Suc)
qed

lemma i8088_execute_rom:
  assumes "io_preserves rom_view io"
  shows "preserves rom_view (i8088_execute io)"
  unfolding i8088_execute_def by (intro frame_intros exec_opcode_rom [OF assms])

end
