(* ===== verification/Cpu_Flow.thy ===== *)
theory Cpu_Flow
  imports Execute
begin

unbundle bit_operations_syntax

text \<open>
  Control flow of the processor: the step relation of a running machine (instructions and
  interrupt requests in any order) and what every run preserves, interrupt delivery and return,
  the conditional jumps, and the termination of instruction decoding.
\<close>

subsection \<open>A running machine\<close>

text \<open>The state \<open>main\<close> builds before the first instruction: cleared memory and registers, and the
  processor reset.\<close>

definition power_on :: machine where
  "power_on = \<lparr>debugger_break = False, panic_msg = None, uninit = 0, wild = False, mem = mem_init,
     cpu = i8088_reset i8088_init\<rparr>"

inductive cpu_step :: "'a machine_scheme io_t \<Rightarrow> 'a machine_scheme \<Rightarrow> 'a machine_scheme \<Rightarrow> bool"
  for io where
  execute: "run_state (i8088_execute io) s = (True, t) \<Longrightarrow> cpu_step io s t"
| irq: "run_state (i8088_irq n) s = (refused, t) \<Longrightarrow> cpu_step io s t"

text \<open>Read-only memory: whatever instructions run and interrupts arrive, in any order, no
  byte of a section loaded with a ROM image changes and no section becomes writable, provided
  the devices on the I/O ports keep to this too.\<close>

theorem rom_never_changes:
  assumes "io_preserves rom_view io" and "(cpu_step io)\<^sup>*\<^sup>* s t"
  shows "rom_view t = rom_view s"
  using assms(2)
proof (induction rule: rtranclp_induct)
  case (step t u)
  from step.hyps(2) have "rom_view u = rom_view t"
    by cases (simp_all add: preserves_run [OF i8088_execute_rom [OF assms(1)]]
      preserves_run [OF i8088_irq_rom])
  with step.IH show ?case by simp
qed simp

theorem rom_never_changes_witness:
  "rom_view (snd (run_state (i8088_irq 0) power_on)) = rom_view power_on"
  by (rule rom_never_changes [OF io_preserves_init r_into_rtranclp, OF cpu_step.irq])
    (rule surjective_pairing)

definition interrupt_mem :: "mem_t \<Rightarrow> i8088 \<Rightarrow> mem_t" where
  "interrupt_mem mm r =
     seg_put_16 (seg_put_16 (seg_put_16 mm (ss r) (sp r - 6) (ip r)) (ss r) (sp r - 4) (cs r))
       (ss r) (sp r - 2) (flags r)"

definition vector_ip :: "mem_t \<Rightarrow> u8 \<Rightarrow> u16" where
  "vector_ip mm n = word16 (mem_get mm (int8u n * 4)) (mem_get mm (int8u n * 4 + 1))"

definition vector_cs :: "mem_t \<Rightarrow> u8 \<Rightarrow> u16" where
  "vector_cs mm n = word16 (mem_get mm (int8u n * 4 + 2)) (mem_get mm (int8u n * 4 + 3))"

lemma vector_in_memory: "k < 4 \<Longrightarrow> \<not> MEM_SIZE_MAX \<le> int8u n * 4 + k"
proof -
  assume "k < 4"
  then have "unat k < 4" by (simp add: word_less_nat_alt)
  then have "unat (int8u n * 4 + k) < 1024"
    using unat_u8 [of n] by (simp add: unat_word_ariths)
  then show ?thesis by (simp add: MEM_SIZE_MAX_def word_le_nat_alt)
qed

lemma run_interrupt:
  "run_state (i8088_interrupt n) s =
     (let mm = interrupt_mem (mem s) (cpu s) in
      ((), s\<lparr>mem := mm,
             cpu := set_t False ((cpu s)\<lparr>sp := sp (cpu s) - 6,
               ip := vector_ip mm n, cs := vector_cs mm n\<rparr>)\<rparr>))"
  using vector_in_memory [of 0 n] vector_in_memory [of 1 n] vector_in_memory [of 2 n]
    vector_in_memory [of 3 n]
  by (simp add: i8088_interrupt_def run_mem_read interrupt_mem_def seg_put_16_def vector_ip_def vector_cs_def
    Let_def)


text \<open>C5. Hardware interrupts: a request wakes a halted processor; with IF clear nothing else
  happens and the request is reported as refused; with IF set the processor goes on at the
  handler in vector \<open>n + 8\<close>, with the old \<open>ip\<close>, \<open>cs\<close> and flags on the stack and with further
  interrupts and single-stepping disabled.\<close>

theorem i8088_irq_delivery:
  "case run_state (i8088_irq n) s of (refused, t) \<Rightarrow>
     \<not> halt (cpu t) \<and> refused = (\<not> flag_i (cpu s)) \<and>
     (if refused then t = s\<lparr>cpu := (cpu s)\<lparr>halt := False\<rparr>\<rparr>
      else mem t = interrupt_mem (mem s) (cpu s) \<and> sp (cpu t) = sp (cpu s) - 6 \<and>
        ip (cpu t) = vector_ip (mem t) (n + 8) \<and> cs (cpu t) = vector_cs (mem t) (n + 8) \<and>
        \<not> flag_i (cpu t) \<and> \<not> flag_t (cpu t))"
  by (simp add: i8088_irq_def run_interrupt Let_def interrupt_mem_def)

lemma interrupt_stack:
  assumes "word_writable mm (ss r) (sp r - 6)" "word_writable mm (ss r) (sp r - 4)"
    "word_writable mm (ss r) (sp r - 2)"
  shows "seg_get_16 (interrupt_mem mm r) (ss r) (sp r - 6) = ip r"
    "seg_get_16 (interrupt_mem mm r) (ss r) (sp r - 4) = cs r"
    "seg_get_16 (interrupt_mem mm r) (ss r) (sp r - 2) = flags r"
  using assms by (simp_all add: interrupt_mem_def seg_get_put_16 seg_get_16_other)

lemma run_iret:
  "run_state i8088_iret s =
     ((), s\<lparr>cpu := (cpu s)\<lparr>ip := seg_get_16 (mem s) (ss (cpu s)) (sp (cpu s)),
                           cs := seg_get_16 (mem s) (ss (cpu s)) (sp (cpu s) + 2),
                           sp := sp (cpu s) + 6,
                           flags := fix_flags (seg_get_16 (mem s) (ss (cpu s)) (sp (cpu s) + 4))\<rparr>\<rparr>)"
  by (simp add: i8088_iret_def seg_get_16_def) (simp add: ac_simps)

text \<open>C4. Interrupt and return: when a handler leaves memory and the stack registers as it found
  them, \<open>IRET\<close> takes the processor back to the interrupted instruction, with the stack pointer
  and (up to the bits POPF forces) the flags from before the interrupt, the trap and interrupt
  flags included; the stack must be writable.\<close>

theorem interrupt_iret:
  assumes "word_writable (mem s) (ss (cpu s)) (sp (cpu s) - 6)"
    and "word_writable (mem s) (ss (cpu s)) (sp (cpu s) - 4)"
    and "word_writable (mem s) (ss (cpu s)) (sp (cpu s) - 2)"
    and "preserves (\<lambda>t. (mem t, ss (cpu t), sp (cpu t))) handler"
  shows "case run_state (do { i8088_interrupt n; handler; i8088_iret }) s of (_, t) \<Rightarrow>
    ip (cpu t) = ip (cpu s) \<and> cs (cpu t) = cs (cpu s) \<and> ss (cpu t) = ss (cpu s) \<and>
    sp (cpu t) = sp (cpu s) \<and> flags (cpu t) = fix_flags (flags (cpu s))"
proof -
  define u where "u = snd (run_state (i8088_interrupt n) s)"
  define v where "v = snd (run_state handler u)"
  have "(mem v, ss (cpu v), sp (cpu v)) = (mem u, ss (cpu u), sp (cpu u))"
    unfolding v_def by (rule preservesD [OF assms(4)])
  moreover have "mem u = interrupt_mem (mem s) (cpu s)" "ss (cpu u) = ss (cpu s)"
    "sp (cpu u) = sp (cpu s) - 6"
    by (simp_all add: u_def run_interrupt Let_def)
  moreover have "run_state (do { i8088_interrupt n; handler; i8088_iret }) s = run_state i8088_iret v"
    by (simp add: u_def v_def case_prod_beta)
  ultimately show ?thesis
    using interrupt_stack [OF assms(1-3)] by (simp add: run_iret)
qed

theorem interrupt_iret_witness:
  "flags (cpu (snd (run_state (do { i8088_interrupt 0x21; modc (set_ah 7); i8088_iret })
     (power_on\<lparr>cpu := (cpu power_on)\<lparr>ss := 0x1000, sp := 0x100, flags := 0x301\<rparr>\<rparr>)))) = 0xF303"
proof -
  let ?s = "power_on\<lparr>cpu := (cpu power_on)\<lparr>ss := 0x1000, sp := 0x100, flags := 0x301\<rparr>\<rparr>"
  have w: "word_writable (mem ?s) (ss (cpu ?s)) x" for x
    by (simp add: word_writable_def mem_writable_def power_on_def mem_init_def)
  have h: "preserves (\<lambda>t. (mem t, ss (cpu t), sp (cpu t))) (modc (set_ah 7))"
    by (simp add: preserves_def byte_reg_defs)
  show ?thesis
    using interrupt_iret [OF w w w h, where n = "0x21"] by (simp add: fix_flags_def case_prod_beta)
qed

subsection \<open>Conditional jumps\<close>

lemma mod_diff_u16:
  fixes A B :: int
  assumes "0 \<le> A" "A < 65536" "0 \<le> B" "B < 65536"
  shows "(A - B) mod 65536 = (if B \<le> A then A - B else A - B + 65536)"
  using assms by (auto intro: mod_pos_pos_trivial int_mod_pos_eq [where q = "- 1"])

lemma signed_less_int:
  fixes A B :: int
  assumes "0 \<le> A" "A < 65536" "0 \<le> B" "B < 65536"
  defines "R \<equiv> if B \<le> A then A - B else A - B + 65536"
    and "S \<equiv> \<lambda>x. x - (if 32768 \<le> x then 65536 else 0)"
  shows "(S R < 0) \<noteq> (S A - S B \<notin> {- 32768..<32768}) \<longleftrightarrow> S A < S B"
  using assms(1-4) unfolding R_def S_def by (auto split: if_splits)

lemma signed_less_16:
  fixes a b :: u16
  shows "(sint (a - b) < 0) \<noteq> (sint a - sint b \<notin> {- 32768..<32768}) \<longleftrightarrow> sint a < sint b"
proof -
  have u: "uint (a - b) = (if uint b \<le> uint a then uint a - uint b else uint a - uint b + 65536)"
    using mod_diff_u16 [OF u16_bounds [of a] u16_bounds [of b]] by (simp add: uint_word_ariths)
  have s: "sint x = uint x - (if 32768 \<le> uint x then 65536 else 0)" for x :: u16
    using sint_uint_top [of x] bit_top_iff [of x] by simp
  show ?thesis
    unfolding s u by (rule signed_less_int [OF u16_bounds [of a] u16_bounds [of b]])
qed

lemma cmp_16_flags:
  "flag_c (i8088_cmp_16 a b r) \<longleftrightarrow> unat a < unat b"
  "flag_z (i8088_cmp_16 a b r) \<longleftrightarrow> a = b"
  "(flag_s (i8088_cmp_16 a b r) = flag_o (i8088_cmp_16 a b r)) \<longleftrightarrow> \<not> sint a < sint b"
  using signed_less_16 [of a b]
  by (auto simp: no_carry sbb_16_run simp del: atLeastLessThan_iff)

text \<open>C5. Comparison and conditional jump: after \<open>CMP a, b\<close> the unsigned jumps (\<open>JB JAE JBE JA\<close>)
  are taken exactly according to the unsigned order of the operands, the signed ones
  (\<open>JL JGE JLE JG\<close>) according to the signed order, \<open>JE\<close> and \<open>JNE\<close> according to equality; a
  jump adds the signed displacement byte to the address of the next instruction.\<close>

theorem cmp_jump_16:
  assumes "cpu s = i8088_cmp_16 a b r"
  shows "let next = ip (cpu s) + 1; target = next + scast (code_byte s (ip (cpu s)));
             after = (\<lambda>opcode. ip (cpu (snd (run_state (exec_7 opcode) s)))) in
    after 0x72 = (if unat a < unat b then target else next) \<and>
    after 0x73 = (if unat a \<ge> unat b then target else next) \<and>
    after 0x74 = (if a = b then target else next) \<and>
    after 0x75 = (if a \<noteq> b then target else next) \<and>
    after 0x76 = (if unat a \<le> unat b then target else next) \<and>
    after 0x77 = (if unat a > unat b then target else next) \<and>
    after 0x7C = (if sint a < sint b then target else next) \<and>
    after 0x7D = (if sint a \<ge> sint b then target else next) \<and>
    after 0x7E = (if sint a \<le> sint b then target else next) \<and>
    after 0x7F = (if sint a > sint b then target else next)"
proof -
  have e: "sint a \<le> sint b \<longleftrightarrow> a = b \<or> sint a < sint b"
    by (auto simp: order_le_less word_eq_iff_signed [THEN iffD2])
  have e': "unat a \<le> unat b \<longleftrightarrow> a = b \<or> unat a < unat b"
    unfolding word_unat_eq_iff [of a b] by auto
  have g: "sint b < sint a \<longleftrightarrow> \<not> (a = b \<or> sint a < sint b)"
    "unat b < unat a \<longleftrightarrow> \<not> (a = b \<or> unat a < unat b)"
    using e e' by auto
  have f: "flag_c (cpu s) \<longleftrightarrow> unat a < unat b" "flag_z (cpu s) \<longleftrightarrow> a = b"
    "(flag_s (cpu s) = flag_o (cpu s)) \<longleftrightarrow> \<not> sint a < sint b"
    unfolding assms by (rule cmp_16_flags)+
  then have f': "(flag_s (cpu s) = (\<not> flag_o (cpu s))) \<longleftrightarrow> sint a < sint b" by blast
  show ?thesis
    by (simp add: Let_def exec_7_def jump_if_def f f' e e' g)
qed

theorem cmp_jump_16_witness:
  "ip (cpu (snd (run_state (exec_7 0x7C)
     (power_on\<lparr>cpu := i8088_cmp_16 0xFFFF 1 (cpu power_on)\<rparr>)))) = 1"
proof -
  let ?s = "power_on\<lparr>cpu := i8088_cmp_16 0xFFFF 1 (cpu power_on)\<rparr>"
  have "cpu ?s = i8088_cmp_16 0xFFFF 1 (cpu power_on)" by simp
  from cmp_jump_16 [OF this] have "ip (cpu (snd (run_state (exec_7 0x7C) ?s))) =
      ip (cpu ?s) + 1 + scast (code_byte ?s (ip (cpu ?s)))"
    by (simp add: Let_def)
  then show ?thesis
    by (simp add: power_on_def i8088_reset_def i8088_init_def i8088_cmp_16_def Let_def
      code_byte_def mem_get_def mem_init_def)
qed

subsection \<open>Instruction decoding ends\<close>

definition is_prefix :: "u8 \<Rightarrow> bool" where
  "is_prefix b \<longleftrightarrow> is_segment_override b \<or> b = 0xF0 \<or> b = 0xF2 \<or> b = 0xF3"

text \<open>Where a pass over the prefixes leaves the processor: at a later byte of the same code
  segment, having stepped over prefixes only.\<close>

definition at_byte :: "'a machine_scheme \<Rightarrow> u16 \<Rightarrow> nat \<Rightarrow> u8 \<Rightarrow> 'a machine_scheme \<Rightarrow> bool" where
  "at_byte s a i b t \<longleftrightarrow> mem t = mem s \<and> cs (cpu t) = cs (cpu s) \<and>
     ip (cpu t) = a + of_nat i + 1 \<and> b = code_byte s (a + of_nat i)"

lemma at_byte_code: "at_byte s a i b t \<Longrightarrow> code_byte t = code_byte s"
  by (auto simp: at_byte_def code_byte_def)

definition consumes :: "'a machine_scheme \<Rightarrow> u8 \<Rightarrow> 'a machine_scheme \<Rightarrow> bool" where
  "consumes t b t' \<longleftrightarrow> mem t' = mem t \<and> cs (cpu t') = cs (cpu t) \<and>
     ip (cpu t') = ip (cpu t) + 1 \<and> b = code_byte t (ip (cpu t))"

lemma at_byte_consumes:
  assumes "at_byte s a j c t" and "consumes t b t'" and "is_prefix c"
    and "j \<le> d" and "\<not> is_prefix (code_byte s (a + of_nat d))"
  shows "at_byte s a (Suc j) b t' \<and> Suc j \<le> d"
  using assms by (cases "j = d") (auto simp: at_byte_def consumes_def code_byte_def algebra_simps)

lemma prefix_pass_cases:
  assumes "run_state (i8088_prefix_pass b) t = (b2, t2)"
  shows "\<exists>b1 t1. (b1 = b \<and> t1 = t \<and> \<not> is_segment_override b \<or> is_prefix b \<and> consumes t b1 t1) \<and>
    (b2 = b1 \<and> t2 = t1 \<or> is_prefix b1 \<and> consumes t1 b2 t2)"
proof -
  define m :: "('a machine_scheme, u8) state" where
    "m = (if b = 0x26 then segment_prefix SEGMENT_ES
        else if b = 0x2E then segment_prefix SEGMENT_CS
        else if b = 0x36 then segment_prefix SEGMENT_SS
        else if b = 0x3E then segment_prefix SEGMENT_DS
        else if b = 0xF0 then do { panic ''LOCK not implemented!'' []; fetch }
        else return b)"
  obtain b1 t1 where m: "run_state m t = (b1, t1)" by fastforce
  then have "b1 = b \<and> t1 = t \<and> \<not> is_segment_override b \<or> is_prefix b \<and> consumes t b1 t1"
    by (auto simp: m_def segment_prefix_def is_segment_override_def is_prefix_def consumes_def
        code_byte_def split: if_splits)
  moreover have "b2 = b1 \<and> t2 = t1 \<or> is_prefix b1 \<and> consumes t1 b2 t2"
    using assms m
    by (auto simp: i8088_prefix_pass_def m_def [symmetric] is_prefix_def consumes_def
        split: if_splits)
  ultimately show ?thesis by blast
qed

lemma prefix_pass_at:
  assumes at: "at_byte s a i b t" and "i \<le> d"
    and d: "\<not> is_prefix (code_byte s (a + of_nat d))"
    and run: "run_state (i8088_prefix_pass b) t = (b2, t2)"
  shows "\<exists>j. j \<le> d \<and> at_byte s a j b2 t2 \<and> (is_segment_override b2 \<longrightarrow> i < j)"
proof -
  note next_byte = at_byte_consumes [OF _ _ _ _ d]
  from prefix_pass_cases [OF run] obtain b1 t1 where
    1: "b1 = b \<and> t1 = t \<and> \<not> is_segment_override b \<or> is_prefix b \<and> consumes t b1 t1" and
    2: "b2 = b1 \<and> t2 = t1 \<or> is_prefix b1 \<and> consumes t1 b2 t2"
    by blast
  from 1 obtain j where j: "j \<le> d" "at_byte s a j b1 t1" "i \<le> j" "is_segment_override b1 \<longrightarrow> i < j"
    using at assms(2) next_byte [OF at] by (metis le_Suc_eq lessI order_refl)
  from 2 show ?thesis
  proof
    assume "b2 = b1 \<and> t2 = t1"
    with j show ?thesis by blast
  next
    assume "is_prefix b1 \<and> consumes t1 b2 t2"
    with next_byte [OF j(2)] j show ?thesis by (metis le_imp_less_Suc)
  qed
qed

lemma prefixes_return:
  assumes "\<not> is_prefix (code_byte s (a + of_nat d))"
  shows "at_byte s a i b t \<Longrightarrow> i \<le> d \<Longrightarrow> d - i < n \<Longrightarrow>
    fst (run_state (i8088_prefixes n b) t) \<noteq> None"
proof (induction n arbitrary: i b t)
  case (Suc n)
  obtain b2 t2 where run: "run_state (i8088_prefix_pass b) t = (b2, t2)" by fastforce
  from prefix_pass_at [OF Suc.prems(1,2) assms run] obtain j where
    j: "j \<le> d" "at_byte s a j b2 t2" "is_segment_override b2 \<longrightarrow> i < j" by blast
  show ?case
  proof (cases "is_segment_override b2")
    case True
    with j Suc.prems(3) have "d - j < n" by linarith
    from Suc.IH [OF j(2,1) this] True show ?thesis by (simp add: run)
  qed (simp add: run)
qed simp

text \<open>C3. Decoding terminates: a call of \<open>i8088_execute\<close> returns whenever the 64 KB of the code
  segment hold at least one byte that is not a prefix, whatever the registers, the memory and
  the devices.\<close>

theorem i8088_execute_returns:
  assumes "\<not> is_prefix (code_byte s off)"
  shows "fst (run_state (i8088_execute io) s)"
proof -
  define a where "a = ip (cpu s)"
  define d where "d = unat (off - a)"
  have d: "\<not> is_prefix (code_byte s (a + of_nat d))" "d < 0x10000"
    using assms unat_u16 [of "off - a"] by (simp_all add: d_def)
  define r where "r = (cpu s)\<lparr>segment_override := SEGMENT_NONE, repeat_mode := REPEAT_NONE,
    ip := ip (cpu s) + 1\<rparr>"
  have "at_byte s a 0 (code_byte s a) (s\<lparr>cpu := r\<rparr>)"
    by (simp add: at_byte_def a_def r_def)
  from prefixes_return [OF d(1) this, where n = "0x10000"] d(2) show ?thesis
    by (auto simp: i8088_execute_def a_def r_def case_prod_beta split: option.splits)
qed

theorem i8088_execute_returns_witness:
  "fst (run_state (i8088_execute io_init) power_on)"
  by (rule i8088_execute_returns [where off = 0])
    (simp add: is_prefix_def is_segment_override_def code_byte_def power_on_def mem_init_def
      mem_get_def i8088_reset_def i8088_init_def)

text \<open>The condition is needed: a code segment that holds segment overrides only is decoded for
  ever, however much fuel the loop is given.\<close>

lemma prefixes_hang:
  "(\<And>off. code_byte t off = 0x2E) \<Longrightarrow> fst (run_state (i8088_prefixes n 0x2E) t) = None"
proof (induction n arbitrary: t)
  case (Suc n)
  have "code_byte (t\<lparr>cpu := (cpu t)\<lparr>segment_override := SEGMENT_CS, ip := ip (cpu t) + 1\<rparr>\<rparr>) off = 0x2E" for off
    by (simp add: Suc.prems)
  from Suc.IH [OF this] show ?case
    by (simp add: i8088_prefix_pass_def segment_prefix_def Suc.prems is_segment_override_def)
qed simp

end
