(* ===== verification/Cpu_String.thy ===== *)
theory Cpu_String
  imports Cpu_Flow
begin

unbundle bit_operations_syntax

text \<open>
  The string operations under a repeat prefix: the repeat loop is the code's loop, and what a
  whole block operation does to memory and registers (filling, comparing, copying). The block
  effects on memory come from the interpretation \<open>seg_store\<close> of the byte store contract.
\<close>

subsection \<open>Repeated string operations\<close>

lemma string_cx:
  "preserves (\<lambda>s. cx (cpu s)) i8088_movsb" "preserves (\<lambda>s. cx (cpu s)) i8088_movsw"
  "preserves (\<lambda>s. cx (cpu s)) i8088_stosb" "preserves (\<lambda>s. cx (cpu s)) i8088_stosw"
  "preserves (\<lambda>s. cx (cpu s)) i8088_lodsb" "preserves (\<lambda>s. cx (cpu s)) i8088_lodsw"
  "preserves (\<lambda>s. cx (cpu s)) i8088_cmpsb" "preserves (\<lambda>s. cx (cpu s)) i8088_cmpsw"
  "preserves (\<lambda>s. cx (cpu s)) i8088_scasb" "preserves (\<lambda>s. cx (cpu s)) i8088_scasw"
  by (simp_all add: preserves_def i8088_movsb_def i8088_movsw_def i8088_stosb_def i8088_stosw_def
      i8088_lodsb_def i8088_lodsw_def i8088_cmpsb_def i8088_cmpsw_def i8088_scasb_def
      i8088_scasw_def eaddr_read_8_def eaddr_read_16_def i8088_cmp_8_def i8088_cmp_16_def
      byte_reg_defs Let_def)

lemma unat_pred: "c \<noteq> 0 \<Longrightarrow> unat c = Suc (unat (c - 1))" for c :: u16
  by (simp add: unat_minus_one unat_gt_0 Suc_diff_1)

lemma run_rep_while:
  "run_state (rep_while cond body) s = run_state (rep_loop (unat (cx (cpu s))) cond body) s"
  by (simp add: rep_while_def)

lemma rep_while_unfold:
  assumes "preserves (\<lambda>s. cx (cpu s)) body"
  shows "run_state (rep_while cond body) s =
      (if cx (cpu s) \<noteq> 0 \<and> cond (cpu s)
       then run_state (do { body; modc (\<lambda>r. r\<lparr>cx := cx r - 1\<rparr>); rep_while cond body }) s
       else ((), s))"
proof (cases "cx (cpu s) = 0")
  case False
  from unat_pred [OF False] preservesD [OF assms] show ?thesis
    by (auto simp: run_rep_while False case_prod_beta)
qed (simp add: run_rep_while)

lemma rep_loop_exit:
  assumes "preserves (\<lambda>s. cx (cpu s)) body"
  shows "n = unat (cx (cpu s)) \<Longrightarrow>
    (case run_state (rep_loop n cond body) s of (_, t) \<Rightarrow> cx (cpu t) = 0 \<or> cond (cpu t) = False)"
proof (induction n arbitrary: s)
  case 0
  then show ?case by (simp add: unat_eq_zero)
next
  case (Suc n)
  then have "cx (cpu s) \<noteq> 0" by auto
  define u where "u = snd (run_state (do { body; modc (\<lambda>r. r\<lparr>cx := cx r - 1\<rparr>) }) s)"
  have "n = unat (cx (cpu u))"
    using Suc.prems unat_pred [OF \<open>cx (cpu s) \<noteq> 0\<close>]
    by (simp add: u_def case_prod_beta preservesD [OF assms])
  from Suc.IH [OF this] show ?case
    by (simp add: u_def case_prod_beta)
qed

text \<open>C9. The repeat loop: bounding the repetitions of a string operation by \<open>cx\<close> loses nothing.
  The bounded loop of the model satisfies the unfolding equation of the code's
  \<open>while (cpu->cx != 0 && cond) { body; cpu->cx--; }\<close>, and it ends in a state in which the
  condition of the loop is false, so the code's loop terminates there.\<close>

theorem rep_while_is_the_loop:
  assumes "preserves (\<lambda>s. cx (cpu s)) body"
  shows "run_state (rep_while cond body) s =
      (if cx (cpu s) \<noteq> 0 \<and> cond (cpu s)
       then run_state (do { body; modc (\<lambda>r. r\<lparr>cx := cx r - 1\<rparr>); rep_while cond body }) s
       else ((), s)) \<and>
    (case run_state (rep_while cond body) s of (_, t) \<Rightarrow> cx (cpu t) = 0 \<or> cond (cpu t) = False)"
  using rep_while_unfold [OF assms] rep_loop_exit [OF assms refl]
  by (simp only: run_rep_while)

theorem rep_while_is_the_loop_witness:
  "case run_state (rep_while flag_z i8088_cmpsb) power_on of
     (_, t) \<Rightarrow> cx (cpu t) = 0 \<or> flag_z (cpu t) = False"
  by (rule rep_while_is_the_loop [OF string_cx(7), THEN conjunct2])

text \<open>Storing a byte repeatedly: the effect on memory is a block write.\<close>

abbreviation seg_put :: "u16 \<Rightarrow> mem_t \<Rightarrow> u16 \<Rightarrow> u8 \<Rightarrow> mem_t" where
  "seg_put sg \<equiv> \<lambda>mm off v. mem_put mm (phys sg off) v"

lemma run_stosb:
  "\<not> flag_d (cpu s) \<Longrightarrow> run_state i8088_stosb s =
     ((), s\<lparr>mem := seg_put (es (cpu s)) (mem s) (di (cpu s)) (al (cpu s)),
            cpu := (cpu s)\<lparr>di := di (cpu s) + 1\<rparr>\<rparr>)"
  by (simp add: i8088_stosb_def)

lemma al_upd [simp]:
  "al (r\<lparr>cx := c\<rparr>) = al r" "al (r\<lparr>di := c\<rparr>) = al r" "al (r\<lparr>si := c\<rparr>) = al r"
  by (simp_all add: al_def)

lemma run_rep_stosb:
  "n = unat (cx (cpu s)) \<Longrightarrow> \<not> flag_d (cpu s) \<Longrightarrow>
   run_state (rep_loop n (\<lambda>_. True) i8088_stosb) s =
     ((), s\<lparr>mem := put_bytes (seg_put (es (cpu s))) (mem s) (di (cpu s)) (replicate n (al (cpu s))),
            cpu := (cpu s)\<lparr>di := di (cpu s) + of_nat n, cx := 0\<rparr>\<rparr>)"
proof (induction n arbitrary: s)
  case 0
  then show ?case by (simp add: unat_eq_zero)
next
  case (Suc n)
  then have c: "cx (cpu s) \<noteq> 0" by auto
  have n: "n = unat (cx (cpu s) - 1)"
    using Suc.prems(1) unat_pred [OF c] by simp
  define u where "u = s\<lparr>mem := seg_put (es (cpu s)) (mem s) (di (cpu s)) (al (cpu s)),
    cpu := (cpu s)\<lparr>di := di (cpu s) + 1, cx := cx (cpu s) - 1\<rparr>\<rparr>"
  have "run_state (rep_loop (Suc n) (\<lambda>_. True) i8088_stosb) s =
      run_state (rep_loop n (\<lambda>_. True) i8088_stosb) u"
    using c Suc.prems(2) by (simp add: u_def run_stosb)
  also have "\<dots> = ((), u\<lparr>mem := put_bytes (seg_put (es (cpu u))) (mem u) (di (cpu u)) (replicate n (al (cpu u))),
            cpu := (cpu u)\<lparr>di := di (cpu u) + of_nat n, cx := 0\<rparr>\<rparr>)"
    by (rule Suc.IH) (simp_all add: u_def n [symmetric] Suc.prems(2))
  finally show ?case
    by (simp add: u_def algebra_simps)
qed

text \<open>C8. \<open>REP STOSB\<close> upwards: it ends with \<open>cx\<close> zero and \<open>di\<close> advanced by the count; every
  writable byte of the block at \<open>es:di\<close> holds \<open>AL\<close>, and every other byte of memory is as it
  was, also when the block wraps at the end of the segment.\<close>

theorem rep_stosb_fills:
  assumes "repeat_mode (cpu s) \<noteq> REPEAT_NONE" and "\<not> flag_d (cpu s)"
  shows "case run_state (rep_string i8088_stosb) s of (_, t) \<Rightarrow>
    cx (cpu t) = 0 \<and> di (cpu t) = di (cpu s) + cx (cpu s) \<and>
    mem_get (mem t) (phys (es (cpu s)) off) =
      (if unat (off - di (cpu s)) < unat (cx (cpu s)) \<and> mem_writable (mem s) (phys (es (cpu s)) off)
       then al (cpu s) else mem_get (mem s) (phys (es (cpu s)) off))"
proof -
  let ?n = "unat (cx (cpu s))" and ?sg = "es (cpu s)" and ?a = "di (cpu s)"
  let ?bs = "replicate ?n (al (cpu s))"
  have "mem_get (put_bytes (seg_put ?sg) (mem s) ?a ?bs) (phys ?sg off) =
      (if unat (off - ?a) < ?n \<and> mem_writable (mem s) (phys ?sg off)
       then al (cpu s) else mem_get (mem s) (phys ?sg off))"
    using unat_u16 [of "cx (cpu s)"] by (intro seg_store.get_fill) simp
  then show ?thesis
    using assms by (simp add: rep_string_def rep_while_def run_rep_stosb)
qed

text \<open>Comparing blocks.\<close>

lemma cmp_8_regs:
  "es (i8088_cmp_8 a b r) = es r" "ds (i8088_cmp_8 a b r) = ds r" "cs (i8088_cmp_8 a b r) = cs r"
  "ss (i8088_cmp_8 a b r) = ss r" "si (i8088_cmp_8 a b r) = si r" "di (i8088_cmp_8 a b r) = di r"
  "cx (i8088_cmp_8 a b r) = cx r" "flag_d (i8088_cmp_8 a b r) = flag_d r"
  "segment_override (i8088_cmp_8 a b r) = segment_override r"
  by (simp_all add: i8088_cmp_8_def Let_def)

lemma cmp_8_flags:
  "flag_c (i8088_cmp_8 a b r) \<longleftrightarrow> a < b" "flag_z (i8088_cmp_8 a b r) \<longleftrightarrow> a = b"
  by (simp_all add: no_carry sbb_8_run word_less_nat_alt)

text \<open>The byte at a distance from \<open>si\<close> in the source segment and from \<open>di\<close> in \<open>es\<close>.\<close>

definition src_byte :: "'a machine_scheme \<Rightarrow> nat \<Rightarrow> u8" where
  "src_byte s i = mem_get (mem s)
     (phys (eaddr_segment (ds (cpu s)) (cpu s)) (si (cpu s) + of_nat i))"

definition dst_byte :: "'a machine_scheme \<Rightarrow> nat \<Rightarrow> u8" where
  "dst_byte s i = mem_get (mem s) (phys (es (cpu s)) (di (cpu s) + of_nat i))"

definition cmpsb_step :: "'a machine_scheme \<Rightarrow> 'a machine_scheme" where
  "cmpsb_step s = snd (run_state (do { i8088_cmpsb; modc (\<lambda>r. r\<lparr>cx := cx r - 1\<rparr>) }) s)"

lemma eaddr_segment_upd [simp]:
  "eaddr_segment d (r\<lparr>cx := c\<rparr>) = eaddr_segment d r" "eaddr_segment d (r\<lparr>si := c\<rparr>) = eaddr_segment d r"
  "eaddr_segment d (r\<lparr>di := c\<rparr>) = eaddr_segment d r"
  "eaddr_segment d (i8088_cmp_8 a b r) = eaddr_segment d r"
  by (simp_all add: eaddr_segment_def cmp_8_regs split: segment_t.split)

lemma cmpsb_step:
  assumes "\<not> flag_d (cpu s)"
  shows "mem (cmpsb_step s) = mem s" "\<not> flag_d (cpu (cmpsb_step s))"
    "flag_z (cpu (cmpsb_step s)) \<longleftrightarrow> src_byte s 0 = dst_byte s 0"
    "flag_c (cpu (cmpsb_step s)) \<longleftrightarrow> src_byte s 0 < dst_byte s 0"
    "src_byte (cmpsb_step s) i = src_byte s (Suc i)" "dst_byte (cmpsb_step s) i = dst_byte s (Suc i)"
    "cx (cpu (cmpsb_step s)) = cx (cpu s) - 1" "si (cpu (cmpsb_step s)) = si (cpu s) + 1"
    "di (cpu (cmpsb_step s)) = di (cpu s) + 1"
  using assms by (simp_all add: cmpsb_step_def i8088_cmpsb_def eaddr_read_8_def src_byte_def
      dst_byte_def cmp_8_regs cmp_8_flags algebra_simps)

definition first_difference :: "'a machine_scheme \<Rightarrow> nat \<Rightarrow> bool" where
  "first_difference s m \<longleftrightarrow> m < unat (cx (cpu s)) \<and> src_byte s m \<noteq> dst_byte s m \<and>
     (\<forall>i<m. src_byte s i = dst_byte s i)"

definition stopped_at :: "'a machine_scheme \<Rightarrow> nat \<Rightarrow> 'a machine_scheme \<Rightarrow> bool" where
  "stopped_at s m t \<longleftrightarrow> mem t = mem s \<and> \<not> flag_z (cpu t) \<and>
     (flag_c (cpu t) \<longleftrightarrow> src_byte s m < dst_byte s m) \<and>
     cx (cpu t) = cx (cpu s) - of_nat (Suc m) \<and> si (cpu t) = si (cpu s) + of_nat (Suc m) \<and>
     di (cpu t) = di (cpu s) + of_nat (Suc m)"

lemma stopped_at_step:
  "\<not> flag_d (cpu s) \<Longrightarrow> stopped_at (cmpsb_step s) m t \<Longrightarrow> stopped_at s (Suc m) t"
  by (simp add: stopped_at_def cmpsb_step algebra_simps)

lemma first_difference_step:
  assumes "\<not> flag_d (cpu s)" "first_difference s (Suc m)"
  shows "first_difference (cmpsb_step s) m" "flag_z (cpu (cmpsb_step s))"
proof -
  have "cx (cpu s) \<noteq> 0" using assms(2) by (auto simp: first_difference_def)
  from unat_pred [OF this] show "first_difference (cmpsb_step s) m"
    using assms by (auto simp: first_difference_def cmpsb_step)
  show "flag_z (cpu (cmpsb_step s))"
    using assms by (simp add: first_difference_def cmpsb_step)
qed

lemma run_rep_cmpsb:
  "\<not> flag_d (cpu s) \<Longrightarrow> flag_z (cpu s) \<Longrightarrow> first_difference s m \<Longrightarrow>
   stopped_at s m (snd (run_state (rep_while flag_z i8088_cmpsb) s))"
proof (induction m arbitrary: s)
  case 0
  then have c: "cx (cpu s) \<noteq> 0" by (auto simp: first_difference_def)
  have z: "\<not> flag_z (cpu (cmpsb_step s))"
    using 0 by (simp add: first_difference_def cmpsb_step)
  have "snd (run_state (rep_while flag_z i8088_cmpsb) s) =
      snd (run_state (rep_while flag_z i8088_cmpsb) (cmpsb_step s))"
    using c 0 rep_while_unfold [OF string_cx(7), of flag_z s]
    by (simp add: cmpsb_step_def case_prod_beta)
  also have "\<dots> = cmpsb_step s"
    using z rep_while_unfold [OF string_cx(7), of flag_z "cmpsb_step s"] by simp
  finally show ?case
    using 0 z by (simp add: stopped_at_def cmpsb_step)
next
  case (Suc m)
  then have c: "cx (cpu s) \<noteq> 0" by (auto simp: first_difference_def)
  have "snd (run_state (rep_while flag_z i8088_cmpsb) s) =
      snd (run_state (rep_while flag_z i8088_cmpsb) (cmpsb_step s))"
    using c Suc.prems rep_while_unfold [OF string_cx(7), of flag_z s]
    by (simp add: cmpsb_step_def case_prod_beta)
  then show ?case
    using Suc.IH [of "cmpsb_step s"] Suc.prems first_difference_step [OF Suc.prems(1,3)]
    by (simp add: stopped_at_step cmpsb_step)
qed

text \<open>C7. \<open>REPE CMPSB\<close> upwards on blocks that differ: it stops right after the first pair of
  bytes that differ, with ZF clear, CF telling which of the two bytes is the smaller, \<open>cx\<close> the
  number of pairs not compared, \<open>si\<close> and \<open>di\<close> just past the difference, and memory unchanged.\<close>

theorem repe_cmpsb_finds_difference:
  assumes "repeat_mode (cpu s) = REPEAT_EZ" and "\<not> flag_d (cpu s)" and "first_difference s m"
  shows "stopped_at s m (snd (run_state (rep_scan i8088_cmpsb) s))"
proof -
  have c: "cx (cpu s) \<noteq> 0" using assms(3) by (auto simp: first_difference_def)
  have run: "snd (run_state (rep_scan i8088_cmpsb) s) =
      (if flag_z (cpu (cmpsb_step s))
       then snd (run_state (rep_while flag_z i8088_cmpsb) (cmpsb_step s)) else cmpsb_step s)"
    using c assms(1) by (simp add: rep_scan_def rep_compare_def cmpsb_step_def case_prod_beta)
  show ?thesis
  proof (cases m)
    case 0
    then show ?thesis
      using assms by (simp add: run stopped_at_def first_difference_def cmpsb_step)
  next
    case (Suc k)
    with first_difference_step [OF assms(2), of k] assms(3) show ?thesis
      using run_rep_cmpsb [of "cmpsb_step s" k] assms(2)
      by (simp add: run stopped_at_step cmpsb_step)
  qed
qed

text \<open>Copying blocks.\<close>

definition blocks_disjoint :: "'a machine_scheme \<Rightarrow> nat \<Rightarrow> bool" where
  "blocks_disjoint s n \<longleftrightarrow> (\<forall>i<n. \<forall>j<n. phys (es (cpu s)) (di (cpu s) + of_nat i) \<noteq>
     phys (eaddr_segment (ds (cpu s)) (cpu s)) (si (cpu s) + of_nat j))"

definition movsb_step :: "'a machine_scheme \<Rightarrow> 'a machine_scheme" where
  "movsb_step s = s\<lparr>mem := seg_put (es (cpu s)) (mem s) (di (cpu s)) (src_byte s 0),
     cpu := (cpu s)\<lparr>di := di (cpu s) + 1, si := si (cpu s) + 1, cx := cx (cpu s) - 1\<rparr>\<rparr>"

lemma run_movsb:
  "\<not> flag_d (cpu s) \<Longrightarrow>
   run_state (do { i8088_movsb; modc (\<lambda>r. r\<lparr>cx := cx r - 1\<rparr>) }) s = ((), movsb_step s)"
  by (simp add: i8088_movsb_def eaddr_read_8_def src_byte_def movsb_step_def)

lemma movsb_step_src:
  assumes "blocks_disjoint s (Suc n)" and "i < n"
  shows "src_byte (movsb_step s) i = src_byte s (Suc i)"
proof -
  have "phys (es (cpu s)) (di (cpu s) + of_nat 0) \<noteq>
      phys (eaddr_segment (ds (cpu s)) (cpu s)) (si (cpu s) + of_nat (Suc i))"
    using assms unfolding blocks_disjoint_def by (metis Suc_mono zero_less_Suc)
  then show ?thesis
    by (simp add: src_byte_def movsb_step_def phys_store.get_put algebra_simps)
qed

lemma movsb_step_disjoint:
  assumes "blocks_disjoint s (Suc n)"
  shows "blocks_disjoint (movsb_step s) n"
  unfolding blocks_disjoint_def
proof (intro allI impI)
  fix i j assume "i < n" "j < n"
  with assms have "phys (es (cpu s)) (di (cpu s) + of_nat (Suc i)) \<noteq>
     phys (eaddr_segment (ds (cpu s)) (cpu s)) (si (cpu s) + of_nat (Suc j))"
    unfolding blocks_disjoint_def by blast
  then show "phys (es (cpu (movsb_step s))) (di (cpu (movsb_step s)) + of_nat i) \<noteq>
     phys (eaddr_segment (ds (cpu (movsb_step s))) (cpu (movsb_step s)))
       (si (cpu (movsb_step s)) + of_nat j)"
    by (simp add: movsb_step_def algebra_simps)
qed

lemma run_rep_movsb:
  "n = unat (cx (cpu s)) \<Longrightarrow> \<not> flag_d (cpu s) \<Longrightarrow> blocks_disjoint s n \<Longrightarrow>
   run_state (rep_loop n (\<lambda>_. True) i8088_movsb) s =
     ((), s\<lparr>mem := put_bytes (seg_put (es (cpu s))) (mem s) (di (cpu s)) (map (src_byte s) [0..<n]),
            cpu := (cpu s)\<lparr>di := di (cpu s) + of_nat n, si := si (cpu s) + of_nat n, cx := 0\<rparr>\<rparr>)"
proof (induction n arbitrary: s)
  case 0
  then show ?case by (simp add: unat_eq_zero)
next
  case (Suc n)
  let ?u = "movsb_step s"
  from Suc.prems(1) have c: "cx (cpu s) \<noteq> 0" by auto
  have n: "n = unat (cx (cpu s) - 1)" using Suc.prems(1) unat_pred [OF c] by simp
  have "map (src_byte s) [0..<Suc n] = src_byte s 0 # map (src_byte ?u) [0..<n]"
    using movsb_step_src [OF Suc.prems(3)]
    by (simp add: map_upt_Suc del: upt_Suc)
  moreover have "run_state (rep_loop (Suc n) (\<lambda>_. True) i8088_movsb) s =
      run_state (rep_loop n (\<lambda>_. True) i8088_movsb) ?u"
    using c run_movsb [OF Suc.prems(2)] by (auto simp: case_prod_beta)
  moreover have "run_state (rep_loop n (\<lambda>_. True) i8088_movsb) ?u =
     ((), ?u\<lparr>mem := put_bytes (seg_put (es (cpu ?u))) (mem ?u) (di (cpu ?u)) (map (src_byte ?u) [0..<n]),
            cpu := (cpu ?u)\<lparr>di := di (cpu ?u) + of_nat n, si := si (cpu ?u) + of_nat n, cx := 0\<rparr>\<rparr>)"
    using n Suc.prems(2) movsb_step_disjoint [OF Suc.prems(3)]
    by (intro Suc.IH) (simp_all add: movsb_step_def)
  ultimately show ?case
    by (simp add: movsb_step_def algebra_simps del: upt_Suc)
qed

text \<open>C6. \<open>REP MOVSB\<close> upwards between blocks that do not overlap: it ends with \<open>cx\<close> zero and
  \<open>si\<close> and \<open>di\<close> advanced by the count, and every writable byte of the destination block holds
  the byte that was at the same place of the source block.\<close>

theorem rep_movsb_copies:
  assumes "repeat_mode (cpu s) \<noteq> REPEAT_NONE" and "\<not> flag_d (cpu s)"
    and "blocks_disjoint s (unat (cx (cpu s)))" and "i < unat (cx (cpu s))"
    and "mem_writable (mem s) (phys (es (cpu s)) (di (cpu s) + of_nat i))"
  shows "case run_state (rep_string i8088_movsb) s of (_, t) \<Rightarrow>
    cx (cpu t) = 0 \<and> di (cpu t) = di (cpu s) + cx (cpu s) \<and> si (cpu t) = si (cpu s) + cx (cpu s) \<and>
    mem_get (mem t) (phys (es (cpu s)) (di (cpu s) + of_nat i)) = src_byte s i"
proof -
  have "mem_get (put_bytes (seg_put (es (cpu s))) (mem s) (di (cpu s))
      (map (src_byte s) [0..<unat (cx (cpu s))])) (phys (es (cpu s)) (di (cpu s) + of_nat i)) =
      map (src_byte s) [0..<unat (cx (cpu s))] ! i"
    using assms(4,5) unat_u16 [of "cx (cpu s)"] by (intro seg_store.get_put_bytes) simp_all
  then show ?thesis
    using assms by (simp add: rep_string_def run_rep_while run_rep_movsb)
qed

subsection \<open>Witnesses for the string operations\<close>

definition string_demo :: machine where
  "string_demo = power_on\<lparr>mem := mem_init\<lparr>mem_m := (\<lambda>a. if a = 0x20001 then 5 else 0)\<rparr>,
     cpu := (cpu power_on)\<lparr>ax := 7, cx := 2, ds := 0x2000, si := 0, es := 0x1000, di := 0,
       repeat_mode := REPEAT_EZ\<rparr>\<rparr>"

lemma string_demo_fields [simp]:
  "es (cpu string_demo) = 0x1000" "ds (cpu string_demo) = 0x2000" "si (cpu string_demo) = 0"
  "di (cpu string_demo) = 0" "cx (cpu string_demo) = 2" "al (cpu string_demo) = 7"
  "repeat_mode (cpu string_demo) = REPEAT_EZ" "\<not> flag_d (cpu string_demo)"
  "eaddr_segment d (cpu string_demo) = d" "mem_readonly (mem string_demo) k = False"
  "mem_m (mem string_demo) = (\<lambda>a. if a = 0x20001 then 5 else 0)"
  by (simp_all add: string_demo_def power_on_def i8088_reset_def i8088_init_def mem_init_def
    eaddr_segment_def flag_def al_def lo8_def)

lemma string_demo_phys:
  "phys 0x1000 0 = 0x10000" "phys 0x1000 1 = 0x10001"
  "phys 0x2000 0 = 0x20000" "phys 0x2000 1 = 0x20001"
  by (simp_all add: phys_def)

lemma string_demo_writable [simp]: "mem_writable (mem string_demo) (phys g a)"
  by (simp add: mem_writable_def)

lemma string_demo_bytes:
  "src_byte string_demo 0 = 0" "src_byte string_demo 1 = 5"
  "dst_byte string_demo 0 = 0" "dst_byte string_demo 1 = 0"
  by (simp_all add: src_byte_def dst_byte_def mem_get_def MEM_SIZE_MAX_def string_demo_phys)

lemma all_less_2: "(\<forall>i<2. P i) \<longleftrightarrow> P 0 \<and> P (Suc 0)"
  by (auto simp: less_2_cases_iff)

theorem rep_stosb_fills_witness:
  "mem_get (mem (snd (run_state (rep_string i8088_stosb) string_demo))) (phys 0x1000 1) = 7"
  using rep_stosb_fills [of string_demo, where off = 1] by (simp add: case_prod_beta)

theorem repe_cmpsb_finds_difference_witness:
  "stopped_at string_demo 1 (snd (run_state (rep_scan i8088_cmpsb) string_demo))"
  by (rule repe_cmpsb_finds_difference)
    (simp_all add: first_difference_def string_demo_bytes [simplified])

theorem rep_movsb_copies_witness:
  "mem_get (mem (snd (run_state (rep_string i8088_movsb) string_demo))) (phys 0x1000 1) = 5"
proof -
  have "blocks_disjoint string_demo 2"
    by (simp add: blocks_disjoint_def all_less_2 string_demo_phys)
  then show ?thesis
    using rep_movsb_copies [of string_demo, where i = 1] string_demo_bytes(2)
    by (simp add: case_prod_beta)
qed

end
