(* ===== verification/Cpu_Data.thy ===== *)
theory Cpu_Data
  imports Cpu_Flow
begin

unbundle bit_operations_syntax

text \<open>
  Data movement and division: operand decoding (the functions that read, write and skip an operand
  agree on where it is), the stack, the flag transfers, the decimal digit instructions and the
  divisions with their error conditions.
\<close>

subsection \<open>Operands\<close>

lemma run_eaddr [simp]:
  "run_state (eaddr_read_8 g a) s = (mem_get (mem s) (phys (eaddr_segment g (cpu s)) a), s)"
  "run_state (eaddr_read_16 g a) s = (seg_get_16 (mem s) (eaddr_segment g (cpu s)) a, s)"
  "run_state (eaddr_write_8 g a v) s =
     ((), s\<lparr>mem := mem_put (mem s) (phys (eaddr_segment g (cpu s)) a) v\<rparr>)"
  "run_state (eaddr_write_16 g a w) s =
     ((), s\<lparr>mem := seg_put_16 (mem s) (eaddr_segment g (cpu s)) a w\<rparr>)"
  by (simp_all add: eaddr_read_8_def eaddr_read_16_def eaddr_write_8_def eaddr_write_16_def)

text \<open>Decoding an address form only moves the instruction pointer, and yields the default segment
  of the form.\<close>

lemma modrm_segment_ip [simp]: "modrm_segment m (r\<lparr>ip := i\<rparr>) = modrm_segment m r"
  by (simp add: modrm_segment_def Let_def)

lemma eaddr_segment_ip [simp]: "eaddr_segment g (r\<lparr>ip := i\<rparr>) = eaddr_segment g r"
  by (simp add: eaddr_segment_def split: segment_t.split)

definition disp_size :: "u8 \<Rightarrow> u16" where
  "disp_size m =
     (if modrm_mod m = MOD_DISP_LO_SIGN then 1 else if modrm_mod m = MOD_DISP_HI_LO then 2 else 0)"

definition disp_value :: "u8 \<Rightarrow> 'a machine_scheme \<Rightarrow> u16" where
  "disp_value m s =
     (if modrm_mod m = MOD_DISP_LO_SIGN then scast (code_byte s (ip (cpu s)))
      else if modrm_mod m = MOD_DISP_HI_LO
      then word16 (code_byte s (ip (cpu s))) (code_byte s (ip (cpu s) + 1)) else 0)"

definition is_direct :: "u8 \<Rightarrow> bool" where
  "is_direct m \<longleftrightarrow> modrm_rm m = EADDR_BP \<and> modrm_mod m = MOD_DISP_ZERO"

definition address_value :: "u8 \<Rightarrow> u16 \<Rightarrow> 'a machine_scheme \<Rightarrow> u16" where
  "address_value m d s =
     (let rm = modrm_rm m; r = cpu s in
      if rm = EADDR_BX_SI then bx r + si r + d
      else if rm = EADDR_BX_DI then bx r + di r + d
      else if rm = EADDR_BP_SI then bp r + si r + d
      else if rm = EADDR_BP_DI then bp r + di r + d
      else if rm = EADDR_SI then si r + d
      else if rm = EADDR_DI then di r + d
      else if is_direct m then word16 (code_byte s (ip r)) (code_byte s (ip r + 1))
      else if rm = EADDR_BP then bp r + d
      else bx r + d)"

lemma run_modrm_disp:
  "run_state (modrm_disp m) s =
     (disp_value m s, s\<lparr>cpu := (cpu s)\<lparr>ip := ip (cpu s) + disp_size m\<rparr>\<rparr>)"
  by (simp add: modrm_disp_def disp_value_def disp_size_def)

lemmas address_defs = modrm_address_def modrm_segment_def address_value_def is_direct_def Let_def

lemma run_modrm_address:
  "run_state (modrm_address m d) s =
    ((modrm_segment m (cpu s), address_value m d s),
     s\<lparr>cpu := (cpu s)\<lparr>ip := ip (cpu s) + (if is_direct m then 2 else 0)\<rparr>\<rparr>)"
  by (cases "modrm_rm m = EADDR_BX_SI", simp add: address_defs eaddr_defs, cases "modrm_rm m = EADDR_BX_DI", simp add: address_defs eaddr_defs, cases "modrm_rm m = EADDR_BP_SI", simp add: address_defs eaddr_defs, cases "modrm_rm m = EADDR_BP_DI", simp add: address_defs eaddr_defs, cases "modrm_rm m = EADDR_SI", simp add: address_defs eaddr_defs, cases "modrm_rm m = EADDR_DI", simp add: address_defs eaddr_defs, 
    cases "modrm_rm m = EADDR_BP", simp add: address_defs eaddr_defs mod_defs,
    simp add: address_defs eaddr_defs)

text \<open>C11. The three decoders of an operand agree: writing an operand through \<open>modrm_set_rm\<close> is
  reading it and writing to the address the read reported, for every ModRM byte, register or
  memory, and skipping an operand consumes the bytes that reading it consumes.\<close>

theorem modrm_decoders_agree:
  "run_state (modrm_set_rm_8 m v) s =
     run_state (do { (x, eaddr) \<leftarrow> modrm_get_rm_8 m; modrm_set_rm_eaddr_8 m eaddr v }) s \<and>
   run_state (modrm_set_rm_16 m w) s =
     run_state (do { (x, eaddr) \<leftarrow> modrm_get_rm_16 m; modrm_set_rm_eaddr_16 m eaddr w }) s \<and>
   run_state (modrm_void_rm_16 m) s =
     run_state (do { (x, eaddr) \<leftarrow> modrm_get_rm_16 m; return () }) s"
  by (simp add: modrm_set_rm_8_def modrm_get_rm_8_def modrm_set_rm_eaddr_8_def
      modrm_set_rm_16_def modrm_get_rm_16_def modrm_set_rm_eaddr_16_def modrm_void_rm_16_def
      run_modrm_disp run_modrm_address)

lemma field_3_cases:
  assumes "n = x AND (7::u8)"
  shows "n = 0 \<or> n = 1 \<or> n = 2 \<or> n = 3 \<or> n = 4 \<or> n = 5 \<or> n = 6 \<or> n = 7"
proof -
  have m: "(7::u8) = mask 3" by (simp add: mask_eq_exp_minus_1)
  have "unat n < 8" unfolding assms m
    by (simp add: take_bit_eq_mask [symmetric] unsigned_take_bit_eq) (simp add: take_bit_eq_mod)
  then have "unat n \<in> {0,1,2,3,4,5,6,7}" by auto
  then show ?thesis by (auto simp: word_unat_eq_iff)
qed

lemma get_set_reg:
  assumes "n = x AND 7"
  shows "get_reg8 n (set_reg8 n v r) = v" "get_reg16 n (set_reg16 n w r) = w"
  using field_3_cases [OF assms]
  by (elim disjE; simp add: get_reg8_def set_reg8_def get_reg16_def set_reg16_def reg8_defs reg16_defs)+

definition operand_writable :: "u8 \<Rightarrow> u16 \<Rightarrow> 'a machine_scheme \<Rightarrow> bool" where
  "operand_writable m eaddr s \<longleftrightarrow> modrm_mod m = MOD_REGISTER \<or>
     word_writable (mem s) (eaddr_segment (modrm_segment m (cpu s)) (cpu s)) eaddr"

text \<open>C24. A read-modify-write instruction stores where it loaded from: after the operand of a ModRM
  byte has been read and \<open>w\<close> written to the address the read reported, that operand is \<open>w\<close>,
  wherever it is writable, a register always being so.\<close>

theorem modrm_read_back_16:
  assumes "operand_writable m eaddr s"
  shows "fst (run_state (do { modrm_set_rm_eaddr_16 m eaddr w; modrm_get_rm_eaddr_16 m eaddr }) s) = w"
proof (cases "modrm_mod m = MOD_REGISTER")
  case True
  then show ?thesis
    by (simp add: modrm_set_rm_eaddr_16_def modrm_get_rm_eaddr_16_def get_set_reg(2) [OF modrm_rm_def])
next
  case False
  then show ?thesis
    using assms by (simp add: modrm_set_rm_eaddr_16_def modrm_get_rm_eaddr_16_def
        operand_writable_def seg_get_put_16)
qed

theorem modrm_read_back_16_witness:
  "fst (run_state (do { modrm_set_rm_eaddr_16 0x05 0x1234 0xBEEF; modrm_get_rm_eaddr_16 0x05 0x1234 })
     power_on) = 0xBEEF"
  by (rule modrm_read_back_16)
    (simp add: operand_writable_def word_writable_def mem_writable_def power_on_def mem_init_def)


subsection \<open>The stack\<close>

lemma u8_less_8:
  assumes "n < (8::u8)"
  shows "n = 0 \<or> n = 1 \<or> n = 2 \<or> n = 3 \<or> n = 4 \<or> n = 5 \<or> n = 6 \<or> n = 7"
proof -
  have "unat n < 8" using assms by (simp add: word_less_nat_alt)
  then have "unat n \<in> {0,1,2,3,4,5,6,7}" by auto
  then show ?thesis by (auto simp: word_unat_eq_iff)
qed

lemma run_push_reg:
  assumes "i < 8" and "i \<noteq> REG16_SP"
  shows "run_state (exec_5 (0x50 + i)) s = run_state (push_16 (get_reg16 i (cpu s))) s"
  using u8_less_8 [OF assms(1)] assms(2)
  by (elim disjE) (simp_all add: exec_5_def get_reg16_def reg16_defs)

lemma run_pop_reg:
  assumes "j < 8" and "j \<noteq> REG16_SP"
  shows "run_state (exec_5 (0x58 + j)) s =
    ((), s\<lparr>cpu := set_reg16 j (seg_get_16 (mem s) (ss (cpu s)) (sp (cpu s)))
      ((cpu s)\<lparr>sp := sp (cpu s) + 2\<rparr>)\<rparr>)"
  using u8_less_8 [OF assms(1)] assms(2)
  by (elim disjE) (simp_all add: exec_5_def set_reg16_def reg16_defs)

lemma get_set_reg_less:
  assumes "j < 8"
  shows "get_reg16 j (set_reg16 j w r) = w" "j \<noteq> REG16_SP \<Longrightarrow> sp (set_reg16 j w r) = sp r"
  using u8_less_8 [OF assms]
  by (elim disjE; simp add: get_reg16_def set_reg16_def reg16_defs)+

text \<open>C20. \<open>PUSH\<close> of one register and \<open>POP\<close> into another move the value and restore the stack
  pointer, where the stack is writable; \<open>PUSH SP\<close> and \<open>POP SP\<close> are the exceptions the 8088
  makes, and left out here.\<close>

theorem push_pop_moves:
  assumes "i < 8" and "j < 8" and "i \<noteq> REG16_SP" and "j \<noteq> REG16_SP"
    and "word_writable (mem s) (ss (cpu s)) (sp (cpu s) - 2)"
  shows "case run_state (do { exec_5 (0x50 + i); exec_5 (0x58 + j) }) s of (_, t) \<Rightarrow>
    get_reg16 j (cpu t) = get_reg16 i (cpu s) \<and> sp (cpu t) = sp (cpu s)"
  using assms by (simp add: run_push_reg run_pop_reg get_set_reg_less seg_get_put_16)

theorem push_pop_moves_witness:
  "dx (cpu (snd (run_state (do { exec_5 0x50; exec_5 0x5A })
     (power_on\<lparr>cpu := (cpu power_on)\<lparr>ax := 0x1234\<rparr>\<rparr>)))) = 0x1234"
  using push_pop_moves [of 0 2 "power_on\<lparr>cpu := (cpu power_on)\<lparr>ax := 0x1234\<rparr>\<rparr>"]
  by (simp add: case_prod_beta get_reg16_def reg16_defs word_writable_def mem_writable_def
    power_on_def mem_init_def)

subsection \<open>Flags\<close>

lemma set_flag_id: "set_flag n (flag n r) r = r"
proof -
  have "bit (flags r) n \<Longrightarrow> flags r OR push_bit n 1 = flags r"
    "\<not> bit (flags r) n \<Longrightarrow> flags r AND NOT (push_bit n 1) = flags r"
    by (rule bit_word_eqI; auto simp: bit_simps)+
  then show ?thesis by (simp add: set_flag_def flag_def)
qed

lemma lahf_ah:
  "bit (ah (i8088_lahf r)) 7 = flag_s r" "bit (ah (i8088_lahf r)) 6 = flag_z r"
  "bit (ah (i8088_lahf r)) 4 = flag_a r" "bit (ah (i8088_lahf r)) 2 = flag_p r"
  "bit (ah (i8088_lahf r)) 0 = flag_c r" "ah (i8088_lahf r) AND 0b00101010 = 0b00000010"
  unfolding i8088_lahf_def al_ah_set
  by (cases "flag_s r"; cases "flag_z r"; cases "flag_a r"; cases "flag_p r"; cases "flag_c r"; simp)+

lemma lahf_flags: "flag n (i8088_lahf r) = flag n r"
  by (simp add: i8088_lahf_def)

text \<open>C28. \<open>LAHF\<close> and \<open>SAHF\<close>: \<open>AH\<close> receives the low byte of the flags in their hardware
  positions (bit 1 set, bits 3 and 5 clear), and storing it back changes no flag.\<close>

theorem lahf_sahf:
  "i8088_sahf (i8088_lahf r) = i8088_lahf r \<and>
   bit (ah (i8088_lahf r)) 7 = flag_s r \<and> bit (ah (i8088_lahf r)) 6 = flag_z r \<and>
   bit (ah (i8088_lahf r)) 4 = flag_a r \<and> bit (ah (i8088_lahf r)) 2 = flag_p r \<and>
   bit (ah (i8088_lahf r)) 0 = flag_c r \<and>
   (ah (i8088_lahf r)) AND 0b00101010 = 0b00000010 \<and> al (i8088_lahf r) = al r"
proof -
  define q where "q = i8088_lahf r"
  have "bit (ah q) 7 = flag_s q" "bit (ah q) 6 = flag_z q" "bit (ah q) 4 = flag_a q"
    "bit (ah q) 2 = flag_p q" "bit (ah q) 0 = flag_c q"
    unfolding q_def by (simp_all only: lahf_ah lahf_flags)
  then have "i8088_sahf q = q"
    by (simp add: i8088_sahf_def Let_def set_flag_id)
  then show ?thesis
    unfolding q_def by (simp add: lahf_ah) (simp add: i8088_lahf_def)
qed

subsection \<open>Digits\<close>

text \<open>C23. \<open>AAM\<close> splits \<open>AL\<close> into quotient and remainder by the given base and \<open>AAD\<close> with the same
  base puts it together again, for every base but zero.\<close>

theorem aam_aad:
  assumes "b \<noteq> 0"
  shows "unat (ah (i8088_aam b r)) = unat (al r) div unat b \<and>
    unat (al (i8088_aam b r)) = unat (al r) mod unat b \<and>
    al (i8088_aad b (i8088_aam b r)) = al r \<and> ah (i8088_aad b (i8088_aam b r)) = 0"
proof -
  have p: "al (set_psz r) = al r" "ah (set_psz r) = ah r" for r
    by (simp_all add: set_psz_def Let_def)
  show ?thesis
    by (simp add: i8088_aam_def i8088_aad_def Let_def p unat_div unat_mod div_mult_mod_eq)
qed

theorem aam_aad_witness:
  "al (i8088_aad 10 (i8088_aam 10 (set_al 73 i8088_init))) = 73"
  using aam_aad [of 10 "set_al 73 i8088_init"] by simp

subsection \<open>Division\<close>

lemma cdiv_facts:
  assumes "b \<noteq> 0"
  shows "\<bar>cdiv a b\<bar> = \<bar>a\<bar> div \<bar>b\<bar>" "a = cdiv a b * b + cmod a b" "\<bar>cmod a b\<bar> < \<bar>b\<bar>"
    "cmod a b = 0 \<or> sgn (cmod a b) = sgn a"
proof -
  have q: "0 \<le> \<bar>a\<bar> div \<bar>b\<bar>" using assms by (simp add: pos_imp_zdiv_nonneg_iff)
  show "\<bar>cdiv a b\<bar> = \<bar>a\<bar> div \<bar>b\<bar>"
    using assms q by (cases "a = 0") (simp_all add: cdiv_def abs_mult abs_sgn_eq)
  show "a = cdiv a b * b + cmod a b" by (simp add: cmod_def)
  have "cdiv a b * b = sgn a * (\<bar>a\<bar> div \<bar>b\<bar> * \<bar>b\<bar>)"
    using assms by (simp add: cdiv_def abs_sgn ac_simps)
  moreover have "a = sgn a * \<bar>a\<bar>" by (simp add: sgn_mult_abs)
  ultimately have m: "cmod a b = sgn a * (\<bar>a\<bar> mod \<bar>b\<bar>)"
    unfolding cmod_def by (metis minus_div_mult_eq_mod right_diff_distrib)
  have "0 \<le> \<bar>a\<bar> mod \<bar>b\<bar>" "\<bar>a\<bar> mod \<bar>b\<bar> < \<bar>b\<bar>" using assms by simp_all
  then show "\<bar>cmod a b\<bar> < \<bar>b\<bar>" "cmod a b = 0 \<or> sgn (cmod a b) = sgn a"
    unfolding m by (auto simp: abs_mult abs_sgn_eq sgn_mult sgn_if)
qed

lemma cdiv_range:
  assumes "b \<noteq> 0" and "0 < n"
  shows "cdiv a b > n - 1 \<or> cdiv a b \<le> - n \<longleftrightarrow> n * \<bar>b\<bar> \<le> \<bar>a\<bar>"
proof -
  have "n \<le> \<bar>a\<bar> div \<bar>b\<bar> \<longleftrightarrow> n * \<bar>b\<bar> \<le> \<bar>a\<bar>"
  proof
    assume "n \<le> \<bar>a\<bar> div \<bar>b\<bar>"
    then have "n * \<bar>b\<bar> \<le> (\<bar>a\<bar> div \<bar>b\<bar>) * \<bar>b\<bar>" by (rule mult_right_mono) simp
    also have "\<dots> \<le> \<bar>a\<bar>" using pos_mod_sign [of "\<bar>b\<bar>" "\<bar>a\<bar>"] div_mult_mod_eq [of "\<bar>a\<bar>" "\<bar>b\<bar>"] assms(1) by linarith
    finally show "n * \<bar>b\<bar> \<le> \<bar>a\<bar>" .
  next
    assume "n * \<bar>b\<bar> \<le> \<bar>a\<bar>"
    then have "(n * \<bar>b\<bar>) div \<bar>b\<bar> \<le> \<bar>a\<bar> div \<bar>b\<bar>" using assms(1) by (intro zdiv_mono1) simp_all
    then show "n \<le> \<bar>a\<bar> div \<bar>b\<bar>" using assms(1) by simp
  qed
  then show ?thesis using cdiv_facts(1) [OF assms(1), of a] by linarith
qed

lemma sint_of_int_8: "- 128 \<le> k \<Longrightarrow> k < 128 \<Longrightarrow> sint (word_of_int k :: u8) = k"
  and sint_of_int_16: "- 32768 \<le> k \<Longrightarrow> k < 32768 \<Longrightarrow> sint (word_of_int k :: u16) = k"
  by (simp_all add: sint_sbintrunc' signed_take_bit_int_eq_self)

lemma div_le_iff_nat: "0 < b \<Longrightarrow> n \<le> a div b \<longleftrightarrow> n * b \<le> (a::nat)"
  by (simp add: less_eq_div_iff_mult_less_eq)

lemma unat_ucast_8_16 [simp]: "unat (ucast (x::u8) :: u16) = unat x"
  by (simp add: unsigned_ucast_eq take_bit_nat_eq_self order_less_le_trans [OF unat_u8])

lemma narrow_16_8: "unat (a::u16) < 256 \<Longrightarrow> unat (ucast a :: u8) = unat a"
  by (simp add: unsigned_ucast_eq take_bit_nat_eq_self)

lemma narrow_32_16: "unat (a::u32) < 65536 \<Longrightarrow> unat (ucast a :: u16) = unat a"
  by (simp add: unsigned_ucast_eq take_bit_nat_eq_self)

lemma and_low_8: "ucast ((x::u16) AND 0xFF) = (ucast x :: u8)"
proof -
  have m: "(0xFF::u16) = mask 8" by (simp add: mask_eq_exp_minus_1)
  show ?thesis unfolding m by (rule bit_word_eqI) (auto simp: bit_simps)
qed

lemma div_8_values:
  fixes a :: u16 and x :: u8
  assumes "x \<noteq> 0"
  shows "a div ucast x > 0xFF \<longleftrightarrow> 256 * unat x \<le> unat a"
    and "\<not> 256 * unat x \<le> unat a \<Longrightarrow> unat (ucast (a div ucast x AND 0xFF) :: u8) = unat a div unat x"
    and "unat (ucast (a mod ucast x) :: u8) = unat a mod unat x"
proof -
  have p: "0 < unat x" using assms by (simp add: unat_gt_0)
  have q: "unat (a div ucast x) = unat a div unat x" by (simp add: unat_div)
  show i: "a div ucast x > 0xFF \<longleftrightarrow> 256 * unat x \<le> unat a"
    using div_le_iff_nat [OF p, of 256 "unat a"] by (simp add: word_less_nat_alt q Suc_le_eq [symmetric])
  show "\<not> 256 * unat x \<le> unat a \<Longrightarrow> unat (ucast (a div ucast x AND 0xFF) :: u8) = unat a div unat x"
    using div_le_iff_nat [OF p, of 256 "unat a"] by (simp add: and_low_8 narrow_16_8 q)
  have "unat (a mod ucast x) = unat a mod unat x" by (simp add: unat_mod)
  moreover have "unat a mod unat x < 256" using p unat_u8 [of x] mod_less_divisor [OF p, of "unat a"] by linarith
  ultimately show "unat (ucast (a mod ucast x) :: u8) = unat a mod unat x"
    by (simp add: narrow_16_8)
qed

lemma unat_dividend: "unat (push_bit 16 (int16u d) + int16u a) = 65536 * unat d + unat a"
  using unat_u16 [of d] unat_u16 [of a]
  by (simp add: push_bit_eq_mult unat_word_ariths)

lemma div_16_values:
  fixes d :: u32 and x :: u16
  assumes "x \<noteq> 0"
  shows "d div int16u x > 0xFFFF \<longleftrightarrow> 65536 * unat x \<le> unat d"
    and "\<not> 65536 * unat x \<le> unat d \<Longrightarrow> unat (ucast (d div int16u x AND 0xFFFF) :: u16) = unat d div unat x"
    and "unat (ucast (d mod int16u x) :: u16) = unat d mod unat x"
proof -
  have p: "0 < unat x" using assms by (simp add: unat_gt_0)
  have q: "unat (d div int16u x) = unat d div unat x" by (simp add: unat_div)
  show i: "d div int16u x > 0xFFFF \<longleftrightarrow> 65536 * unat x \<le> unat d"
    using div_le_iff_nat [OF p, of 65536 "unat d"] by (simp add: word_less_nat_alt q Suc_le_eq [symmetric])
  show "\<not> 65536 * unat x \<le> unat d \<Longrightarrow> unat (ucast (d div int16u x AND 0xFFFF) :: u16) = unat d div unat x"
    using div_le_iff_nat [OF p, of 65536 "unat d"] by (simp add: and_low_16 narrow_32_16 q)
  have "unat (d mod int16u x) = unat d mod unat x" by (simp add: unat_mod)
  moreover have "unat d mod unat x < 65536" using p unat_u16 [of x] mod_less_divisor [OF p, of "unat d"] by linarith
  ultimately show "unat (ucast (d mod int16u x) :: u16) = unat d mod unat x"
    by (simp add: narrow_32_16)
qed

lemma word16_parts [simp]: "word16 (lo8 w) (hi8 w) = w"
  by (rule word16_lo8_hi8)

lemma set_halves: "set_ah h (set_al l r) = r\<lparr>ax := word16 l h\<rparr>"
  by (simp add: byte_reg_defs)

lemma sint_zero_iff: "sint (x::'a::len word) = 0 \<longleftrightarrow> x = 0"
  by (metis signed_0 signed_word_eqI)

lemma sint_dividend: "sint (push_bit 16 (int16u d) + int16u a) = 65536 * sint d + uint a"
proof -
  have l: "ucast (push_bit 16 (int16u d) + int16u a) = a"
    "ucast (drop_bit 16 (push_bit 16 (int16u d) + int16u a)) = d"
  proof -
    have "push_bit 16 (int16u d) AND int16u a = 0"
      by (rule bit_word_eqI) (auto simp: bit_simps dest: bit_imp_le_length)
    then have e: "push_bit 16 (int16u d) + int16u a = push_bit 16 (int16u d) OR int16u a"
      by (rule disjunctive_add_eq_or)
    show "ucast (push_bit 16 (int16u d) + int16u a) = a"
      "ucast (drop_bit 16 (push_bit 16 (int16u d) + int16u a)) = d"
      unfolding e by (rule bit_word_eqI; auto simp: bit_simps dest: bit_imp_le_length)+
  qed
  from halves_32(2) [of "push_bit 16 (int16u d) + int16u a", unfolded l] show ?thesis by simp
qed

text \<open>C12. \<open>DIV\<close>: for a zero divisor or a quotient that does not fit, exactly the divide-error
  interrupt happens; otherwise quotient and remainder of the unsigned dividend are left in the
  registers the instruction defines, and nothing else changes, the flags included.\<close>

theorem i8088_div_correct:
  "(case run_state (i8088_div_8 x) s of (_, t) \<Rightarrow>
     if x = 0 \<or> 256 * unat x \<le> unat (ax (cpu s))
     then t = snd (run_state (i8088_interrupt INT_DIVIDE_ERROR) s)
     else unat (al (cpu t)) = unat (ax (cpu s)) div unat x \<and>
       unat (ah (cpu t)) = unat (ax (cpu s)) mod unat x \<and>
       t\<lparr>cpu := (cpu t)\<lparr>ax := ax (cpu s)\<rparr>\<rparr> = s) \<and>
   (case run_state (i8088_div_16 y) s of (_, t) \<Rightarrow>
     if y = 0 \<or> 65536 * unat y \<le> 65536 * unat (dx (cpu s)) + unat (ax (cpu s))
     then t = snd (run_state (i8088_interrupt INT_DIVIDE_ERROR) s)
     else unat (ax (cpu t)) = (65536 * unat (dx (cpu s)) + unat (ax (cpu s))) div unat y \<and>
       unat (dx (cpu t)) = (65536 * unat (dx (cpu s)) + unat (ax (cpu s))) mod unat y \<and>
       t\<lparr>cpu := (cpu t)\<lparr>ax := ax (cpu s), dx := dx (cpu s)\<rparr>\<rparr> = s)"
  by (rule conjI)
    (simp add: i8088_div_8_def div_8_values set_halves al_def ah_def case_prod_beta,
     simp add: i8088_div_16_def div_16_values unat_dividend case_prod_beta)

lemma idiv_8_cases:
  assumes "x \<noteq> 0"
  shows "ax0 = 0x8000 \<or> cdiv (sint ax0) (sint x) > 127 \<or> cdiv (sint ax0) (sint x) \<le> - 128 \<longleftrightarrow>
    128 * \<bar>sint (x::u8)\<bar> \<le> \<bar>sint (ax0::u16)\<bar>"
proof -
  have "128 * \<bar>sint x\<bar> \<le> \<bar>sint ax0\<bar>" if "ax0 = 0x8000"
    using sint_u8_range [of x] by (simp add: that abs_le_iff)
  moreover have "cdiv (sint ax0) (sint x) > 127 \<or> cdiv (sint ax0) (sint x) \<le> - 128 \<longleftrightarrow>
      128 * \<bar>sint x\<bar> \<le> \<bar>sint ax0\<bar>"
    using cdiv_range [of "sint x" 128 "sint ax0"] assms by (simp add: sint_zero_iff)
  ultimately show ?thesis by blast
qed

lemma idiv_16_cases:
  fixes y dx0 ax0 :: u16
  assumes "y \<noteq> 0" and d: "d = 65536 * sint dx0 + uint ax0"
  shows "(dx0 = 0x8000 \<and> ax0 = 0) \<or> cdiv d (sint y) > 32767 \<or> cdiv d (sint y) \<le> - 32768 \<longleftrightarrow>
    32768 * \<bar>sint y\<bar> \<le> \<bar>d\<bar>"
proof -
  have "32768 * \<bar>sint y\<bar> \<le> \<bar>d\<bar>" if "dx0 = 0x8000" "ax0 = 0"
    using sint_u16_range [of y] by (simp add: that d abs_le_iff)
  moreover have "cdiv d (sint y) > 32767 \<or> cdiv d (sint y) \<le> - 32768 \<longleftrightarrow>
      32768 * \<bar>sint y\<bar> \<le> \<bar>d\<bar>"
    using cdiv_range [of "sint y" 32768 d] assms by (simp add: sint_zero_iff)
  ultimately show ?thesis by blast
qed

lemma idiv_values:
  fixes x :: u8 and y :: u16
  shows "\<not> 128 * \<bar>sint x\<bar> \<le> \<bar>a\<bar> \<Longrightarrow> x \<noteq> 0 \<Longrightarrow>
      sint (word_of_int (cdiv a (sint x)) :: u8) = cdiv a (sint x) \<and>
      sint (word_of_int (cmod a (sint x)) :: u8) = cmod a (sint x)"
    and "\<not> 32768 * \<bar>sint y\<bar> \<le> \<bar>a\<bar> \<Longrightarrow> y \<noteq> 0 \<Longrightarrow>
      sint (word_of_int (cdiv a (sint y)) :: u16) = cdiv a (sint y) \<and>
      sint (word_of_int (cmod a (sint y)) :: u16) = cmod a (sint y)"
  using cdiv_range [of "sint x" 128 a] cdiv_facts(3) [of "sint x" a] sint_u8_range [of x]
    cdiv_range [of "sint y" 32768 a] cdiv_facts(3) [of "sint y" a] sint_u16_range [of y]
  by (auto simp: sint_zero_iff intro!: sint_of_int_8 sint_of_int_16)

text \<open>C13. \<open>IDIV\<close>: the divide-error interrupt happens exactly for a zero divisor or a quotient whose
  magnitude reaches 128 (32768); otherwise the signed dividend is quotient times divisor plus
  remainder, the remainder is smaller than the divisor and has the sign of the dividend, and
  nothing else changes.\<close>

theorem i8088_idiv_correct:
  "(case run_state (i8088_idiv_8 x) s of (_, t) \<Rightarrow>
     if x = 0 \<or> 128 * \<bar>sint x\<bar> \<le> \<bar>sint (ax (cpu s))\<bar>
     then t = snd (run_state (i8088_interrupt INT_DIVIDE_ERROR) s)
     else sint (ax (cpu s)) = sint (al (cpu t)) * sint x + sint (ah (cpu t)) \<and>
       \<bar>sint (ah (cpu t))\<bar> < \<bar>sint x\<bar> \<and>
       (sint (ah (cpu t)) = 0 \<or> sgn (sint (ah (cpu t))) = sgn (sint (ax (cpu s)))) \<and>
       t\<lparr>cpu := (cpu t)\<lparr>ax := ax (cpu s)\<rparr>\<rparr> = s) \<and>
   (case run_state (i8088_idiv_16 y) s of (_, t) \<Rightarrow>
     let dividend = 65536 * sint (dx (cpu s)) + uint (ax (cpu s)) in
     if y = 0 \<or> 32768 * \<bar>sint y\<bar> \<le> \<bar>dividend\<bar>
     then t = snd (run_state (i8088_interrupt INT_DIVIDE_ERROR) s)
     else dividend = sint (ax (cpu t)) * sint y + sint (dx (cpu t)) \<and>
       \<bar>sint (dx (cpu t))\<bar> < \<bar>sint y\<bar> \<and>
       (sint (dx (cpu t)) = 0 \<or> sgn (sint (dx (cpu t))) = sgn dividend) \<and>
       t\<lparr>cpu := (cpu t)\<lparr>ax := ax (cpu s), dx := dx (cpu s)\<rparr>\<rparr> = s)"
proof (rule conjI)
  let ?a = "sint (ax (cpu s))" and ?d = "65536 * sint (dx (cpu s)) + uint (ax (cpu s))"
  show "case run_state (i8088_idiv_8 x) s of (_, t) \<Rightarrow>
     if x = 0 \<or> 128 * \<bar>sint x\<bar> \<le> \<bar>?a\<bar>
     then t = snd (run_state (i8088_interrupt INT_DIVIDE_ERROR) s)
     else ?a = sint (al (cpu t)) * sint x + sint (ah (cpu t)) \<and>
       \<bar>sint (ah (cpu t))\<bar> < \<bar>sint x\<bar> \<and>
       (sint (ah (cpu t)) = 0 \<or> sgn (sint (ah (cpu t))) = sgn ?a) \<and>
       t\<lparr>cpu := (cpu t)\<lparr>ax := ax (cpu s)\<rparr>\<rparr> = s"
  proof (cases "x = 0 \<or> 128 * \<bar>sint x\<bar> \<le> \<bar>?a\<bar>")
    case True
    with idiv_8_cases [of x "ax (cpu s)"] show ?thesis
      by (auto simp: i8088_idiv_8_def Let_def)
  next
    case False
    then have "sint x \<noteq> 0" by (simp add: sint_zero_iff)
    with False idiv_8_cases [of x "ax (cpu s)"] cdiv_facts [of "sint x" ?a] idiv_values(1) [of x ?a]
    show ?thesis
      by (simp add: i8088_idiv_8_def Let_def set_halves al_def ah_def)
  qed
  show "case run_state (i8088_idiv_16 y) s of (_, t) \<Rightarrow>
     let dividend = ?d in
     if y = 0 \<or> 32768 * \<bar>sint y\<bar> \<le> \<bar>dividend\<bar>
     then t = snd (run_state (i8088_interrupt INT_DIVIDE_ERROR) s)
     else dividend = sint (ax (cpu t)) * sint y + sint (dx (cpu t)) \<and>
       \<bar>sint (dx (cpu t))\<bar> < \<bar>sint y\<bar> \<and>
       (sint (dx (cpu t)) = 0 \<or> sgn (sint (dx (cpu t))) = sgn dividend) \<and>
       t\<lparr>cpu := (cpu t)\<lparr>ax := ax (cpu s), dx := dx (cpu s)\<rparr>\<rparr> = s"
  proof (cases "y = 0 \<or> 32768 * \<bar>sint y\<bar> \<le> \<bar>?d\<bar>")
    case True
    with idiv_16_cases [of y ?d "dx (cpu s)" "ax (cpu s)", OF _ refl] show ?thesis
      by (auto simp: i8088_idiv_16_def Let_def sint_dividend)
  next
    case False
    then have "sint y \<noteq> 0" by (simp add: sint_zero_iff)
    with False idiv_16_cases [of y ?d "dx (cpu s)" "ax (cpu s)", OF _ refl]
      cdiv_facts [of "sint y" ?d] idiv_values(2) [of y ?d]
    show ?thesis
      by (simp add: i8088_idiv_16_def Let_def sint_dividend) blast
  qed
qed

end
