(* ===== verification/Io_Device.thy ===== *)
theory Io_Device
  imports Machine
begin

text \<open>
  Devices on the I/O bus. An init function of a device fills entries of the port table; the
  locale \<open>io_device\<close> is what the other components rely on: a device claims only its own ports, what
  it puts at a port depends only on what was there, and its hooks leave alone what the rest of the machine relies on (an observation \<open>obs\<close> of the
  state). \<open>io_device_pair\<close> is two devices with separate ports on one bus.
\<close>

subsection \<open>Filling the port table\<close>

text \<open>\<open>io->read[port].func = func;\<close> (with the device as its cookie) for each of the ports.\<close>

definition io_set_read :: "u16 list \<Rightarrow> (u16 \<Rightarrow> ('s, u8) state) \<Rightarrow> 's io_t \<Rightarrow> 's io_t" where
  "io_set_read ports func io =
     io\<lparr>io_read_hook := (\<lambda>p. if p \<in> set ports then Some func else io_read_hook io p)\<rparr>"

definition io_set_write :: "u16 list \<Rightarrow> (u16 \<Rightarrow> u8 \<Rightarrow> ('s, unit) state) \<Rightarrow> 's io_t \<Rightarrow> 's io_t" where
  "io_set_write ports func io =
     io\<lparr>io_write_hook := (\<lambda>p. if p \<in> set ports then Some func else io_write_hook io p)\<rparr>"

lemma io_set_hooks [simp]:
  "io_read_hook (io_set_read ps f io) p = (if p \<in> set ps then Some f else io_read_hook io p)"
  "io_write_hook (io_set_read ps f io) p = io_write_hook io p"
  "io_write_hook (io_set_write ps g io) p = (if p \<in> set ps then Some g else io_write_hook io p)"
  "io_read_hook (io_set_write ps g io) p = io_read_hook io p"
  by (simp_all add: io_set_read_def io_set_write_def)

lemma io_preserves_set_read:
  "(\<And>p. preserves obs (f p)) \<Longrightarrow> io_preserves obs io \<Longrightarrow> io_preserves obs (io_set_read ps f io)"
  by (auto simp: io_preserves_def split: if_splits)

lemma io_preserves_set_write:
  "(\<And>p v. preserves obs (g p v)) \<Longrightarrow> io_preserves obs io \<Longrightarrow> io_preserves obs (io_set_write ps g io)"
  by (auto simp: io_preserves_def split: if_splits)

lemmas io_set_intros = io_preserves_set_read io_preserves_set_write

text \<open>The port table at one port.\<close>

definition io_at :: "'s io_t \<Rightarrow> u16 \<Rightarrow> (u16 \<Rightarrow> ('s, u8) state) option \<times> (u16 \<Rightarrow> u8 \<Rightarrow> ('s, unit) state) option" where
  "io_at io p = (io_read_hook io p, io_write_hook io p)"

lemma io_at_set [simp]:
  "p \<notin> set ps \<Longrightarrow> io_at (io_set_read ps f io) p = io_at io p"
  "p \<notin> set ps \<Longrightarrow> io_at (io_set_write ps g io) p = io_at io p"
  by (simp_all add: io_at_def)

lemma io_at_set_cong:
  "io_at io p = io_at io' p \<Longrightarrow> io_at (io_set_read ps f io) p = io_at (io_set_read ps f io') p"
  "io_at io p = io_at io' p \<Longrightarrow> io_at (io_set_write ps g io) p = io_at (io_set_write ps g io') p"
  by (simp_all add: io_at_def)

lemma io_at_read: "io_at io p = io_at io' p \<Longrightarrow> io_read io p = io_read io' p"
  by (simp add: io_at_def io_read_def)

lemma io_at_write: "io_at io p = io_at io' p \<Longrightarrow> io_write io p v = io_write io' p v"
  by (simp add: io_at_def io_write_def)

subsection \<open>The contract\<close>

locale io_device =
  fixes attach :: "'s io_t \<Rightarrow> 's io_t"
    and ports :: "u16 list"
    and obs :: "'s \<Rightarrow> 'b"
  assumes other_ports: "p \<notin> set ports \<Longrightarrow> io_at (attach io) p = io_at io p"
    and by_port: "io_at io p = io_at io' p \<Longrightarrow> io_at (attach io) p = io_at (attach io') p"
    and keeps_obs: "io_preserves obs io \<Longrightarrow> io_preserves obs (attach io)"
begin

lemma read_other: "p \<notin> set ports \<Longrightarrow> io_read (attach io) p = io_read io p"
  by (rule io_at_read) (rule other_ports)

lemma write_other: "p \<notin> set ports \<Longrightarrow> io_write (attach io) p v = io_write io p v"
  by (rule io_at_write) (rule other_ports)

lemma read_keeps: "io_preserves obs io \<Longrightarrow> preserves obs (io_read (attach io) p)"
  by (rule io_read_preserves) (rule keeps_obs)

lemma write_keeps: "io_preserves obs io \<Longrightarrow> preserves obs (io_write (attach io) p v)"
  by (rule io_write_preserves) (rule keeps_obs)

end

text \<open>A second device does not hide the first one's ports, and the two together are a device.\<close>

locale io_device_pair =
  first: io_device attach1 ports1 obs + second: io_device attach2 ports2 obs
  for attach1 ports1 attach2 ports2 obs +
  assumes separate: "set ports1 \<inter> set ports2 = {}"
begin

lemma first_kept: "p \<in> set ports1 \<Longrightarrow> io_at (attach2 (attach1 io)) p = io_at (attach1 io) p"
  using separate by (intro second.other_ports) auto

lemma neither: "p \<notin> set ports1 \<Longrightarrow> p \<notin> set ports2 \<Longrightarrow> io_at (attach2 (attach1 io)) p = io_at io p"
  by (simp add: first.other_ports second.other_ports)

lemma read_first: "p \<in> set ports1 \<Longrightarrow> io_read (attach2 (attach1 io)) p = io_read (attach1 io) p"
  by (rule io_at_read) (rule first_kept)

lemma write_first: "p \<in> set ports1 \<Longrightarrow> io_write (attach2 (attach1 io)) p v = io_write (attach1 io) p v"
  by (rule io_at_write) (rule first_kept)

end

sublocale io_device_pair \<subseteq> both: io_device "\<lambda>io. attach2 (attach1 io)" "ports1 @ ports2" obs
  by unfold_locales (simp_all add: first.other_ports second.other_ports first.keeps_obs second.keeps_obs,
    intro second.by_port first.by_port)

text \<open>Any number of devices with separate ports, attached one after the other.\<close>

definition attach_all :: "(u16 list \<times> ('s io_t \<Rightarrow> 's io_t)) list \<Rightarrow> 's io_t \<Rightarrow> 's io_t" where
  "attach_all devices io = foldl (\<lambda>io d. snd d io) io devices"

lemma attach_all_snoc [simp]: "attach_all (devs @ [d]) io = snd d (attach_all devs io)"
  by (simp add: attach_all_def)

lemma attach_other: "io_device attach ports obs \<Longrightarrow> p \<notin> set ports \<Longrightarrow> io_at io p = r \<Longrightarrow> io_at (attach io) p = r"
  using io_device.other_ports [of attach ports obs p io] by simp

lemma attach_all_keeps:
  "\<forall>d\<in>set devs. io_device (snd d) (fst d) obs \<Longrightarrow> io_preserves obs io \<Longrightarrow> io_preserves obs (attach_all devs io)"
  by (induction devs rule: rev_induct) (auto simp: attach_all_def intro: io_device.keeps_obs)

lemma attach_all_other:
  "\<forall>d\<in>set devs. io_device (snd d) (fst d) obs \<Longrightarrow> p \<notin> set (concat (map fst devs)) \<Longrightarrow> io_at (attach_all devs io) p = io_at io p"
  by (induction devs rule: rev_induct) (auto simp: attach_all_def intro: attach_other)

lemma attach_all_own:
  assumes "\<forall>d\<in>set devs. io_device (snd d) (fst d) obs" "distinct (concat (map fst devs))" "d \<in> set devs" "p \<in> set (fst d)"
  shows "io_at (attach_all devs io) p = io_at (snd d io) p"
  using assms
proof (induction devs rule: rev_induct)
  case (snoc e devs)
  show ?case
  proof (cases "d = e")
    case True
    then have "p \<notin> set (concat (map fst devs))" using snoc.prems by auto
    then have "io_at (attach_all devs io) p = io_at io p" using snoc.prems(1) by (intro attach_all_other) auto
    then show ?thesis using True snoc.prems(1) by (auto intro: io_device.by_port)
  next
    case False
    then have "p \<notin> set (fst e)" "d \<in> set devs" using snoc.prems by auto
    then show ?thesis using snoc by (auto intro: attach_other)
  qed
qed simp

end
