(* ===== verification/Fe2010.thy ===== *)
theory Fe2010
  imports Cpu_Flow Io_Device
begin

unbundle bit_operations_syntax

text \<open>
  fe2010.c: the chipset. Keyboard and control registers, the four DMA channels (i8237), the
  interrupt mask and the pending requests (i8259), the three timers (i8253). Array indices are
  words of the width that indexes the C array, so every access is in bounds by its type.
\<close>

subsection \<open>State\<close>

record pit_t =
  pit_control :: u8
  pit_counter :: u16
  pit_latch :: u16
  pit_flip_flop :: bool

text \<open>The bit fields \<open>mode\<close> and \<open>rl\<close> that share the byte \<open>control\<close>.\<close>

definition pit_mode :: "pit_t \<Rightarrow> u8" where
  "pit_mode p = drop_bit 1 (pit_control p) AND 7"

definition pit_rl :: "pit_t \<Rightarrow> u8" where
  "pit_rl p = drop_bit 4 (pit_control p) AND 3"

record fe2010_t =
  ctrl :: u8
  conf :: u8
  scancode :: u8
  switches :: u8
  timer_2_output :: bool
  dma_reg :: "3 word \<Rightarrow> u16"
  dma_flip_flop :: bool
  dma_page :: "2 word \<Rightarrow> u8"
  dma_mode :: "2 word \<Rightarrow> u8"
  irq_mask :: u8
  nmi_mask :: u8
  irq_pending :: "3 word \<Rightarrow> bool"
  pit :: "2 word \<Rightarrow> pit_t"
  fe2010_cycle :: nat \<comment> \<open>the static variable \<open>cycle\<close> of \<open>fe2010_execute\<close>\<close>

record board = machine +
  fe2010 :: fe2010_t

definition getf :: "(fe2010_t \<Rightarrow> 'x) \<Rightarrow> ('a board_scheme, 'x) state" where
  "getf f = gets (\<lambda>s. f (fe2010 s))"

definition modf :: "(fe2010_t \<Rightarrow> fe2010_t) \<Rightarrow> ('a board_scheme, unit) state" where
  "modf f = modify (\<lambda>s. s\<lparr>fe2010 := f (fe2010 s)\<rparr>)"

lemma run_state_getf [simp]: "run_state (getf f) s = (f (fe2010 s), s)"
  by (simp add: getf_def)

lemma run_state_modf [simp]: "run_state (modf f) s = ((), s\<lparr>fe2010 := f (fe2010 s)\<rparr>)"
  by (simp add: modf_def)

lemma fe2010_only_frame [frame_intros]:
  "preserves rom_view (getf f)" "preserves rom_view (modf g)"
  "preserves mem (getf f)" "preserves mem (modf g)"
  by (simp_all add: preserves_def rom_view_def)

definition set_pit :: "2 word \<Rightarrow> (pit_t \<Rightarrow> pit_t) \<Rightarrow> fe2010_t \<Rightarrow> fe2010_t" where
  "set_pit i f r = r\<lparr>pit := (pit r)(i := f (pit r i))\<rparr>"

definition FE2010_IRQ_TIMER :: "3 word" where "FE2010_IRQ_TIMER = 0"
definition FE2010_IRQ_KEYBOARD :: "3 word" where "FE2010_IRQ_KEYBOARD = 1"
definition FE2010_IRQ_MOUSE :: "3 word" where "FE2010_IRQ_MOUSE = 2"
definition FE2010_IRQ_COM2 :: "3 word" where "FE2010_IRQ_COM2 = 3"
definition FE2010_IRQ_COM1 :: "3 word" where "FE2010_IRQ_COM1 = 4"
definition FE2010_IRQ_HARD_DISK :: "3 word" where "FE2010_IRQ_HARD_DISK = 5"
definition FE2010_IRQ_FLOPPY_DISK :: "3 word" where "FE2010_IRQ_FLOPPY_DISK = 6"
definition FE2010_DMA_FLOPPY_DISK :: "2 word" where "FE2010_DMA_FLOPPY_DISK = 2"
definition FE2010_DMA_HARD_DISK :: "2 word" where "FE2010_DMA_HARD_DISK = 3"

definition PIT_MODE_INT :: u8 where "PIT_MODE_INT = 0"
definition DMA_MODE_WRITE :: u8 where "DMA_MODE_WRITE = 1"
definition DMA_MODE_READ :: u8 where "DMA_MODE_READ = 2"

subsection \<open>Interrupt requests\<close>

text \<open>A request goes through when the mask shifted by its number is not zero; the processor says
  whether it has refused it, and a refused request stays pending.\<close>

definition fe2010_irq :: "3 word \<Rightarrow> ('a board_scheme, unit) state" where
  "fe2010_irq irq_no = do {
     mask \<leftarrow> getf irq_mask;
     if drop_bit (unat irq_no) mask \<noteq> 0 then do {
       refused \<leftarrow> i8088_irq (ucast irq_no);
       modf (\<lambda>r. r\<lparr>irq_pending := (irq_pending r)(irq_no := refused)\<rparr>)
     } else return ()
   }"

subsection \<open>Keyboard, control and configuration registers\<close>

definition fe2010_scancode_read :: "u16 \<Rightarrow> ('a board_scheme, u8) state" where
  "fe2010_scancode_read port = getf scancode"

definition fe2010_ctrl_read :: "u16 \<Rightarrow> ('a board_scheme, u8) state" where
  "fe2010_ctrl_read port = getf ctrl"

definition fe2010_ctrl_write :: "u16 \<Rightarrow> u8 \<Rightarrow> ('a board_scheme, unit) state" where
  "fe2010_ctrl_write port value = do {
     (if drop_bit 7 value AND 1 \<noteq> 0 then modf (\<lambda>r. r\<lparr>scancode := 0\<rparr>) else return ());
     clock \<leftarrow> getf (\<lambda>r. drop_bit 6 (ctrl r) AND 1);
     (if clock = 0 \<and> drop_bit 6 value AND 1 \<noteq> 0 then do {
        modf (\<lambda>r. r\<lparr>scancode := 0xAA\<rparr>);
        fe2010_irq FE2010_IRQ_KEYBOARD
      } else return ());
     modf (\<lambda>r. r\<lparr>ctrl := value\<rparr>)
   }"

definition fe2010_switch_read :: "u16 \<Rightarrow> ('a board_scheme, u8) state" where
  "fe2010_switch_read port = getf (\<lambda>r.
     let value = (if drop_bit 2 (ctrl r) AND 1 \<noteq> 0 then switches r AND 0xF
                  else drop_bit 4 (switches r));
         value = value OR push_bit 4 (of_bool (timer_2_output r));
         value = value OR push_bit 5 (of_bool (timer_2_output r))
     in value)"

definition fe2010_conf_read :: "u16 \<Rightarrow> ('a board_scheme, u8) state" where
  "fe2010_conf_read port = getf conf"

definition fe2010_conf_write :: "u16 \<Rightarrow> u8 \<Rightarrow> ('a board_scheme, unit) state" where
  "fe2010_conf_write port value = modf (\<lambda>r. r\<lparr>conf := value\<rparr>)"

definition fe2010_keyboard_press :: "u32 \<Rightarrow> ('a board_scheme, unit) state" where
  "fe2010_keyboard_press code = do {
     clock \<leftarrow> getf (\<lambda>r. drop_bit 6 (ctrl r) AND 1);
     if clock \<noteq> 0 then do {
       modf (\<lambda>r. r\<lparr>scancode := ucast code\<rparr>);
       fe2010_irq FE2010_IRQ_KEYBOARD
     } else return ()
   }"

subsection \<open>DMA\<close>

text \<open>Address and count registers are 16 bits wide behind an 8-bit port: a flip-flop shared by all
  of them selects the byte.\<close>

definition i8237_dma_reg_read :: "u16 \<Rightarrow> ('a board_scheme, u8) state" where
  "i8237_dma_reg_read port = do {
     second \<leftarrow> getf dma_flip_flop;
     reg \<leftarrow> getf (\<lambda>r. dma_reg r (ucast (port AND 7)));
     if second then do {
       modf (\<lambda>r. r\<lparr>dma_flip_flop := False\<rparr>);
       return (ucast (drop_bit 8 reg AND 0xFF))
     } else do {
       modf (\<lambda>r. r\<lparr>dma_flip_flop := True\<rparr>);
       return (ucast (reg AND 0xFF))
     }
   }"

definition i8237_dma_reg_write :: "u16 \<Rightarrow> u8 \<Rightarrow> ('a board_scheme, unit) state" where
  "i8237_dma_reg_write port value = do {
     second \<leftarrow> getf dma_flip_flop;
     let i = ucast (port AND 7);
     if second then do {
       modf (\<lambda>r. r\<lparr>dma_flip_flop := False\<rparr>);
       modf (\<lambda>r. r\<lparr>dma_reg := (dma_reg r)(i := dma_reg r i + ucast value * 0x100)\<rparr>)
     } else do {
       modf (\<lambda>r. r\<lparr>dma_flip_flop := True\<rparr>);
       modf (\<lambda>r. r\<lparr>dma_reg := (dma_reg r)(i := ucast value)\<rparr>)
     }
   }"

definition i8237_dma_status_read :: "u16 \<Rightarrow> ('a board_scheme, u8) state" where
  "i8237_dma_status_read port = getf (\<lambda>r.
     of_bool (dma_reg r 1 \<noteq> 0xFFFF) OR push_bit 1 (of_bool (dma_reg r 3 \<noteq> 0xFFFF)) OR
     push_bit 2 (of_bool (dma_reg r 5 \<noteq> 0xFFFF)) OR push_bit 3 (of_bool (dma_reg r 7 \<noteq> 0xFFFF)))"

definition i8237_dma_mode_write :: "u16 \<Rightarrow> u8 \<Rightarrow> ('a board_scheme, unit) state" where
  "i8237_dma_mode_write port value =
     modf (\<lambda>r. r\<lparr>dma_mode := (dma_mode r)(ucast (value AND 3) := value AND 0xFC)\<rparr>)"

definition I8237_DMA_CH0_PAGE :: u16 where "I8237_DMA_CH0_PAGE = 0x87"
definition I8237_DMA_CH1_PAGE :: u16 where "I8237_DMA_CH1_PAGE = 0x83"
definition I8237_DMA_CH2_PAGE :: u16 where "I8237_DMA_CH2_PAGE = 0x81"
definition I8237_DMA_CH3_PAGE :: u16 where "I8237_DMA_CH3_PAGE = 0x82"

definition i8237_dma_page_write :: "u16 \<Rightarrow> u8 \<Rightarrow> ('a board_scheme, unit) state" where
  "i8237_dma_page_write port value =
     (if port = I8237_DMA_CH0_PAGE then modf (\<lambda>r. r\<lparr>dma_page := (dma_page r)(0 := value)\<rparr>)
      else if port = I8237_DMA_CH1_PAGE then modf (\<lambda>r. r\<lparr>dma_page := (dma_page r)(1 := value)\<rparr>)
      else if port = I8237_DMA_CH2_PAGE then modf (\<lambda>r. r\<lparr>dma_page := (dma_page r)(2 := value)\<rparr>)
      else if port = I8237_DMA_CH3_PAGE then modf (\<lambda>r. r\<lparr>dma_page := (dma_page r)(3 := value)\<rparr>)
      else return ())"

text \<open>A transfer moves \<open>count + 1\<close> bytes between memory and a callback of the device. The register
  pair of a channel is \<open>dma_reg[2 * channel]\<close> (address) and \<open>dma_reg[2 * channel + 1]\<close> (count).\<close>

definition dma_address :: "2 word \<Rightarrow> fe2010_t \<Rightarrow> u32" where
  "dma_address channel_no r =
     int16u (dma_reg r (ucast channel_no * 2)) + push_bit 16 (int8u (dma_page r channel_no))"

definition dma_count :: "2 word \<Rightarrow> fe2010_t \<Rightarrow> u16" where
  "dma_count channel_no r = dma_reg r (ucast channel_no * 2 + 1)"

primrec dma_write_loop :: "nat \<Rightarrow> u32 \<Rightarrow> ('a board_scheme, u8) state \<Rightarrow> ('a board_scheme, unit) state" where
  "dma_write_loop 0 address callback_func = return ()"
| "dma_write_loop (Suc n) address callback_func = do {
     b \<leftarrow> callback_func;
     mem_write address b;
     dma_write_loop n (address + 1) callback_func
   }"

definition fe2010_dma_write :: "2 word \<Rightarrow> ('a board_scheme, u8) state \<Rightarrow> ('a board_scheme, unit) state" where
  "fe2010_dma_write channel_no callback_func = do {
     mode \<leftarrow> getf (\<lambda>r. dma_mode r channel_no);
     if drop_bit 2 mode AND 3 \<noteq> DMA_MODE_WRITE then return ()
     else do {
       address \<leftarrow> getf (dma_address channel_no);
       count \<leftarrow> getf (dma_count channel_no);
       dma_write_loop (unat count + 1) address callback_func
     }
   }"

primrec dma_read_loop :: "nat \<Rightarrow> u32 \<Rightarrow> (u8 \<Rightarrow> ('a board_scheme, unit) state) \<Rightarrow> ('a board_scheme, unit) state" where
  "dma_read_loop 0 address callback_func = return ()"
| "dma_read_loop (Suc n) address callback_func = do {
     b \<leftarrow> mem_read address;
     callback_func b;
     dma_read_loop n (address + 1) callback_func
   }"

definition fe2010_dma_read :: "2 word \<Rightarrow> (u8 \<Rightarrow> ('a board_scheme, unit) state) \<Rightarrow> ('a board_scheme, unit) state" where
  "fe2010_dma_read channel_no callback_func = do {
     mode \<leftarrow> getf (\<lambda>r. dma_mode r channel_no);
     if drop_bit 2 mode AND 3 \<noteq> DMA_MODE_READ then return ()
     else do {
       address \<leftarrow> getf (dma_address channel_no);
       count \<leftarrow> getf (dma_count channel_no);
       dma_read_loop (unat count + 1) address callback_func
     }
   }"

subsection \<open>Interrupt controller registers\<close>

definition i8259_irq_service_read :: "u16 \<Rightarrow> ('a board_scheme, u8) state" where
  "i8259_irq_service_read port = return 0"

definition i8259_irq_mask_read :: "u16 \<Rightarrow> ('a board_scheme, u8) state" where
  "i8259_irq_mask_read port = getf irq_mask"

definition i8259_irq_mask_write :: "u16 \<Rightarrow> u8 \<Rightarrow> ('a board_scheme, unit) state" where
  "i8259_irq_mask_write port value = modf (\<lambda>r. r\<lparr>irq_mask := value\<rparr>)"

definition i8259_nmi_mask_write :: "u16 \<Rightarrow> u8 \<Rightarrow> ('a board_scheme, unit) state" where
  "i8259_nmi_mask_write port value = modf (\<lambda>r. r\<lparr>nmi_mask := value\<rparr>)"

subsection \<open>Timers\<close>

definition I8253_PIT_COUNTER_0 :: u16 where "I8253_PIT_COUNTER_0 = 0x40"
definition I8253_PIT_COUNTER_1 :: u16 where "I8253_PIT_COUNTER_1 = 0x41"
definition I8253_PIT_COUNTER_2 :: u16 where "I8253_PIT_COUNTER_2 = 0x42"

definition pit_select :: "u16 \<Rightarrow> (2 word) option" where
  "pit_select port =
     (if port = I8253_PIT_COUNTER_0 then Some 0
      else if port = I8253_PIT_COUNTER_1 then Some 1
      else if port = I8253_PIT_COUNTER_2 then Some 2
      else None)"

definition i8253_pit_counter_read :: "u16 \<Rightarrow> ('a board_scheme, u8) state" where
  "i8253_pit_counter_read port =
     (case pit_select port of
        None \<Rightarrow> return 0
      | Some i \<Rightarrow> do {
          p \<leftarrow> getf (\<lambda>r. pit r i);
          if pit_rl p = 0b00 then
            (if pit_flip_flop p then do {
               modf (set_pit i (\<lambda>p. p\<lparr>pit_flip_flop := False\<rparr>));
               return (hi8 (pit_latch p))
             } else do {
               modf (set_pit i (\<lambda>p. p\<lparr>pit_flip_flop := True\<rparr>));
               return (lo8 (pit_latch p))
             })
          else if pit_rl p = 0b01 then return (lo8 (pit_counter p))
          else if pit_rl p = 0b10 then return (hi8 (pit_counter p))
          else if pit_rl p = 0b11 then
            (if pit_flip_flop p then do {
               modf (set_pit i (\<lambda>p. p\<lparr>pit_flip_flop := False\<rparr>));
               return (hi8 (pit_counter p))
             } else do {
               modf (set_pit i (\<lambda>p. p\<lparr>pit_flip_flop := True\<rparr>));
               return (lo8 (pit_counter p))
             })
          else return 0
        })"

definition i8253_pit_counter_write :: "u16 \<Rightarrow> u8 \<Rightarrow> ('a board_scheme, unit) state" where
  "i8253_pit_counter_write port value =
     (case pit_select port of
        None \<Rightarrow> return ()
      | Some i \<Rightarrow> do {
          p \<leftarrow> getf (\<lambda>r. pit r i);
          if pit_rl p = 0b00 then panic ''PIT latched load mode not implemented!'' []
          else if pit_rl p = 0b01 then modf (set_pit i (\<lambda>p. p\<lparr>pit_counter := word16 value 0\<rparr>))
          else if pit_rl p = 0b10 then modf (set_pit i (\<lambda>p. p\<lparr>pit_counter := word16 0 value\<rparr>))
          else if pit_rl p = 0b11 then
            (if pit_flip_flop p then do {
               modf (set_pit i (\<lambda>p. p\<lparr>pit_flip_flop := False\<rparr>));
               modf (set_pit i (\<lambda>p. p\<lparr>pit_counter := word16 (lo8 (pit_counter p)) value\<rparr>))
             } else do {
               modf (set_pit i (\<lambda>p. p\<lparr>pit_flip_flop := True\<rparr>));
               modf (set_pit i (\<lambda>p. p\<lparr>pit_counter := word16 value (hi8 (pit_counter p))\<rparr>))
             })
          else return ()
        })"

definition i8253_pit_control_write :: "u16 \<Rightarrow> u8 \<Rightarrow> ('a board_scheme, unit) state" where
  "i8253_pit_control_write port value =
     (let sel = drop_bit 6 value
      in if sel > 2 then panic ''Illegal PIT counter selected: %d'' [ucast sel]
         else do {
           let i = ucast sel;
           modf (set_pit i (\<lambda>p. p\<lparr>pit_control := value AND 0x3F\<rparr>));
           p \<leftarrow> getf (\<lambda>r. pit r i);
           (if pit_rl p = 0 then modf (set_pit i (\<lambda>p. p\<lparr>pit_latch := pit_counter p\<rparr>)) else return ());
           if sel = 2 then
             (if pit_mode p = PIT_MODE_INT then modf (\<lambda>r. r\<lparr>timer_2_output := True\<rparr>)
              else modf (\<lambda>r. r\<lparr>timer_2_output := False\<rparr>))
           else return ()
         })"

text \<open>One decrement of one timer.\<close>

definition pit_tick :: "2 word \<Rightarrow> ('a board_scheme, unit) state" where
  "pit_tick i = do {
     modf (set_pit i (\<lambda>p. p\<lparr>pit_counter := pit_counter p - 1\<rparr>));
     counter \<leftarrow> getf (\<lambda>r. pit_counter (pit r i));
     if counter = 0 then
       (if i = 0 then fe2010_irq FE2010_IRQ_TIMER
        else if i = 2 then modf (\<lambda>r. r\<lparr>timer_2_output := False\<rparr>)
        else return ())
     else return ()
   }"

definition retry_irq :: "3 word \<Rightarrow> ('a board_scheme, unit) state" where
  "retry_irq i = do {
     waiting \<leftarrow> getf (\<lambda>r. irq_pending r i);
     if waiting then fe2010_irq i else return ()
   }"

definition fe2010_execute :: "('a board_scheme, unit) state" where
  "fe2010_execute = do {
     modf (\<lambda>r. r\<lparr>fe2010_cycle := fe2010_cycle r + 1\<rparr>);
     cycle \<leftarrow> getf fe2010_cycle;
     if cycle > 6 then do {
       modf (\<lambda>r. r\<lparr>fe2010_cycle := 0\<rparr>);
       for_each [0, 1, 2, 3, 4, 5, 6, 7] retry_irq;
       for_each [0, 1, 2 :: nat] (\<lambda>j. for_each [0, 1, 2] pit_tick)
     } else return ()
   }"

subsection \<open>Initialisation\<close>

definition FE2010_KEYBOARD_DATA_REGISTER :: u16 where "FE2010_KEYBOARD_DATA_REGISTER = 0x60"
definition FE2010_CONTROL_REGISTER :: u16 where "FE2010_CONTROL_REGISTER = 0x61"
definition FE2010_SWITCH_REGISTER :: u16 where "FE2010_SWITCH_REGISTER = 0x62"
definition FE2010_CONFIGURATION_REGISTER :: u16 where "FE2010_CONFIGURATION_REGISTER = 0x63"
definition I8237_DMA_STATUS_REGISTER :: u16 where "I8237_DMA_STATUS_REGISTER = 0x08"
definition I8237_DMA_MODE_REGISTER :: u16 where "I8237_DMA_MODE_REGISTER = 0x0B"
definition I8259_IRQ_SERVICE_REGISTER :: u16 where "I8259_IRQ_SERVICE_REGISTER = 0x20"
definition I8259_IRQ_MASK_REGISTER :: u16 where "I8259_IRQ_MASK_REGISTER = 0x21"
definition I8259_NMI_MASK_REGISTER :: u16 where "I8259_NMI_MASK_REGISTER = 0xA0"
definition I8253_PIT_CONTROL :: u16 where "I8253_PIT_CONTROL = 0x43"

text \<open>\<open>memset(fe2010, 0, sizeof(fe2010_t))\<close> and the DIP switches.\<close>

definition fe2010_init_state :: fe2010_t where
  "fe2010_init_state = \<lparr>ctrl = 0, conf = 0, scancode = 0, switches = 0b01011101,
     timer_2_output = False, dma_reg = (\<lambda>_. 0), dma_flip_flop = False, dma_page = (\<lambda>_. 0),
     dma_mode = (\<lambda>_. 0), irq_mask = 0, nmi_mask = 0, irq_pending = (\<lambda>_. False),
     pit = (\<lambda>_. \<lparr>pit_control = 0, pit_counter = 0, pit_latch = 0, pit_flip_flop = False\<rparr>),
     fe2010_cycle = 0\<rparr>"

definition fe2010_init :: "'a board_scheme io_t \<Rightarrow> 'a board_scheme io_t" where
  "fe2010_init io =
    (let io = io_set_read [FE2010_KEYBOARD_DATA_REGISTER] fe2010_scancode_read io;
         io = io_set_read [FE2010_CONTROL_REGISTER] fe2010_ctrl_read io;
         io = io_set_read [FE2010_SWITCH_REGISTER] fe2010_switch_read io;
         io = io_set_read [FE2010_CONFIGURATION_REGISTER] fe2010_conf_read io;
         io = io_set_write [FE2010_CONTROL_REGISTER] fe2010_ctrl_write io;
         io = io_set_write [FE2010_CONFIGURATION_REGISTER] fe2010_conf_write io;
         io = io_set_read [0, 1, 2, 3, 4, 5, 6, 7] i8237_dma_reg_read io;
         io = io_set_write [0, 1, 2, 3, 4, 5, 6, 7] i8237_dma_reg_write io;
         io = io_set_read [I8237_DMA_STATUS_REGISTER] i8237_dma_status_read io;
         io = io_set_write [I8237_DMA_MODE_REGISTER] i8237_dma_mode_write io;
         io = io_set_write [I8237_DMA_CH0_PAGE, I8237_DMA_CH1_PAGE, I8237_DMA_CH2_PAGE,
                I8237_DMA_CH3_PAGE] i8237_dma_page_write io;
         io = io_set_read [I8259_IRQ_SERVICE_REGISTER] i8259_irq_service_read io;
         io = io_set_read [I8259_IRQ_MASK_REGISTER] i8259_irq_mask_read io;
         io = io_set_write [I8259_IRQ_MASK_REGISTER] i8259_irq_mask_write io;
         io = io_set_write [I8259_NMI_MASK_REGISTER] i8259_nmi_mask_write io;
         io = io_set_read [I8253_PIT_COUNTER_0, I8253_PIT_COUNTER_1, I8253_PIT_COUNTER_2]
                i8253_pit_counter_read io;
         io = io_set_write [I8253_PIT_COUNTER_0, I8253_PIT_COUNTER_1, I8253_PIT_COUNTER_2]
                i8253_pit_counter_write io;
         io = io_set_write [I8253_PIT_CONTROL] i8253_pit_control_write io
     in io)"

subsection \<open>On the bus\<close>

lemma fe2010_irq_rom [frame_intros]: "preserves rom_view (fe2010_irq n)"
  unfolding fe2010_irq_def by (intro frame_intros)

lemma fe2010_hooks_rom [frame_intros]:
  "preserves rom_view (fe2010_scancode_read p)" "preserves rom_view (fe2010_ctrl_read p)"
  "preserves rom_view (fe2010_ctrl_write p v)" "preserves rom_view (fe2010_switch_read p)"
  "preserves rom_view (fe2010_conf_read p)" "preserves rom_view (fe2010_conf_write p v)"
  "preserves rom_view (fe2010_keyboard_press c)" "preserves rom_view (i8237_dma_reg_read p)"
  "preserves rom_view (i8237_dma_reg_write p v)" "preserves rom_view (i8237_dma_status_read p)"
  "preserves rom_view (i8237_dma_mode_write p v)" "preserves rom_view (i8237_dma_page_write p v)"
  "preserves rom_view (i8259_irq_service_read p)" "preserves rom_view (i8259_irq_mask_read p)"
  "preserves rom_view (i8259_irq_mask_write p v)" "preserves rom_view (i8259_nmi_mask_write p v)"
  "preserves rom_view (i8253_pit_counter_read p)" "preserves rom_view (i8253_pit_counter_write p v)"
  "preserves rom_view (i8253_pit_control_write p v)"
  unfolding fe2010_scancode_read_def fe2010_ctrl_read_def fe2010_ctrl_write_def fe2010_switch_read_def
    fe2010_conf_read_def fe2010_conf_write_def fe2010_keyboard_press_def i8237_dma_reg_read_def
    i8237_dma_reg_write_def i8237_dma_status_read_def i8237_dma_mode_write_def
    i8237_dma_page_write_def i8259_irq_service_read_def i8259_irq_mask_read_def
    i8259_irq_mask_write_def i8259_nmi_mask_write_def i8253_pit_counter_read_def
    i8253_pit_counter_write_def i8253_pit_control_write_def
  by (intro frame_intros)+

lemma fe2010_execute_rom [frame_intros]: "preserves rom_view fe2010_execute"
  unfolding fe2010_execute_def retry_irq_def pit_tick_def by (intro frame_intros)

text \<open>A transfer preserves what the memory accesses and the callback of the device preserve.\<close>

lemma dma_preserves:
  assumes "\<And>g :: fe2010_t \<Rightarrow> u32. preserves f (getf g)" "\<And>g :: fe2010_t \<Rightarrow> u16. preserves f (getf g)"
    "\<And>g :: fe2010_t \<Rightarrow> u8. preserves f (getf g)"
  shows "(\<And>a b. preserves f (mem_write a b)) \<Longrightarrow> preserves f source \<Longrightarrow>
      preserves f (fe2010_dma_write c source)"
    and "(\<And>a. preserves f (mem_read a)) \<Longrightarrow> (\<And>b. preserves f (sink b)) \<Longrightarrow>
      preserves f (fe2010_dma_read c sink)"
proof -
  assume w: "\<And>a b. preserves f (mem_write a b)" and s: "preserves f source"
  have "preserves f (dma_write_loop n a source)" for n a
    by (induction n arbitrary: a) (auto intro: frame_intros w s)
  then show "preserves f (fe2010_dma_write c source)"
    unfolding fe2010_dma_write_def by (intro frame_intros assms)
next
  assume r: "\<And>a. preserves f (mem_read a)" and s: "\<And>b. preserves f (sink b)"
  have "preserves f (dma_read_loop n a sink)" for n a
    by (induction n arbitrary: a) (auto intro: frame_intros r s)
  then show "preserves f (fe2010_dma_read c sink)"
    unfolding fe2010_dma_read_def by (intro frame_intros assms)
qed

lemmas dma_rom = dma_preserves [where f = rom_view, OF fe2010_only_frame(1) fe2010_only_frame(1) fe2010_only_frame(1)]

lemma dma_write_rom [frame_intros]:
  "preserves rom_view source \<Longrightarrow> preserves rom_view (fe2010_dma_write c source)"
  by (rule dma_rom(1) [OF mem_write_rom])

lemma dma_read_rom [frame_intros]:
  "(\<And>b. preserves rom_view (sink b)) \<Longrightarrow> preserves rom_view (fe2010_dma_read c sink)"
  by (rule dma_rom(2) [OF mem_read_rom])

definition fe2010_ports :: "u16 list" where
  "fe2010_ports = [0x60, 0x61, 0x62, 0x63, 0, 1, 2, 3, 4, 5, 6, 7, 0x08, 0x0B, 0x87, 0x83, 0x81, 0x82,
     0x20, 0x21, 0xA0, 0x40, 0x41, 0x42, 0x43]"

lemmas fe2010_port_defs = FE2010_KEYBOARD_DATA_REGISTER_def FE2010_CONTROL_REGISTER_def
  FE2010_SWITCH_REGISTER_def FE2010_CONFIGURATION_REGISTER_def I8237_DMA_STATUS_REGISTER_def
  I8237_DMA_MODE_REGISTER_def I8237_DMA_CH0_PAGE_def I8237_DMA_CH1_PAGE_def I8237_DMA_CH2_PAGE_def
  I8237_DMA_CH3_PAGE_def I8259_IRQ_SERVICE_REGISTER_def I8259_IRQ_MASK_REGISTER_def
  I8259_NMI_MASK_REGISTER_def I8253_PIT_COUNTER_0_def I8253_PIT_COUNTER_1_def
  I8253_PIT_COUNTER_2_def I8253_PIT_CONTROL_def

interpretation fe2010_bus: io_device fe2010_init fe2010_ports rom_view
proof
  show "io_at (fe2010_init io) p = io_at io p" if "p \<notin> set fe2010_ports" for io :: "'a board_scheme io_t" and p
    using that by (simp add: fe2010_init_def fe2010_ports_def fe2010_port_defs)
  show "io_at (fe2010_init io) p = io_at (fe2010_init io') p" if "io_at io p = io_at io' p" for io io' :: "'a board_scheme io_t" and p
    unfolding fe2010_init_def Let_def by (intro io_at_set_cong that)
  show "io_preserves rom_view (fe2010_init io)" if "io_preserves rom_view io" for io :: "'a board_scheme io_t"
    unfolding fe2010_init_def Let_def by (intro io_set_intros frame_intros that)
qed

subsection \<open>Pending interrupts\<close>

lemma run_fe2010_irq:
  "run_state (fe2010_irq n) s =
    (if drop_bit (unat n) (irq_mask (fe2010 s)) = 0 then ((), s)
     else case run_state (i8088_irq (ucast n)) s of (refused, t) \<Rightarrow>
       ((), t\<lparr>fe2010 := (fe2010 t)\<lparr>irq_pending := (irq_pending (fe2010 t))(n := refused)\<rparr>\<rparr>))"
  by (simp add: fe2010_irq_def case_prod_beta)

lemma irq_fe2010 [frame_intros]: "preserves fe2010 (i8088_irq n)"
  by (simp add: preserves_def i8088_irq_def run_interrupt Let_def)

text \<open>The requests a scan can deliver.\<close>

definition irq_ready :: "fe2010_t \<Rightarrow> 3 word \<Rightarrow> bool" where
  "irq_ready r n \<longleftrightarrow> irq_pending r n \<and> drop_bit (unat n) (irq_mask r) \<noteq> 0"

lemma retry_not_ready: "\<not> irq_ready (fe2010 s) n \<Longrightarrow> run_state (retry_irq n) s = ((), s)"
  by (auto simp: retry_irq_def irq_ready_def run_fe2010_irq)

lemma retry_refused:
  assumes "\<not> flag_i (cpu s)" and "irq_ready (fe2010 s) n"
  shows "run_state (retry_irq n) s = ((), s\<lparr>cpu := (cpu s)\<lparr>halt := False\<rparr>\<rparr>)"
  using assms by (simp add: retry_irq_def irq_ready_def run_fe2010_irq i8088_irq_def fun_upd_idem)

lemma scan_refused:
  assumes "\<not> flag_i (cpu s)"
  shows "run_state (for_each ns retry_irq) s =
    ((), if \<exists>n \<in> set ns. irq_ready (fe2010 s) n then s\<lparr>cpu := (cpu s)\<lparr>halt := False\<rparr>\<rparr> else s)"
  using assms
proof (induction ns arbitrary: s)
  case (Cons n ns)
  then show ?case
    by (cases "irq_ready (fe2010 s) n") (simp_all add: retry_refused retry_not_ready)
qed simp


lemma accepted_irq:
  assumes "flag_i (cpu s)" and "run_state (i8088_irq n) s = (refused, t)"
  shows "\<not> refused" "fe2010 t = fe2010 s" "\<not> flag_i (cpu t)" "\<not> halt (cpu t)"
  using assms i8088_irq_delivery [where n = n and s = s] preservesD [OF irq_fe2010 [of n], where s = s]
  by (auto split: if_splits)

lemma retry_accepted:
  assumes "flag_i (cpu s)" and "irq_ready (fe2010 s) n"
  shows "run_state (retry_irq n) s = ((), (snd (run_state (i8088_irq (ucast n)) s))
    \<lparr>fe2010 := (fe2010 s)\<lparr>irq_pending := (irq_pending (fe2010 s))(n := False)\<rparr>\<rparr>)"
proof -
  obtain refused t where t: "run_state (i8088_irq (ucast n)) s = (refused, t)" by fastforce
  show ?thesis
    using assms(2) accepted_irq [OF assms(1) t]
    by (simp add: retry_irq_def irq_ready_def run_fe2010_irq t)
qed

text \<open>C14. The scan for pending interrupt requests: with interrupts disabled every request stays
  pending (a halted processor is woken); with interrupts enabled the first deliverable request
  in the order of the scan, and only that one, is delivered and taken off the list, because
  its delivery disables interrupts; requests the mask holds back are not touched.\<close>

theorem scan_delivers_first:
  "snd (run_state (for_each ns retry_irq) s) =
    (case find (irq_ready (fe2010 s)) ns of
       None \<Rightarrow> s
     | Some n \<Rightarrow>
         if flag_i (cpu s)
         then (snd (run_state (i8088_irq (ucast n)) s))
           \<lparr>fe2010 := (fe2010 s)\<lparr>irq_pending := (irq_pending (fe2010 s))(n := False)\<rparr>\<rparr>
         else s\<lparr>cpu := (cpu s)\<lparr>halt := False\<rparr>\<rparr>)"
proof (induction ns arbitrary: s)
  case (Cons n ns)
  show ?case
  proof (cases "irq_ready (fe2010 s) n")
    case False
    then show ?thesis using Cons.IH by (simp add: retry_not_ready)
  next
    case ready: True
    show ?thesis
    proof (cases "flag_i (cpu s)")
      case False
      then show ?thesis using ready by (simp add: retry_refused scan_refused)
    next
      case True
      obtain refused t where t: "run_state (i8088_irq (ucast n)) s = (refused, t)" by fastforce
      define u where "u = t\<lparr>fe2010 := (fe2010 s)\<lparr>irq_pending := (irq_pending (fe2010 s))(n := False)\<rparr>\<rparr>"
      have "\<not> flag_i (cpu u)" and "cpu u = (cpu u)\<lparr>halt := False\<rparr>"
        using accepted_irq [OF True t] by (simp_all add: u_def)
      then have "snd (run_state (for_each ns retry_irq) u) = u"
        by (simp add: scan_refused)
      then show ?thesis
        using True ready by (simp add: retry_accepted t u_def)
    qed
  qed
qed simp

subsection \<open>The timers\<close>

text \<open>The chipset without the list of pending requests, and what a timer tick does to it.\<close>

definition timers :: "fe2010_t \<Rightarrow> fe2010_t" where
  "timers r = r\<lparr>irq_pending := \<lambda>_. False\<rparr>"

definition tick_timer :: "2 word \<Rightarrow> fe2010_t \<Rightarrow> fe2010_t" where
  "tick_timer i r = (let c = pit_counter (pit r i) - 1 in
     (set_pit i (\<lambda>p. p\<lparr>pit_counter := c\<rparr>) r)
       \<lparr>timer_2_output := timer_2_output r \<and> \<not> (i = 2 \<and> c = 0)\<rparr>)"

lemma timers_parts [simp]:
  "pit (timers r) = pit r" "timer_2_output (timers r) = timer_2_output r"
  "fe2010_cycle (timers r) = fe2010_cycle r" "irq_mask (timers r) = irq_mask r"
  by (simp_all add: timers_def)

lemma timers_update:
  "timers (set_pit i f r) = set_pit i f (timers r)"
  "timers (timer_2_output_update g r) = timer_2_output_update g (timers r)"
  "timers (fe2010_cycle_update h r) = fe2010_cycle_update h (timers r)"
  by (simp_all add: timers_def set_pit_def)

lemma irq_keeps_fe2010 [simp]: "fe2010 (snd (run_state (i8088_irq n) s)) = fe2010 s"
  by (rule preservesD [OF irq_fe2010])

lemma timers_irq [simp]: "timers (fe2010 (snd (run_state (fe2010_irq n) s))) = timers (fe2010 s)"
  by (simp add: run_fe2010_irq timers_def case_prod_beta)

lemma timers_scan [simp]:
  "timers (fe2010 (snd (run_state (for_each ns retry_irq) s))) = timers (fe2010 s)"
proof (induction ns arbitrary: s)
  case (Cons n ns)
  have "timers (fe2010 (snd (run_state (retry_irq n) s))) = timers (fe2010 s)"
    by (simp add: retry_irq_def)
  then show ?case by (simp add: case_prod_beta Cons.IH)
qed simp

lemma timers_tick: "timers (fe2010 (snd (run_state (pit_tick i) s))) = tick_timer i (timers (fe2010 s))"
  by (auto simp: pit_tick_def tick_timer_def Let_def timers_update) (auto simp: set_pit_def timers_def)

lemma timers_for_each:
  "timers (fe2010 (snd (run_state (for_each is pit_tick) s))) = fold tick_timer is (timers (fe2010 s))"
  by (induction "is" arbitrary: s) (simp_all add: case_prod_beta timers_tick)

lemma timers_rounds:
  "timers (fe2010 (snd (run_state (for_each js (\<lambda>j. for_each is pit_tick)) s))) =
     ((fold tick_timer is) ^^ length js) (timers (fe2010 s))"
  by (induction js arbitrary: s) (simp_all add: case_prod_beta timers_for_each funpow_swap1)

lemma funpow_3: "(f ^^ 3) x = f (f (f x))"
  by (simp add: eval_nat_numeral)

lemma timers_execute:
  "timers (fe2010 (snd (run_state fe2010_execute s))) =
    (let r = timers (fe2010 s) in
     if fe2010_cycle r + 1 > 6
     then ((fold tick_timer [0, 1, 2]) ^^ 3) (r\<lparr>fe2010_cycle := 0\<rparr>)
     else r\<lparr>fe2010_cycle := fe2010_cycle r + 1\<rparr>)"
  by (simp add: fe2010_execute_def case_prod_beta timers_rounds Let_def timers_update
      funpow_3 del: for_each.simps fold.simps)

lemma round_timers:
  "((fold tick_timer [0, 1, 2]) ^^ 3) r =
     r\<lparr>pit := (\<lambda>i. if i \<in> {0, 1, 2} then (pit r i)\<lparr>pit_counter := pit_counter (pit r i) - 3\<rparr> else pit r i),
       timer_2_output := timer_2_output r \<and> pit_counter (pit r 2) \<notin> {1, 2, 3}\<rparr>"
  by (auto simp: funpow_3 tick_timer_def Let_def set_pit_def fun_eq_iff)


text \<open>Decrements until a counter reaches zero.\<close>

definition period :: "u16 \<Rightarrow> nat" where
  "period c = (if c = 0 then 0x10000 else unat c)"

lemma period_pos: "0 < period c" and period_le: "period c \<le> 0x10000"
  using unat_u16 [of c] by (auto simp: period_def unat_gt_0)

lemma period_count:
  assumes "k < period c"
  shows "(c::u16) - of_nat k \<in> {1, 2, 3} \<longleftrightarrow> period c \<le> k + 3"
proof -
  have "unat (c - of_nat k) = period c - k" if "0 < k \<or> c \<noteq> 0"
  proof -
    have "c = of_nat (period c)" by (simp add: period_def)
    then have "c - of_nat k = of_nat (period c - k)" using assms by simp
    moreover have "period c - k < 0x10000"
      using that period_le [of c] unat_u16 [of c] assms by (auto simp: period_def split: if_splits)
    ultimately show ?thesis by (simp add: unat_of_nat)
  qed
  then show ?thesis using assms unat_u16 [of c]
    by (cases "0 < k \<or> c \<noteq> 0") (auto simp: word_unat_eq_iff period_def)
qed

text \<open>With interrupts disabled a timer interrupt becomes a pending request.\<close>

definition tick_quiet :: "2 word \<Rightarrow> fe2010_t \<Rightarrow> fe2010_t" where
  "tick_quiet i r = (tick_timer i r)
     \<lparr>irq_pending := (irq_pending r)(0 := irq_pending r 0 \<or> i = 0 \<and> pit_counter (pit r 0) = 1 \<and> irq_mask r \<noteq> 0)\<rparr>"

lemma quiet_tick:
  assumes "\<not> flag_i (cpu s)"
  shows "fe2010 (snd (run_state (pit_tick i) s)) = tick_quiet i (fe2010 s) \<and>
    \<not> flag_i (cpu (snd (run_state (pit_tick i) s)))"
  using assms
  by (auto simp: pit_tick_def tick_quiet_def tick_timer_def Let_def set_pit_def run_fe2010_irq
      i8088_irq_def FE2010_IRQ_TIMER_def fun_upd_idem)

lemma quiet_for_each:
  "\<not> flag_i (cpu s) \<Longrightarrow> fe2010 (snd (run_state (for_each is pit_tick) s)) = fold tick_quiet is (fe2010 s) \<and>
    \<not> flag_i (cpu (snd (run_state (for_each is pit_tick) s)))"
proof (induction "is" arbitrary: s)
  case (Cons i "is")
  from quiet_tick [OF Cons.prems, of i] Cons.IH [of "snd (run_state (pit_tick i) s)"]
  show ?case by (simp add: case_prod_beta)
qed simp

lemma quiet_rounds:
  "\<not> flag_i (cpu s) \<Longrightarrow>
    fe2010 (snd (run_state (for_each js (\<lambda>j. for_each is pit_tick)) s)) =
      ((fold tick_quiet is) ^^ length js) (fe2010 s) \<and>
    \<not> flag_i (cpu (snd (run_state (for_each js (\<lambda>j. for_each is pit_tick)) s)))"
proof (induction js arbitrary: s)
  case (Cons j js)
  from quiet_for_each [OF Cons.prems, of "is"] Cons.IH [of "snd (run_state (for_each is pit_tick) s)"]
  show ?case by (simp add: case_prod_beta funpow_swap1)
qed simp

lemma quiet_execute:
  assumes "\<not> flag_i (cpu s)"
  shows "\<not> flag_i (cpu (snd (run_state fe2010_execute s))) \<and>
    irq_pending (fe2010 (snd (run_state fe2010_execute s))) 0 =
    (irq_pending (fe2010 s) 0 \<or> fe2010_cycle (fe2010 s) > 5 \<and> irq_mask (fe2010 s) \<noteq> 0 \<and>
      pit_counter (pit (fe2010 s) 0) \<in> {1, 2, 3})"
proof (cases "fe2010_cycle (fe2010 s) > 5")
  case False
  then show ?thesis using assms by (simp add: fe2010_execute_def)
next
  case True
  define u where "u = snd (run_state (for_each [0, 1, 2, 3, 4, 5, 6, 7] retry_irq)
    (s\<lparr>fe2010 := (fe2010 s)\<lparr>fe2010_cycle := 0\<rparr>\<rparr>))"
  have u: "\<not> flag_i (cpu u)" "fe2010 u = (fe2010 s)\<lparr>fe2010_cycle := 0\<rparr>"
    unfolding u_def using assms by (simp_all add: scan_refused del: for_each.simps)
  have e: "snd (run_state fe2010_execute s) =
      snd (run_state (for_each [0, 1, 2 :: nat] (\<lambda>j. for_each [0, 1, 2] pit_tick)) u)"
    using True by (simp add: fe2010_execute_def case_prod_beta u_def del: for_each.simps)
  show ?thesis
    unfolding e using True quiet_rounds [OF u(1), of "[0, 1, 2 :: nat]" "[0, 1, 2]"]
    by (simp add: u(2) funpow_3 del: for_each.simps)
      (auto simp: tick_quiet_def tick_timer_def Let_def set_pit_def)
qed

lemma execute_timers:
  fixes s :: "'a board_scheme"
  defines "t \<equiv> snd (run_state fe2010_execute s)" and "go \<equiv> 5 < fe2010_cycle (fe2010 s)"
  shows "fe2010_cycle (fe2010 t) = (if go then 0 else Suc (fe2010_cycle (fe2010 s)))"
    and "irq_mask (fe2010 t) = irq_mask (fe2010 s)"
    and "i \<in> {0, 1, 2} \<Longrightarrow> pit_counter (pit (fe2010 t) i) = pit_counter (pit (fe2010 s) i) - (if go then 3 else 0)"
    and "timer_2_output (fe2010 t) =
      (timer_2_output (fe2010 s) \<and> \<not> (go \<and> pit_counter (pit (fe2010 s) 2) \<in> {1, 2, 3}))"
proof -
  have e: "timers (fe2010 t) = (let r = timers (fe2010 s) in
     if fe2010_cycle r + 1 > 6 then ((fold tick_timer [0, 1, 2]) ^^ 3) (r\<lparr>fe2010_cycle := 0\<rparr>)
     else r\<lparr>fe2010_cycle := fe2010_cycle r + 1\<rparr>)"
    unfolding t_def by (rule timers_execute)
  note p = arg_cong [OF e, of fe2010_cycle] arg_cong [OF e, of irq_mask]
    arg_cong [OF e, of timer_2_output] arg_cong [OF e, of "\<lambda>r. pit_counter (pit r i)"]
  show "fe2010_cycle (fe2010 t) = (if go then 0 else Suc (fe2010_cycle (fe2010 s)))"
    "irq_mask (fe2010 t) = irq_mask (fe2010 s)"
    "i \<in> {0, 1, 2} \<Longrightarrow> pit_counter (pit (fe2010 t) i) = pit_counter (pit (fe2010 s) i) - (if go then 3 else 0)"
    "timer_2_output (fe2010 t) =
      (timer_2_output (fe2010 s) \<and> \<not> (go \<and> pit_counter (pit (fe2010 s) 2) \<in> {1, 2, 3}))"
    using p unfolding round_timers go_def by (auto simp: Let_def)
qed

text \<open>The timers after \<open>k\<close> decrements.\<close>

definition timers_after :: "'a board_scheme \<Rightarrow> nat \<Rightarrow> 'a board_scheme \<Rightarrow> bool" where
  "timers_after s k t \<longleftrightarrow> irq_mask (fe2010 t) = irq_mask (fe2010 s) \<and>
    (\<forall>i \<in> {0, 1, 2}. pit_counter (pit (fe2010 t) i) = pit_counter (pit (fe2010 s) i) - of_nat k) \<and>
    timer_2_output (fe2010 t) =
      (timer_2_output (fe2010 s) \<and> k < period (pit_counter (pit (fe2010 s) 2))) \<and>
    (\<not> flag_i (cpu s) \<longrightarrow> \<not> flag_i (cpu t) \<and> irq_pending (fe2010 t) 0 =
      (irq_pending (fe2010 s) 0 \<or>
       irq_mask (fe2010 s) \<noteq> 0 \<and> period (pit_counter (pit (fe2010 s) 0)) \<le> k))"

lemma timers_after_0: "timers_after s 0 s"
  using period_pos [of "pit_counter (pit (fe2010 s) 0)"] period_pos [of "pit_counter (pit (fe2010 s) 2)"]
  by (auto simp: timers_after_def)

lemma timers_after_execute:
  assumes "timers_after s k t"
  shows "timers_after s (if 5 < fe2010_cycle (fe2010 t) then k + 3 else k)
    (snd (run_state fe2010_execute t))"
proof (cases "5 < fe2010_cycle (fe2010 t)")
  case False
  then show ?thesis
    using assms quiet_execute [of t] by (simp add: timers_after_def execute_timers)
next
  case go: True
  let ?v = "snd (run_state fe2010_execute t)" and ?p = "\<lambda>i. pit_counter (pit (fe2010 s) i)"
  have "timer_2_output (fe2010 ?v) = (timer_2_output (fe2010 s) \<and> k + 3 < period (?p 2))"
    using assms go period_count [of k "?p 2"] by (auto simp: timers_after_def execute_timers(4))
  moreover have "\<not> flag_i (cpu ?v) \<and> irq_pending (fe2010 ?v) 0 =
      (irq_pending (fe2010 s) 0 \<or> irq_mask (fe2010 s) \<noteq> 0 \<and> period (?p 0) \<le> k + 3)"
    if "\<not> flag_i (cpu s)"
    using assms go that period_count [of k "?p 0"] quiet_execute [of t]
    by (auto simp: timers_after_def)
  ultimately show ?thesis
    using assms go by (simp add: timers_after_def execute_timers)
qed

text \<open>C20. The timers: after \<open>n\<close> calls of \<open>fe2010_execute\<close> every counter has been decremented
  three times for every seventh call, however the calls and interrupts fall; the output of
  timer 2 drops exactly when its counter has run through to zero, and, while the processor has
  interrupts disabled, the request of timer 0 is pending exactly from the moment its counter
  has run through to zero (if the mask admits it).\<close>

theorem timers_run:
  assumes "fe2010_cycle (fe2010 s) \<le> 6"
  shows "let t = snd (run_state (replicate_m n fe2010_execute) s);
             k = 3 * ((fe2010_cycle (fe2010 s) + n) div 7) in
    fe2010_cycle (fe2010 t) = (fe2010_cycle (fe2010 s) + n) mod 7 \<and>
    (\<forall>i \<in> {0, 1, 2}. pit_counter (pit (fe2010 t) i) = pit_counter (pit (fe2010 s) i) - of_nat k) \<and>
    timer_2_output (fe2010 t) =
      (timer_2_output (fe2010 s) \<and> k < period (pit_counter (pit (fe2010 s) 2))) \<and>
    (\<not> flag_i (cpu s) \<longrightarrow> irq_pending (fe2010 t) 0 =
      (irq_pending (fe2010 s) 0 \<or>
       irq_mask (fe2010 s) \<noteq> 0 \<and> period (pit_counter (pit (fe2010 s) 0)) \<le> k))"
proof -
  let ?c = "fe2010_cycle (fe2010 s)" and ?t = "\<lambda>n. ((\<lambda>s. snd (run_state fe2010_execute s)) ^^ n) s"
  have "timers_after s (3 * ((?c + n) div 7)) (?t n) \<and> fe2010_cycle (fe2010 (?t n)) = (?c + n) mod 7"
  proof (induction n)
    case 0
    then show ?case using assms timers_after_0 by simp
  next
    case (Suc n)
    from timers_after_execute [OF conjunct1 [OF Suc]] Suc show ?case
      by (cases "(?c + n) mod 7 = 6") (auto simp: execute_timers(1) div_Suc mod_Suc add.commute)
  qed
  then show ?thesis by (simp add: run_replicate_m timers_after_def Let_def)
qed

theorem timers_run_witness:
  "pit_counter (pit (fe2010 (snd (run_state (replicate_m 70 fe2010_execute)
     (machine.extend power_on \<lparr>fe2010 = fe2010_init_state\<rparr>)))) 2) = 0xFFE2"
  using timers_run [where n = 70 and s = "machine.extend power_on \<lparr>fe2010 = fe2010_init_state\<rparr>"]
  by (simp add: machine.defs fe2010_init_state_def Let_def)
subsection \<open>DMA transfers\<close>

text \<open>
  What the DMA controller relies on: the callback of a device that sends does not depend on the
  memory and leaves it alone, the callback of a device that receives leaves it alone. The
  transfer then moves a block: the bytes the device produces, in order, appear from the DMA
  address on; the bytes of memory go to the device in order.
\<close>

lemma loop_address:
  assumes "unat a + Suc n \<le> 0x100000"
  shows "\<not> MEM_SIZE_MAX \<le> a" "a < MEM_SIZE_MAX" "unat (a + 1) + n \<le> 0x100000"
  using assms by (simp_all add: MEM_SIZE_MAX_def word_le_nat_alt word_less_nat_alt unat_word_ariths)

lemma dma_range:
  "unat (dma_address c r) < 0x1000000"
proof -
  have "unat (push_bit 16 (int8u (dma_page r c))) = 65536 * unat (dma_page r c)"
    using unat_u8 [of "dma_page r c"] by (simp add: push_bit_eq_mult unat_word_ariths)
  then show ?thesis
    using unat_u8 [of "dma_page r c"] unat_u16 [of "dma_reg r (ucast c * 2)"]
    by (simp add: dma_address_def unat_word_ariths)
qed

locale dma_source =
  fixes source :: "('a board_scheme, u8) state"
  assumes source_mem: "run_state source (s\<lparr>mem := mm\<rparr>) =
    (fst (run_state source s), (snd (run_state source s))\<lparr>mem := mm\<rparr>)"
begin

lemma source_keeps: "mem (snd (run_state source s)) = mem s"
  using arg_cong [OF source_mem [where s = s and mm = "mem s"], of "\<lambda>x. mem (snd x)"] by simp

lemma sources_mem: "run_state (replicate_m n source) (s\<lparr>mem := mm\<rparr>) =
    (fst (run_state (replicate_m n source) s), (snd (run_state (replicate_m n source) s))\<lparr>mem := mm\<rparr>)"
  by (induction n arbitrary: s) (simp_all add: source_mem case_prod_beta)

lemma write_block:
  "unat a + n \<le> 0x100000 \<Longrightarrow> run_state (dma_write_loop n a source) s =
    (case run_state (replicate_m n source) s of (bytes, t) \<Rightarrow>
       ((), t\<lparr>mem := put_bytes mem_put (mem s) a bytes\<rparr>))"
proof (induction n arbitrary: a s)
  case 0
  then show ?case by simp
next
  case (Suc n)
  define b u where "b = fst (run_state source s)" and "u = snd (run_state source s)"
  have "run_state (dma_write_loop (Suc n) a source) s =
      run_state (dma_write_loop n (a + 1) source) (u\<lparr>mem := mem_put (mem s) a b\<rparr>)"
    using loop_address [OF Suc.prems] source_keeps [of s]
    by (simp add: case_prod_beta run_mem_write b_def u_def)
  also have "\<dots> = ((), (snd (run_state (replicate_m n source) u))
      \<lparr>mem := put_bytes mem_put (mem_put (mem s) a b) (a + 1) (fst (run_state (replicate_m n source) u))\<rparr>)"
    using loop_address(3) [OF Suc.prems] by (simp add: Suc.IH sources_mem case_prod_beta)
  finally show ?case by (simp add: b_def u_def case_prod_beta)
qed

lemma write_transfer:
  assumes "drop_bit 2 (dma_mode (fe2010 s) c) AND 3 = DMA_MODE_WRITE"
    and "unat (dma_address c (fe2010 s)) + unat (dma_count c (fe2010 s)) < 0x100000"
  shows "run_state (fe2010_dma_write c source) s =
    (case run_state (replicate_m (unat (dma_count c (fe2010 s)) + 1) source) s of (bytes, t) \<Rightarrow>
       ((), t\<lparr>mem := put_bytes mem_put (mem s) (dma_address c (fe2010 s)) bytes\<rparr>))"
  using assms
  by (simp add: fe2010_dma_write_def write_block del: dma_write_loop.simps replicate_m.simps)

lemma no_write_transfer:
  "drop_bit 2 (dma_mode (fe2010 s) c) AND 3 \<noteq> DMA_MODE_WRITE \<Longrightarrow>
   run_state (fe2010_dma_write c source) s = ((), s)"
  by (simp add: fe2010_dma_write_def)

end

locale dma_sink =
  fixes sink :: "u8 \<Rightarrow> ('a board_scheme, unit) state"
  assumes sink_mem: "mem (snd (run_state (sink b) s)) = mem s"
begin

lemma read_block:
  "unat a + n \<le> 0x100000 \<Longrightarrow> run_state (dma_read_loop n a sink) s =
     run_state (for_each (map (\<lambda>i. mem_get (mem s) (a + of_nat i)) [0..<n]) sink) s"
proof (induction n arbitrary: a s)
  case 0
  then show ?case by simp
next
  case (Suc n)
  define u where "u = snd (run_state (sink (mem_get (mem s) a)) s)"
  have u: "mem u = mem s" by (simp add: u_def sink_mem)
  have l: "map (\<lambda>i. mem_get (mem s) (a + of_nat i)) [0..<Suc n] =
      mem_get (mem s) a # map (\<lambda>i. mem_get (mem s) ((a + 1) + of_nat i)) [0..<n]"
    by (simp only: upt_conv_Cons map_Suc_upt [symmetric]) (simp add: add.assoc)
  have "run_state (dma_read_loop (Suc n) a sink) s = run_state (dma_read_loop n (a + 1) sink) u"
    using loop_address [OF Suc.prems] by (simp add: run_mem_read u_def case_prod_beta)
  then show ?case
    unfolding l using Suc.IH [OF loop_address(3) [OF Suc.prems], of u]
    by (simp add: u u_def [symmetric] case_prod_beta)
qed

lemma read_transfer:
  assumes "drop_bit 2 (dma_mode (fe2010 s) c) AND 3 = DMA_MODE_READ"
    and "unat (dma_address c (fe2010 s)) + unat (dma_count c (fe2010 s)) < 0x100000"
  shows "run_state (fe2010_dma_read c sink) s =
    run_state (for_each (map (\<lambda>i. mem_get (mem s) (dma_address c (fe2010 s) + of_nat i))
      [0..<unat (dma_count c (fe2010 s)) + 1]) sink) s"
  using assms by (simp add: fe2010_dma_read_def read_block del: dma_read_loop.simps upt_Suc)

lemma no_read_transfer:
  "drop_bit 2 (dma_mode (fe2010 s) c) AND 3 \<noteq> DMA_MODE_READ \<Longrightarrow>
   run_state (fe2010_dma_read c sink) s = ((), s)"
  by (simp add: fe2010_dma_read_def)

end

subsection \<open>Programming the chipset through its ports\<close>

definition dma_page_port :: "2 word \<Rightarrow> u16" where
  "dma_page_port c = (if c = 0 then I8237_DMA_CH0_PAGE else if c = 1 then I8237_DMA_CH1_PAGE
     else if c = 2 then I8237_DMA_CH2_PAGE else I8237_DMA_CH3_PAGE)"

lemma two_bits: "(c::2 word) \<in> {0, 1, 2, 3}"
proof -
  have "unat c < 4" using unsigned_less [of c, where ?'a = nat] by simp
  then have "unat c = 0 \<or> unat c = 1 \<or> unat c = 2 \<or> unat c = 3" by linarith
  then show ?thesis by (auto simp: word_unat_eq_iff)
qed

lemma two_bits_cases: "P 0 \<Longrightarrow> P 1 \<Longrightarrow> P 2 \<Longrightarrow> P 3 \<Longrightarrow> P (c::2 word)"
  using two_bits [of c] by auto

lemma fe2010_dma_hooks:
  "io_write (fe2010_init io) (2 * ucast c) v = i8237_dma_reg_write (2 * ucast c) v"
  "io_write (fe2010_init io) (2 * ucast c + 1) v = i8237_dma_reg_write (2 * ucast c + 1) v"
  "io_write (fe2010_init io) I8237_DMA_MODE_REGISTER v = i8237_dma_mode_write I8237_DMA_MODE_REGISTER v"
  "io_write (fe2010_init io) (dma_page_port c) v = i8237_dma_page_write (dma_page_port c) v"
  for c :: "2 word"
  by (induction c rule: two_bits_cases)
    (simp_all add: io_write_def fe2010_init_def fe2010_port_defs dma_page_port_def)

lemma dma_reg_index:
  "ucast ((2 * ucast c) AND 7 :: u16) = (ucast c * 2 :: 3 word)"
  "ucast ((2 * ucast c + 1) AND 7 :: u16) = (ucast c * 2 + 1 :: 3 word)"
  "ucast d * 2 \<noteq> (ucast c * 2 + 1 :: 3 word)" "ucast d * 2 + 1 \<noteq> (ucast c * 2 :: 3 word)"
  "(ucast d * 2 = (ucast c * 2 :: 3 word)) = (d = c)" for c d :: "2 word"
  by (induction c rule: two_bits_cases; induction d rule: two_bits_cases; simp)+

lemma run_dma_reg_write:
  "run_state (i8237_dma_reg_write p v) s =
    ((), s\<lparr>fe2010 := (fe2010 s)\<lparr>dma_flip_flop := \<not> dma_flip_flop (fe2010 s),
       dma_reg := (dma_reg (fe2010 s))(ucast (p AND 7) :=
         (if dma_flip_flop (fe2010 s) then dma_reg (fe2010 s) (ucast (p AND 7)) + ucast v * 0x100
          else ucast v))\<rparr>\<rparr>)"
  by (simp add: i8237_dma_reg_write_def Let_def)

lemma run_dma_page_write:
  "run_state (i8237_dma_page_write (dma_page_port c) v) s =
    ((), s\<lparr>fe2010 := (fe2010 s)\<lparr>dma_page := (dma_page (fe2010 s))(c := v)\<rparr>\<rparr>)"
  by (induction c rule: two_bits_cases)
    (simp_all add: i8237_dma_page_write_def dma_page_port_def fe2010_port_defs fun_upd_def)

lemma channel_byte: "ucast (ucast (c::2 word) :: u8) = c"
  by (induction c rule: two_bits_cases) simp_all

lemma word16_bytes: "ucast (lo8 w) + ucast (hi8 w) * 0x100 = w"
  using word16_lo8_hi8 [of w] by (simp add: word16_def)

text \<open>Programming a DMA channel: writing the address, count, page and mode ports of a channel,
  with the byte flip-flop clear, sets up exactly the transfer those values describe, leaves the
  flip-flop clear and does not disturb the other channels.\<close>

theorem dma_programming:
  assumes "\<not> dma_flip_flop (fe2010 s)" and "mb AND 3 = ucast c"
  shows "let io = fe2010_init io; reg = 2 * ucast c;
             t = snd (run_state (do {
               io_write io reg (lo8 address); io_write io reg (hi8 address);
               io_write io (reg + 1) (lo8 count); io_write io (reg + 1) (hi8 count);
               io_write io (dma_page_port c) page;
               io_write io I8237_DMA_MODE_REGISTER mb }) s) in
    dma_address c (fe2010 t) = int16u address + push_bit 16 (int8u page) \<and>
    dma_count c (fe2010 t) = count \<and> dma_mode (fe2010 t) c = mb AND 0xFC \<and>
    \<not> dma_flip_flop (fe2010 t) \<and>
    (\<forall>d. d \<noteq> c \<longrightarrow> dma_address d (fe2010 t) = dma_address d (fe2010 s) \<and>
       dma_count d (fe2010 t) = dma_count d (fe2010 s) \<and> dma_mode (fe2010 t) d = dma_mode (fe2010 s) d)"
  using assms channel_byte [of c]
  by (simp add: Let_def fe2010_dma_hooks run_dma_reg_write run_dma_page_write
      i8237_dma_mode_write_def dma_address_def dma_count_def dma_reg_index word16_bytes)

theorem dma_programming_witness:
  "dma_count 2 (fe2010 (snd (run_state (do {
       io_write (fe2010_init io_init) 4 (lo8 0x1234); io_write (fe2010_init io_init) 4 (hi8 0x1234);
       io_write (fe2010_init io_init) 5 (lo8 0x1FF); io_write (fe2010_init io_init) 5 (hi8 0x1FF);
       io_write (fe2010_init io_init) 0x81 3; io_write (fe2010_init io_init) I8237_DMA_MODE_REGISTER 0x46 })
     (machine.extend power_on \<lparr>fe2010 = fe2010_init_state\<rparr>)))) = 0x01FF"
  using dma_programming [where c = 2 and address = "0x1234" and count = "0x01FF" and page = 3
      and mb = "0x46" and s = "machine.extend power_on \<lparr>fe2010 = fe2010_init_state\<rparr>" and io = io_init]
  by (simp add: machine.defs fe2010_init_state_def Let_def dma_page_port_def
      I8237_DMA_CH2_PAGE_def)

subsection \<open>Reading a running timer\<close>

text \<open>Ticks change the counter of a timer only.\<close>

lemma execute_latch:
  fixes s :: "'a board_scheme" and n
  defines "t \<equiv> snd (run_state (replicate_m n fe2010_execute) s)"
  shows "pit_control (pit (fe2010 t) i) = pit_control (pit (fe2010 s) i)"
    and "pit_latch (pit (fe2010 t) i) = pit_latch (pit (fe2010 s) i)"
    and "pit_flip_flop (pit (fe2010 t) i) = pit_flip_flop (pit (fe2010 s) i)"
proof -
  have "\<forall>i. pit_counter_update (\<lambda>_. 0) (pit (timers (fe2010 t)) i) =
      pit_counter_update (\<lambda>_. 0) (pit (timers (fe2010 s)) i)"
    unfolding t_def run_replicate_m
    by (induction n) (simp_all add: timers_execute [unfolded round_timers] Let_def)
  then have "pit_counter_update (\<lambda>_. 0) (pit (fe2010 t) i) =
      pit_counter_update (\<lambda>_. 0) (pit (fe2010 s) i)" by simp
  then show "pit_control (pit (fe2010 t) i) = pit_control (pit (fe2010 s) i)"
    "pit_latch (pit (fe2010 t) i) = pit_latch (pit (fe2010 s) i)"
    "pit_flip_flop (pit (fe2010 t) i) = pit_flip_flop (pit (fe2010 s) i)"
    by (metis pit_t.select_convs(1) pit_t.surjective pit_t.update_convs(2),
      metis pit_t.select_convs(3) pit_t.surjective pit_t.update_convs(2),
      metis pit_t.select_convs(4) pit_t.surjective pit_t.update_convs(2))
qed

definition pit_port :: "2 word \<Rightarrow> u16" where
  "pit_port i = I8253_PIT_COUNTER_0 + ucast i"

lemma pit_select_port: "i \<noteq> 3 \<Longrightarrow> pit_select (pit_port i) = Some i"
  by (induction i rule: two_bits_cases)
    (simp_all add: pit_select_def pit_port_def I8253_PIT_COUNTER_0_def I8253_PIT_COUNTER_1_def
      I8253_PIT_COUNTER_2_def)

lemma control_rl: "drop_bit 4 (v AND 0x3F) AND 3 = (drop_bit 4 v AND 3 :: u8)"
  by (rule byte_eqI) (auto simp: bit_simps)

lemma run_pit_control:
  assumes "drop_bit 6 cmd = (ucast i :: u8)" and "i \<noteq> 3"
  obtains t where "run_state (i8253_pit_control_write p cmd) s = ((), t)"
    "pit (fe2010 t) i = (pit (fe2010 s) i)\<lparr>pit_control := cmd AND 0x3F,
       pit_latch := (if drop_bit 4 cmd AND 3 = 0 then pit_counter (pit (fe2010 s) i)
                     else pit_latch (pit (fe2010 s) i))\<rparr>"
    "fe2010_cycle (fe2010 t) = fe2010_cycle (fe2010 s)"
proof -
  have "\<not> (ucast i :: u8) > 2"
    using assms(2) by (induction i rule: two_bits_cases) simp_all
  then show thesis
    using that [of "snd (run_state (i8253_pit_control_write p cmd) s)"] assms(1) channel_byte [of i]
    by (simp add: i8253_pit_control_write_def Let_def set_pit_def pit_rl_def control_rl)
qed

lemma run_pit_write:
  assumes "i \<noteq> 3" and "pit_rl (pit (fe2010 s) i) = 3"
  shows "run_state (i8253_pit_counter_write (pit_port i) v) s = ((), s\<lparr>fe2010 := set_pit i
    (\<lambda>p. p\<lparr>pit_flip_flop := \<not> pit_flip_flop p,
           pit_counter := if pit_flip_flop p then word16 (lo8 (pit_counter p)) v
                          else word16 v (hi8 (pit_counter p))\<rparr>) (fe2010 s)\<rparr>)"
  using assms by (simp add: i8253_pit_counter_write_def pit_select_port set_pit_def pit_rl_def)

lemma run_pit_read_latched:
  assumes "i \<noteq> 3" and "pit_rl (pit (fe2010 s) i) = 0"
  shows "run_state (i8253_pit_counter_read (pit_port i)) s =
    (if pit_flip_flop (pit (fe2010 s) i) then hi8 (pit_latch (pit (fe2010 s) i))
     else lo8 (pit_latch (pit (fe2010 s) i)),
     s\<lparr>fe2010 := set_pit i (\<lambda>p. p\<lparr>pit_flip_flop := \<not> pit_flip_flop p\<rparr>) (fe2010 s)\<rparr>)"
  using assms by (simp add: i8253_pit_counter_read_def pit_select_port set_pit_def)

text \<open>C15. A timer is loaded and read through its 8-bit port while it runs: load the counter
  with low and high byte, let any number of cycles pass, latch it, and read the two bytes with
  any number of cycles before each: the word read is the loaded value less three decrements for
  every seventh cycle before the latch command. The reading is not torn by the ticks in
  between.\<close>

theorem pit_latch_read:
  assumes "fe2010_cycle (fe2010 s) \<le> 6" and "\<not> pit_flip_flop (pit (fe2010 s) i)" and "i \<noteq> 3"
    and "drop_bit 6 load = ucast i" "drop_bit 4 load AND 3 = 3"
    and "drop_bit 6 latch = ucast i" "drop_bit 4 latch AND 3 = 0"
  shows "fst (run_state (do {
      i8253_pit_control_write I8253_PIT_CONTROL load;
      i8253_pit_counter_write (pit_port i) (lo8 start);
      i8253_pit_counter_write (pit_port i) (hi8 start);
      _ \<leftarrow> replicate_m n fe2010_execute;
      i8253_pit_control_write I8253_PIT_CONTROL latch;
      _ \<leftarrow> replicate_m m fe2010_execute;
      lo \<leftarrow> i8253_pit_counter_read (pit_port i);
      _ \<leftarrow> replicate_m k fe2010_execute;
      hi \<leftarrow> i8253_pit_counter_read (pit_port i);
      return (word16 lo hi) }) s) =
    start - of_nat (3 * ((fe2010_cycle (fe2010 s) + n) div 7))"
proof -
  obtain s1 where 1: "run_state (i8253_pit_control_write I8253_PIT_CONTROL load) s = ((), s1)"
      "pit (fe2010 s1) i = (pit (fe2010 s) i)\<lparr>pit_control := load AND 0x3F\<rparr>"
      "fe2010_cycle (fe2010 s1) = fe2010_cycle (fe2010 s)"
    using run_pit_control [OF assms(4,3), of I8253_PIT_CONTROL s] assms(5) by auto
  define s2 where "s2 = snd (run_state (do { i8253_pit_counter_write (pit_port i) (lo8 start);
      i8253_pit_counter_write (pit_port i) (hi8 start) }) s1)"
  have ff: "pit_rl (pit (fe2010 s1) i) = 3" "\<not> pit_flip_flop (pit (fe2010 s1) i)"
    using assms(2,5) by (simp_all add: 1(2) pit_rl_def control_rl)
  have 2: "pit_counter (pit (fe2010 s2) i) = start" "\<not> pit_flip_flop (pit (fe2010 s2) i)"
      "fe2010_cycle (fe2010 s2) = fe2010_cycle (fe2010 s)"
    using ff assms(3) by (simp_all add: s2_def run_pit_write set_pit_def pit_rl_def 1(3))
  define s3 where "s3 = snd (run_state (replicate_m n fe2010_execute) s2)"
  have 3: "pit_counter (pit (fe2010 s3) i) = start - of_nat (3 * ((fe2010_cycle (fe2010 s) + n) div 7))"
      "\<not> pit_flip_flop (pit (fe2010 s3) i)"
    using timers_run [of s2 n] two_bits [of i] assms(1-3) 2
    by (auto simp: s3_def Let_def execute_latch)
  obtain s4 where 4: "run_state (i8253_pit_control_write I8253_PIT_CONTROL latch) s3 = ((), s4)"
      "pit (fe2010 s4) i = (pit (fe2010 s3) i)\<lparr>pit_control := latch AND 0x3F,
         pit_latch := pit_counter (pit (fe2010 s3) i)\<rparr>"
    using run_pit_control [OF assms(6,3), of I8253_PIT_CONTROL s3] assms(7) by auto
  define s5 where "s5 = snd (run_state (replicate_m m fe2010_execute) s4)"
  have 5: "pit_rl (pit (fe2010 s5) i) = 0" "\<not> pit_flip_flop (pit (fe2010 s5) i)"
      "pit_latch (pit (fe2010 s5) i) = pit_counter (pit (fe2010 s3) i)"
    using assms(7) 3(2) by (simp_all add: s5_def execute_latch 4(2) pit_rl_def control_rl)
  define s6 where "s6 = s5\<lparr>fe2010 := set_pit i (\<lambda>p. p\<lparr>pit_flip_flop := \<not> pit_flip_flop p\<rparr>) (fe2010 s5)\<rparr>"
  define s7 where "s7 = snd (run_state (replicate_m k fe2010_execute) s6)"
  have 7: "pit_rl (pit (fe2010 s7) i) = 0" "pit_flip_flop (pit (fe2010 s7) i)"
      "pit_latch (pit (fe2010 s7) i) = pit_counter (pit (fe2010 s3) i)"
    using 5 by (simp_all add: s7_def s6_def execute_latch set_pit_def pit_rl_def)
  have "fst (run_state (do { lo \<leftarrow> i8253_pit_counter_read (pit_port i);
      _ \<leftarrow> replicate_m k fe2010_execute;
      hi \<leftarrow> i8253_pit_counter_read (pit_port i);
      return (word16 lo hi) }) s5) = pit_counter (pit (fe2010 s3) i)"
    using assms(3) 5 7
    by (simp add: run_pit_read_latched s6_def [symmetric] case_prod_beta s7_def [symmetric])
  then show ?thesis
    by (simp add: 1(1) case_prod_beta s2_def [symmetric, simplified case_prod_beta run_state_bind]
      s3_def [symmetric] 4(1) s5_def [symmetric] 3(1))
qed

theorem pit_latch_read_witness:
  "fst (run_state (do {
      i8253_pit_control_write I8253_PIT_CONTROL 0xB6;
      i8253_pit_counter_write (pit_port 2) (lo8 1000);
      i8253_pit_counter_write (pit_port 2) (hi8 1000);
      _ \<leftarrow> replicate_m 700 fe2010_execute;
      i8253_pit_control_write I8253_PIT_CONTROL 0x80;
      _ \<leftarrow> replicate_m 21 fe2010_execute;
      lo \<leftarrow> i8253_pit_counter_read (pit_port 2);
      _ \<leftarrow> replicate_m 33 fe2010_execute;
      hi \<leftarrow> i8253_pit_counter_read (pit_port 2);
      return (word16 lo hi) }) (machine.extend power_on \<lparr>fe2010 = fe2010_init_state\<rparr>)) = 700"
  by (subst pit_latch_read)
    (simp_all add: machine.defs fe2010_init_state_def)

end
