(* ===== verification/Mos5720.thy ===== *)
theory Mos5720
  imports Fe2010
begin

unbundle bit_operations_syntax

text \<open>
  mos5720.c: the mouse port and the mode register that selects the serial port.
\<close>

subsection \<open>State and registers\<close>

record mos5720_t =
  mos5720_mode :: u8
  mouse_signature :: u8
  mouse_control :: u8
  mouse_data :: u8

record mouse_board = board +
  mos5720 :: mos5720_t

definition getm :: "(mos5720_t \<Rightarrow> 'x) \<Rightarrow> ('a mouse_board_scheme, 'x) state" where
  "getm f = gets (\<lambda>s. f (mos5720 s))"

definition modm :: "(mos5720_t \<Rightarrow> mos5720_t) \<Rightarrow> ('a mouse_board_scheme, unit) state" where
  "modm f = modify (\<lambda>s. s\<lparr>mos5720 := f (mos5720 s)\<rparr>)"

lemma run_state_getm [simp]: "run_state (getm f) s = (f (mos5720 s), s)"
  by (simp add: getm_def)

lemma run_state_modm [simp]: "run_state (modm f) s = ((), s\<lparr>mos5720 := f (mos5720 s)\<rparr>)"
  by (simp add: modm_def)

lemma mos5720_only_rom [frame_intros]: "preserves rom_view (getm f)" "preserves rom_view (modm g)"
  by (simp_all add: preserves_def rom_view_def)

definition MOS5720_MODE :: u16 where "MOS5720_MODE = 0x230"
definition MOS5720_REG_232 :: u16 where "MOS5720_REG_232 = 0x232"
definition MOS5720_MOUSE_DATA :: u16 where "MOS5720_MOUSE_DATA = 0x23C"
definition MOS5720_MOUSE_SIGNATURE :: u16 where "MOS5720_MOUSE_SIGNATURE = 0x23D"
definition MOS5720_MOUSE_CONTROL :: u16 where "MOS5720_MOUSE_CONTROL = 0x23E"
definition MOS5720_MOUSE_CONFIG :: u16 where "MOS5720_MOUSE_CONFIG = 0x23F"

definition mos5720_mode_read :: "u16 \<Rightarrow> ('a mouse_board_scheme, u8) state" where
  "mos5720_mode_read port = getm mos5720_mode"

definition mos5720_mode_write :: "u16 \<Rightarrow> u8 \<Rightarrow> ('a mouse_board_scheme, unit) state" where
  "mos5720_mode_write port value = modm (\<lambda>r. r\<lparr>mos5720_mode := value\<rparr>)"

definition mos5720_reg_232_write :: "u16 \<Rightarrow> u8 \<Rightarrow> ('a mouse_board_scheme, unit) state" where
  "mos5720_reg_232_write port value = do {
     mode \<leftarrow> getm mos5720_mode;
     if value = 0x99 \<and> mode = 0x89 then modm (\<lambda>r. r\<lparr>mouse_signature := 0\<rparr>) else return ()
   }"

definition mos5720_mouse_read :: "u16 \<Rightarrow> ('a mouse_board_scheme, u8) state" where
  "mos5720_mouse_read port =
     (if port = MOS5720_MOUSE_DATA then getm mouse_data
      else if port = MOS5720_MOUSE_SIGNATURE then getm mouse_signature
      else if port = MOS5720_MOUSE_CONTROL then do {
        control \<leftarrow> getm mouse_control;
        (if control = 0x07 then modm (\<lambda>r. r\<lparr>mouse_control := 0x0F\<rparr>)
         else modm (\<lambda>r. r\<lparr>mouse_control := 0x07\<rparr>));
        getm mouse_control
      }
      else if port = MOS5720_MOUSE_CONFIG then return 0xFF
      else return 0xFF)"

definition mos5720_mouse_write :: "u16 \<Rightarrow> u8 \<Rightarrow> ('a mouse_board_scheme, unit) state" where
  "mos5720_mouse_write port value =
     (if port = MOS5720_MOUSE_DATA then return ()
      else if port = MOS5720_MOUSE_SIGNATURE then modm (\<lambda>r. r\<lparr>mouse_signature := value\<rparr>)
      else return ())"

definition mos5720_init_state :: mos5720_t where
  "mos5720_init_state =
     \<lparr>mos5720_mode = 0, mouse_signature = 0, mouse_control = 0, mouse_data = 0\<rparr>"

definition mos5720_init :: "'a mouse_board_scheme io_t \<Rightarrow> 'a mouse_board_scheme io_t" where
  "mos5720_init io =
    (let mouse_ports = [MOS5720_MOUSE_DATA, MOS5720_MOUSE_SIGNATURE, MOS5720_MOUSE_CONTROL,
                        MOS5720_MOUSE_CONFIG];
         io = io_set_read [MOS5720_MODE] mos5720_mode_read io;
         io = io_set_write [MOS5720_MODE] mos5720_mode_write io;
         io = io_set_write [MOS5720_REG_232] mos5720_reg_232_write io;
         io = io_set_read mouse_ports mos5720_mouse_read io;
         io = io_set_write mouse_ports mos5720_mouse_write io
     in io)"

text \<open>Called by the serial port when the host mouse has sent a byte.\<close>

definition mos5720_mouse_data :: "u8 \<Rightarrow> ('a mouse_board_scheme, unit) state" where
  "mos5720_mouse_data data = do {
     modm (\<lambda>r. r\<lparr>mouse_data := data\<rparr>);
     fe2010_irq FE2010_IRQ_MOUSE
   }"

definition mos5720_uart_chip_select :: "('a mouse_board_scheme, bool) state" where
  "mos5720_uart_chip_select = do {
     mode \<leftarrow> getm mos5720_mode;
     return (if mode = 0x89 then True
             else if mode = 0x81 then False
             else if mode = 0xD9 then True
             else False)
   }"

subsection \<open>On the bus\<close>

lemma mos5720_rom [frame_intros]:
  "preserves rom_view (mos5720_mode_read p)" "preserves rom_view (mos5720_mode_write p v)"
  "preserves rom_view (mos5720_reg_232_write p v)" "preserves rom_view (mos5720_mouse_read p)"
  "preserves rom_view (mos5720_mouse_write p v)" "preserves rom_view (mos5720_mouse_data d)"
  "preserves rom_view mos5720_uart_chip_select"
  unfolding mos5720_mode_read_def mos5720_mode_write_def mos5720_reg_232_write_def
    mos5720_mouse_read_def mos5720_mouse_write_def mos5720_mouse_data_def mos5720_uart_chip_select_def
  by (intro frame_intros)+

definition mos5720_ports :: "u16 list" where
  "mos5720_ports = [0x230, 0x232, 0x23C, 0x23D, 0x23E, 0x23F]"

lemmas mos5720_port_defs = MOS5720_MODE_def MOS5720_REG_232_def MOS5720_MOUSE_DATA_def
  MOS5720_MOUSE_SIGNATURE_def MOS5720_MOUSE_CONTROL_def MOS5720_MOUSE_CONFIG_def

interpretation mos5720_bus: io_device mos5720_init mos5720_ports rom_view
proof
  show "io_at (mos5720_init io) p = io_at io p" if "p \<notin> set mos5720_ports" for io :: "'a mouse_board_scheme io_t" and p
    using that by (simp add: mos5720_init_def mos5720_ports_def mos5720_port_defs Let_def)
  show "io_at (mos5720_init io) p = io_at (mos5720_init io') p" if "io_at io p = io_at io' p" for io io' :: "'a mouse_board_scheme io_t" and p
    unfolding mos5720_init_def Let_def by (intro io_at_set_cong that)
  show "io_preserves rom_view (mos5720_init io)" if "io_preserves rom_view io" for io :: "'a mouse_board_scheme io_t"
    unfolding mos5720_init_def Let_def by (intro io_set_intros frame_intros that)
qed

interpretation fe2010_mos5720: io_device_pair fe2010_init fe2010_ports mos5720_init mos5720_ports
  "rom_view :: 'a mouse_board_scheme \<Rightarrow> _"
  by unfold_locales (simp add: fe2010_ports_def mos5720_ports_def)

subsection \<open>The mouse port\<close>

text \<open>Successive reads of the control port alternate, the first one after the reset gives 0x07.\<close>

lemma mouse_control_toggles:
  "mouse_control (mos5720 s) \<in> {0, 0x0F} \<Longrightarrow>
   fst (run_state (replicate_m (Suc (Suc n)) (mos5720_mouse_read MOS5720_MOUSE_CONTROL)) s) =
     0x07 # 0x0F # fst (run_state (replicate_m n (mos5720_mouse_read MOS5720_MOUSE_CONTROL))
       (s\<lparr>mos5720 := (mos5720 s)\<lparr>mouse_control := 0x0F\<rparr>\<rparr>))"
  by (auto simp: mos5720_mouse_read_def mos5720_port_defs case_prod_beta)

end
