(* ===== verification/M6242.thy ===== *)
theory M6242
  imports Mos5720
begin

unbundle bit_operations_syntax

text \<open>
  m6242.c: the real-time clock. The time is the host's: every read of a register calls
  \<open>clock_gettime\<close> and \<open>localtime_r\<close>, whose results are an arbitrary sequence \<open>host_clock\<close>
  consumed in order.
\<close>

subsection \<open>State\<close>

text \<open>The fields of \<open>struct tm\<close> the code reads.\<close>

record tm =
  tm_sec :: int
  tm_min :: int
  tm_hour :: int
  tm_mday :: int
  tm_mon :: int
  tm_year :: int
  tm_wday :: int

record m6242_t =
  bios_probe :: bool
  control_d :: u8
  control_e :: u8
  control_f :: u8

record clock_board = mouse_board +
  m6242 :: m6242_t
  host_clock :: "nat \<Rightarrow> tm"
  host_clock_calls :: nat

definition localtime_now :: "('a clock_board_scheme, tm) state" where
  "localtime_now = do {
     tm \<leftarrow> gets (\<lambda>s. host_clock s (host_clock_calls s));
     modify (\<lambda>s. s\<lparr>host_clock_calls := host_clock_calls s + 1\<rparr>);
     return tm
   }"

lemma run_localtime_now [simp]:
  "run_state localtime_now s =
    (host_clock s (host_clock_calls s), s\<lparr>host_clock_calls := host_clock_calls s + 1\<rparr>)"
  by (simp add: localtime_now_def)

definition modr :: "(m6242_t \<Rightarrow> m6242_t) \<Rightarrow> ('a clock_board_scheme, unit) state" where
  "modr f = modify (\<lambda>s. s\<lparr>m6242 := f (m6242 s)\<rparr>)"

lemma run_state_modr [simp]: "run_state (modr f) s = ((), s\<lparr>m6242 := f (m6242 s)\<rparr>)"
  by (simp add: modr_def)

lemma m6242_only_rom [frame_intros]: "preserves rom_view localtime_now" "preserves rom_view (modr g)"
  by (simp_all add: preserves_def rom_view_def)

subsection \<open>Registers\<close>

definition M6242_S1 :: u16 where "M6242_S1 = 0x2C0"
definition M6242_S10 :: u16 where "M6242_S10 = 0x2C1"
definition M6242_MI1 :: u16 where "M6242_MI1 = 0x2C2"
definition M6242_MI10 :: u16 where "M6242_MI10 = 0x2C3"
definition M6242_H1 :: u16 where "M6242_H1 = 0x2C4"
definition M6242_H10 :: u16 where "M6242_H10 = 0x2C5"
definition M6242_D1 :: u16 where "M6242_D1 = 0x2C6"
definition M6242_D10 :: u16 where "M6242_D10 = 0x2C7"
definition M6242_MO1 :: u16 where "M6242_MO1 = 0x2C8"
definition M6242_MO10 :: u16 where "M6242_MO10 = 0x2C9"
definition M6242_Y1 :: u16 where "M6242_Y1 = 0x2CA"
definition M6242_Y10 :: u16 where "M6242_Y10 = 0x2CB"
definition M6242_W :: u16 where "M6242_W = 0x2CC"
definition M6242_CD :: u16 where "M6242_CD = 0x2CD"
definition M6242_CE :: u16 where "M6242_CE = 0x2CE"
definition M6242_CF :: u16 where "M6242_CF = 0x2CF"

lemmas m6242_reg_defs = M6242_S1_def M6242_S10_def M6242_MI1_def M6242_MI10_def M6242_H1_def
  M6242_H10_def M6242_D1_def M6242_D10_def M6242_MO1_def M6242_MO10_def M6242_Y1_def M6242_Y10_def
  M6242_W_def M6242_CD_def M6242_CE_def M6242_CF_def

definition m6242_register_read :: "u16 \<Rightarrow> ('a clock_board_scheme, u8) state" where
  "m6242_register_read port = do {
     tm \<leftarrow> localtime_now;
     r \<leftarrow> gets m6242;
     let byte = (\<lambda>n :: int. word_of_int n :: u8);
     if port = M6242_S1 then
       (if bios_probe r = False then do {
          modr (\<lambda>r. r\<lparr>bios_probe := True\<rparr>);
          return (byte (cmod (tm_sec tm - 2) 10))
        } else return (byte (cmod (tm_sec tm) 10)))
     else if port = M6242_S10 then return (byte (cdiv (tm_sec tm) 10))
     else if port = M6242_MI1 then return (byte (cmod (tm_min tm) 10))
     else if port = M6242_MI10 then return (byte (cdiv (tm_min tm) 10))
     else if port = M6242_H1 then return (byte (cmod (tm_hour tm) 10))
     else if port = M6242_H10 then return (byte (cdiv (tm_hour tm) 10))
     else if port = M6242_D1 then return (byte (cmod (tm_mday tm) 10))
     else if port = M6242_D10 then return (byte (cdiv (tm_mday tm) 10))
     else if port = M6242_MO1 then return (byte (cmod (tm_mon tm + 1) 10))
     else if port = M6242_MO10 then return (byte (cdiv (tm_mon tm + 1) 10))
     else if port = M6242_Y1 then return (byte (cmod (tm_year tm) 10))
     else if port = M6242_Y10 then return (byte (cmod (cdiv (tm_year tm) 10 + 2) 10))
     else if port = M6242_W then return (byte (tm_wday tm))
     else if port = M6242_CD then return (control_d r AND 0b1101)
     else if port = M6242_CE then return (control_e r)
     else if port = M6242_CF then return (control_f r)
     else return 0
   }"

definition m6242_register_write :: "u16 \<Rightarrow> u8 \<Rightarrow> ('a clock_board_scheme, unit) state" where
  "m6242_register_write port value =
     (if port = M6242_CD then modr (\<lambda>r. r\<lparr>control_d := value\<rparr>)
      else if port = M6242_CE then modr (\<lambda>r. r\<lparr>control_e := value\<rparr>)
      else if port = M6242_CF then modr (\<lambda>r. r\<lparr>control_f := value\<rparr>)
      else return ())"

definition m6242_init_state :: m6242_t where
  "m6242_init_state = \<lparr>bios_probe = False, control_d = 0, control_e = 0, control_f = 0\<rparr>"

definition m6242_ports :: "u16 list" where
  "m6242_ports = map (\<lambda>i. M6242_S1 + of_nat i) [0..<16]"

definition m6242_init :: "'a clock_board_scheme io_t \<Rightarrow> 'a clock_board_scheme io_t" where
  "m6242_init io =
    (let io = io_set_read m6242_ports m6242_register_read io;
         io = io_set_write m6242_ports m6242_register_write io
     in io)"

subsection \<open>On the bus\<close>

lemma m6242_rom [frame_intros]:
  "preserves rom_view (m6242_register_read p)" "preserves rom_view (m6242_register_write p v)"
  unfolding m6242_register_read_def m6242_register_write_def by (intro frame_intros)+

interpretation m6242_bus: io_device m6242_init m6242_ports rom_view
proof
  show "io_at (m6242_init io) p = io_at io p" if "p \<notin> set m6242_ports" for io :: "'a clock_board_scheme io_t" and p
    using that by (simp add: m6242_init_def)
  show "io_at (m6242_init io) p = io_at (m6242_init io') p" if "io_at io p = io_at io' p" for io io' :: "'a clock_board_scheme io_t" and p
    unfolding m6242_init_def Let_def by (intro io_at_set_cong that)
  show "io_preserves rom_view (m6242_init io)" if "io_preserves rom_view io" for io :: "'a clock_board_scheme io_t"
    unfolding m6242_init_def Let_def by (intro io_set_intros frame_intros that)
qed

subsection \<open>Telling the time\<close>

text \<open>The documented range of \<open>struct tm\<close>, from 1980 on.\<close>

definition valid_tm :: "tm \<Rightarrow> bool" where
  "valid_tm tm \<longleftrightarrow> 0 \<le> tm_sec tm \<and> tm_sec tm \<le> 60 \<and> 0 \<le> tm_min tm \<and> tm_min tm \<le> 59 \<and>
     0 \<le> tm_hour tm \<and> tm_hour tm \<le> 23 \<and> 1 \<le> tm_mday tm \<and> tm_mday tm \<le> 31 \<and>
     0 \<le> tm_mon tm \<and> tm_mon tm \<le> 11 \<and> 0 \<le> tm_wday tm \<and> tm_wday tm \<le> 6 \<and> 80 \<le> tm_year tm"

definition rtc_read :: "'a clock_board_scheme \<Rightarrow> u16 \<Rightarrow> nat" where
  "rtc_read s port = unat (fst (run_state (m6242_register_read port) s))"

lemma cdiv_nonneg: "0 \<le> a \<Longrightarrow> cdiv a 10 = a div 10"
  by (cases "a = 0") (simp_all add: cdiv_def)

lemma cmod_nonneg: "0 \<le> a \<Longrightarrow> cmod a 10 = a mod 10"
  by (simp add: cmod_def cdiv_nonneg minus_div_mult_eq_mod)

lemma unat_byte: "0 \<le> n \<Longrightarrow> n < 256 \<Longrightarrow> unat (word_of_int n :: u8) = nat n"
  unfolding unat_eq_nat_uint uint_word_of_int by simp

lemma unat_tens: "0 \<le> n \<Longrightarrow> n < 100 \<Longrightarrow> unat (word_of_int (n div 10) :: u8) = nat (n div 10)"
  by (rule unat_byte) auto

lemma two_digits:
  "0 \<le> n \<Longrightarrow> n < 100 \<Longrightarrow> int (10 * nat (n div 10) + nat (n mod 10)) = n \<and> nat (n div 10) < 10 \<and> nat (n mod 10) < 10"
  by auto

lemma year_digits:
  assumes "0 \<le> (y::int)"
  shows "int (10 * nat ((y div 10 + 2) mod 10) + nat (y mod 10)) = (y + 1900 - 1980) mod 100 \<and>
    nat ((y div 10 + 2) mod 10) < 10 \<and> nat (y mod 10) < 10"
proof -
  have d: "(y + 2 * 10) div 10 = y div 10 + 2" by simp
  have m: "(y + 2 * 10) mod 10 = y mod 10" by (rule mod_mult_self1)
  have "(y + 2 * 10) mod (10 * 10) = 10 * ((y div 10 + 2) mod 10) + y mod 10"
    using zmod_zmult2_eq [of 10 "y + 2 * 10" 10, OF zero_le_numeral] unfolding d m .
  then have "10 * ((y div 10 + 2) mod 10) + y mod 10 = (y + 20) mod 100"
    by (simp only: numeral_times_numeral semiring_norm)
  also have "\<dots> = (y + 1900 - 1980) mod 100"
  proof -
    have "y + 20 = (y + 1900 - 1980) + 100" by simp
    then show ?thesis by (simp only: mod_add_self2)
  qed
  finally have e: "10 * ((y div 10 + 2) mod 10) + y mod 10 = (y + 1900 - 1980) mod 100" .
  have "int (10 * nat a + nat b) = n \<and> nat a < 10 \<and> nat b < 10"
    if "0 \<le> a" "a < 10" "0 \<le> b" "b < 10" "10 * a + b = n" for a b n :: int
    using that by linarith
  from this [OF _ _ _ _ e] show ?thesis by simp
qed

text \<open>The real-time clock: once the BIOS has probed it, every time register reads as a single
  decimal digit of the host's time at that moment; the digit pairs are the second, minute,
  hour, day and month (counted from one), and the year is counted from 1980.\<close>

theorem m6242_tells_time:
  assumes "bios_probe (m6242 s)" and "valid_tm (host_clock s (host_clock_calls s))"
  shows "let tm = host_clock s (host_clock_calls s); r = rtc_read s in
    list_all (\<lambda>port. r port < 10) [M6242_S1, M6242_S10, M6242_MI1, M6242_MI10, M6242_H1,
       M6242_H10, M6242_D1, M6242_D10, M6242_MO1, M6242_MO10, M6242_Y1, M6242_Y10, M6242_W] \<and>
    int (10 * r M6242_S10 + r M6242_S1) = tm_sec tm \<and>
    int (10 * r M6242_MI10 + r M6242_MI1) = tm_min tm \<and>
    int (10 * r M6242_H10 + r M6242_H1) = tm_hour tm \<and>
    int (10 * r M6242_D10 + r M6242_D1) = tm_mday tm \<and>
    int (10 * r M6242_MO10 + r M6242_MO1) = tm_mon tm + 1 \<and>
    int (10 * r M6242_Y10 + r M6242_Y1) = (tm_year tm + 1900 - 1980) mod 100 \<and>
    int (r M6242_W) = tm_wday tm"
proof -
  define tm where "tm = host_clock s (host_clock_calls s)"
  note v = assms(2) [folded tm_def, unfolded valid_tm_def]
  have y: "0 \<le> tm_year tm div 10" using v by (simp add: pos_imp_zdiv_nonneg_iff)
  have digits: "rtc_read s M6242_S1 = nat (tm_sec tm mod 10)" "rtc_read s M6242_S10 = nat (tm_sec tm div 10)"
    "rtc_read s M6242_MI1 = nat (tm_min tm mod 10)" "rtc_read s M6242_MI10 = nat (tm_min tm div 10)"
    "rtc_read s M6242_H1 = nat (tm_hour tm mod 10)" "rtc_read s M6242_H10 = nat (tm_hour tm div 10)"
    "rtc_read s M6242_D1 = nat (tm_mday tm mod 10)" "rtc_read s M6242_D10 = nat (tm_mday tm div 10)"
    "rtc_read s M6242_MO1 = nat ((tm_mon tm + 1) mod 10)" "rtc_read s M6242_MO10 = nat ((tm_mon tm + 1) div 10)"
    "rtc_read s M6242_Y1 = nat (tm_year tm mod 10)" "rtc_read s M6242_Y10 = nat ((tm_year tm div 10 + 2) mod 10)"
    "rtc_read s M6242_W = nat (tm_wday tm)"
    using v y assms(1)
    by (simp_all add: rtc_read_def m6242_register_read_def m6242_reg_defs tm_def [symmetric] Let_def
        cdiv_nonneg cmod_nonneg unat_byte unat_tens del: nat_mod_distrib)
  have "int (10 * rtc_read s M6242_Y10 + rtc_read s M6242_Y1) = (tm_year tm + 1900 - 1980) mod 100 \<and>
      rtc_read s M6242_Y10 < 10 \<and> rtc_read s M6242_Y1 < 10"
    unfolding digits by (rule year_digits) (use v in linarith)
  moreover have
    "int (10 * rtc_read s M6242_S10 + rtc_read s M6242_S1) = tm_sec tm \<and> rtc_read s M6242_S10 < 10 \<and> rtc_read s M6242_S1 < 10"
    "int (10 * rtc_read s M6242_MI10 + rtc_read s M6242_MI1) = tm_min tm \<and> rtc_read s M6242_MI10 < 10 \<and> rtc_read s M6242_MI1 < 10"
    "int (10 * rtc_read s M6242_H10 + rtc_read s M6242_H1) = tm_hour tm \<and> rtc_read s M6242_H10 < 10 \<and> rtc_read s M6242_H1 < 10"
    "int (10 * rtc_read s M6242_D10 + rtc_read s M6242_D1) = tm_mday tm \<and> rtc_read s M6242_D10 < 10 \<and> rtc_read s M6242_D1 < 10"
    "int (10 * rtc_read s M6242_MO10 + rtc_read s M6242_MO1) = tm_mon tm + 1 \<and> rtc_read s M6242_MO10 < 10 \<and> rtc_read s M6242_MO1 < 10"
    unfolding digits by (rule two_digits; use v in linarith)+
  moreover have "int (rtc_read s M6242_W) = tm_wday tm \<and> rtc_read s M6242_W < 10"
    unfolding digits using v by linarith
  ultimately show ?thesis
    unfolding tm_def [symmetric] Let_def by simp
qed

theorem m6242_tells_time_witness:
  "let s = \<lparr>debugger_break = False, panic_msg = None, uninit = 0, wild = False, mem = mem_init,
       cpu = i8088_init, fe2010 = fe2010_init_state, mos5720 = mos5720_init_state,
       m6242 = m6242_init_state\<lparr>bios_probe := True\<rparr>,
       host_clock = (\<lambda>n. \<lparr>tm_sec = 59, tm_min = 7, tm_hour = 23, tm_mday = 31, tm_mon = 11,
         tm_year = 124, tm_wday = 2\<rparr>), host_clock_calls = 0\<rparr>
   in 10 * rtc_read s M6242_Y10 + rtc_read s M6242_Y1 = 44"
proof -
  let ?s = "\<lparr>debugger_break = False, panic_msg = None, uninit = 0, wild = False, mem = mem_init,
       cpu = i8088_init, fe2010 = fe2010_init_state, mos5720 = mos5720_init_state,
       m6242 = m6242_init_state\<lparr>bios_probe := True\<rparr>,
       host_clock = (\<lambda>n. \<lparr>tm_sec = 59, tm_min = 7, tm_hour = 23, tm_mday = 31, tm_mon = 11,
         tm_year = 124, tm_wday = 2\<rparr>), host_clock_calls = 0\<rparr>"
  have "int (10 * rtc_read ?s M6242_Y10 + rtc_read ?s M6242_Y1) = 44"
    using m6242_tells_time [of ?s] by (simp add: Let_def valid_tm_def m6242_init_state_def)
  then show ?thesis unfolding Let_def by linarith
qed

text \<open>The first read of the seconds by the BIOS is deliberately off, so that it sees the clock move.
  In the first two seconds of a minute the value it gets is not a digit.\<close>

lemma m6242_probe:
  assumes "\<not> bios_probe (m6242 s)" and "tm_sec (host_clock s (host_clock_calls s)) = 1"
  shows "fst (run_state (m6242_register_read M6242_S1) s) = 0xFF"
  using assms by (simp add: m6242_register_read_def m6242_reg_defs cmod_def cdiv_def)

end
