(* ===== verification/Fdc9268.thy ===== *)
theory Fdc9268
  imports M6242
begin

unbundle bit_operations_syntax

text \<open>
  fdc9268.c: the floppy controller. A state machine driven by the bytes written to and read from
  its FIFO port, drive images as byte arrays, and the DMA callbacks between image and memory.
  The trace buffer is in \<open>Trace_Log\<close>. An image is a function on
  indices; an access at or above \<open>FLOPPY_SIZE_MAX\<close> leaves the C array and is recorded by
  \<open>undefined_access\<close>.
\<close>

subsection \<open>State\<close>

datatype fdc9268_state_t =
  FDC_STATE_IDLE
| FDC_STATE_CMD_SIS_ST0 | FDC_STATE_CMD_SIS_PCN
| FDC_STATE_CMD_SPECIFY_SRT_HUT | FDC_STATE_CMD_SPECIFY_HLT_ND
| FDC_STATE_CMD_RECALIB_DS
| FDC_STATE_CMD_SEEK_DS | FDC_STATE_CMD_SEEK_NCN
| FDC_STATE_CMD_SDS_DS | FDC_STATE_CMD_SDS_ST3
| FDC_STATE_CMD_WRITE_DS | FDC_STATE_CMD_WRITE_C_PRIOR | FDC_STATE_CMD_WRITE_H_PRIOR
| FDC_STATE_CMD_WRITE_R_PRIOR | FDC_STATE_CMD_WRITE_N_PRIOR | FDC_STATE_CMD_WRITE_EOT
| FDC_STATE_CMD_WRITE_GPL | FDC_STATE_CMD_WRITE_DTL | FDC_STATE_CMD_WRITE_ST0
| FDC_STATE_CMD_WRITE_ST1 | FDC_STATE_CMD_WRITE_ST2 | FDC_STATE_CMD_WRITE_C_AFTER
| FDC_STATE_CMD_WRITE_H_AFTER | FDC_STATE_CMD_WRITE_R_AFTER | FDC_STATE_CMD_WRITE_N_AFTER
| FDC_STATE_CMD_READ_DS | FDC_STATE_CMD_READ_C_PRIOR | FDC_STATE_CMD_READ_H_PRIOR
| FDC_STATE_CMD_READ_R_PRIOR | FDC_STATE_CMD_READ_N_PRIOR | FDC_STATE_CMD_READ_EOT
| FDC_STATE_CMD_READ_GPL | FDC_STATE_CMD_READ_DTL | FDC_STATE_CMD_READ_ST0
| FDC_STATE_CMD_READ_ST1 | FDC_STATE_CMD_READ_ST2 | FDC_STATE_CMD_READ_C_AFTER
| FDC_STATE_CMD_READ_H_AFTER | FDC_STATE_CMD_READ_R_AFTER | FDC_STATE_CMD_READ_N_AFTER

definition FLOPPY_SIZE_MAX :: nat where "FLOPPY_SIZE_MAX = 2949120"
definition FLOPPY_SECTOR_SIZE :: u32 where "FLOPPY_SECTOR_SIZE = 512"
definition FLOPPY_HPC :: u32 where "FLOPPY_HPC = 2"

record floppy_t =
  floppy_loaded :: bool
  floppy_filename :: string
  floppy_data :: "nat \<Rightarrow> u8"
  floppy_spt :: u8
  floppy_size :: nat
  floppy_pos :: nat

record fdc9268_t =
  fdc_state :: fdc9268_state_t
  msr :: u8
  st0 :: u8
  st1 :: u8
  st2 :: u8
  st3 :: u8
  pcn :: u8
  pending_irq :: bool
  dor_reset :: bool
  cmd_cylinder :: u8
  cmd_head :: u8
  cmd_sector :: u8
  cmd_number :: u8
  floppy :: "2 word \<Rightarrow> floppy_t"

record floppy_board = clock_board +
  fdc :: fdc9268_t

definition getd :: "(fdc9268_t \<Rightarrow> 'x) \<Rightarrow> ('a floppy_board_scheme, 'x) state" where
  "getd f = gets (\<lambda>s. f (fdc s))"

definition modd :: "(fdc9268_t \<Rightarrow> fdc9268_t) \<Rightarrow> ('a floppy_board_scheme, unit) state" where
  "modd f = modify (\<lambda>s. s\<lparr>fdc := f (fdc s)\<rparr>)"

lemma run_state_getd [simp]: "run_state (getd f) s = (f (fdc s), s)"
  by (simp add: getd_def)

lemma run_state_modd [simp]: "run_state (modd f) s = ((), s\<lparr>fdc := f (fdc s)\<rparr>)"
  by (simp add: modd_def)

lemma fdc_only_rom [frame_intros]: "preserves rom_view (getd f)" "preserves rom_view (modd g)"
  by (simp_all add: preserves_def rom_view_def)

subsection \<open>Ports, commands and status bits\<close>

definition FDC_DOR :: u16 where "FDC_DOR = 0x3F2"
definition FDC_MSR :: u16 where "FDC_MSR = 0x3F4"
definition FDC_FIFO :: u16 where "FDC_FIFO = 0x3F5"

definition FDC_CMD_SPECIFY :: u8 where "FDC_CMD_SPECIFY = 0x03"
definition FDC_CMD_SDS :: u8 where "FDC_CMD_SDS = 0x04"
definition FDC_CMD_WRITE :: u8 where "FDC_CMD_WRITE = 0x05"
definition FDC_CMD_READ :: u8 where "FDC_CMD_READ = 0x06"
definition FDC_CMD_RECALIB :: u8 where "FDC_CMD_RECALIB = 0x07"
definition FDC_CMD_SIS :: u8 where "FDC_CMD_SIS = 0x08"
definition FDC_CMD_SEEK :: u8 where "FDC_CMD_SEEK = 0x0F"

definition FDC_DOR_RESET :: nat where "FDC_DOR_RESET = 2"
definition FDC_DOR_DMAEN :: nat where "FDC_DOR_DMAEN = 3"
definition FDC_MSR_CMD_BUSY :: nat where "FDC_MSR_CMD_BUSY = 4"
definition FDC_MSR_DIO :: nat where "FDC_MSR_DIO = 6"
definition FDC_MSR_RQM :: nat where "FDC_MSR_RQM = 7"
definition FDC_ST0_DRIVE_SEL0 :: nat where "FDC_ST0_DRIVE_SEL0 = 0"
definition FDC_ST0_DRIVE_SEL1 :: nat where "FDC_ST0_DRIVE_SEL1 = 1"
definition FDC_ST0_HEAD_NO_AT_INT :: nat where "FDC_ST0_HEAD_NO_AT_INT = 2"
definition FDC_ST0_SEEK_COMPLETE :: nat where "FDC_ST0_SEEK_COMPLETE = 5"
definition FDC_ST0_CMD_STATUS0 :: nat where "FDC_ST0_CMD_STATUS0 = 6"
definition FDC_ST0_CMD_STATUS1 :: nat where "FDC_ST0_CMD_STATUS1 = 7"
definition FDC_ST1_SECTOR_NOT_FOUND :: nat where "FDC_ST1_SECTOR_NOT_FOUND = 2"

lemmas fdc_bit_defs = FDC_DOR_RESET_def FDC_DOR_DMAEN_def FDC_MSR_CMD_BUSY_def FDC_MSR_DIO_def
  FDC_MSR_RQM_def FDC_ST0_DRIVE_SEL0_def FDC_ST0_DRIVE_SEL1_def FDC_ST0_HEAD_NO_AT_INT_def
  FDC_ST0_SEEK_COMPLETE_def FDC_ST0_CMD_STATUS0_def FDC_ST0_CMD_STATUS1_def
  FDC_ST1_SECTOR_NOT_FOUND_def

lemmas fdc_cmd_defs = FDC_CMD_SPECIFY_def FDC_CMD_SDS_def FDC_CMD_WRITE_def FDC_CMD_READ_def
  FDC_CMD_RECALIB_def FDC_CMD_SIS_def FDC_CMD_SEEK_def

definition set_flag8 :: "nat \<Rightarrow> u8 \<Rightarrow> u8" where "set_flag8 n w = w OR push_bit n 1"
definition clear_flag8 :: "nat \<Rightarrow> u8 \<Rightarrow> u8" where "clear_flag8 n w = w AND NOT (push_bit n 1)"

definition fdc_msr_set :: "nat \<Rightarrow> ('a floppy_board_scheme, unit) state" where
  "fdc_msr_set n = modd (\<lambda>r. r\<lparr>msr := set_flag8 n (msr r)\<rparr>)"
definition fdc_msr_clear :: "nat \<Rightarrow> ('a floppy_board_scheme, unit) state" where
  "fdc_msr_clear n = modd (\<lambda>r. r\<lparr>msr := clear_flag8 n (msr r)\<rparr>)"
definition fdc_st0_set :: "nat \<Rightarrow> ('a floppy_board_scheme, unit) state" where
  "fdc_st0_set n = modd (\<lambda>r. r\<lparr>st0 := set_flag8 n (st0 r)\<rparr>)"
definition fdc_st0_clear :: "nat \<Rightarrow> ('a floppy_board_scheme, unit) state" where
  "fdc_st0_clear n = modd (\<lambda>r. r\<lparr>st0 := clear_flag8 n (st0 r)\<rparr>)"
definition fdc_state_set :: "fdc9268_state_t \<Rightarrow> ('a floppy_board_scheme, unit) state" where
  "fdc_state_set st = modd (\<lambda>r. r\<lparr>fdc_state := st\<rparr>)"

subsection \<open>Reset and drive select\<close>

definition fdc_reset :: "fdc9268_t \<Rightarrow> fdc9268_t" where
  "fdc_reset r = r\<lparr>fdc_state := FDC_STATE_IDLE,
     msr := push_bit FDC_MSR_RQM 1,
     st0 := push_bit FDC_ST0_CMD_STATUS0 1 OR push_bit FDC_ST0_CMD_STATUS1 1,
     st1 := 0, st2 := 0, pcn := 0, pending_irq := False, dor_reset := True\<rparr>"

definition fdc_st0_drive_sel_update :: "u8 \<Rightarrow> ('a floppy_board_scheme, unit) state" where
  "fdc_st0_drive_sel_update value = do {
     (if value AND 3 = 0 then do { fdc_st0_clear FDC_ST0_DRIVE_SEL0; fdc_st0_clear FDC_ST0_DRIVE_SEL1 }
      else if value AND 3 = 1 then do { fdc_st0_set FDC_ST0_DRIVE_SEL0; fdc_st0_clear FDC_ST0_DRIVE_SEL1 }
      else if value AND 3 = 2 then do { fdc_st0_clear FDC_ST0_DRIVE_SEL0; fdc_st0_set FDC_ST0_DRIVE_SEL1 }
      else if value AND 3 = 3 then do { fdc_st0_set FDC_ST0_DRIVE_SEL0; fdc_st0_set FDC_ST0_DRIVE_SEL1 }
      else return ());
     if drop_bit 2 value AND 1 \<noteq> 0 then fdc_st0_set FDC_ST0_HEAD_NO_AT_INT
     else fdc_st0_clear FDC_ST0_HEAD_NO_AT_INT
   }"

subsection \<open>Images and DMA\<close>

definition set_floppy :: "2 word \<Rightarrow> (floppy_t \<Rightarrow> floppy_t) \<Rightarrow> fdc9268_t \<Rightarrow> fdc9268_t" where
  "set_floppy dsel f r = r\<lparr>floppy := (floppy r)(dsel := f (floppy r dsel))\<rparr>"

text \<open>\<open>pos++\<close> and the check for the end of the image, common to both callbacks.\<close>

definition fdc_advance :: "2 word \<Rightarrow> string \<Rightarrow> ('a floppy_board_scheme, unit) state" where
  "fdc_advance dsel overrun = do {
     modd (set_floppy dsel (\<lambda>f. f\<lparr>floppy_pos := floppy_pos f + 1\<rparr>));
     f \<leftarrow> getd (\<lambda>r. floppy r dsel);
     if floppy_pos f > floppy_size f then do {
       modd (set_floppy dsel (\<lambda>f. f\<lparr>floppy_pos := 0\<rparr>));
       panic overrun []
     } else return ()
   }"

definition fdc_image_write_callback :: "2 word \<Rightarrow> u8 \<Rightarrow> ('a floppy_board_scheme, unit) state" where
  "fdc_image_write_callback dsel byte = do {
     f \<leftarrow> getd (\<lambda>r. floppy r dsel);
     (if floppy_pos f < FLOPPY_SIZE_MAX
      then modd (set_floppy dsel (\<lambda>f. f\<lparr>floppy_data := (floppy_data f)(floppy_pos f := byte)\<rparr>))
      else undefined_access);
     fdc_advance dsel ''Overrun during FDC write callback!''
   }"

definition fdc_image_read_callback :: "2 word \<Rightarrow> ('a floppy_board_scheme, u8) state" where
  "fdc_image_read_callback dsel = do {
     f \<leftarrow> getd (\<lambda>r. floppy r dsel);
     (if floppy_pos f < FLOPPY_SIZE_MAX then return () else undefined_access);
     let byte = floppy_data f (floppy_pos f);
     fdc_advance dsel ''Overrun during FDC read callback!'';
     return byte
   }"

definition fdc_lba :: "u8 \<Rightarrow> fdc9268_t \<Rightarrow> u32" where
  "fdc_lba spt r =
     (int8u (cmd_cylinder r) * FLOPPY_HPC + int8u (cmd_head r)) * int8u spt + int8u (cmd_sector r) - 1"

definition fdc_image_dma :: "bool \<Rightarrow> ('a floppy_board_scheme, bool) state" where
  "fdc_image_dma read_operation = do {
     dsel \<leftarrow> getd (\<lambda>r. ucast (st0 r AND 3));
     f \<leftarrow> getd (\<lambda>r. floppy r dsel);
     if floppy_loaded f = False then return False
     else do {
       lba \<leftarrow> getd (fdc_lba (floppy_spt f));
       modd (set_floppy dsel (\<lambda>f. f\<lparr>floppy_pos := unat (lba * FLOPPY_SECTOR_SIZE)\<rparr>));
       (if read_operation
        then fe2010_dma_write FE2010_DMA_FLOPPY_DISK (fdc_image_read_callback dsel)
        else fe2010_dma_read FE2010_DMA_FLOPPY_DISK (fdc_image_write_callback dsel));
       return True
     }
   }"

subsection \<open>Registers\<close>

definition fdc_dor_write :: "u16 \<Rightarrow> u8 \<Rightarrow> ('a floppy_board_scheme, unit) state" where
  "fdc_dor_write port value =
     (if drop_bit FDC_DOR_RESET value AND 1 = 0 then modd fdc_reset
      else do {
        was_reset \<leftarrow> getd dor_reset;
        if drop_bit FDC_DOR_DMAEN value AND 1 = 1 \<and> was_reset then do {
          modd (\<lambda>r. r\<lparr>dor_reset := False\<rparr>);
          fe2010_irq FE2010_IRQ_FLOPPY_DISK;
          modd (\<lambda>r. r\<lparr>pending_irq := True\<rparr>)
        } else return ()
      })"

definition fdc_msr_read :: "u16 \<Rightarrow> ('a floppy_board_scheme, u8) state" where
  "fdc_msr_read port = getd msr"

text \<open>The end of the last result byte of a command: the controller is idle again.\<close>

definition fdc_result_end :: "('a floppy_board_scheme, unit) state" where
  "fdc_result_end = do {
     fdc_msr_clear FDC_MSR_DIO;
     fdc_msr_clear FDC_MSR_CMD_BUSY;
     fdc_state_set FDC_STATE_IDLE
   }"

definition fdc_fifo_read :: "u16 \<Rightarrow> ('a floppy_board_scheme, u8) state" where
  "fdc_fifo_read port = do {
     st \<leftarrow> getd fdc_state;
     case st of
       FDC_STATE_CMD_SIS_ST0 \<Rightarrow> do {
         irq \<leftarrow> getd pending_irq;
         if irq = False then do { fdc_state_set FDC_STATE_CMD_SIS_PCN; return 0x80 }
         else do {
           modd (\<lambda>r. r\<lparr>pending_irq := False\<rparr>);
           fdc_state_set FDC_STATE_CMD_SIS_PCN;
           getd st0
         }
       }
     | FDC_STATE_CMD_SIS_PCN \<Rightarrow> do { fdc_result_end; getd pcn }
     | FDC_STATE_CMD_SDS_ST3 \<Rightarrow> do { fdc_result_end; getd st3 }
     | FDC_STATE_CMD_WRITE_ST0 \<Rightarrow> do {
         modd (\<lambda>r. r\<lparr>pending_irq := False\<rparr>);
         fdc_state_set FDC_STATE_CMD_WRITE_ST1;
         getd st0
       }
     | FDC_STATE_CMD_WRITE_ST1 \<Rightarrow> do { fdc_state_set FDC_STATE_CMD_WRITE_ST2; getd st1 }
     | FDC_STATE_CMD_WRITE_ST2 \<Rightarrow> do { fdc_state_set FDC_STATE_CMD_WRITE_C_AFTER; getd st2 }
     | FDC_STATE_CMD_WRITE_C_AFTER \<Rightarrow> do { fdc_state_set FDC_STATE_CMD_WRITE_H_AFTER; getd cmd_cylinder }
     | FDC_STATE_CMD_WRITE_H_AFTER \<Rightarrow> do { fdc_state_set FDC_STATE_CMD_WRITE_R_AFTER; getd cmd_head }
     | FDC_STATE_CMD_WRITE_R_AFTER \<Rightarrow> do { fdc_state_set FDC_STATE_CMD_WRITE_N_AFTER; getd cmd_sector }
     | FDC_STATE_CMD_WRITE_N_AFTER \<Rightarrow> do { fdc_result_end; getd cmd_number }
     | FDC_STATE_CMD_READ_ST0 \<Rightarrow> do {
         modd (\<lambda>r. r\<lparr>pending_irq := False\<rparr>);
         fdc_state_set FDC_STATE_CMD_READ_ST1;
         getd st0
       }
     | FDC_STATE_CMD_READ_ST1 \<Rightarrow> do { fdc_state_set FDC_STATE_CMD_READ_ST2; getd st1 }
     | FDC_STATE_CMD_READ_ST2 \<Rightarrow> do { fdc_state_set FDC_STATE_CMD_READ_C_AFTER; getd st2 }
     | FDC_STATE_CMD_READ_C_AFTER \<Rightarrow> do { fdc_state_set FDC_STATE_CMD_READ_H_AFTER; getd cmd_cylinder }
     | FDC_STATE_CMD_READ_H_AFTER \<Rightarrow> do { fdc_state_set FDC_STATE_CMD_READ_R_AFTER; getd cmd_head }
     | FDC_STATE_CMD_READ_R_AFTER \<Rightarrow> do { fdc_state_set FDC_STATE_CMD_READ_N_AFTER; getd cmd_sector }
     | FDC_STATE_CMD_READ_N_AFTER \<Rightarrow> do { fdc_result_end; getd cmd_number }
     | _ \<Rightarrow> do { panic ''Unexpected FDC FIFO read!'' []; return 0 }
   }"

text \<open>A command byte in the idle state.\<close>

definition fdc_command :: "u8 \<Rightarrow> ('a floppy_board_scheme, unit) state" where
  "fdc_command value =
     (if value = FDC_CMD_SIS then do {
        fdc_msr_set FDC_MSR_DIO;
        fdc_msr_set FDC_MSR_CMD_BUSY;
        fdc_state_set FDC_STATE_CMD_SIS_ST0
      } else if value = FDC_CMD_SDS then do {
        fdc_msr_set FDC_MSR_CMD_BUSY;
        fdc_state_set FDC_STATE_CMD_SDS_DS
      } else if value = FDC_CMD_SPECIFY then do {
        fdc_msr_set FDC_MSR_CMD_BUSY;
        fdc_state_set FDC_STATE_CMD_SPECIFY_SRT_HUT
      } else if value = FDC_CMD_RECALIB then do {
        fdc_st0_clear FDC_ST0_SEEK_COMPLETE;
        fdc_msr_set FDC_MSR_CMD_BUSY;
        fdc_state_set FDC_STATE_CMD_RECALIB_DS
      } else if value = FDC_CMD_SEEK then do {
        fdc_st0_clear FDC_ST0_SEEK_COMPLETE;
        fdc_msr_set FDC_MSR_CMD_BUSY;
        fdc_state_set FDC_STATE_CMD_SEEK_DS
      } else if value AND 0x1F = FDC_CMD_READ then do {
        fdc_msr_set FDC_MSR_CMD_BUSY;
        fdc_state_set FDC_STATE_CMD_READ_DS
      } else if value AND 0x1F = FDC_CMD_WRITE then do {
        fdc_msr_set FDC_MSR_CMD_BUSY;
        fdc_state_set FDC_STATE_CMD_WRITE_DS
      } else panic ''Unhandled FDC command: 0x%02x'' [ucast value])"

text \<open>The last parameter of a read or write command: the transfer, its status and the interrupt.\<close>

definition fdc_transfer :: "bool \<Rightarrow> fdc9268_state_t \<Rightarrow> ('a floppy_board_scheme, unit) state" where
  "fdc_transfer read_operation result_state = do {
     ok \<leftarrow> fdc_image_dma read_operation;
     (if ok then do {
        fdc_st0_clear FDC_ST0_CMD_STATUS0;
        fdc_st0_clear FDC_ST0_CMD_STATUS1;
        modd (\<lambda>r. r\<lparr>st1 := 0\<rparr>)
      } else do {
        fdc_st0_set FDC_ST0_CMD_STATUS0;
        fdc_st0_clear FDC_ST0_CMD_STATUS1;
        modd (\<lambda>r. r\<lparr>st1 := push_bit FDC_ST1_SECTOR_NOT_FOUND 1\<rparr>)
      });
     fe2010_irq FE2010_IRQ_FLOPPY_DISK;
     modd (\<lambda>r. r\<lparr>pending_irq := True\<rparr>);
     fdc_msr_set FDC_MSR_DIO;
     fdc_state_set result_state
   }"

definition fdc_fifo_write :: "u16 \<Rightarrow> u8 \<Rightarrow> ('a floppy_board_scheme, unit) state" where
  "fdc_fifo_write port value = do {
     st \<leftarrow> getd fdc_state;
     case st of
       FDC_STATE_IDLE \<Rightarrow> fdc_command value
     | FDC_STATE_CMD_SDS_DS \<Rightarrow> do {
         fdc_st0_drive_sel_update value;
         fdc_msr_set FDC_MSR_DIO;
         fdc_state_set FDC_STATE_CMD_SDS_ST3
       }
     | FDC_STATE_CMD_SPECIFY_SRT_HUT \<Rightarrow> fdc_state_set FDC_STATE_CMD_SPECIFY_HLT_ND
     | FDC_STATE_CMD_SPECIFY_HLT_ND \<Rightarrow> do {
         fdc_msr_clear FDC_MSR_CMD_BUSY;
         fdc_state_set FDC_STATE_IDLE
       }
     | FDC_STATE_CMD_RECALIB_DS \<Rightarrow> do {
         modd (\<lambda>r. r\<lparr>pcn := 0\<rparr>);
         fdc_st0_set FDC_ST0_SEEK_COMPLETE;
         fdc_st0_clear FDC_ST0_CMD_STATUS0;
         fdc_st0_clear FDC_ST0_CMD_STATUS1;
         fdc_st0_drive_sel_update value;
         fdc_msr_clear FDC_MSR_CMD_BUSY;
         fe2010_irq FE2010_IRQ_FLOPPY_DISK;
         modd (\<lambda>r. r\<lparr>pending_irq := True\<rparr>);
         fdc_state_set FDC_STATE_IDLE
       }
     | FDC_STATE_CMD_SEEK_DS \<Rightarrow> do {
         fdc_st0_drive_sel_update value;
         fdc_state_set FDC_STATE_CMD_SEEK_NCN
       }
     | FDC_STATE_CMD_SEEK_NCN \<Rightarrow> do {
         modd (\<lambda>r. r\<lparr>pcn := value\<rparr>);
         fdc_st0_set FDC_ST0_SEEK_COMPLETE;
         fdc_msr_clear FDC_MSR_CMD_BUSY;
         fe2010_irq FE2010_IRQ_FLOPPY_DISK;
         modd (\<lambda>r. r\<lparr>pending_irq := True\<rparr>);
         fdc_state_set FDC_STATE_IDLE
       }
     | FDC_STATE_CMD_WRITE_DS \<Rightarrow> do {
         fdc_st0_drive_sel_update value;
         fdc_state_set FDC_STATE_CMD_WRITE_C_PRIOR
       }
     | FDC_STATE_CMD_WRITE_C_PRIOR \<Rightarrow> do {
         modd (\<lambda>r. r\<lparr>cmd_cylinder := value\<rparr>);
         fdc_state_set FDC_STATE_CMD_WRITE_H_PRIOR
       }
     | FDC_STATE_CMD_WRITE_H_PRIOR \<Rightarrow> do {
         modd (\<lambda>r. r\<lparr>cmd_head := value\<rparr>);
         fdc_state_set FDC_STATE_CMD_WRITE_R_PRIOR
       }
     | FDC_STATE_CMD_WRITE_R_PRIOR \<Rightarrow> do {
         modd (\<lambda>r. r\<lparr>cmd_sector := value\<rparr>);
         fdc_state_set FDC_STATE_CMD_WRITE_N_PRIOR
       }
     | FDC_STATE_CMD_WRITE_N_PRIOR \<Rightarrow> do {
         modd (\<lambda>r. r\<lparr>cmd_number := value\<rparr>);
         fdc_state_set FDC_STATE_CMD_WRITE_EOT
       }
     | FDC_STATE_CMD_WRITE_EOT \<Rightarrow> fdc_state_set FDC_STATE_CMD_WRITE_GPL
     | FDC_STATE_CMD_WRITE_GPL \<Rightarrow> fdc_state_set FDC_STATE_CMD_WRITE_DTL
     | FDC_STATE_CMD_WRITE_DTL \<Rightarrow> fdc_transfer False FDC_STATE_CMD_WRITE_ST0
     | FDC_STATE_CMD_READ_DS \<Rightarrow> do {
         fdc_st0_drive_sel_update value;
         fdc_state_set FDC_STATE_CMD_READ_C_PRIOR
       }
     | FDC_STATE_CMD_READ_C_PRIOR \<Rightarrow> do {
         modd (\<lambda>r. r\<lparr>cmd_cylinder := value\<rparr>);
         fdc_state_set FDC_STATE_CMD_READ_H_PRIOR
       }
     | FDC_STATE_CMD_READ_H_PRIOR \<Rightarrow> do {
         modd (\<lambda>r. r\<lparr>cmd_head := value\<rparr>);
         fdc_state_set FDC_STATE_CMD_READ_R_PRIOR
       }
     | FDC_STATE_CMD_READ_R_PRIOR \<Rightarrow> do {
         modd (\<lambda>r. r\<lparr>cmd_sector := value\<rparr>);
         fdc_state_set FDC_STATE_CMD_READ_N_PRIOR
       }
     | FDC_STATE_CMD_READ_N_PRIOR \<Rightarrow> do {
         modd (\<lambda>r. r\<lparr>cmd_number := value\<rparr>);
         fdc_state_set FDC_STATE_CMD_READ_EOT
       }
     | FDC_STATE_CMD_READ_EOT \<Rightarrow> fdc_state_set FDC_STATE_CMD_READ_GPL
     | FDC_STATE_CMD_READ_GPL \<Rightarrow> fdc_state_set FDC_STATE_CMD_READ_DTL
     | FDC_STATE_CMD_READ_DTL \<Rightarrow> fdc_transfer True FDC_STATE_CMD_READ_ST0
     | _ \<Rightarrow> panic ''Unexpected FDC FIFO write! (0x%02x)'' [ucast value]
   }"

subsection \<open>Initialisation\<close>

definition fdc9268_init_state :: fdc9268_t where
  "fdc9268_init_state = fdc_reset
     \<lparr>fdc_state = FDC_STATE_IDLE, msr = 0, st0 = 0, st1 = 0, st2 = 0, st3 = 0, pcn = 0,
      pending_irq = False, dor_reset = False, cmd_cylinder = 0, cmd_head = 0, cmd_sector = 0,
      cmd_number = 0,
      floppy = (\<lambda>_. \<lparr>floppy_loaded = False, floppy_filename = [], floppy_data = (\<lambda>_. 0),
                      floppy_spt = 0, floppy_size = 0, floppy_pos = 0\<rparr>)\<rparr>"

definition fdc9268_init :: "'a floppy_board_scheme io_t \<Rightarrow> 'a floppy_board_scheme io_t" where
  "fdc9268_init io =
    (let io = io_set_write [FDC_DOR] fdc_dor_write io;
         io = io_set_read [FDC_MSR] fdc_msr_read io;
         io = io_set_read [FDC_FIFO] fdc_fifo_read io;
         io = io_set_write [FDC_FIFO] fdc_fifo_write io
     in io)"

subsection \<open>Image files\<close>

text \<open>
  Loading and saving. The files are a parameter: \<open>Some bytes\<close> for a file that can be opened for
  reading; for writing, whether it can be opened. \<open>PATH_MAX\<close> is 4096.
\<close>

primrec floppy_load_loop :: "u8 list \<Rightarrow> nat \<Rightarrow> floppy_t \<Rightarrow> (nat \<times> bool) \<times> floppy_t" where
  "floppy_load_loop [] n f = ((n, True), f)"
| "floppy_load_loop (c # fh) n f =
     (if n \<ge> FLOPPY_SIZE_MAX then ((n, False), f)
      else floppy_load_loop fh (n + 1) (f\<lparr>floppy_data := (floppy_data f)(n := c)\<rparr>))"

definition fdc9268_image_load :: "u8 list option \<Rightarrow> string \<Rightarrow> int \<Rightarrow> floppy_t \<Rightarrow> int \<times> floppy_t" where
  "fdc9268_image_load file filename spt_override f =
    (let f = f\<lparr>floppy_loaded := False\<rparr>
     in case file of
       None \<Rightarrow> (-1, f)
     | Some fh \<Rightarrow>
         (case floppy_load_loop fh 0 f of ((n, fits), f) \<Rightarrow>
            if \<not> fits then (-1, f)
            else let f = f\<lparr>floppy_size := n\<rparr>;
                     f = f\<lparr>floppy_spt := (if spt_override > 0 then word_of_int spt_override
                                          else floppy_data f 0x18)\<rparr>
                 in if \<not> spt_override > 0 \<and> floppy_spt f \<noteq> 9 \<and> floppy_spt f \<noteq> 18 \<and> floppy_spt f \<noteq> 36
                    then (-1, f)
                    else (0, f\<lparr>floppy_filename := take 4096 filename, floppy_loaded := True\<rparr>)))"

definition fdc9268_image_save :: "(string \<Rightarrow> bool) \<Rightarrow> string option \<Rightarrow> floppy_t \<Rightarrow> (int \<times> (string \<times> u8 list) option) \<times> floppy_t" where
  "fdc9268_image_save can_open filename f =
    (if floppy_loaded f = False then ((-2, None), f)
     else let name = (case filename of None \<Rightarrow> floppy_filename f | Some name \<Rightarrow> name)
          in if \<not> can_open name then ((-1, None), f)
             else ((0, Some (name, map (floppy_data f) [0..<floppy_size f])),
                   (case filename of None \<Rightarrow> f
                    | Some name \<Rightarrow> f\<lparr>floppy_filename := take 4096 name\<rparr>)))"

subsection \<open>On the bus\<close>

lemma fdc_bits_rom [frame_intros]:
  "preserves rom_view (fdc_msr_set n)" "preserves rom_view (fdc_msr_clear n)"
  "preserves rom_view (fdc_st0_set n)" "preserves rom_view (fdc_st0_clear n)"
  "preserves rom_view (fdc_state_set st)" "preserves rom_view (fdc_st0_drive_sel_update v)"
  "preserves rom_view (fdc_advance dsel msg)" "preserves rom_view fdc_result_end"
  unfolding fdc_msr_set_def fdc_msr_clear_def fdc_st0_set_def fdc_st0_clear_def fdc_state_set_def
    fdc_st0_drive_sel_update_def fdc_advance_def fdc_result_end_def
  by (intro frame_intros)+

lemma fdc_callback_rom [frame_intros]:
  "preserves rom_view (fdc_image_write_callback dsel b)" "preserves rom_view (fdc_image_read_callback dsel)"
  unfolding fdc_image_write_callback_def fdc_image_read_callback_def by (intro frame_intros)+

lemma fdc_transfer_rom [frame_intros]:
  "preserves rom_view (fdc_image_dma rd)" "preserves rom_view (fdc_transfer rd st)"
  "preserves rom_view (fdc_command v)"
  unfolding fdc_image_dma_def fdc_transfer_def fdc_command_def
  by (intro frame_intros)+

lemma fdc_hooks_rom [frame_intros]:
  "preserves rom_view (fdc_dor_write p v)" "preserves rom_view (fdc_msr_read p)"
  unfolding fdc_dor_write_def fdc_msr_read_def by (intro frame_intros)+

lemma fdc_fifo_rom [frame_intros]:
  "preserves rom_view (fdc_fifo_read p)" "preserves rom_view (fdc_fifo_write p v)"
  unfolding fdc_fifo_read_def fdc_fifo_write_def
  by (intro preserves_bind fdc_only_rom; simp split: fdc9268_state_t.split; intro conjI impI frame_intros)+

definition fdc9268_ports :: "u16 list" where "fdc9268_ports = [0x3F2, 0x3F4, 0x3F5]"

lemmas fdc9268_port_defs = FDC_DOR_def FDC_MSR_def FDC_FIFO_def

interpretation fdc9268_bus: io_device fdc9268_init fdc9268_ports rom_view
proof
  show "io_at (fdc9268_init io) p = io_at io p" if "p \<notin> set fdc9268_ports" for io :: "'a floppy_board_scheme io_t" and p
    using that by (simp add: fdc9268_init_def fdc9268_ports_def fdc9268_port_defs)
  show "io_at (fdc9268_init io) p = io_at (fdc9268_init io') p" if "io_at io p = io_at io' p" for io io' :: "'a floppy_board_scheme io_t" and p
    unfolding fdc9268_init_def Let_def by (intro io_at_set_cong that)
  show "io_preserves rom_view (fdc9268_init io)" if "io_preserves rom_view io" for io :: "'a floppy_board_scheme io_t"
    unfolding fdc9268_init_def Let_def by (intro io_set_intros frame_intros that)
qed

lemma run_fdc_bits [simp]:
  "run_state (fdc_msr_set n) s = ((), s\<lparr>fdc := (fdc s)\<lparr>msr := set_flag8 n (msr (fdc s))\<rparr>\<rparr>)"
  "run_state (fdc_msr_clear n) s = ((), s\<lparr>fdc := (fdc s)\<lparr>msr := clear_flag8 n (msr (fdc s))\<rparr>\<rparr>)"
  "run_state (fdc_st0_set n) s = ((), s\<lparr>fdc := (fdc s)\<lparr>st0 := set_flag8 n (st0 (fdc s))\<rparr>\<rparr>)"
  "run_state (fdc_st0_clear n) s = ((), s\<lparr>fdc := (fdc s)\<lparr>st0 := clear_flag8 n (st0 (fdc s))\<rparr>\<rparr>)"
  "run_state (fdc_state_set st) s = ((), s\<lparr>fdc := (fdc s)\<lparr>fdc_state := st\<rparr>\<rparr>)"
  by (simp_all add: fdc_msr_set_def fdc_msr_clear_def fdc_st0_set_def fdc_st0_clear_def fdc_state_set_def)

subsection \<open>A machine with a disk in drive 0\<close>

definition floppy_power_on :: floppy_board where
  "floppy_power_on = \<lparr>debugger_break = False, panic_msg = None, uninit = 0, wild = False,
     mem = mem_init, cpu = i8088_reset i8088_init, fe2010 = fe2010_init_state,
     mos5720 = mos5720_init_state, m6242 = m6242_init_state,
     host_clock = (\<lambda>n. \<lparr>tm_sec = 0, tm_min = 0, tm_hour = 0, tm_mday = 1, tm_mon = 0,
       tm_year = 92, tm_wday = 3\<rparr>), host_clock_calls = 0, fdc = fdc9268_init_state\<rparr>"

text \<open>A 720 KB image whose byte \<open>i\<close> is \<open>i\<close> modulo 256, and the DMA channel set up for one sector.\<close>

definition demo_disk :: floppy_t where
  "demo_disk = \<lparr>floppy_loaded = True, floppy_filename = ''a.img'', floppy_data = of_nat,
     floppy_spt = 9, floppy_size = 737280, floppy_pos = 0\<rparr>"

definition demo_dma :: "u8 \<Rightarrow> u16 \<Rightarrow> fe2010_t" where
  "demo_dma mode address = fe2010_init_state\<lparr>
     dma_reg := (dma_reg fe2010_init_state)(4 := address, 5 := 511),
     dma_mode := (dma_mode fe2010_init_state)(2 := mode)\<rparr>"

definition demo_floppy :: "u8 \<Rightarrow> floppy_board" where
  "demo_floppy mode = floppy_power_on\<lparr>fe2010 := demo_dma mode 0x1000,
     fdc := set_floppy 0 (\<lambda>_. demo_disk) fdc9268_init_state\<rparr>"

lemmas demo_defs = demo_floppy_def demo_dma_def demo_disk_def floppy_power_on_def fe2010_init_state_def
  fdc9268_init_state_def fdc_reset_def set_floppy_def fdc_bit_defs

end
