(* ===== verification/Fdc_Protocol.thy ===== *)
theory Fdc_Protocol
  imports Fdc9268
begin

unbundle bit_operations_syntax

text \<open>
  The floppy controller as a state machine: its status register in every reachable state, and
  that a driver which follows it brings every command to its end.
\<close>

subsection \<open>The status register and the protocol of the FIFO\<close>

text \<open>The states in which the controller has result bytes to hand out, and the number of FIFO
  accesses until it is idle again.\<close>

fun fdc_remaining :: "fdc9268_state_t \<Rightarrow> nat" where
  "fdc_remaining FDC_STATE_IDLE = 0"
| "fdc_remaining FDC_STATE_CMD_SIS_ST0 = 2" | "fdc_remaining FDC_STATE_CMD_SIS_PCN = 1"
| "fdc_remaining FDC_STATE_CMD_SPECIFY_SRT_HUT = 2" | "fdc_remaining FDC_STATE_CMD_SPECIFY_HLT_ND = 1"
| "fdc_remaining FDC_STATE_CMD_RECALIB_DS = 1"
| "fdc_remaining FDC_STATE_CMD_SEEK_DS = 2" | "fdc_remaining FDC_STATE_CMD_SEEK_NCN = 1"
| "fdc_remaining FDC_STATE_CMD_SDS_DS = 2" | "fdc_remaining FDC_STATE_CMD_SDS_ST3 = 1"
| "fdc_remaining FDC_STATE_CMD_WRITE_DS = 15" | "fdc_remaining FDC_STATE_CMD_WRITE_C_PRIOR = 14"
| "fdc_remaining FDC_STATE_CMD_WRITE_H_PRIOR = 13" | "fdc_remaining FDC_STATE_CMD_WRITE_R_PRIOR = 12"
| "fdc_remaining FDC_STATE_CMD_WRITE_N_PRIOR = 11" | "fdc_remaining FDC_STATE_CMD_WRITE_EOT = 10"
| "fdc_remaining FDC_STATE_CMD_WRITE_GPL = 9" | "fdc_remaining FDC_STATE_CMD_WRITE_DTL = 8"
| "fdc_remaining FDC_STATE_CMD_WRITE_ST0 = 7" | "fdc_remaining FDC_STATE_CMD_WRITE_ST1 = 6"
| "fdc_remaining FDC_STATE_CMD_WRITE_ST2 = 5" | "fdc_remaining FDC_STATE_CMD_WRITE_C_AFTER = 4"
| "fdc_remaining FDC_STATE_CMD_WRITE_H_AFTER = 3" | "fdc_remaining FDC_STATE_CMD_WRITE_R_AFTER = 2"
| "fdc_remaining FDC_STATE_CMD_WRITE_N_AFTER = 1"
| "fdc_remaining FDC_STATE_CMD_READ_DS = 15" | "fdc_remaining FDC_STATE_CMD_READ_C_PRIOR = 14"
| "fdc_remaining FDC_STATE_CMD_READ_H_PRIOR = 13" | "fdc_remaining FDC_STATE_CMD_READ_R_PRIOR = 12"
| "fdc_remaining FDC_STATE_CMD_READ_N_PRIOR = 11" | "fdc_remaining FDC_STATE_CMD_READ_EOT = 10"
| "fdc_remaining FDC_STATE_CMD_READ_GPL = 9" | "fdc_remaining FDC_STATE_CMD_READ_DTL = 8"
| "fdc_remaining FDC_STATE_CMD_READ_ST0 = 7" | "fdc_remaining FDC_STATE_CMD_READ_ST1 = 6"
| "fdc_remaining FDC_STATE_CMD_READ_ST2 = 5" | "fdc_remaining FDC_STATE_CMD_READ_C_AFTER = 4"
| "fdc_remaining FDC_STATE_CMD_READ_H_AFTER = 3" | "fdc_remaining FDC_STATE_CMD_READ_R_AFTER = 2"
| "fdc_remaining FDC_STATE_CMD_READ_N_AFTER = 1"

definition fdc_has_result :: "fdc9268_state_t \<Rightarrow> bool" where
  "fdc_has_result st \<longleftrightarrow> st \<in> {FDC_STATE_CMD_SIS_ST0, FDC_STATE_CMD_SIS_PCN, FDC_STATE_CMD_SDS_ST3,
     FDC_STATE_CMD_WRITE_ST0, FDC_STATE_CMD_WRITE_ST1, FDC_STATE_CMD_WRITE_ST2,
     FDC_STATE_CMD_WRITE_C_AFTER, FDC_STATE_CMD_WRITE_H_AFTER, FDC_STATE_CMD_WRITE_R_AFTER,
     FDC_STATE_CMD_WRITE_N_AFTER, FDC_STATE_CMD_READ_ST0, FDC_STATE_CMD_READ_ST1,
     FDC_STATE_CMD_READ_ST2, FDC_STATE_CMD_READ_C_AFTER, FDC_STATE_CMD_READ_H_AFTER,
     FDC_STATE_CMD_READ_R_AFTER, FDC_STATE_CMD_READ_N_AFTER}"

text \<open>The invariant: the status register says exactly whether a command is in progress (0x10) and
  whether the next access has to be a read (0x40), and always asks for one (0x80).\<close>

definition fdc_status :: "fdc9268_state_t \<Rightarrow> u8" where
  "fdc_status st = (if st = FDC_STATE_IDLE then 0x80 else if fdc_has_result st then 0xD0 else 0x90)"

definition fdc_inv :: "'a floppy_board_scheme \<Rightarrow> bool" where
  "fdc_inv s \<longleftrightarrow> msr (fdc s) = fdc_status (fdc_state (fdc s))"

text \<open>The part of the controller the protocol is about.\<close>

definition fdc_protocol :: "'a floppy_board_scheme \<Rightarrow> fdc9268_state_t \<times> u8" where
  "fdc_protocol s = (fdc_state (fdc s), msr (fdc s))"

lemma chip_keeps_fdc [frame_intros]:
  "preserves fdc (fe2010_irq n)" "preserves fdc (mem_write a b)" "preserves fdc (mem_read a)"
  "preserves fdc (getf g)" "preserves fdc (modf h)"
  by (auto simp: preserves_def run_fe2010_irq i8088_irq_def run_interrupt Let_def run_mem_read mem_write_def)

lemma keeps_protocol: "preserves fdc m \<Longrightarrow> preserves fdc_protocol m"
  by (auto simp: preserves_def fdc_protocol_def)

lemma protocol_parts [frame_intros]:
  "preserves fdc_protocol (fdc_st0_set n)" "preserves fdc_protocol (fdc_st0_clear n)"
  "preserves fdc_protocol (getd g)" "preserves fdc_protocol (panic msg args)"
  "preserves fdc_protocol (fdc_advance dsel overrun)" "preserves fdc_protocol undefined_access"
  by (auto simp: preserves_def fdc_protocol_def fdc_advance_def set_floppy_def)

lemma protocol_drive_sel [frame_intros]: "preserves fdc_protocol (fdc_st0_drive_sel_update v)"
  unfolding fdc_st0_drive_sel_update_def by (intro frame_intros)

lemma protocol_set_floppy [frame_intros]: "preserves fdc_protocol (modd (set_floppy dsel f))"
  by (simp add: preserves_def fdc_protocol_def set_floppy_def)

lemma protocol_callbacks [frame_intros]:
  "preserves fdc_protocol (fdc_image_write_callback dsel b)" "preserves fdc_protocol (fdc_image_read_callback dsel)"
  unfolding fdc_image_write_callback_def fdc_image_read_callback_def by (intro frame_intros)+

lemma protocol_image_dma [frame_intros]: "preserves fdc_protocol (fdc_image_dma rd)"
  unfolding fdc_image_dma_def
  by (intro frame_intros dma_preserves keeps_protocol)

lemma protocol_irq [frame_intros]: "preserves fdc_protocol (fe2010_irq n)"
  by (intro keeps_protocol frame_intros)

text \<open>The effect of every FIFO access on state and status register.\<close>

lemma protocol_simps [simp]:
  "fdc_protocol (snd (run_state (fdc_image_dma rd) s)) = fdc_protocol s"
  "fdc_protocol (snd (run_state (fe2010_irq n) s)) = fdc_protocol s"
  "fdc_protocol (snd (run_state (fdc_st0_drive_sel_update v) s)) = fdc_protocol s"
  by (rule preservesD, intro frame_intros)+

lemma protocol_eq: "fdc_protocol t = fdc_protocol s \<longleftrightarrow> fdc_state (fdc t) = fdc_state (fdc s) \<and> msr (fdc t) = msr (fdc s)"
  by (simp add: fdc_protocol_def)

lemmas protocol_fields [simp] = protocol_simps [unfolded protocol_eq]

lemma protocol_transfer:
  "fdc_state (fdc (snd (run_state (fdc_transfer rd st) s))) = st"
  "msr (fdc (snd (run_state (fdc_transfer rd st) s))) = set_flag8 FDC_MSR_DIO (msr (fdc s))"
  by (auto simp: fdc_transfer_def case_prod_beta)

lemma flag8_values [simp]:
  "set_flag8 6 0x90 = 0xD0" "set_flag8 4 0x80 = 0x90" "set_flag8 4 0xC0 = 0xD0" "set_flag8 6 0x80 = 0xC0"
  "clear_flag8 4 (clear_flag8 6 0xD0) = 0x80" "clear_flag8 4 0x90 = 0x80"
  by (simp_all add: set_flag8_def clear_flag8_def)

lemma fifo_read_protocol:
  assumes "fdc_inv s" and "fdc_has_result (fdc_state (fdc s))"
  shows "fdc_inv (snd (run_state (fdc_fifo_read p) s))"
    and "Suc (fdc_remaining (fdc_state (fdc (snd (run_state (fdc_fifo_read p) s))))) = fdc_remaining (fdc_state (fdc s))"
    and "panic_msg (snd (run_state (fdc_fifo_read p) s)) = panic_msg s"
  using assms
  by (cases "fdc_state (fdc s)";
      simp add: fdc_fifo_read_def fdc_inv_def fdc_status_def fdc_has_result_def fdc_result_end_def fdc_bit_defs)+

lemma fifo_write_protocol:
  assumes "fdc_inv s" and "\<not> fdc_has_result (fdc_state (fdc s))"
  shows "fdc_inv (snd (run_state (fdc_fifo_write p v) s))"
    and "fdc_state (fdc s) \<noteq> FDC_STATE_IDLE \<Longrightarrow>
      Suc (fdc_remaining (fdc_state (fdc (snd (run_state (fdc_fifo_write p v) s))))) = fdc_remaining (fdc_state (fdc s))"
  using assms
  by (cases "fdc_state (fdc s)";
      simp add: fdc_fifo_write_def fdc_command_def fdc_inv_def fdc_status_def fdc_has_result_def fdc_bit_defs
        protocol_transfer case_prod_beta)+

lemma fifo_other_protocol:
  "fdc_inv s \<Longrightarrow> \<not> fdc_has_result (fdc_state (fdc s)) \<Longrightarrow> fdc_inv (snd (run_state (fdc_fifo_read p) s))"
  "fdc_inv s \<Longrightarrow> fdc_has_result (fdc_state (fdc s)) \<Longrightarrow> fdc_inv (snd (run_state (fdc_fifo_write p v) s))"
  "fdc_inv s \<Longrightarrow> fdc_inv (snd (run_state (fdc_dor_write p v) s))"
  "fdc_inv s \<Longrightarrow> fdc_inv (snd (run_state (fdc_msr_read p) s))"
     apply (cases "fdc_state (fdc s)"; simp add: fdc_fifo_read_def fdc_inv_def fdc_status_def fdc_has_result_def)
    apply (cases "fdc_state (fdc s)"; simp add: fdc_fifo_write_def fdc_inv_def fdc_status_def fdc_has_result_def)
   apply (simp add: fdc_dor_write_def fdc_reset_def fdc_inv_def fdc_status_def fdc_bit_defs case_prod_beta)
  apply (simp add: fdc_msr_read_def)
  done


text \<open>What can happen to the controller: accesses to its ports in any order, a change of the images
  (loading a file), and anything the rest of the machine does.\<close>

inductive fdc_step :: "'a floppy_board_scheme \<Rightarrow> 'a floppy_board_scheme \<Rightarrow> bool" where
  fifo_read: "fdc_step s (snd (run_state (fdc_fifo_read p) s))"
| fifo_write: "fdc_step s (snd (run_state (fdc_fifo_write p v) s))"
| dor_write: "fdc_step s (snd (run_state (fdc_dor_write p v) s))"
| msr_read: "fdc_step s (snd (run_state (fdc_msr_read p) s))"
| image: "fdc t = set_floppy dsel f (fdc s) \<Longrightarrow> fdc_step s t"
| other: "fdc t = fdc s \<Longrightarrow> fdc_step s t"

lemma fdc_step_inv: "fdc_step s t \<Longrightarrow> fdc_inv s \<Longrightarrow> fdc_inv t"
proof (induction rule: fdc_step.induct)
  case (fifo_read s p)
  then show ?case
    by (cases "fdc_has_result (fdc_state (fdc s))") (simp_all add: fifo_read_protocol fifo_other_protocol)
next
  case (fifo_write s p v)
  then show ?case
    by (cases "fdc_has_result (fdc_state (fdc s))") (simp_all add: fifo_write_protocol fifo_other_protocol)
qed (simp_all add: fifo_other_protocol, simp_all add: fdc_inv_def set_floppy_def)

lemma fdc_inv_init: "fdc s = fdc9268_init_state \<Longrightarrow> fdc_inv s"
  by (simp add: fdc_inv_def fdc9268_init_state_def fdc_reset_def fdc_status_def fdc_bit_defs)

lemma fdc_reachable_inv:
  assumes "fdc start = fdc9268_init_state" and "fdc_step\<^sup>*\<^sup>* start s"
  shows "fdc_inv s"
  using assms(2) by (induction rule: rtranclp_induct) (auto intro: fdc_inv_init [OF assms(1)] fdc_step_inv)

text \<open>A driver that follows the status register: it reads the FIFO when DIO is set, else writes.\<close>

definition fdc_access :: "u16 \<Rightarrow> u8 \<Rightarrow> ('a floppy_board_scheme, unit) state" where
  "fdc_access p v = do {
     status \<leftarrow> fdc_msr_read FDC_MSR;
     if status AND 0x40 \<noteq> 0 then do { _ \<leftarrow> fdc_fifo_read p; return () } else fdc_fifo_write p v
   }"

lemma run_fdc_access:
  "fdc_inv s \<Longrightarrow> snd (run_state (fdc_access p v) s) =
    (if fdc_has_result (fdc_state (fdc s)) then snd (run_state (fdc_fifo_read p) s)
     else snd (run_state (fdc_fifo_write p v) s))"
  by (auto simp: fdc_access_def fdc_msr_read_def fdc_inv_def fdc_status_def case_prod_beta)
    (simp_all add: fdc_has_result_def)

lemma fdc_access_step:
  fixes v p
  assumes "fdc_inv s" and "fdc_state (fdc s) \<noteq> FDC_STATE_IDLE"
  defines "t \<equiv> snd (run_state (fdc_access p v) s)"
  shows "fdc_inv t" and "Suc (fdc_remaining (fdc_state (fdc t))) = fdc_remaining (fdc_state (fdc s))"
  using assms(1,2) fifo_read_protocol [of s p] fifo_write_protocol [of s p v]
  by (auto simp: t_def run_fdc_access)

lemma fdc_remaining_0: "fdc_remaining st = 0 \<longleftrightarrow> st = FDC_STATE_IDLE"
  by (cases st) simp_all

text \<open>C18. The floppy controller's status register: in every state the controller can reach, its
  bits say exactly whether a command is in progress and in which direction the next byte goes,
  and a read of the FIFO they ask for never hits the unexpected-access panic.\<close>

theorem fdc_status_invariant:
  assumes "fdc start = fdc9268_init_state" and "fdc_step\<^sup>*\<^sup>* start s"
  shows "msr (fdc s) = fdc_status (fdc_state (fdc s)) \<and>
    (msr (fdc s) AND 0x40 \<noteq> 0 \<longrightarrow>
      panic_msg (snd (run_state (fdc_fifo_read p) s)) = panic_msg s)"
  using fdc_reachable_inv [OF assms] fifo_read_protocol(3) [of s p]
  by (auto simp: fdc_inv_def fdc_status_def split: if_splits)

text \<open>Following the status register finishes every command: from any reachable state the
  controller is idle, and says so, after the number of FIFO accesses its state calls for (at
  most fifteen), whatever parameter bytes are written.\<close>

theorem fdc_command_finishes:
  assumes "fdc start = fdc9268_init_state" and "fdc_step\<^sup>*\<^sup>* start s"
    and "length vs = fdc_remaining (fdc_state (fdc s))"
  shows "let t = snd (run_state (for_each vs (fdc_access p)) s) in
    fdc_state (fdc t) = FDC_STATE_IDLE \<and> msr (fdc t) = 0x80 \<and> length vs \<le> 15"
proof -
  have "fdc_remaining st \<le> 15" for st by (cases st) simp_all
  moreover have "fdc_inv s \<Longrightarrow> length vs = fdc_remaining (fdc_state (fdc s)) \<Longrightarrow>
      fdc_inv (snd (run_state (for_each vs (fdc_access p)) s)) \<and>
      fdc_state (fdc (snd (run_state (for_each vs (fdc_access p)) s))) = FDC_STATE_IDLE" for vs s
  proof (induction vs arbitrary: s)
    case Nil
    then show ?case using fdc_remaining_0 by force
  next
    case (Cons v vs)
    then have "fdc_state (fdc s) \<noteq> FDC_STATE_IDLE" by auto
    from fdc_access_step [OF Cons.prems(1) this, of p v] Cons.prems(2) show ?case
      by (simp add: case_prod_beta Cons.IH)
  qed
  ultimately show ?thesis
    using fdc_reachable_inv [OF assms(1,2)] assms(3) by (auto simp: Let_def fdc_inv_def fdc_status_def)
qed

theorem fdc_status_invariant_witness:
  "msr (fdc (snd (run_state (fdc_fifo_write FDC_FIFO FDC_CMD_SIS) floppy_power_on))) = 0xD0"
proof -
  let ?s = "snd (run_state (fdc_fifo_write FDC_FIFO FDC_CMD_SIS) floppy_power_on)"
  have "fdc_step\<^sup>*\<^sup>* floppy_power_on ?s" by (rule r_into_rtranclp) (rule fdc_step.fifo_write)
  moreover have "fdc floppy_power_on = fdc9268_init_state" by (simp add: floppy_power_on_def)
  ultimately have "msr (fdc ?s) = fdc_status (fdc_state (fdc ?s))"
    using fdc_status_invariant by blast
  then show ?thesis by (simp add: demo_defs fdc_fifo_write_def fdc_command_def fdc_status_def fdc_has_result_def)
qed

theorem fdc_command_finishes_witness:
  "let s = snd (run_state (fdc_fifo_write FDC_FIFO FDC_CMD_SIS) floppy_power_on)
   in msr (fdc (snd (run_state (for_each [0, 0] (fdc_access FDC_FIFO)) s))) = 0x80"
proof -
  let ?s = "snd (run_state (fdc_fifo_write FDC_FIFO FDC_CMD_SIS) floppy_power_on)"
  have "fdc_step\<^sup>*\<^sup>* floppy_power_on ?s" by (rule r_into_rtranclp) (rule fdc_step.fifo_write)
  moreover have "fdc floppy_power_on = fdc9268_init_state" by (simp add: floppy_power_on_def)
  moreover have "fdc_state (fdc ?s) = FDC_STATE_CMD_SIS_ST0"
    by (simp add: demo_defs fdc_fifo_write_def fdc_command_def)
  ultimately show ?thesis
    using fdc_command_finishes [where start = floppy_power_on and s = ?s and vs = "[0, 0]" and p = FDC_FIFO]
    unfolding Let_def by simp
qed

end
