(* ===== verification/Fdc_Transfer.thy ===== *)
theory Fdc_Transfer
  imports Fdc9268
begin

unbundle bit_operations_syntax

text \<open>
  The floppy controller's data path: the DMA callbacks meet the contracts of the DMA controller,
  what a sector read and a sector write do to image and memory, and the READ command as a whole.
\<close>

subsection \<open>Sectors and memory\<close>

interpretation fdc_source: dma_source "fdc_image_read_callback dsel" for dsel
  by unfold_locales (simp add: fdc_image_read_callback_def fdc_advance_def case_prod_beta)

interpretation fdc_sink: dma_sink "fdc_image_write_callback dsel" for dsel
  by unfold_locales (simp add: fdc_image_write_callback_def fdc_advance_def)

text \<open>A drive whose image holds the \<open>n\<close> bytes from its position on.\<close>

definition image_holds :: "2 word \<Rightarrow> nat \<Rightarrow> fdc9268_t \<Rightarrow> bool" where
  "image_holds dsel n r \<longleftrightarrow> floppy_pos (floppy r dsel) + n \<le> floppy_size (floppy r dsel) \<and>
     floppy_size (floppy r dsel) \<le> FLOPPY_SIZE_MAX"

lemma run_read_callback:
  assumes "image_holds dsel (Suc n) (fdc s)"
  shows "run_state (fdc_image_read_callback dsel) s =
    (floppy_data (floppy (fdc s) dsel) (floppy_pos (floppy (fdc s) dsel)),
     s\<lparr>fdc := set_floppy dsel (\<lambda>f. f\<lparr>floppy_pos := floppy_pos f + 1\<rparr>) (fdc s)\<rparr>)"
  using assms by (simp add: fdc_image_read_callback_def fdc_advance_def set_floppy_def image_holds_def)

lemma run_read_callbacks:
  "image_holds dsel n (fdc s) \<Longrightarrow> run_state (replicate_m n (fdc_image_read_callback dsel)) s =
    (map (floppy_data (floppy (fdc s) dsel))
       [floppy_pos (floppy (fdc s) dsel)..<floppy_pos (floppy (fdc s) dsel) + n],
     s\<lparr>fdc := set_floppy dsel (\<lambda>f. f\<lparr>floppy_pos := floppy_pos f + n\<rparr>) (fdc s)\<rparr>)"
proof (induction n arbitrary: s)
  case 0
  then show ?case by (simp add: set_floppy_def)
next
  case (Suc n)
  define u where "u = s\<lparr>fdc := set_floppy dsel (\<lambda>f. f\<lparr>floppy_pos := floppy_pos f + 1\<rparr>) (fdc s)\<rparr>"
  have "image_holds dsel n (fdc u)" using Suc.prems by (simp add: u_def image_holds_def set_floppy_def)
  from Suc.IH [OF this] show ?case
    by (simp add: run_read_callback [OF Suc.prems] u_def [symmetric] upt_conv_Cons del: upt_Suc)
      (simp add: u_def set_floppy_def)
qed

lemma run_write_callback:
  assumes "image_holds dsel (Suc n) (fdc s)"
  shows "run_state (fdc_image_write_callback dsel b) s =
    ((), s\<lparr>fdc := set_floppy dsel (\<lambda>f. f\<lparr>floppy_data := (floppy_data f)(floppy_pos f := b),
       floppy_pos := floppy_pos f + 1\<rparr>) (fdc s)\<rparr>)"
  using assms by (simp add: fdc_image_write_callback_def fdc_advance_def set_floppy_def image_holds_def)

text \<open>The image after bytes have been written from a position on.\<close>

definition image_put :: "nat \<Rightarrow> u8 list \<Rightarrow> (nat \<Rightarrow> u8) \<Rightarrow> nat \<Rightarrow> u8" where
  "image_put pos bs d i = (if pos \<le> i \<and> i < pos + length bs then bs ! (i - pos) else d i)"

lemma image_put_simps:
  "image_put pos [] d = d" "image_put pos (b # bs) d = image_put (Suc pos) bs (d(pos := b))"
  by (auto simp: image_put_def fun_eq_iff nth_Cons' Suc_le_eq)

lemma run_write_callbacks:
  "image_holds dsel (length bs) (fdc s) \<Longrightarrow> run_state (for_each bs (fdc_image_write_callback dsel)) s =
    ((), s\<lparr>fdc := set_floppy dsel (\<lambda>f. f\<lparr>floppy_data := image_put (floppy_pos f) bs (floppy_data f),
       floppy_pos := floppy_pos f + length bs\<rparr>) (fdc s)\<rparr>)"
proof (induction bs arbitrary: s)
  case Nil
  then show ?case by (simp add: set_floppy_def image_put_simps)
next
  case (Cons b bs)
  define u where "u = s\<lparr>fdc := set_floppy dsel (\<lambda>f. f\<lparr>floppy_data := (floppy_data f)(floppy_pos f := b),
       floppy_pos := floppy_pos f + 1\<rparr>) (fdc s)\<rparr>"
  have p: "image_holds dsel (Suc (length bs)) (fdc s)" using Cons.prems by simp
  have "image_holds dsel (length bs) (fdc u)" using Cons.prems by (simp add: u_def image_holds_def set_floppy_def)
  from Cons.IH [OF this] show ?case
    by (simp add: run_write_callback [OF p] u_def [symmetric])
      (simp add: u_def set_floppy_def image_put_simps)
qed


text \<open>Where the command registers point in the image of the selected drive.\<close>

definition fdc_drive :: "fdc9268_t \<Rightarrow> 2 word" where
  "fdc_drive r = ucast (st0 r AND 3)"

definition fdc_sector_pos :: "fdc9268_t \<Rightarrow> nat" where
  "fdc_sector_pos r = unat (fdc_lba (floppy_spt (floppy r (fdc_drive r))) r * FLOPPY_SECTOR_SIZE)"

text \<open>A transfer of \<open>n\<close> bytes that stays inside the image and inside the address space.\<close>

definition fdc_transfer_ok :: "u8 \<Rightarrow> nat \<Rightarrow> 'a floppy_board_scheme \<Rightarrow> bool" where
  "fdc_transfer_ok mode n s \<longleftrightarrow>
     floppy_loaded (floppy (fdc s) (fdc_drive (fdc s))) \<and>
     fdc_sector_pos (fdc s) + n \<le> floppy_size (floppy (fdc s) (fdc_drive (fdc s))) \<and>
     floppy_size (floppy (fdc s) (fdc_drive (fdc s))) \<le> FLOPPY_SIZE_MAX \<and>
     drop_bit 2 (dma_mode (fe2010 s) FE2010_DMA_FLOPPY_DISK) AND 3 = mode \<and>
     n = unat (dma_count FE2010_DMA_FLOPPY_DISK (fe2010 s)) + 1 \<and>
     unat (dma_address FE2010_DMA_FLOPPY_DISK (fe2010 s)) + n \<le> 0x100000"

text \<open>The sector read: the DMA transfer puts the bytes of the image, from the addressed sector on,
  into memory.\<close>

lemma fdc_read_image:
  assumes "fdc_transfer_ok DMA_MODE_WRITE n s"
  defines "d \<equiv> fdc_drive (fdc s)" and "pos \<equiv> fdc_sector_pos (fdc s)"
  shows "run_state (fdc_image_dma True) s = (True,
    s\<lparr>mem := put_bytes mem_put (mem s) (dma_address FE2010_DMA_FLOPPY_DISK (fe2010 s))
        (map (floppy_data (floppy (fdc s) d)) [pos..<pos + n]),
      fdc := set_floppy d (\<lambda>f. f\<lparr>floppy_pos := pos + n\<rparr>) (fdc s)\<rparr>)"
proof -
  define u where "u = s\<lparr>fdc := set_floppy d (\<lambda>f. f\<lparr>floppy_pos := pos\<rparr>) (fdc s)\<rparr>"
  note ok = assms(1) [unfolded fdc_transfer_ok_def, folded d_def pos_def]
  have "image_holds d n (fdc u)"
    using ok by (simp add: u_def image_holds_def set_floppy_def)
  note cb = run_read_callbacks [OF this]
  have "run_state (fdc_image_dma True) s =
      (True, snd (run_state (fe2010_dma_write FE2010_DMA_FLOPPY_DISK (fdc_image_read_callback d)) u))"
    using ok
    by (simp add: fdc_image_dma_def fdc_drive_def [symmetric] d_def [symmetric] case_prod_beta u_def
        pos_def fdc_sector_pos_def)
  also have "run_state (fe2010_dma_write FE2010_DMA_FLOPPY_DISK (fdc_image_read_callback d)) u =
     (case run_state (replicate_m n (fdc_image_read_callback d)) u of (bytes, t) \<Rightarrow>
       ((), t\<lparr>mem := put_bytes mem_put (mem u) (dma_address FE2010_DMA_FLOPPY_DISK (fe2010 u)) bytes\<rparr>))"
    using ok fdc_source.write_transfer [of u FE2010_DMA_FLOPPY_DISK d] by (simp add: u_def)
  finally show ?thesis
    unfolding cb by (simp add: u_def set_floppy_def)
qed

text \<open>The sector write: the bytes of memory go into the image.\<close>

lemma fdc_write_image:
  assumes "fdc_transfer_ok DMA_MODE_READ n s"
  defines "d \<equiv> fdc_drive (fdc s)" and "pos \<equiv> fdc_sector_pos (fdc s)"
  shows "run_state (fdc_image_dma False) s = (True,
    s\<lparr>fdc := set_floppy d (\<lambda>f. f\<lparr>floppy_data := image_put pos
          (map (\<lambda>i. mem_get (mem s) (dma_address FE2010_DMA_FLOPPY_DISK (fe2010 s) + of_nat i)) [0..<n])
          (floppy_data f), floppy_pos := pos + n\<rparr>) (fdc s)\<rparr>)"
proof -
  define u where "u = s\<lparr>fdc := set_floppy d (\<lambda>f. f\<lparr>floppy_pos := pos\<rparr>) (fdc s)\<rparr>"
  note ok = assms(1) [unfolded fdc_transfer_ok_def, folded d_def pos_def]
  let ?bs = "map (\<lambda>i. mem_get (mem s) (dma_address FE2010_DMA_FLOPPY_DISK (fe2010 s) + of_nat i)) [0..<n]"
  have "image_holds d (length ?bs) (fdc u)"
    using ok by (simp add: u_def image_holds_def set_floppy_def)
  note cb = run_write_callbacks [OF this]
  have "run_state (fdc_image_dma False) s =
      (True, snd (run_state (fe2010_dma_read FE2010_DMA_FLOPPY_DISK (fdc_image_write_callback d)) u))"
    using ok
    by (simp add: fdc_image_dma_def fdc_drive_def [symmetric] d_def [symmetric] case_prod_beta u_def
        pos_def fdc_sector_pos_def)
  also have "run_state (fe2010_dma_read FE2010_DMA_FLOPPY_DISK (fdc_image_write_callback d)) u =
     run_state (for_each ?bs (fdc_image_write_callback d)) u"
    using ok fdc_sink.read_transfer [of u FE2010_DMA_FLOPPY_DISK d] by (simp add: u_def del: upt_Suc)
  finally show ?thesis
    unfolding cb by (simp add: u_def set_floppy_def)
qed

text \<open>C17. Disk round trip: a block of memory written to the image and read back, with the DMA
  channel reprogrammed in between, arrives at the new address byte for byte, wherever that
  memory is writable; the source may overlap the destination, lie anywhere, and the sector be
  any the image holds.\<close>

theorem fdc_sector_roundtrip:
  assumes "fdc_transfer_ok DMA_MODE_READ n s"
    and "drop_bit 2 (dma_mode r FE2010_DMA_FLOPPY_DISK) AND 3 = DMA_MODE_WRITE"
    and "dma_count FE2010_DMA_FLOPPY_DISK r = dma_count FE2010_DMA_FLOPPY_DISK (fe2010 s)"
    and "unat (dma_address FE2010_DMA_FLOPPY_DISK r) + n \<le> 0x100000"
    and "i < n" and "mem_writable (mem s) (dma_address FE2010_DMA_FLOPPY_DISK r + of_nat i)"
  shows "let written = snd (run_state (fdc_image_dma False) s);
             t = snd (run_state (fdc_image_dma True) (written\<lparr>fe2010 := r\<rparr>)) in
    mem_get (mem t) (dma_address FE2010_DMA_FLOPPY_DISK r + of_nat i) =
      mem_get (mem s) (dma_address FE2010_DMA_FLOPPY_DISK (fe2010 s) + of_nat i) \<and> wild t = wild s"
proof -
  define u where "u = (snd (run_state (fdc_image_dma False) s))\<lparr>fe2010 := r\<rparr>"
  have ok: "fdc_transfer_ok DMA_MODE_WRITE n u" and pos: "fdc_sector_pos (fdc u) = fdc_sector_pos (fdc s)"
    and d: "fdc_drive (fdc u) = fdc_drive (fdc s)" and n: "n \<le> 0x10000"
    using assms(1-4) unat_u16 [of "dma_count FE2010_DMA_FLOPPY_DISK r"]
    by (simp_all add: u_def fdc_write_image [OF assms(1)] fdc_transfer_ok_def fdc_sector_pos_def
        fdc_drive_def fdc_lba_def set_floppy_def)
  have data: "map (floppy_data (floppy (fdc u) (fdc_drive (fdc u)))) [fdc_sector_pos (fdc u)..<fdc_sector_pos (fdc u) + n] =
      map (\<lambda>i. mem_get (mem s) (dma_address FE2010_DMA_FLOPPY_DISK (fe2010 s) + of_nat i)) [0..<n]"
    unfolding pos d
    by (rule nth_equalityI) (simp_all add: u_def fdc_write_image [OF assms(1)] set_floppy_def image_put_def)
  have "mem u = mem s" "wild u = wild s" "fe2010 u = r" by (simp_all add: u_def fdc_write_image [OF assms(1)])
  then show ?thesis
    using assms(5,6) n unfolding Let_def u_def [symmetric]
    by (simp add: fdc_read_image [OF ok] data phys_store.get_put_bytes)
qed

lemma run_drive_sel:
  "run_state (fdc_st0_drive_sel_update v) s =
     ((), s\<lparr>fdc := (fdc s)\<lparr>st0 := (st0 (fdc s) AND NOT 7) OR (v AND 7)\<rparr>\<rparr>)"
proof -
  have v3: "v AND 3 = of_bool (bit v 0) OR push_bit 1 (of_bool (bit v 1))"
    by (rule byte_eqI) (auto simp: bit_simps)
  have v4: "(drop_bit 2 v AND 1 \<noteq> 0) = bit v 2"
    by (simp add: bit_iff_and_drop_bit_eq_1 and_one_eq odd_iff_mod_2_eq_one)
  define put where "put = (\<lambda>n w. if bit v n then set_flag8 n w else clear_flag8 n w)"
  have "run_state (fdc_st0_drive_sel_update v) s =
      ((), s\<lparr>fdc := (fdc s)\<lparr>st0 := put 2 (put 1 (put 0 (st0 (fdc s))))\<rparr>\<rparr>)"
    unfolding fdc_st0_drive_sel_update_def v3 v4
    by (cases "bit v 0"; cases "bit v 1"; simp add: fdc_bit_defs put_def)
  also have "put 2 (put 1 (put 0 (st0 (fdc s)))) = (st0 (fdc s) AND NOT 7) OR (v AND 7)"
    by (rule byte_eqI) (auto simp: put_def set_flag8_def clear_flag8_def bit_simps)
  finally show ?thesis .
qed


lemma irq_apart_fdc:
  "run_state (fe2010_irq n) (s\<lparr>fdc := x\<rparr>) = ((), (snd (run_state (fe2010_irq n) s))\<lparr>fdc := x\<rparr>)"
  by (simp add: run_fe2010_irq i8088_irq_def run_interrupt Let_def)

lemma irq_apart_fdc_mem:
  "run_state (fe2010_irq n) (s\<lparr>fdc := x, mem := mm\<rparr>) =
    ((), (snd (run_state (fe2010_irq n) (s\<lparr>mem := mm\<rparr>)))\<lparr>fdc := x\<rparr>)"
  by (simp add: run_fe2010_irq i8088_irq_def run_interrupt Let_def)

lemma irq_keeps_wild [simp]: "wild (snd (run_state (fe2010_irq n) s)) = wild s"
  by (simp add: run_fe2010_irq i8088_irq_def run_interrupt Let_def)

text \<open>The controller after the parameters of a read command.\<close>

definition fdc_addressed :: "u8 \<Rightarrow> u8 \<Rightarrow> u8 \<Rightarrow> u8 \<Rightarrow> u8 \<Rightarrow> fdc9268_t \<Rightarrow> fdc9268_t" where
  "fdc_addressed hds c h r n f = f\<lparr>cmd_cylinder := c, cmd_head := h, cmd_sector := r, cmd_number := n,
     st0 := (st0 f AND NOT 7) OR (hds AND 7)\<rparr>"

lemma read_parameters:
  assumes "fdc_state (fdc s) = FDC_STATE_IDLE" and "cmd AND 0x1F = FDC_CMD_READ"
  shows "run_state (for_each [cmd, hds, c, h, r, n, eot, gpl] (fdc_fifo_write p)) s =
    ((), s\<lparr>fdc := (fdc_addressed hds c h r n (fdc s))\<lparr>fdc_state := FDC_STATE_CMD_READ_DTL,
       msr := set_flag8 FDC_MSR_CMD_BUSY (msr (fdc s))\<rparr>\<rparr>)"
proof -
  have "cmd \<noteq> x" if "x \<in> {FDC_CMD_SIS, FDC_CMD_SDS, FDC_CMD_SPECIFY, FDC_CMD_RECALIB, FDC_CMD_SEEK}" for x
    using assms(2) that by (auto simp: fdc_cmd_defs)
  then show ?thesis
    using assms by (simp add: fdc_fifo_write_def fdc_command_def run_drive_sel fdc_addressed_def)
qed

lemma st0_ok:
  "clear_flag8 7 (clear_flag8 6 ((w AND NOT 7) OR (v AND 7))) = (w AND 0x38) OR (v AND (7::u8))"
  by (rule byte_eqI) (auto simp: clear_flag8_def bit_simps)

lemma read_results:
  assumes "fdc_state (fdc s) = FDC_STATE_CMD_READ_ST0"
  shows "fst (run_state (replicate_m 7 (fdc_fifo_read p)) s) =
      [st0 (fdc s), st1 (fdc s), st2 (fdc s), cmd_cylinder (fdc s), cmd_head (fdc s),
       cmd_sector (fdc s), cmd_number (fdc s)]"
    and "fdc_state (fdc (snd (run_state (replicate_m 7 (fdc_fifo_read p)) s))) = FDC_STATE_IDLE"
  using assms by (simp_all add: eval_nat_numeral fdc_fifo_read_def fdc_result_end_def case_prod_beta)

text \<open>C16. The READ command from the first byte to the last: nine bytes written to the idle
  controller transfer the image bytes of the addressed sector to memory by DMA and raise the
  floppy interrupt; the seven result bytes report success and the address, and leave the
  controller idle.\<close>

theorem fdc_read_command:
  assumes "fdc_state (fdc s) = FDC_STATE_IDLE" and "cmd AND 0x1F = FDC_CMD_READ"
    and "fdc_transfer_ok DMA_MODE_WRITE k (s\<lparr>fdc := fdc_addressed hds c h r n (fdc s)\<rparr>)"
  shows "let pos = fdc_sector_pos (fdc_addressed hds c h r n (fdc s));
      image = floppy_data (floppy (fdc s) (ucast (hds AND 3)));
      t = snd (run_state (for_each [cmd, hds, c, h, r, n, eot, gpl, dtl] (fdc_fifo_write p)) s);
      results = run_state (replicate_m 7 (fdc_fifo_read p)) t in
    mem t = mem (snd (run_state (fe2010_irq FE2010_IRQ_FLOPPY_DISK)
      (s\<lparr>mem := put_bytes mem_put (mem s) (dma_address FE2010_DMA_FLOPPY_DISK (fe2010 s))
         (map image [pos..<pos + k])\<rparr>))) \<and>
    fst results = [(st0 (fdc s) AND 0x38) OR (hds AND 7), 0, st2 (fdc s), c, h, r, n] \<and>
    fdc_state (fdc (snd results)) = FDC_STATE_IDLE \<and> wild t = wild s"
proof -
  define u where "u = s\<lparr>fdc := (fdc_addressed hds c h r n (fdc s))\<lparr>fdc_state := FDC_STATE_CMD_READ_DTL,
       msr := set_flag8 FDC_MSR_CMD_BUSY (msr (fdc s))\<rparr>\<rparr>"
  define pos where "pos = fdc_sector_pos (fdc_addressed hds c h r n (fdc s))"
  have d: "ucast (((w AND NOT 7) OR (hds AND 7)) AND 3) = (ucast (hds AND 3) :: 2 word)" for w
    by (rule arg_cong [where f = ucast]) (rule byte_eqI, auto simp: bit_simps)
  have ok: "fdc_transfer_ok DMA_MODE_WRITE k u" and pu: "fdc_sector_pos (fdc u) = pos"
    and du: "fdc_drive (fdc u) = ucast (hds AND 3)"
    using assms(3) by (simp_all add: u_def fdc_transfer_ok_def fdc_sector_pos_def fdc_drive_def
        fdc_lba_def fdc_addressed_def pos_def d [simplified])
  define t where "t = snd (run_state (for_each [cmd, hds, c, h, r, n, eot, gpl, dtl] (fdc_fifo_write p)) s)"
  have "t = snd (run_state (fdc_fifo_write p dtl)
      (snd (run_state (for_each [cmd, hds, c, h, r, n, eot, gpl] (fdc_fifo_write p)) s)))"
    by (simp add: t_def case_prod_beta)
  then have "t = snd (run_state (fdc_transfer True FDC_STATE_CMD_READ_ST0) u)"
    unfolding read_parameters [OF assms(1,2)] by (simp add: fdc_fifo_write_def u_def)
  also have "\<dots> = (snd (run_state (fe2010_irq FE2010_IRQ_FLOPPY_DISK) (s\<lparr>mem := put_bytes mem_put (mem s)
       (dma_address FE2010_DMA_FLOPPY_DISK (fe2010 s))
       (map (floppy_data (floppy (fdc s) (ucast (hds AND 3)))) [pos..<pos + k])\<rparr>)))
     \<lparr>fdc := (set_floppy (ucast (hds AND 3)) (\<lambda>f. f\<lparr>floppy_pos := pos + k\<rparr>) (fdc u))
        \<lparr>st0 := (st0 (fdc s) AND 0x38) OR (hds AND 7), st1 := 0, pending_irq := True,
         msr := set_flag8 FDC_MSR_DIO (msr (fdc u)), fdc_state := FDC_STATE_CMD_READ_ST0\<rparr>\<rparr>"
    by (simp add: fdc_transfer_def fdc_read_image [OF ok] pu du case_prod_beta irq_apart_fdc)
      (simp add: u_def irq_apart_fdc_mem set_floppy_def fdc_addressed_def fdc_bit_defs st0_ok [simplified])
  finally show ?thesis
    unfolding Let_def t_def [symmetric] pos_def [symmetric]
    by (simp add: read_results u_def set_floppy_def fdc_addressed_def)
qed

lemma demo_transfer_ok:
  "fdc_transfer_ok DMA_MODE_WRITE 512 (s\<lparr>fdc := fdc_addressed 0 0 0 1 2 (fdc s)\<rparr>)"
  if "s = demo_floppy 0x44"
  unfolding that
  by (simp add: fdc_transfer_ok_def demo_defs fdc_addressed_def fdc_drive_def fdc_sector_pos_def
      fdc_lba_def FLOPPY_SIZE_MAX_def FLOPPY_HPC_def dma_address_def dma_count_def FE2010_DMA_FLOPPY_DISK_def
      DMA_MODE_WRITE_def)

theorem fdc_read_command_witness:
  "fst (run_state (replicate_m 7 (fdc_fifo_read FDC_FIFO))
     (snd (run_state (for_each [0x46, 0, 0, 0, 1, 2, 9, 0x2A, 0xFF] (fdc_fifo_write FDC_FIFO))
       (demo_floppy 0x44)))) = [0, 0, 0, 0, 0, 1, 2]"
proof -
  have "fdc_state (fdc (demo_floppy 0x44)) = FDC_STATE_IDLE" "(0x46 AND 0x1F :: u8) = FDC_CMD_READ"
    by (simp_all add: demo_defs FDC_CMD_READ_def)
  from fdc_read_command [OF this demo_transfer_ok [OF refl], where eot = 9 and gpl = "0x2A" and dtl = "0xFF"
      and p = FDC_FIFO]
  have "fst (run_state (replicate_m 7 (fdc_fifo_read FDC_FIFO))
     (snd (run_state (for_each [0x46, 0, 0, 0, 1, 2, 9, 0x2A, 0xFF] (fdc_fifo_write FDC_FIFO))
       (demo_floppy 0x44)))) =
     [(st0 (fdc (demo_floppy 0x44)) AND 0x38) OR (0 AND 7), 0, st2 (fdc (demo_floppy 0x44)), 0, 0, 1, 2]"
    unfolding Let_def by blast
  then show ?thesis by (simp add: demo_defs del: for_each.simps replicate_m.simps)
qed

theorem fdc_sector_roundtrip_witness:
  "let s = (demo_floppy 0x48)\<lparr>fdc := fdc_addressed 0 0 0 1 2 (fdc (demo_floppy 0x48))\<rparr>;
       written = snd (run_state (fdc_image_dma False) s);
       t = snd (run_state (fdc_image_dma True) (written\<lparr>fe2010 := demo_dma 0x44 0x2000\<rparr>))
   in mem_get (mem t) 0x2005 = mem_get (mem s) 0x1005"
proof -
  let ?s = "(demo_floppy 0x48)\<lparr>fdc := fdc_addressed 0 0 0 1 2 (fdc (demo_floppy 0x48))\<rparr>"
  have "fdc_transfer_ok DMA_MODE_READ 512 ?s"
    by (simp add: fdc_transfer_ok_def demo_defs fdc_addressed_def fdc_drive_def fdc_sector_pos_def
      fdc_lba_def FLOPPY_SIZE_MAX_def FLOPPY_HPC_def dma_address_def dma_count_def FE2010_DMA_FLOPPY_DISK_def
      DMA_MODE_READ_def)
  from fdc_sector_roundtrip [OF this, where r = "demo_dma 0x44 0x2000" and i = 5]
  show ?thesis
    by (simp add: Let_def demo_dma_def fe2010_init_state_def dma_address_def dma_count_def
      FE2010_DMA_FLOPPY_DISK_def DMA_MODE_WRITE_def mem_writable_def MEM_SIZE_MAX_def
      demo_floppy_def floppy_power_on_def mem_init_def)
qed

end
