(* ===== verification/Xthdc.thy ===== *)
theory Xthdc
  imports Fdc9268
begin

unbundle bit_operations_syntax

text \<open>
  xthdc.c: the XT hard disk controller. Six command bytes, then a DMA transfer (or a sector read
  byte by byte), then one status byte. The disk is one array of \<open>DISK_SIZE\<close> bytes; an access
  outside it is recorded by \<open>undefined_access\<close>. For its trace buffer see
  \<open>Trace_Log\<close>.
\<close>

subsection \<open>State\<close>

definition DISK_CYLINDERS :: nat where "DISK_CYLINDERS = 615"
definition DISK_HEADS :: nat where "DISK_HEADS = 4"
definition DISK_SECTORS :: nat where "DISK_SECTORS = 17"
definition DISK_SECTOR_SIZE :: nat where "DISK_SECTOR_SIZE = 512"
definition DISK_SIZE :: nat where
  "DISK_SIZE = DISK_CYLINDERS * DISK_HEADS * DISK_SECTORS * DISK_SECTOR_SIZE"

lemmas disk_const_defs = DISK_CYLINDERS_def DISK_HEADS_def DISK_SECTORS_def DISK_SECTOR_SIZE_def

lemma DISK_SIZE_value: "DISK_SIZE = 21411840"
  by (simp add: DISK_SIZE_def disk_const_defs)

datatype xthdc_state_t =
  XTHDC_STATE_IDLE | XTHDC_STATE_COMMAND
| XTHDC_STATE_COMMAND_PARAM_1 | XTHDC_STATE_COMMAND_PARAM_2 | XTHDC_STATE_COMMAND_PARAM_3
| XTHDC_STATE_COMMAND_PARAM_4 | XTHDC_STATE_COMMAND_PARAM_5
| XTHDC_STATE_INITIALIZE_DRIVE | XTHDC_STATE_READ_SECTOR | XTHDC_STATE_STATUS

record xthdc_t =
  hd_state :: xthdc_state_t
  hd_status :: u8
  hd_mask :: u8
  hd_config :: u8
  hd_command :: "nat \<Rightarrow> u8"
  hd_command_status :: u8
  hd_drive :: u8
  hd_cylinder :: u16
  hd_head :: u8
  hd_sector :: u8
  hd_byte_no :: u16
  hd_loaded :: bool
  hd_filename :: string
  hd_data :: "nat \<Rightarrow> u8"

record disk_board = floppy_board +
  xthdc :: xthdc_t

definition getx :: "(xthdc_t \<Rightarrow> 'x) \<Rightarrow> ('a disk_board_scheme, 'x) state" where
  "getx f = gets (\<lambda>s. f (xthdc s))"

definition modx :: "(xthdc_t \<Rightarrow> xthdc_t) \<Rightarrow> ('a disk_board_scheme, unit) state" where
  "modx f = modify (\<lambda>s. s\<lparr>xthdc := f (xthdc s)\<rparr>)"

lemma run_state_getx [simp]: "run_state (getx f) s = (f (xthdc s), s)"
  by (simp add: getx_def)

lemma run_state_modx [simp]: "run_state (modx f) s = ((), s\<lparr>xthdc := f (xthdc s)\<rparr>)"
  by (simp add: modx_def)

lemma xthdc_only_rom [frame_intros]: "preserves rom_view (getx f)" "preserves rom_view (modx g)"
  by (simp_all add: preserves_def rom_view_def)

subsection \<open>Ports, commands and status bits\<close>

definition XTHDC_DATA :: u16 where "XTHDC_DATA = 0x320"
definition XTHDC_HW_RESET :: u16 where "XTHDC_HW_RESET = 0x321"
definition XTHDC_HW_STATUS :: u16 where "XTHDC_HW_STATUS = 0x321"
definition XTHDC_DRIVE_SEL :: u16 where "XTHDC_DRIVE_SEL = 0x322"
definition XTHDC_DRIVE_CFG :: u16 where "XTHDC_DRIVE_CFG = 0x322"
definition XTHDC_MASK :: u16 where "XTHDC_MASK = 0x323"

definition XTHDC_STATUS_REQ :: nat where "XTHDC_STATUS_REQ = 0"
definition XTHDC_STATUS_IO :: nat where "XTHDC_STATUS_IO = 1"
definition XTHDC_STATUS_CD :: nat where "XTHDC_STATUS_CD = 2"
definition XTHDC_STATUS_XBSY :: nat where "XTHDC_STATUS_XBSY = 3"
definition XTHDC_STATUS_IRQ :: nat where "XTHDC_STATUS_IRQ = 5"
definition XTHDC_MASK_DRQEN :: nat where "XTHDC_MASK_DRQEN = 0"
definition XTHDC_MASK_IRQEN :: nat where "XTHDC_MASK_IRQEN = 1"

definition XTHDC_CMD_TEST_DRIVE :: u8 where "XTHDC_CMD_TEST_DRIVE = 0x00"
definition XTHDC_CMD_RECALIBRATE :: u8 where "XTHDC_CMD_RECALIBRATE = 0x01"
definition XTHDC_CMD_REQUEST_SENSE :: u8 where "XTHDC_CMD_REQUEST_SENSE = 0x03"
definition XTHDC_CMD_READY_VERIFY :: u8 where "XTHDC_CMD_READY_VERIFY = 0x05"
definition XTHDC_CMD_READ :: u8 where "XTHDC_CMD_READ = 0x08"
definition XTHDC_CMD_WRITE :: u8 where "XTHDC_CMD_WRITE = 0x0A"
definition XTHDC_CMD_INITIALIZE_DRIVE :: u8 where "XTHDC_CMD_INITIALIZE_DRIVE = 0x0C"
definition XTHDC_CMD_CTRL_DIAGNOSTIC :: u8 where "XTHDC_CMD_CTRL_DIAGNOSTIC = 0xE4"

lemmas xthdc_bit_defs = XTHDC_STATUS_REQ_def XTHDC_STATUS_IO_def XTHDC_STATUS_CD_def
  XTHDC_STATUS_XBSY_def XTHDC_STATUS_IRQ_def XTHDC_MASK_DRQEN_def XTHDC_MASK_IRQEN_def

lemmas xthdc_cmd_defs = XTHDC_CMD_TEST_DRIVE_def XTHDC_CMD_RECALIBRATE_def XTHDC_CMD_REQUEST_SENSE_def
  XTHDC_CMD_READY_VERIFY_def XTHDC_CMD_READ_def XTHDC_CMD_WRITE_def XTHDC_CMD_INITIALIZE_DRIVE_def
  XTHDC_CMD_CTRL_DIAGNOSTIC_def

definition xthdc_status_set :: "nat \<Rightarrow> ('a disk_board_scheme, unit) state" where
  "xthdc_status_set n = modx (\<lambda>r. r\<lparr>hd_status := set_flag8 n (hd_status r)\<rparr>)"
definition xthdc_status_clear :: "nat \<Rightarrow> ('a disk_board_scheme, unit) state" where
  "xthdc_status_clear n = modx (\<lambda>r. r\<lparr>hd_status := clear_flag8 n (hd_status r)\<rparr>)"
definition xthdc_state_set :: "xthdc_state_t \<Rightarrow> ('a disk_board_scheme, unit) state" where
  "xthdc_state_set st = modx (\<lambda>r. r\<lparr>hd_state := st\<rparr>)"

subsection \<open>The position on the disk\<close>

definition xthdc_update_chs :: "xthdc_t \<Rightarrow> xthdc_t" where
  "xthdc_update_chs r =
    (let r = r\<lparr>hd_drive := drop_bit 5 (hd_command r 1) AND 1\<rparr>;
         r = r\<lparr>hd_head := hd_command r 1 AND 0x1F\<rparr>;
         r = r\<lparr>hd_sector := hd_command r 2 AND 0x3F\<rparr>;
         r = r\<lparr>hd_cylinder := ucast (drop_bit 6 (hd_command r 2)) * 0x100\<rparr>;
         r = r\<lparr>hd_cylinder := hd_cylinder r + ucast (hd_command r 3)\<rparr>
     in r)"

definition xthdc_lba :: "xthdc_t \<Rightarrow> u32" where
  "xthdc_lba r = ((int16u (hd_cylinder r) * of_nat DISK_HEADS + int8u (hd_head r)) *
     of_nat DISK_SECTORS) + int8u (hd_sector r)"

definition xthdc_index :: "xthdc_t \<Rightarrow> nat" where
  "xthdc_index r = unat (xthdc_lba r * of_nat DISK_SECTOR_SIZE + int16u (hd_byte_no r))"

definition xthdc_read_sector_byte :: "('a disk_board_scheme, u8) state" where
  "xthdc_read_sector_byte = do {
     i \<leftarrow> getx xthdc_index;
     (if i < DISK_SIZE then return () else undefined_access);
     getx (\<lambda>r. hd_data r i)
   }"

definition xthdc_write_sector_byte :: "u8 \<Rightarrow> ('a disk_board_scheme, unit) state" where
  "xthdc_write_sector_byte byte = do {
     i \<leftarrow> getx xthdc_index;
     if i < DISK_SIZE then modx (\<lambda>r. r\<lparr>hd_data := (hd_data r)(i := byte)\<rparr>) else undefined_access
   }"

text \<open>The step to the next byte, the same code in both callbacks.\<close>

definition xthdc_next_byte :: "string \<Rightarrow> ('a disk_board_scheme, unit) state" where
  "xthdc_next_byte overrun = do {
     modx (\<lambda>r. r\<lparr>hd_byte_no := hd_byte_no r + 1\<rparr>);
     byte_no \<leftarrow> getx hd_byte_no;
     if unat byte_no \<ge> DISK_SECTOR_SIZE then do {
       modx (\<lambda>r. r\<lparr>hd_byte_no := 0\<rparr>);
       modx (\<lambda>r. r\<lparr>hd_sector := hd_sector r + 1\<rparr>);
       sector \<leftarrow> getx hd_sector;
       if unat sector \<ge> DISK_SECTORS then do {
         modx (\<lambda>r. r\<lparr>hd_sector := 0\<rparr>);
         modx (\<lambda>r. r\<lparr>hd_head := hd_head r + 1\<rparr>);
         head \<leftarrow> getx hd_head;
         if unat head \<ge> DISK_HEADS then do {
           modx (\<lambda>r. r\<lparr>hd_head := 0\<rparr>);
           modx (\<lambda>r. r\<lparr>hd_cylinder := hd_cylinder r + 1\<rparr>);
           cylinder \<leftarrow> getx hd_cylinder;
           if unat cylinder \<ge> DISK_CYLINDERS then do {
             modx (\<lambda>r. r\<lparr>hd_cylinder := 0\<rparr>);
             panic overrun []
           } else return ()
         } else return ()
       } else return ()
     } else return ()
   }"

definition xthdc_image_read_callback :: "('a disk_board_scheme, u8) state" where
  "xthdc_image_read_callback = do {
     byte \<leftarrow> xthdc_read_sector_byte;
     xthdc_next_byte ''Overrun during XT HDC read callback!'';
     return byte
   }"

definition xthdc_image_write_callback :: "u8 \<Rightarrow> ('a disk_board_scheme, unit) state" where
  "xthdc_image_write_callback byte = do {
     xthdc_write_sector_byte byte;
     xthdc_next_byte ''Overrun during XT HDC write callback!''
   }"

subsection \<open>Registers\<close>

text \<open>The interrupt at the end of a command, when the mask enables it.\<close>

definition xthdc_raise_irq :: "('a disk_board_scheme, unit) state" where
  "xthdc_raise_irq = do {
     mask \<leftarrow> getx hd_mask;
     if drop_bit XTHDC_MASK_IRQEN mask AND 1 \<noteq> 0 then do {
       fe2010_irq FE2010_IRQ_HARD_DISK;
       xthdc_status_set XTHDC_STATUS_IRQ
     } else return ()
   }"

text \<open>The tail of every command that is finished but for its status byte.\<close>

definition xthdc_complete :: "('a disk_board_scheme, unit) state" where
  "xthdc_complete = do {
     xthdc_raise_irq;
     xthdc_status_set XTHDC_STATUS_IO;
     xthdc_state_set XTHDC_STATE_STATUS
   }"

definition xthdc_set_command_status :: "u8 \<Rightarrow> ('a disk_board_scheme, unit) state" where
  "xthdc_set_command_status st = modx (\<lambda>r. r\<lparr>hd_command_status := st\<rparr>)"

definition xthdc_start_transfer :: "('a disk_board_scheme, bool) state" where
  "xthdc_start_transfer = do {
     modx xthdc_update_chs;
     modx (\<lambda>r. r\<lparr>hd_byte_no := 0\<rparr>);
     getx (\<lambda>r. drop_bit XTHDC_MASK_DRQEN (hd_mask r) AND 1 \<noteq> 0)
   }"

text \<open>The last parameter byte: the command is carried out.\<close>

definition xthdc_execute :: "('a disk_board_scheme, unit) state" where
  "xthdc_execute = do {
     command \<leftarrow> getx (\<lambda>r. hd_command r 0);
     if command = XTHDC_CMD_READ then do {
       dma \<leftarrow> xthdc_start_transfer;
       if dma then do {
         fe2010_dma_write FE2010_DMA_HARD_DISK xthdc_image_read_callback;
         xthdc_complete
       } else do {
         xthdc_status_clear XTHDC_STATUS_CD;
         xthdc_status_set XTHDC_STATUS_IO;
         xthdc_state_set XTHDC_STATE_READ_SECTOR
       }
     } else if command = XTHDC_CMD_WRITE then do {
       dma \<leftarrow> xthdc_start_transfer;
       if dma then do {
         fe2010_dma_read FE2010_DMA_HARD_DISK xthdc_image_write_callback;
         xthdc_complete
       } else do {
         panic ''XT HDC PIO write not implemented!'' [];
         xthdc_status_set XTHDC_STATUS_IO;
         xthdc_state_set XTHDC_STATE_STATUS
       }
     } else if command = XTHDC_CMD_READY_VERIFY then do {
       xthdc_set_command_status 0x20;
       xthdc_complete
     } else if command = XTHDC_CMD_INITIALIZE_DRIVE then do {
       modx (\<lambda>r. r\<lparr>hd_byte_no := 0\<rparr>);
       xthdc_state_set XTHDC_STATE_INITIALIZE_DRIVE
     } else if command = XTHDC_CMD_RECALIBRATE then do {
       second \<leftarrow> getx (\<lambda>r. drop_bit 5 (hd_command r 1) AND 1 \<noteq> 0);
       xthdc_set_command_status (if second then 0x22 else 0);
       xthdc_complete
     } else if command = XTHDC_CMD_REQUEST_SENSE then do {
       xthdc_set_command_status 0x20;
       xthdc_complete
     } else do {
       (if command = XTHDC_CMD_TEST_DRIVE \<or> command = XTHDC_CMD_CTRL_DIAGNOSTIC then return ()
        else panic ''Unhandled XT HDC command: 0x%02x'' [ucast command]);
       xthdc_set_command_status 0;
       xthdc_complete
     }
   }"

definition xthdc_store_command :: "nat \<Rightarrow> u8 \<Rightarrow> xthdc_state_t \<Rightarrow> ('a disk_board_scheme, unit) state" where
  "xthdc_store_command i value st = do {
     modx (\<lambda>r. r\<lparr>hd_command := (hd_command r)(i := value)\<rparr>);
     xthdc_state_set st
   }"

definition xthdc_data_write :: "u16 \<Rightarrow> u8 \<Rightarrow> ('a disk_board_scheme, unit) state" where
  "xthdc_data_write port value = do {
     st \<leftarrow> getx hd_state;
     case st of
       XTHDC_STATE_COMMAND \<Rightarrow> xthdc_store_command 0 value XTHDC_STATE_COMMAND_PARAM_1
     | XTHDC_STATE_COMMAND_PARAM_1 \<Rightarrow> xthdc_store_command 1 value XTHDC_STATE_COMMAND_PARAM_2
     | XTHDC_STATE_COMMAND_PARAM_2 \<Rightarrow> xthdc_store_command 2 value XTHDC_STATE_COMMAND_PARAM_3
     | XTHDC_STATE_COMMAND_PARAM_3 \<Rightarrow> xthdc_store_command 3 value XTHDC_STATE_COMMAND_PARAM_4
     | XTHDC_STATE_COMMAND_PARAM_4 \<Rightarrow> xthdc_store_command 4 value XTHDC_STATE_COMMAND_PARAM_5
     | XTHDC_STATE_COMMAND_PARAM_5 \<Rightarrow> do {
         modx (\<lambda>r. r\<lparr>hd_command := (hd_command r)(5 := value)\<rparr>);
         xthdc_execute
       }
     | XTHDC_STATE_INITIALIZE_DRIVE \<Rightarrow> do {
         modx (\<lambda>r. r\<lparr>hd_byte_no := hd_byte_no r + 1\<rparr>);
         byte_no \<leftarrow> getx hd_byte_no;
         if byte_no \<ge> 8 then do {
           xthdc_set_command_status 0;
           xthdc_complete
         } else return ()
       }
     | _ \<Rightarrow> panic ''Unexpected XT HDC data write! (0x%02x)'' [ucast value]
   }"

definition xthdc_data_read :: "u16 \<Rightarrow> ('a disk_board_scheme, u8) state" where
  "xthdc_data_read port = do {
     st \<leftarrow> getx hd_state;
     case st of
       XTHDC_STATE_STATUS \<Rightarrow> do {
         xthdc_status_clear XTHDC_STATUS_REQ;
         xthdc_status_clear XTHDC_STATUS_XBSY;
         xthdc_status_clear XTHDC_STATUS_CD;
         xthdc_status_clear XTHDC_STATUS_IO;
         xthdc_state_set XTHDC_STATE_IDLE;
         getx hd_command_status
       }
     | XTHDC_STATE_READ_SECTOR \<Rightarrow> do {
         byte \<leftarrow> xthdc_read_sector_byte;
         modx (\<lambda>r. r\<lparr>hd_byte_no := hd_byte_no r + 1\<rparr>);
         byte_no \<leftarrow> getx hd_byte_no;
         (if unat byte_no \<ge> DISK_SECTOR_SIZE then do {
            xthdc_set_command_status 0;
            xthdc_raise_irq;
            xthdc_state_set XTHDC_STATE_STATUS
          } else return ());
         return byte
       }
     | _ \<Rightarrow> do { panic ''Unexpected XT HDC data read!'' []; return 0 }
   }"

definition xthdc_reset_write :: "u16 \<Rightarrow> u8 \<Rightarrow> ('a disk_board_scheme, unit) state" where
  "xthdc_reset_write port value = xthdc_state_set XTHDC_STATE_IDLE"

definition xthdc_status_read :: "u16 \<Rightarrow> ('a disk_board_scheme, u8) state" where
  "xthdc_status_read port = do {
     status \<leftarrow> getx hd_status;
     xthdc_status_clear XTHDC_STATUS_IRQ;
     return status
   }"

definition xthdc_drive_sel_write :: "u16 \<Rightarrow> u8 \<Rightarrow> ('a disk_board_scheme, unit) state" where
  "xthdc_drive_sel_write port value = do {
     xthdc_status_set XTHDC_STATUS_REQ;
     xthdc_status_set XTHDC_STATUS_XBSY;
     xthdc_status_set XTHDC_STATUS_CD;
     xthdc_status_clear XTHDC_STATUS_IO;
     xthdc_state_set XTHDC_STATE_COMMAND
   }"

definition xthdc_drive_cfg_read :: "u16 \<Rightarrow> ('a disk_board_scheme, u8) state" where
  "xthdc_drive_cfg_read port = getx hd_config"

definition xthdc_mask_write :: "u16 \<Rightarrow> u8 \<Rightarrow> ('a disk_board_scheme, unit) state" where
  "xthdc_mask_write port value = modx (\<lambda>r. r\<lparr>hd_mask := value\<rparr>)"

subsection \<open>Initialisation\<close>

definition xthdc_init_state :: xthdc_t where
  "xthdc_init_state = \<lparr>hd_state = XTHDC_STATE_IDLE, hd_status = 0, hd_mask = 0, hd_config = 0xFF,
     hd_command = (\<lambda>_. 0), hd_command_status = 0, hd_drive = 0, hd_cylinder = 0, hd_head = 0,
     hd_sector = 0, hd_byte_no = 0, hd_loaded = False, hd_filename = [], hd_data = (\<lambda>_. 0)\<rparr>"

definition xthdc_init :: "'a disk_board_scheme io_t \<Rightarrow> 'a disk_board_scheme io_t" where
  "xthdc_init io =
    (let io = io_set_write [XTHDC_DATA] xthdc_data_write io;
         io = io_set_read [XTHDC_DATA] xthdc_data_read io;
         io = io_set_write [XTHDC_HW_RESET] xthdc_reset_write io;
         io = io_set_read [XTHDC_HW_STATUS] xthdc_status_read io;
         io = io_set_write [XTHDC_DRIVE_SEL] xthdc_drive_sel_write io;
         io = io_set_read [XTHDC_DRIVE_CFG] xthdc_drive_cfg_read io;
         io = io_set_write [XTHDC_MASK] xthdc_mask_write io
     in io)"

subsection \<open>Image files\<close>

text \<open>As for the floppy images: a file is \<open>Some bytes\<close> when it can be opened for reading.\<close>

primrec xthdc_load_loop :: "u8 list \<Rightarrow> nat \<Rightarrow> xthdc_t \<Rightarrow> (nat \<times> bool) \<times> xthdc_t" where
  "xthdc_load_loop [] n r = ((n, True), r)"
| "xthdc_load_loop (c # fh) n r =
     (if n \<ge> DISK_SIZE then ((n, False), r)
      else xthdc_load_loop fh (n + 1) (r\<lparr>hd_data := (hd_data r)(n := c)\<rparr>))"

text \<open>\<open>while (n < DISK_SIZE) data[n] = 0\<close>, for \<open>k\<close> remaining bytes.\<close>

primrec xthdc_zero_loop :: "nat \<Rightarrow> nat \<Rightarrow> xthdc_t \<Rightarrow> xthdc_t" where
  "xthdc_zero_loop 0 n r = r"
| "xthdc_zero_loop (Suc k) n r = xthdc_zero_loop k (n + 1) (r\<lparr>hd_data := (hd_data r)(n := 0)\<rparr>)"

definition xthdc_image_load :: "u8 list option \<Rightarrow> string \<Rightarrow> xthdc_t \<Rightarrow> int \<times> xthdc_t" where
  "xthdc_image_load file filename r =
    (let r = r\<lparr>hd_loaded := False\<rparr>
     in case file of
       None \<Rightarrow> (-1, r)
     | Some fh \<Rightarrow>
         (case xthdc_load_loop fh 0 r of ((n, fits), r) \<Rightarrow>
            if \<not> fits then (-1, r)
            else let r = xthdc_zero_loop (DISK_SIZE - n) n r
                 in (0, r\<lparr>hd_filename := take 4096 filename, hd_loaded := True\<rparr>)))"

definition xthdc_image_save :: "(string \<Rightarrow> bool) \<Rightarrow> string option \<Rightarrow> xthdc_t \<Rightarrow> (int \<times> (string \<times> u8 list) option) \<times> xthdc_t" where
  "xthdc_image_save can_open filename r =
    (if hd_loaded r = False then ((-2, None), r)
     else let name = (case filename of None \<Rightarrow> hd_filename r | Some name \<Rightarrow> name)
          in if \<not> can_open name then ((-1, None), r)
             else ((0, Some (name, map (hd_data r) [0..<DISK_SIZE])),
                   (case filename of None \<Rightarrow> r
                    | Some name \<Rightarrow> r\<lparr>hd_filename := take 4096 name\<rparr>)))"

subsection \<open>On the bus\<close>

lemma xthdc_bits_rom [frame_intros]:
  "preserves rom_view (xthdc_status_set n)" "preserves rom_view (xthdc_status_clear n)"
  "preserves rom_view (xthdc_state_set st)" "preserves rom_view (xthdc_set_command_status b)"
  unfolding xthdc_status_set_def xthdc_status_clear_def xthdc_state_set_def xthdc_set_command_status_def
  by (intro frame_intros)+

lemma xthdc_parts_rom [frame_intros]:
  "preserves rom_view xthdc_read_sector_byte" "preserves rom_view (xthdc_write_sector_byte b)"
  "preserves rom_view (xthdc_next_byte msg)" "preserves rom_view xthdc_raise_irq"
  "preserves rom_view xthdc_start_transfer" "preserves rom_view (xthdc_store_command i b st)"
  unfolding xthdc_read_sector_byte_def xthdc_write_sector_byte_def xthdc_next_byte_def
    xthdc_raise_irq_def xthdc_start_transfer_def xthdc_store_command_def
  by (intro frame_intros)+

lemma xthdc_callbacks_rom [frame_intros]:
  "preserves rom_view xthdc_image_read_callback" "preserves rom_view (xthdc_image_write_callback b)"
  "preserves rom_view xthdc_complete"
  unfolding xthdc_image_read_callback_def xthdc_image_write_callback_def xthdc_complete_def
  by (intro frame_intros)+

lemma xthdc_execute_rom [frame_intros]: "preserves rom_view xthdc_execute"
  unfolding xthdc_execute_def by (intro frame_intros)

lemma xthdc_hooks_rom [frame_intros]:
  "preserves rom_view (xthdc_reset_write p v)" "preserves rom_view (xthdc_status_read p)"
  "preserves rom_view (xthdc_drive_sel_write p v)" "preserves rom_view (xthdc_drive_cfg_read p)"
  "preserves rom_view (xthdc_mask_write p v)"
  unfolding xthdc_reset_write_def xthdc_status_read_def xthdc_drive_sel_write_def
    xthdc_drive_cfg_read_def xthdc_mask_write_def
  by (intro frame_intros)+

lemma xthdc_data_rom [frame_intros]:
  "preserves rom_view (xthdc_data_read p)" "preserves rom_view (xthdc_data_write p v)"
  unfolding xthdc_data_read_def xthdc_data_write_def
  by (intro preserves_bind xthdc_only_rom; simp split: xthdc_state_t.split; intro conjI impI frame_intros)+

definition xthdc_ports :: "u16 list" where "xthdc_ports = [0x320, 0x321, 0x322, 0x323]"

lemmas xthdc_port_defs = XTHDC_DATA_def XTHDC_HW_RESET_def XTHDC_HW_STATUS_def XTHDC_DRIVE_SEL_def
  XTHDC_DRIVE_CFG_def XTHDC_MASK_def

interpretation xthdc_bus: io_device xthdc_init xthdc_ports rom_view
proof
  show "io_at (xthdc_init io) p = io_at io p" if "p \<notin> set xthdc_ports" for io :: "'a disk_board_scheme io_t" and p
    using that by (simp add: xthdc_init_def xthdc_ports_def xthdc_port_defs)
  show "io_at (xthdc_init io) p = io_at (xthdc_init io') p" if "io_at io p = io_at io' p" for io io' :: "'a disk_board_scheme io_t" and p
    unfolding xthdc_init_def Let_def by (intro io_at_set_cong that)
  show "io_preserves rom_view (xthdc_init io)" if "io_preserves rom_view io" for io :: "'a disk_board_scheme io_t"
    unfolding xthdc_init_def Let_def by (intro io_set_intros frame_intros that)
qed

end
