(* ===== verification/Xthdc_Disk.thy ===== *)
theory Xthdc_Disk
  imports Xthdc
begin

unbundle bit_operations_syntax

text \<open>
  The hard disk's data path. The cylinder, head, sector and byte counters are the digits of one
  linear position; the DMA callbacks implement a linear disk, read or written at its position;
  the READ command as a whole.
\<close>

subsection \<open>Counters and linear position\<close>

definition chs_valid :: "xthdc_t \<Rightarrow> bool" where
  "chs_valid r \<longleftrightarrow> unat (hd_cylinder r) < DISK_CYLINDERS \<and> unat (hd_head r) < DISK_HEADS \<and>
     unat (hd_sector r) < DISK_SECTORS \<and> unat (hd_byte_no r) < DISK_SECTOR_SIZE"

lemma xthdc_index_value:
  "xthdc_index r = ((unat (hd_cylinder r) * 4 + unat (hd_head r)) * 17 + unat (hd_sector r)) * 512
     + unat (hd_byte_no r)"
proof -
  have b: "unat (hd_cylinder r) < 65536" "unat (hd_head r) < 256" "unat (hd_sector r) < 256"
    "unat (hd_byte_no r) < 65536"
    using unat_u16 [of "hd_cylinder r"] unat_u8 [of "hd_head r"] unat_u8 [of "hd_sector r"]
      unat_u16 [of "hd_byte_no r"] by simp_all
  define n where "n = (unat (hd_cylinder r) * 4 + unat (hd_head r)) * 17 + unat (hd_sector r)"
  have lba: "xthdc_lba r = of_nat n"
    by (simp add: xthdc_lba_def n_def disk_const_defs)
  have "n < 4461000" using b by (simp add: n_def)
  then have m: "n * 512 + unat (hd_byte_no r) < 2 ^ 32" using b by simp
  have "xthdc_index r = unat (of_nat (n * 512 + unat (hd_byte_no r)) :: u32)"
    by (simp add: xthdc_index_def lba disk_const_defs)
  also have "\<dots> = n * 512 + unat (hd_byte_no r)"
    using m by (simp only: unat_of_nat len_bit0 len_num1 mult_1_right mod_less) simp
  finally show ?thesis by (simp only: n_def)
qed

definition chs_put :: "nat \<Rightarrow> nat \<Rightarrow> nat \<Rightarrow> nat \<Rightarrow> xthdc_t \<Rightarrow> xthdc_t" where
  "chs_put c h sec b r = r\<lparr>hd_cylinder := of_nat c, hd_head := of_nat h, hd_sector := of_nat sec,
     hd_byte_no := of_nat b\<rparr>"

text \<open>The counters at a linear position.\<close>

definition disk_seek :: "nat \<Rightarrow> xthdc_t \<Rightarrow> xthdc_t" where
  "disk_seek a = chs_put (a div 512 div 17 div 4) (a div 512 div 17 mod 4) (a div 512 mod 17) (a mod 512)"

lemma disk_seek_idem [simp]: "disk_seek a (disk_seek b r) = disk_seek a r"
  by (simp add: disk_seek_def chs_put_def)

lemma disk_seek_fields [simp]:
  "hd_data (disk_seek a r) = hd_data r" "hd_mask (disk_seek a r) = hd_mask r"
  "hd_state (disk_seek a r) = hd_state r" "hd_status (disk_seek a r) = hd_status r"
  "hd_command_status (disk_seek a r) = hd_command_status r" "hd_command (disk_seek a r) = hd_command r"
  by (simp_all add: disk_seek_def chs_put_def)

lemma index_seek [simp]: "a < DISK_SIZE \<Longrightarrow> xthdc_index (disk_seek a r) = a"
  and seek_valid [simp]: "a < DISK_SIZE \<Longrightarrow> chs_valid (disk_seek a r)"
proof -
  assume a: "a < DISK_SIZE"
  have c: "a div 512 div 17 div 4 < 615"
    using a by (simp add: DISK_SIZE_value div_mult2_eq [symmetric] less_mult_imp_div_less)
  have d: "a div 512 div 17 mod 4 < 4" "a div 512 mod 17 < 17" "a mod 512 < 512" by simp_all
  show "chs_valid (disk_seek a r)"
    using c d by (simp add: chs_valid_def disk_seek_def chs_put_def disk_const_defs unat_of_nat)
  have "xthdc_index (disk_seek a r) =
      ((a div 512 div 17 div 4 * 4 + a div 512 div 17 mod 4) * 17 + a div 512 mod 17) * 512 + a mod 512"
    using c d by (simp add: xthdc_index_value disk_seek_def chs_put_def unat_of_nat)
  then show "xthdc_index (disk_seek a r) = a" by simp
qed

lemma valid_index: "chs_valid r \<Longrightarrow> xthdc_index r < DISK_SIZE"
  by (simp add: chs_valid_def xthdc_index_value disk_const_defs DISK_SIZE_value)

lemma valid_seek: "chs_valid r \<Longrightarrow> disk_seek (xthdc_index r) r = r"
proof -
  assume "chs_valid r"
  then have b: "unat (hd_head r) < 4" "unat (hd_sector r) < 17" "unat (hd_byte_no r) < 512"
    by (simp_all add: chs_valid_def disk_const_defs)
  define z where "z = unat (hd_cylinder r) * 4 + unat (hd_head r)"
  define y where "y = z * 17 + unat (hd_sector r)"
  have "xthdc_index r = y * 512 + unat (hd_byte_no r)" by (simp only: xthdc_index_value y_def z_def)
  then have 1: "xthdc_index r div 512 = y" "xthdc_index r mod 512 = unat (hd_byte_no r)"
    using b by simp_all
  have 2: "xthdc_index r div 512 div 17 = z" "xthdc_index r div 512 mod 17 = unat (hd_sector r)"
    unfolding 1 y_def using b by simp_all
  have 3: "xthdc_index r div 512 div 17 div 4 = unat (hd_cylinder r)"
    "xthdc_index r div 512 div 17 mod 4 = unat (hd_head r)"
    unfolding 2 z_def using b by simp_all
  show ?thesis
    by (simp add: disk_seek_def chs_put_def 1(2) 2(2) 3)
qed

subsection \<open>The linear disk\<close>

text \<open>The specification: a position and an array of bytes. Reading or writing a byte moves on by
  one, from the last byte to the first.\<close>

type_synonym linear_disk = "nat \<times> (nat \<Rightarrow> u8)"

definition disk_abs :: "xthdc_t \<Rightarrow> linear_disk" where
  "disk_abs r = (xthdc_index r, hd_data r)"

definition linear_read :: "linear_disk \<Rightarrow> u8 \<times> linear_disk" where
  "linear_read = (\<lambda>(i, d). (d i, ((i + 1) mod DISK_SIZE, d)))"

definition linear_write :: "u8 \<Rightarrow> linear_disk \<Rightarrow> linear_disk" where
  "linear_write b = (\<lambda>(i, d). ((i + 1) mod DISK_SIZE, d(i := b)))"

lemma Suc_divmod:
  fixes x k :: nat
  assumes "0 < k"
  shows "Suc x div k = (if Suc (x mod k) < k then x div k else Suc (x div k))"
    and "Suc x mod k = (if Suc (x mod k) < k then Suc (x mod k) else 0)"
  using assms mod_less_divisor [of k x] by (auto simp: div_Suc mod_Suc intro: Suc_lessI)

lemma next_digits:
  fixes a :: nat
  defines "b \<equiv> a mod 512" and "sec \<equiv> a div 512 mod 17" and "h \<equiv> a div 512 div 17 mod 4"
    and "c \<equiv> a div 512 div 17 div 4"
  shows "disk_seek (Suc a) r =
    (if Suc b < 512 then chs_put c h sec (Suc b) r
     else if Suc sec < 17 then chs_put c h (Suc sec) 0 r
     else if Suc h < 4 then chs_put c (Suc h) 0 0 r
     else chs_put (Suc c) 0 0 0 r)"
proof -
  note d = Suc_divmod [of 512 a, OF zero_less_numeral] Suc_divmod [of 17 "a div 512", OF zero_less_numeral]
    Suc_divmod [of 4 "a div 512 div 17", OF zero_less_numeral]
  show ?thesis
    unfolding disk_seek_def b_def sec_def h_def c_def
    by (cases "Suc (a mod 512) < 512"; cases "Suc (a div 512 mod 17) < 17";
        cases "Suc (a div 512 div 17 mod 4) < 4"; simp only: d if_True if_False)
qed

lemma run_next_byte:
  assumes "a < DISK_SIZE"
  shows "run_state (xthdc_next_byte msg) (s\<lparr>xthdc := disk_seek a r\<rparr>) =
    (if Suc a < DISK_SIZE then ((), s\<lparr>xthdc := disk_seek (Suc a) r\<rparr>)
     else ((), s\<lparr>xthdc := disk_seek 0 r, debugger_break := True, panic_msg := Some (msg, [])\<rparr>))"
proof -
  define b where "b = a mod 512"
  define sec where "sec = a div 512 mod 17"
  define h where "h = a div 512 div 17 mod 4"
  define c where "c = a div 512 div 17 div 4"
  have bd: "b < 512" "sec < 17" "h < 4" by (simp_all add: b_def sec_def h_def)
  have c: "c < 615" using assms
    by (simp add: c_def DISK_SIZE_value div_mult2_eq [symmetric] less_mult_imp_div_less)
  have a: "a = ((c * 4 + h) * 17 + sec) * 512 + b" by (simp add: b_def sec_def h_def c_def)
  have w: "unat (of_nat b + 1 :: u16) = Suc b" "unat (of_nat sec + 1 :: u8) = Suc sec"
    "unat (of_nat h + 1 :: u8) = Suc h" "unat (of_nat c + 1 :: u16) = Suc c"
    using bd c by (simp_all add: unat_word_ariths unat_of_nat)
  have l: "Suc a < DISK_SIZE \<longleftrightarrow> Suc b < 512 \<or> Suc sec < 17 \<or> Suc h < 4 \<or> Suc c < 615"
  proof
    assume "Suc a < DISK_SIZE"
    then have "\<not> (511 \<le> b \<and> 16 \<le> sec \<and> 3 \<le> h \<and> 614 \<le> c)"
      unfolding a DISK_SIZE_value by simp
    then show "Suc b < 512 \<or> Suc sec < 17 \<or> Suc h < 4 \<or> Suc c < 615" by linarith
  next
    assume "Suc b < 512 \<or> Suc sec < 17 \<or> Suc h < 4 \<or> Suc c < 615"
    then show "Suc a < DISK_SIZE"
      using bd c unfolding a DISK_SIZE_value by (elim disjE) simp_all
  qed
  have z: "disk_seek 0 r = chs_put 0 0 0 0 r" by (simp add: disk_seek_def)
  have "disk_seek a r = chs_put c h sec b r" by (simp add: disk_seek_def b_def sec_def h_def c_def)
  then show ?thesis
    unfolding l next_digits [of a r, folded b_def sec_def h_def c_def] z
    by (simp add: xthdc_next_byte_def chs_put_def w disk_const_defs)
qed

lemma run_disk_read:
  assumes "a < DISK_SIZE"
  shows "run_state xthdc_image_read_callback (s\<lparr>xthdc := disk_seek a r\<rparr>) = (hd_data r a,
    if Suc a < DISK_SIZE then s\<lparr>xthdc := disk_seek (Suc a) r\<rparr>
    else s\<lparr>xthdc := disk_seek 0 r, debugger_break := True,
       panic_msg := Some (''Overrun during XT HDC read callback!'', [])\<rparr>)"
  using assms
  by (simp add: xthdc_image_read_callback_def xthdc_read_sector_byte_def run_next_byte)

lemma disk_seek_put:
  "(disk_seek a r)\<lparr>hd_data := d\<rparr> = disk_seek a (r\<lparr>hd_data := d\<rparr>)"
  by (simp add: disk_seek_def chs_put_def)

lemma run_disk_write:
  assumes "a < DISK_SIZE"
  shows "run_state (xthdc_image_write_callback b) (s\<lparr>xthdc := disk_seek a r\<rparr>) = ((),
    if Suc a < DISK_SIZE then s\<lparr>xthdc := disk_seek (Suc a) (r\<lparr>hd_data := (hd_data r)(a := b)\<rparr>)\<rparr>
    else s\<lparr>xthdc := disk_seek 0 (r\<lparr>hd_data := (hd_data r)(a := b)\<rparr>), debugger_break := True,
       panic_msg := Some (''Overrun during XT HDC write callback!'', [])\<rparr>)"
  using assms
  by (simp add: xthdc_image_write_callback_def xthdc_write_sector_byte_def disk_seek_put run_next_byte)

lemma valid_cases:
  assumes "chs_valid (xthdc s)"
  obtains a r where "a < DISK_SIZE" "s = s\<lparr>xthdc := disk_seek a r\<rparr>" "xthdc s = disk_seek a r"
  by (metis assms valid_index valid_seek disk_board.surjective disk_board.update_convs(1))

text \<open>C19. The hard disk callbacks refine a linear disk: the cylinder, head, sector and byte
  counters always denote one position, a byte read or written is the one at that position, and
  the position moves on by one; after the last byte of the disk it returns to the first and the
  overrun is reported, and only then. No access leaves the array.\<close>

theorem xthdc_refines_linear_disk:
  assumes "chs_valid (xthdc s)"
  shows "let (byte, t) = run_state xthdc_image_read_callback s;
             u = snd (run_state (xthdc_image_write_callback b) s) in
    (byte, disk_abs (xthdc t)) = linear_read (disk_abs (xthdc s)) \<and>
    disk_abs (xthdc u) = linear_write b (disk_abs (xthdc s)) \<and>
    (\<forall>v \<in> {t, u}. chs_valid (xthdc v) \<and> wild v = wild s \<and>
       (if xthdc_index (xthdc s) + 1 = DISK_SIZE then xthdc_index (xthdc v) = 0 \<and> panic_msg v \<noteq> None
        else panic_msg v = panic_msg s))"
proof -
  from assms obtain a r where a: "a < DISK_SIZE" and s: "s = s\<lparr>xthdc := disk_seek a r\<rparr>"
    and x: "xthdc s = disk_seek a r" by (rule valid_cases)
  have z: "0 < DISK_SIZE" using a by simp
  have "Suc a = DISK_SIZE \<or> Suc a < DISK_SIZE" using a by auto
  then show ?thesis
    using run_disk_read [OF a, where s = s and r = r, folded s]
      run_disk_write [OF a, where b = b and s = s and r = r, folded s]
    by (elim disjE) (simp_all add: x a z disk_abs_def linear_read_def linear_write_def)
qed

text \<open>A machine at power-on, with an empty hard disk.\<close>

definition disk_power_on :: disk_board where
  "disk_power_on = floppy_board.extend floppy_power_on (disk_board.fields xthdc_init_state)"

theorem xthdc_refines_linear_disk_witness:
  "let s = disk_power_on\<lparr>xthdc := xthdc_init_state\<lparr>hd_sector := 16, hd_byte_no := 511\<rparr>\<rparr> in xthdc_index (xthdc s) = 8703 \<and>
      xthdc_index (xthdc (snd (run_state (xthdc_image_write_callback 7) s))) = 8704"
proof -
  define s where "s = disk_power_on\<lparr>xthdc := xthdc_init_state\<lparr>hd_sector := 16, hd_byte_no := 511\<rparr>\<rparr>"
  have v: "chs_valid (xthdc s)" by (simp add: s_def chs_valid_def xthdc_init_state_def disk_const_defs)
  have i: "xthdc_index (xthdc s) = 8703" by (simp add: s_def xthdc_index_value xthdc_init_state_def)
  have "disk_abs (xthdc (snd (run_state (xthdc_image_write_callback 7) s))) =
      linear_write 7 (disk_abs (xthdc s))"
    using xthdc_refines_linear_disk [OF v, of 7] by (simp add: Let_def case_prod_beta)
  then show ?thesis
    unfolding s_def [symmetric] Let_def
    by (simp add: disk_abs_def linear_write_def i DISK_SIZE_value)
qed

subsection \<open>Every access is inside the array\<close>

text \<open>A property of the state that a computation keeps.\<close>

definition keeps :: "('s \<Rightarrow> bool) \<Rightarrow> ('s, 'a) state \<Rightarrow> bool" where
  "keeps P m \<longleftrightarrow> (\<forall>s. P s \<longrightarrow> P (snd (run_state m s)))"

lemma keepsD: "keeps P m \<Longrightarrow> P s \<Longrightarrow> P (snd (run_state m s))"
  by (simp add: keeps_def)

lemma keeps_return: "keeps P (return x)"
  by (simp add: keeps_def)

lemma keeps_bind: "keeps P m \<Longrightarrow> (\<And>x. keeps P (k x)) \<Longrightarrow> keeps P (State_Monad.bind m k)"
  by (simp add: keeps_def case_prod_beta)

lemma keeps_if: "keeps P m \<Longrightarrow> keeps P n \<Longrightarrow> keeps P (if b then m else n)"
  by simp

lemma keeps_getf: "keeps P (getf g)"
  by (simp add: keeps_def)

lemmas keeps_intros = keeps_return keeps_bind keeps_if keeps_getf

lemma keeps_dma_write:
  assumes "keeps P source" and "\<And>a b. keeps P (mem_write a b)"
  shows "keeps P (fe2010_dma_write c source)"
proof -
  have "keeps P (dma_write_loop n a source)" for n a
    by (induction n arbitrary: a) (auto intro: keeps_intros assms)
  then show ?thesis unfolding fe2010_dma_write_def by (intro keeps_intros)
qed

lemma keeps_dma_read:
  assumes "\<And>b. keeps P (sink b)" and "\<And>a. keeps P (mem_read a)"
  shows "keeps P (fe2010_dma_read c sink)"
proof -
  have "keeps P (dma_read_loop n a sink)" for n a
    by (induction n arbitrary: a) (auto intro: keeps_intros assms)
  then show ?thesis unfolding fe2010_dma_read_def by (intro keeps_intros)
qed

definition disk_inside :: "bool \<Rightarrow> 'a disk_board_scheme \<Rightarrow> bool" where
  "disk_inside w s \<longleftrightarrow> chs_valid (xthdc s) \<and> wild s = w"

text \<open>The bytes written to the data port address a sector the disk has.\<close>

definition chs_command :: "xthdc_t \<Rightarrow> bool" where
  "chs_command r \<longleftrightarrow> chs_valid ((xthdc_update_chs r)\<lparr>hd_byte_no := 0\<rparr>)"

lemma inside_callbacks:
  "keeps (disk_inside w :: 'a disk_board_scheme \<Rightarrow> bool) xthdc_image_read_callback"
  "keeps (disk_inside w :: 'a disk_board_scheme \<Rightarrow> bool) (xthdc_image_write_callback b)"
proof -
  have "disk_inside w (snd (run_state xthdc_image_read_callback s)) \<and>
      disk_inside w (snd (run_state (xthdc_image_write_callback b) s))" if "disk_inside w s"
    for s :: "'a disk_board_scheme"
  proof -
    from that have v: "chs_valid (xthdc s)" and w: "wild s = w" unfolding disk_inside_def by blast+
    from v obtain a r where a: "a < DISK_SIZE" and s: "s = s\<lparr>xthdc := disk_seek a r\<rparr>"
      and "xthdc s = disk_seek a r" by (rule valid_cases)
    have "0 < DISK_SIZE" using a by simp
    then show ?thesis
      using run_disk_read [OF a, where s = s and r = r, folded s]
        run_disk_write [OF a, where b = b and s = s and r = r, folded s]
      by (simp add: disk_inside_def w)
  qed
  then show "keeps (disk_inside w :: 'a disk_board_scheme \<Rightarrow> bool) xthdc_image_read_callback"
    "keeps (disk_inside w :: 'a disk_board_scheme \<Rightarrow> bool) (xthdc_image_write_callback b)"
    by (simp_all add: keeps_def)
qed

lemma inside_memory: "keeps (disk_inside w) (mem_write a b)" "keeps (disk_inside w) (mem_read a)"
  by (auto simp: keeps_def disk_inside_def mem_write_def mem_read_def)

lemmas inside_dma = keeps_dma_write [OF inside_callbacks(1) inside_memory(1)]
  keeps_dma_read [OF inside_callbacks(2) inside_memory(2)]

lemma complete_wild [simp]:
  "wild (snd (run_state xthdc_complete s)) = wild s"
  by (simp add: xthdc_complete_def xthdc_raise_irq_def xthdc_status_set_def xthdc_state_set_def
      case_prod_beta run_fe2010_irq i8088_irq_def run_interrupt Let_def)

lemma run_xthdc_bits [simp]:
  "run_state (xthdc_status_set n) s = ((), s\<lparr>xthdc := (xthdc s)\<lparr>hd_status := set_flag8 n (hd_status (xthdc s))\<rparr>\<rparr>)"
  "run_state (xthdc_status_clear n) s = ((), s\<lparr>xthdc := (xthdc s)\<lparr>hd_status := clear_flag8 n (hd_status (xthdc s))\<rparr>\<rparr>)"
  "run_state (xthdc_state_set st) s = ((), s\<lparr>xthdc := (xthdc s)\<lparr>hd_state := st\<rparr>\<rparr>)"
  "run_state (xthdc_set_command_status c) s = ((), s\<lparr>xthdc := (xthdc s)\<lparr>hd_command_status := c\<rparr>\<rparr>)"
  by (simp_all add: xthdc_status_set_def xthdc_status_clear_def xthdc_state_set_def xthdc_set_command_status_def)

lemma update_chs_more [simp]:
  "hd_mask (xthdc_update_chs r) = hd_mask r" "hd_data (xthdc_update_chs r) = hd_data r"
  "hd_status (xthdc_update_chs r) = hd_status r" "hd_state (xthdc_update_chs r) = hd_state r"
  "hd_command_status (xthdc_update_chs r) = hd_command_status r"
  by (simp_all add: xthdc_update_chs_def Let_def)

text \<open>The controller when a transfer starts.\<close>

definition xthdc_addressed :: "xthdc_t \<Rightarrow> xthdc_t" where
  "xthdc_addressed r = (xthdc_update_chs r)\<lparr>hd_byte_no := 0\<rparr>"

lemma run_start_transfer:
  "run_state xthdc_start_transfer s =
    (bit (hd_mask (xthdc s)) 0, s\<lparr>xthdc := xthdc_addressed (xthdc s)\<rparr>)"
  by (simp add: xthdc_start_transfer_def xthdc_addressed_def xthdc_bit_defs bit_iff_odd
      and_one_eq odd_iff_mod_2_eq_one)

lemma wild_stays:
  "keeps (wild :: 'a disk_board_scheme \<Rightarrow> bool) xthdc_image_read_callback"
  "keeps (wild :: 'a disk_board_scheme \<Rightarrow> bool) (mem_write a b)"
  by (auto simp: keeps_def mem_write_def xthdc_image_read_callback_def xthdc_read_sector_byte_def
      xthdc_next_byte_def case_prod_beta)

lemma escaping_read:
  fixes s :: "'a disk_board_scheme"
  assumes "DISK_SIZE \<le> xthdc_index (xthdc s)" and "drop_bit 2 (dma_mode (fe2010 s) c) AND 3 = DMA_MODE_WRITE"
  shows "wild (snd (run_state (fe2010_dma_write c xthdc_image_read_callback) s))"
proof -
  define u where "u = snd (run_state xthdc_image_read_callback s)"
  have u: "wild u"
    using assms(1) by (simp add: u_def xthdc_image_read_callback_def xthdc_read_sector_byte_def
        xthdc_next_byte_def case_prod_beta)
  have loop: "keeps (wild :: 'a disk_board_scheme \<Rightarrow> bool) (dma_write_loop n a xthdc_image_read_callback)" for n a
    by (induction n arbitrary: a) (auto intro: keeps_intros wild_stays)
  show ?thesis
    using keepsD [OF loop] keepsD [OF wild_stays(2) u] assms(2)
    by (simp add: fe2010_dma_write_def case_prod_beta u_def)
qed

text \<open>C20. Array bounds: when the command bytes name a cylinder, head and sector the disk has,
  carrying out any command touches only the disk's array, whatever count and address the DMA
  channel is programmed with. The controller does not check the command bytes: a READ whose
  position lies past the end of the array does leave it.\<close>

theorem xthdc_access_bounds:
  assumes "hd_state (xthdc s) = XTHDC_STATE_COMMAND_PARAM_5"
  shows "let t = snd (run_state (xthdc_data_write p v) s); r = xthdc_addressed (xthdc s) in
    (chs_valid r \<longrightarrow> wild t = wild s) \<and>
    (hd_command (xthdc s) 0 = XTHDC_CMD_READ \<and> bit (hd_mask (xthdc s)) 0 \<and>
     drop_bit 2 (dma_mode (fe2010 s) FE2010_DMA_HARD_DISK) AND 3 = DMA_MODE_WRITE \<and>
     DISK_SIZE \<le> xthdc_index r \<longrightarrow> wild t)"
proof -
  define u where "u = s\<lparr>xthdc := (xthdc s)\<lparr>hd_command := (hd_command (xthdc s))(5 := v)\<rparr>\<rparr>"
  define w where "w = u\<lparr>xthdc := xthdc_addressed (xthdc u)\<rparr>"
  have t: "run_state (xthdc_data_write p v) s = run_state xthdc_execute u"
    using assms by (simp add: xthdc_data_write_def u_def)
  have a: "xthdc_index (xthdc w) = xthdc_index (xthdc_addressed (xthdc s))"
    "chs_valid (xthdc w) = chs_valid (xthdc_addressed (xthdc s))" "fe2010 w = fe2010 s" "wild w = wild s"
    by (simp_all add: w_def u_def xthdc_addressed_def xthdc_update_chs_def xthdc_index_value chs_valid_def)
  have "wild (snd (run_state (fe2010_dma_write FE2010_DMA_HARD_DISK xthdc_image_read_callback) w)) = wild s \<and>
      wild (snd (run_state (fe2010_dma_read FE2010_DMA_HARD_DISK xthdc_image_write_callback) w)) = wild s"
    if "chs_valid (xthdc_addressed (xthdc s))"
    using keepsD [OF inside_dma(1), of "wild s" w] keepsD [OF inside_dma(2), of "wild s" w] that a
    by (simp add: disk_inside_def)
  then have "chs_valid (xthdc_addressed (xthdc s)) \<Longrightarrow> wild (snd (run_state xthdc_execute u)) = wild s"
    by (simp add: xthdc_execute_def run_start_transfer w_def case_prod_beta)
      (simp add: u_def)
  moreover have "wild (snd (run_state xthdc_execute u))"
    if "hd_command (xthdc s) 0 = XTHDC_CMD_READ" "bit (hd_mask (xthdc s)) 0"
      "drop_bit 2 (dma_mode (fe2010 s) FE2010_DMA_HARD_DISK) AND 3 = DMA_MODE_WRITE"
      "DISK_SIZE \<le> xthdc_index (xthdc_addressed (xthdc s))"
    using escaping_read [of w FE2010_DMA_HARD_DISK] that a
    by (simp add: xthdc_execute_def run_start_transfer w_def u_def case_prod_beta)
  ultimately show ?thesis by (simp add: t Let_def)
qed

theorem xthdc_access_bounds_witness:
  "let s = disk_power_on\<lparr>xthdc := xthdc_init_state\<lparr>hd_state := XTHDC_STATE_COMMAND_PARAM_5,
     hd_command := (\<lambda>_. 0)(0 := XTHDC_CMD_READ), hd_mask := 1\<rparr>\<rparr>
   in wild (snd (run_state (xthdc_data_write XTHDC_DATA 0) s)) = False"
proof -
  define s where "s = disk_power_on\<lparr>xthdc := xthdc_init_state\<lparr>hd_state := XTHDC_STATE_COMMAND_PARAM_5,
     hd_command := (\<lambda>_. 0)(0 := XTHDC_CMD_READ), hd_mask := 1\<rparr>\<rparr>"
  have "hd_state (xthdc s) = XTHDC_STATE_COMMAND_PARAM_5" by (simp add: s_def)
  moreover have "chs_valid (xthdc_addressed (xthdc s))"
    by (simp add: s_def xthdc_addressed_def xthdc_update_chs_def chs_valid_def disk_const_defs)
  moreover have "wild s = False"
    by (simp add: s_def disk_power_on_def floppy_board.defs disk_board.defs floppy_power_on_def)
  ultimately show ?thesis
    unfolding s_def [symmetric] Let_def using xthdc_access_bounds [of s XTHDC_DATA 0, unfolded Let_def] by blast
qed

subsection \<open>The READ command\<close>

lemma next_byte_mem:
  "run_state (xthdc_next_byte msg) (s\<lparr>mem := mm\<rparr>) =
    ((), (snd (run_state (xthdc_next_byte msg) s))\<lparr>mem := mm\<rparr>)"
  by (cases "DISK_SECTOR_SIZE \<le> unat (hd_byte_no (xthdc s) + 1)";
      cases "DISK_SECTORS \<le> unat (hd_sector (xthdc s) + 1)";
      cases "DISK_HEADS \<le> unat (hd_head (xthdc s) + 1)";
      cases "DISK_CYLINDERS \<le> unat (hd_cylinder (xthdc s) + 1)"; simp add: xthdc_next_byte_def)

lemma next_byte_mem_wild:
  "run_state (xthdc_next_byte msg) (s\<lparr>mem := mm, wild := True\<rparr>) =
    ((), (snd (run_state (xthdc_next_byte msg) (s\<lparr>wild := True\<rparr>)))\<lparr>mem := mm\<rparr>)"
proof -
  have "s\<lparr>mem := mm, wild := True\<rparr> = s\<lparr>wild := True, mem := mm\<rparr>" by simp
  then show ?thesis by (simp only: next_byte_mem)
qed

lemma next_byte_keeps_mem [simp]: "mem (snd (run_state (xthdc_next_byte msg) s)) = mem s"
  using arg_cong [OF next_byte_mem [where s = s and mm = "mem s"], of "\<lambda>x. mem (snd x)"] by simp

interpretation xthdc_source: dma_source xthdc_image_read_callback
  by unfold_locales (simp add: xthdc_image_read_callback_def xthdc_read_sector_byte_def next_byte_mem
      next_byte_mem_wild case_prod_beta)

interpretation xthdc_sink: dma_sink xthdc_image_write_callback
  by unfold_locales (simp add: xthdc_image_write_callback_def xthdc_write_sector_byte_def)

lemma run_disk_reads:
  "a + n < DISK_SIZE \<Longrightarrow> run_state (replicate_m n xthdc_image_read_callback) (s\<lparr>xthdc := disk_seek a r\<rparr>) =
    (map (hd_data r) [a..<a + n], s\<lparr>xthdc := disk_seek (a + n) r\<rparr>)"
proof (induction n arbitrary: a)
  case 0
  then show ?case by simp
next
  case (Suc n)
  then have a: "a < DISK_SIZE" "Suc a < DISK_SIZE" "Suc a + n < DISK_SIZE" by simp_all
  show ?case
    using Suc.IH [OF a(3)] by (simp add: run_disk_read [OF a(1)] a(2) upt_conv_Cons del: upt_Suc)
qed

text \<open>The position the bytes of a command name, and the transfer of \<open>k\<close> bytes from there that the
  DMA channel is programmed for.\<close>

definition chs_position :: "u8 \<Rightarrow> u8 \<Rightarrow> u8 \<Rightarrow> nat" where
  "chs_position c1 c2 c3 = (((unat (drop_bit 6 c2) * 256 + unat c3) * 4 + unat (c1 AND 0x1F)) * 17
     + unat (c2 AND 0x3F)) * 512"

definition disk_transfer_ok :: "u8 \<Rightarrow> u8 \<Rightarrow> u8 \<Rightarrow> nat \<Rightarrow> 'a disk_board_scheme \<Rightarrow> bool" where
  "disk_transfer_ok c1 c2 c3 k s \<longleftrightarrow>
     unat (drop_bit 6 c2) * 256 + unat c3 < DISK_CYLINDERS \<and> unat (c1 AND 0x1F) < DISK_HEADS \<and>
     unat (c2 AND 0x3F) < DISK_SECTORS \<and> chs_position c1 c2 c3 + k < DISK_SIZE \<and>
     drop_bit 2 (dma_mode (fe2010 s) FE2010_DMA_HARD_DISK) AND 3 = DMA_MODE_WRITE \<and>
     k = unat (dma_count FE2010_DMA_HARD_DISK (fe2010 s)) + 1 \<and>
     unat (dma_address FE2010_DMA_HARD_DISK (fe2010 s)) + k \<le> 0x100000"

lemma addressed_position:
  assumes "hd_command r 1 = c1" "hd_command r 2 = c2" "hd_command r 3 = c3"
    and "unat (drop_bit 6 c2) * 256 + unat c3 < DISK_CYLINDERS" "unat (c1 AND 0x1F) < DISK_HEADS"
    "unat (c2 AND 0x3F) < DISK_SECTORS"
  shows "xthdc_addressed r = disk_seek (chs_position c1 c2 c3) (xthdc_addressed r)"
proof -
  have u16: "unat (ucast x :: u16) = unat x" for x :: u8
    by (simp add: unsigned_ucast_eq take_bit_nat_eq_self order_less_le_trans [OF unat_u8])
  have c: "unat (hd_cylinder (xthdc_addressed r)) = unat (drop_bit 6 c2) * 256 + unat c3"
    using assms(2-4) by (simp add: xthdc_addressed_def xthdc_update_chs_def unat_word_ariths u16 disk_const_defs)
  have v: "chs_valid (xthdc_addressed r)"
    using assms c by (simp add: chs_valid_def)
      (simp add: xthdc_addressed_def xthdc_update_chs_def disk_const_defs)
  have "xthdc_index (xthdc_addressed r) = chs_position c1 c2 c3"
    unfolding xthdc_index_value c using assms
    by (simp add: chs_position_def xthdc_addressed_def xthdc_update_chs_def)
  then show ?thesis using valid_seek [OF v] by simp
qed

lemma run_read_to_memory:
  assumes "disk_transfer_ok c1 c2 c3 k s" and "xthdc s = disk_seek (chs_position c1 c2 c3) r"
  shows "run_state (fe2010_dma_write FE2010_DMA_HARD_DISK xthdc_image_read_callback) s =
    ((), s\<lparr>mem := put_bytes mem_put (mem s) (dma_address FE2010_DMA_HARD_DISK (fe2010 s))
        (map (hd_data r) [chs_position c1 c2 c3..<chs_position c1 c2 c3 + k]),
      xthdc := disk_seek (chs_position c1 c2 c3 + k) r\<rparr>)"
proof -
  have s: "s = s\<lparr>xthdc := disk_seek (chs_position c1 c2 c3) r\<rparr>" using assms(2) by simp
  have k: "unat (dma_count FE2010_DMA_HARD_DISK (fe2010 s)) + 1 = k"
    "chs_position c1 c2 c3 + k < DISK_SIZE"
    "drop_bit 2 (dma_mode (fe2010 s) FE2010_DMA_HARD_DISK) AND 3 = DMA_MODE_WRITE"
    "unat (dma_address FE2010_DMA_HARD_DISK (fe2010 s)) + unat (dma_count FE2010_DMA_HARD_DISK (fe2010 s)) < 0x100000"
    using assms(1) by (simp_all add: disk_transfer_ok_def)
  show ?thesis
    using xthdc_source.write_transfer [OF k(3,4)]
      run_disk_reads [OF k(2), where s = s and r = r, folded s] unfolding k(1) by simp
qed

lemma irq_apart_xthdc:
  "run_state (fe2010_irq n) (s\<lparr>xthdc := x\<rparr>) = ((), (snd (run_state (fe2010_irq n) s))\<lparr>xthdc := x\<rparr>)"
  "xthdc (snd (run_state (fe2010_irq n) s)) = xthdc s" "wild (snd (run_state (fe2010_irq n) s)) = wild s"
  by (simp_all add: run_fe2010_irq i8088_irq_def run_interrupt Let_def)

text \<open>The interrupt request at the end of a command, as a function of the machine.\<close>

definition disk_interrupt :: "u8 \<Rightarrow> 'a disk_board_scheme \<Rightarrow> 'a disk_board_scheme" where
  "disk_interrupt m s = (if bit m 1 then snd (run_state (fe2010_irq FE2010_IRQ_HARD_DISK) s) else s)"

lemma run_complete:
  "snd (run_state xthdc_complete s) = (disk_interrupt (hd_mask (xthdc s)) s)
    \<lparr>xthdc := (xthdc s)\<lparr>hd_state := XTHDC_STATE_STATUS,
       hd_status := (if bit (hd_mask (xthdc s)) 1 then hd_status (xthdc s) OR 0x22 else hd_status (xthdc s) OR 2)\<rparr>\<rparr>"
proof -
  have "bit m 1 \<longleftrightarrow> odd (drop_bit 1 m)" for m :: u8 by (simp add: bit_iff_odd_drop_bit)
  moreover have "set_flag8 1 (set_flag8 5 w) = w OR 0x22" "set_flag8 1 w = w OR 2" for w
    by (simp_all add: set_flag8_def or.assoc)
  ultimately show ?thesis
    by (simp add: xthdc_complete_def xthdc_raise_irq_def disk_interrupt_def xthdc_bit_defs
        irq_apart_xthdc and_one_eq odd_iff_mod_2_eq_one case_prod_beta)
qed

lemma run_command_bytes:
  assumes "hd_state (xthdc s) = XTHDC_STATE_COMMAND"
    and "bytes = (hd_command (xthdc s))(0 := c0, 1 := c1, 2 := c2, 3 := c3, 4 := c4, 5 := c5)"
  shows "run_state (for_each [c0, c1, c2, c3, c4, c5] (xthdc_data_write p)) s = run_state xthdc_execute
    (s\<lparr>xthdc := (xthdc s)\<lparr>hd_state := XTHDC_STATE_COMMAND_PARAM_5, hd_command := bytes\<rparr>\<rparr>)"
  using assms(1) unfolding assms(2)
  by (simp add: xthdc_data_write_def xthdc_store_command_def case_prod_beta prod_eq_iff)

lemma index_apart [simp]:
  "xthdc_index (r\<lparr>hd_state := x, hd_status := y\<rparr>) = xthdc_index r"
  by (simp add: xthdc_index_def xthdc_lba_def)

lemma disk_interrupt_apart:
  "disk_interrupt m (s\<lparr>xthdc := x\<rparr>) = (disk_interrupt m s)\<lparr>xthdc := x\<rparr>"
  "wild (disk_interrupt m s) = wild s"
  by (simp_all add: disk_interrupt_def irq_apart_xthdc)

text \<open>C21. The READ command of the hard disk by DMA: the six command bytes transfer as many bytes
  as the DMA channel asks for, from the named cylinder, head and sector on and across sector,
  head and cylinder boundaries, to memory; then the interrupt is raised if the mask allows it,
  and one read of the data port gives the status byte (the one the last command that sets it has
  left: READ itself does not) and leaves the controller idle with its bus bits clear.\<close>

theorem xthdc_read_command:
  assumes "hd_state (xthdc s) = XTHDC_STATE_COMMAND" and "bit (hd_mask (xthdc s)) 0"
    and "disk_transfer_ok c1 c2 c3 k s"
  shows "let pos = chs_position c1 c2 c3;
      t = snd (run_state (for_each [XTHDC_CMD_READ, c1, c2, c3, c4, c5] (xthdc_data_write p)) s);
      (st, u) = run_state (xthdc_data_read p) t in
    mem t = mem (disk_interrupt (hd_mask (xthdc s)) (s\<lparr>mem := put_bytes mem_put (mem s)
      (dma_address FE2010_DMA_HARD_DISK (fe2010 s)) (map (hd_data (xthdc s)) [pos..<pos + k])\<rparr>)) \<and>
    xthdc_index (xthdc t) = pos + k \<and> wild t = wild s \<and> st = hd_command_status (xthdc s) \<and>
    hd_state (xthdc u) = XTHDC_STATE_IDLE \<and> hd_status (xthdc u) AND 0xF = 0"
proof -
  define pos where "pos = chs_position c1 c2 c3"
  define bytes where cmd_def: "bytes = (hd_command (xthdc s))(0 := XTHDC_CMD_READ, 1 := c1, 2 := c2, 3 := c3, 4 := c4, 5 := c5)"
  define r where "r = xthdc_addressed ((xthdc s)\<lparr>hd_state := XTHDC_STATE_COMMAND_PARAM_5, hd_command := bytes\<rparr>)"
  define v where "v = s\<lparr>xthdc := r\<rparr>"
  define q where "q = s\<lparr>mem := put_bytes mem_put (mem s)
      (dma_address FE2010_DMA_HARD_DISK (fe2010 s)) (map (hd_data (xthdc s)) [pos..<pos + k])\<rparr>"
  define t where "t = snd (run_state (for_each [XTHDC_CMD_READ, c1, c2, c3, c4, c5] (xthdc_data_write p)) s)"
  have c0: "bytes 0 = XTHDC_CMD_READ" by (simp add: cmd_def)
  have r: "hd_mask r = hd_mask (xthdc s)" "hd_data r = hd_data (xthdc s)"
    "hd_command_status r = hd_command_status (xthdc s)"
    by (simp_all add: r_def xthdc_addressed_def)
  have ok: "disk_transfer_ok c1 c2 c3 k v" using assms(3) by (simp add: v_def disk_transfer_ok_def)
  have x: "xthdc v = disk_seek (chs_position c1 c2 c3) r"
    using assms(3) addressed_position [where r = "(xthdc s)\<lparr>hd_state := XTHDC_STATE_COMMAND_PARAM_5, hd_command := bytes\<rparr>"]
    by (simp add: v_def r_def cmd_def disk_transfer_ok_def)
  have "t = snd (run_state xthdc_complete (q\<lparr>xthdc := disk_seek (pos + k) r\<rparr>))"
    unfolding t_def run_command_bytes [OF assms(1) cmd_def]
    using run_read_to_memory [OF ok x] assms(2) c0
    by (simp add: xthdc_execute_def run_start_transfer r_def [symmetric] v_def case_prod_beta q_def r pos_def)
  then have t: "t = (disk_interrupt (hd_mask (xthdc s)) q)
    \<lparr>xthdc := (disk_seek (pos + k) r)\<lparr>hd_state := XTHDC_STATE_STATUS,
       hd_status := (if bit (hd_mask (xthdc s)) 1 then hd_status r OR 0x22 else hd_status r OR 2)\<rparr>\<rparr>"
    by (simp add: run_complete disk_interrupt_apart r)
  have "clear_flag8 1 (clear_flag8 2 (clear_flag8 3 (clear_flag8 0 w))) AND 0xF = 0" for w
    by (rule byte_eqI) (auto simp: clear_flag8_def bit_simps)
  moreover have "pos + k < DISK_SIZE" "wild q = wild s"
    using assms(3) by (simp_all add: pos_def q_def disk_transfer_ok_def)
  ultimately show ?thesis
    unfolding Let_def t_def [symmetric] pos_def [symmetric] q_def [symmetric]
    by (simp add: t xthdc_data_read_def xthdc_bit_defs r disk_interrupt_apart case_prod_beta)
qed

text \<open>A disk whose byte \<open>i\<close> is \<open>i\<close> modulo 256, and the DMA channel set up for 1024 bytes to 0x3000.\<close>

definition demo_hard_disk :: disk_board where
  "demo_hard_disk = disk_power_on\<lparr>
     fe2010 := fe2010_init_state\<lparr>dma_reg := (dma_reg fe2010_init_state)(6 := 0x3000, 7 := 1023),
       dma_mode := (dma_mode fe2010_init_state)(3 := 0x47)\<rparr>,
     xthdc := xthdc_init_state\<lparr>hd_state := XTHDC_STATE_COMMAND, hd_status := 0xD, hd_mask := 1,
       hd_data := of_nat\<rparr>\<rparr>"

theorem xthdc_read_command_witness:
  "let t = snd (run_state (for_each [0x08, 1, 0x10, 2, 2, 5] (xthdc_data_write XTHDC_DATA)) demo_hard_disk)
   in xthdc_index (xthdc t) = ((2 * 4 + 1) * 17 + 16) * 512 + 1024 \<and>
      fst (run_state (xthdc_data_read XTHDC_DATA) t) = 0"
proof -
  define t where "t = snd (run_state (for_each [0x08, 1, 0x10, 2, 2, 5] (xthdc_data_write XTHDC_DATA)) demo_hard_disk)"
  have "hd_state (xthdc demo_hard_disk) = XTHDC_STATE_COMMAND" "bit (hd_mask (xthdc demo_hard_disk)) 0"
    by (simp_all add: demo_hard_disk_def)
  moreover have "disk_transfer_ok 1 0x10 2 1024 demo_hard_disk"
    by (simp add: disk_transfer_ok_def demo_hard_disk_def disk_const_defs chs_position_def DISK_SIZE_value
        dma_address_def dma_count_def FE2010_DMA_HARD_DISK_def DMA_MODE_WRITE_def fe2010_init_state_def)
  ultimately have "xthdc_index (xthdc t) = chs_position 1 0x10 2 + 1024 \<and>
      fst (run_state (xthdc_data_read XTHDC_DATA) t) = hd_command_status (xthdc demo_hard_disk)"
    using xthdc_read_command [of demo_hard_disk 1 "0x10" 2 1024 2 5 XTHDC_DATA]
    unfolding Let_def XTHDC_CMD_READ_def t_def case_prod_beta by blast
  then show ?thesis
    unfolding Let_def t_def [symmetric]
    by (simp add: chs_position_def demo_hard_disk_def xthdc_init_state_def)
qed

end
