(* ===== verification/Xthdc_Protocol.thy ===== *)
theory Xthdc_Protocol
  imports Xthdc_Disk
begin

unbundle bit_operations_syntax

text \<open>
  The hard disk controller as a state machine: what its status register and counters are in every
  state it can reach, how every command ends, and the image files.
\<close>

subsection \<open>The status register\<close>

text \<open>The values of the status register in each state: the bus bits REQ (1), IO (2), CD (4) and
  XBSY (8), each with and without the pending interrupt (0x20).\<close>

fun hd_status_values :: "xthdc_state_t \<Rightarrow> u8 list" where
  "hd_status_values XTHDC_STATE_IDLE = [0, 0x20, 0x0D, 0x2D, 0x0B, 0x2B, 0x0F, 0x2F]"
| "hd_status_values XTHDC_STATE_READ_SECTOR = [0x0B, 0x2B]"
| "hd_status_values XTHDC_STATE_STATUS = [0x0B, 0x2B, 0x0F, 0x2F]"
| "hd_status_values _ = [0x0D, 0x2D]"

definition xthdc_inv :: "xthdc_t \<Rightarrow> bool" where
  "xthdc_inv r \<longleftrightarrow> hd_status r \<in> set (hd_status_values (hd_state r)) \<and> hd_config r = 0xFF \<and>
     (hd_state r = XTHDC_STATE_INITIALIZE_DRIVE \<longrightarrow> unat (hd_byte_no r) < 8) \<and>
     (hd_state r = XTHDC_STATE_READ_SECTOR \<longrightarrow> unat (hd_byte_no r) < 512)"

text \<open>The registers a transfer does not touch.\<close>

definition hd_control :: "'a disk_board_scheme \<Rightarrow> xthdc_state_t \<times> u8 \<times> u8 \<times> u8" where
  "hd_control s = (hd_state (xthdc s), hd_status (xthdc s), hd_mask (xthdc s), hd_config (xthdc s))"

lemma control_next_byte [frame_intros]: "preserves hd_control (xthdc_next_byte msg)"
  unfolding xthdc_next_byte_def by (intro frame_intros) (simp_all add: preserves_def hd_control_def)

lemma control_data [frame_intros]: "preserves hd_control (modx (\<lambda>r. r\<lparr>hd_data := f r\<rparr>))"
  by (simp add: preserves_def hd_control_def)

lemma control_parts [frame_intros]:
  "preserves hd_control (fe2010_irq n)" "preserves hd_control (mem_write a b)"
  "preserves hd_control (mem_read a)" "preserves hd_control (getf g)" "preserves hd_control (getx h)"
  "preserves hd_control undefined_access" "preserves hd_control (panic msg args)"
  by (auto simp: preserves_def hd_control_def irq_apart_xthdc run_mem_read mem_write_def)

lemma control_callbacks [frame_intros]:
  "preserves hd_control xthdc_image_read_callback" "preserves hd_control (xthdc_image_write_callback b)"
  unfolding xthdc_image_read_callback_def xthdc_image_write_callback_def xthdc_read_sector_byte_def
    xthdc_write_sector_byte_def
  by (intro frame_intros)+

lemma control_dma:
  "hd_control (snd (run_state (fe2010_dma_write c xthdc_image_read_callback) s)) = hd_control s"
  "hd_control (snd (run_state (fe2010_dma_read c xthdc_image_write_callback) s)) = hd_control s"
  by (rule preservesD, intro dma_preserves frame_intros)+

lemmas control_dma_fields [simp] = control_dma [unfolded hd_control_def prod.inject]

lemma byte_no_steps:
  "unat n < 8 \<Longrightarrow> unat (n + 1) = Suc (unat n)" "unat n < 512 \<Longrightarrow> unat (n + 1) = Suc (unat n)" for n :: u16
  by (simp_all add: unat_word_ariths)

lemma xthdc_inv_complete:
  assumes "hd_status (xthdc s) \<in> {0x0D, 0x2D}" and "hd_config (xthdc s) = 0xFF"
  shows "xthdc_inv (xthdc (snd (run_state xthdc_complete s)))"
    and "hd_state (xthdc (snd (run_state xthdc_complete s))) = XTHDC_STATE_STATUS"
  using assms by (auto simp: run_complete xthdc_inv_def)

lemma irq_fields [simp]:
  "xthdc (snd (run_state (fe2010_irq n) s)) = xthdc s"
  by (rule irq_apart_xthdc)

lemma inv_data_read: "xthdc_inv (xthdc s) \<Longrightarrow> xthdc_inv (xthdc (snd (run_state (xthdc_data_read p) s)))"
  by (cases "hd_state (xthdc s)")
    (auto simp: xthdc_data_read_def xthdc_inv_def xthdc_read_sector_byte_def xthdc_raise_irq_def xthdc_bit_defs
      set_flag8_def clear_flag8_def disk_const_defs byte_no_steps case_prod_beta)

lemma update_chs_config [simp]: "hd_config (xthdc_update_chs r) = hd_config r"
  by (simp add: xthdc_update_chs_def Let_def)

lemma inv_execute:
  assumes "xthdc_inv (xthdc s)" "hd_state (xthdc s) = XTHDC_STATE_COMMAND_PARAM_5"
  shows "xthdc_inv (xthdc (snd (run_state xthdc_execute s)))"
proof -
  have st: "hd_status (xthdc s) \<in> {0x0D, 0x2D}" and cf: "hd_config (xthdc s) = 0xFF"
    using assms by (simp_all add: xthdc_inv_def)
  have pio: "xthdc_inv (r\<lparr>hd_byte_no := 0, hd_status := set_flag8 1 (clear_flag8 2 (hd_status (xthdc s))),
       hd_state := XTHDC_STATE_READ_SECTOR\<rparr>)"
    "xthdc_inv (r\<lparr>hd_byte_no := 0, hd_status := set_flag8 1 (hd_status (xthdc s)), hd_state := XTHDC_STATE_STATUS\<rparr>)"
    if "hd_config r = 0xFF" for r
    using st that by (auto simp: xthdc_inv_def set_flag8_def clear_flag8_def)
  have init: "xthdc_inv ((xthdc s)\<lparr>hd_byte_no := 0, hd_state := XTHDC_STATE_INITIALIZE_DRIVE\<rparr>)"
    using st cf by (auto simp: xthdc_inv_def)
  let ?c = "hd_command (xthdc s) 0"
  consider "?c = XTHDC_CMD_READ" | "?c = XTHDC_CMD_WRITE" | "?c = XTHDC_CMD_READY_VERIFY"
    | "?c = XTHDC_CMD_INITIALIZE_DRIVE" | "?c = XTHDC_CMD_RECALIBRATE" | "?c = XTHDC_CMD_REQUEST_SENSE"
    | "?c \<notin> {XTHDC_CMD_READ, XTHDC_CMD_WRITE, XTHDC_CMD_READY_VERIFY, XTHDC_CMD_INITIALIZE_DRIVE,
        XTHDC_CMD_RECALIBRATE, XTHDC_CMD_REQUEST_SENSE}"
    by auto
  then show ?thesis
    using st cf
    by cases (simp_all add: xthdc_execute_def run_start_transfer xthdc_addressed_def case_prod_beta
        xthdc_bit_defs xthdc_cmd_defs pio [simplified] init xthdc_inv_complete)
qed

lemma inv_data_write:
  assumes "xthdc_inv (xthdc s)"
  shows "xthdc_inv (xthdc (snd (run_state (xthdc_data_write p v) s)))"
proof (cases "hd_state (xthdc s)")
  case XTHDC_STATE_COMMAND_PARAM_5
  define u where "u = s\<lparr>xthdc := (xthdc s)\<lparr>hd_command := (hd_command (xthdc s))(5 := v)\<rparr>\<rparr>"
  have "xthdc_inv (xthdc u)" "hd_state (xthdc u) = XTHDC_STATE_COMMAND_PARAM_5"
    using assms XTHDC_STATE_COMMAND_PARAM_5 by (simp_all add: u_def xthdc_inv_def)
  from inv_execute [OF this] show ?thesis
    using XTHDC_STATE_COMMAND_PARAM_5 by (simp add: xthdc_data_write_def u_def)
next
  case XTHDC_STATE_INITIALIZE_DRIVE
  then have "hd_status (xthdc s) = 0x0D \<or> hd_status (xthdc s) = 0x2D" "hd_config (xthdc s) = 0xFF"
    "unat (hd_byte_no (xthdc s)) < 8"
    using assms by (auto simp: xthdc_inv_def)
  then show ?thesis
    using XTHDC_STATE_INITIALIZE_DRIVE
    by (simp add: xthdc_data_write_def case_prod_beta xthdc_inv_complete word_le_nat_alt byte_no_steps)
      (simp add: xthdc_inv_def byte_no_steps)
qed (use assms in \<open>simp_all add: xthdc_data_write_def xthdc_store_command_def xthdc_inv_def\<close>)

text \<open>What can happen to the controller: accesses to its ports in any order, a change of the image,
  and anything the rest of the machine does.\<close>

inductive xthdc_step :: "'a disk_board_scheme \<Rightarrow> 'a disk_board_scheme \<Rightarrow> bool" where
  data_read: "xthdc_step s (snd (run_state (xthdc_data_read p) s))"
| data_write: "xthdc_step s (snd (run_state (xthdc_data_write p v) s))"
| reset_write: "xthdc_step s (snd (run_state (xthdc_reset_write p v) s))"
| status_read: "xthdc_step s (snd (run_state (xthdc_status_read p) s))"
| drive_sel_write: "xthdc_step s (snd (run_state (xthdc_drive_sel_write p v) s))"
| drive_cfg_read: "xthdc_step s (snd (run_state (xthdc_drive_cfg_read p) s))"
| mask_write: "xthdc_step s (snd (run_state (xthdc_mask_write p v) s))"
| image: "xthdc t = (xthdc s)\<lparr>hd_loaded := l, hd_filename := f, hd_data := d\<rparr> \<Longrightarrow> xthdc_step s t"
| other: "xthdc t = xthdc s \<Longrightarrow> xthdc_step s t"

lemma inv_reset_write: "xthdc_inv (xthdc s) \<Longrightarrow> xthdc_inv (xthdc (snd (run_state (xthdc_reset_write p v) s)))"
  by (cases "hd_state (xthdc s)") (auto simp: xthdc_reset_write_def xthdc_inv_def)

lemma inv_status_read: "xthdc_inv (xthdc s) \<Longrightarrow> xthdc_inv (xthdc (snd (run_state (xthdc_status_read p) s)))"
  by (cases "hd_state (xthdc s)")
    (auto simp: xthdc_status_read_def xthdc_inv_def xthdc_bit_defs clear_flag8_def)

lemma inv_drive_sel: "xthdc_inv (xthdc s) \<Longrightarrow> xthdc_inv (xthdc (snd (run_state (xthdc_drive_sel_write p v) s)))"
  by (cases "hd_state (xthdc s)")
    (auto simp: xthdc_drive_sel_write_def xthdc_inv_def xthdc_bit_defs clear_flag8_def set_flag8_def)

lemma xthdc_step_inv: "xthdc_step s t \<Longrightarrow> xthdc_inv (xthdc s) \<Longrightarrow> xthdc_inv (xthdc t)"
proof (induction rule: xthdc_step.induct)
  case (image t s l f d)
  then show ?case by (simp add: xthdc_inv_def)
qed (simp_all add: inv_data_read inv_data_write inv_reset_write inv_status_read inv_drive_sel,
    simp_all add: xthdc_drive_cfg_read_def xthdc_mask_write_def xthdc_inv_def)

lemma xthdc_inv_init: "xthdc_inv xthdc_init_state"
  by (simp add: xthdc_init_state_def xthdc_inv_def)

lemma xthdc_reachable_inv:
  assumes "xthdc start = xthdc_init_state" and "xthdc_step\<^sup>*\<^sup>* start s"
  shows "xthdc_inv (xthdc s)"
  using assms(2)
  by (induction rule: rtranclp_induct)
    (auto simp: assms(1) xthdc_inv_init intro: xthdc_step_inv)

subsection \<open>Following the status register\<close>








text \<open>C22. The hard disk controller's status register and counters: in every state the controller
  can reach, its status register holds one of the values its state allows, so its IO bit says in
  which direction the next byte goes; a sector read byte by byte and the parameters of
  INITIALIZE DRIVE never run past their end.\<close>

theorem xthdc_status_invariant:
  assumes "xthdc start = xthdc_init_state" and "xthdc_step\<^sup>*\<^sup>* start s"
  shows "hd_status (xthdc s) \<in> set (hd_status_values (hd_state (xthdc s))) \<and>
    (hd_state (xthdc s) \<noteq> XTHDC_STATE_IDLE \<longrightarrow>
       (hd_status (xthdc s) AND 2 \<noteq> 0 \<longleftrightarrow> hd_state (xthdc s) \<in> {XTHDC_STATE_STATUS, XTHDC_STATE_READ_SECTOR})) \<and>
    (hd_state (xthdc s) = XTHDC_STATE_INITIALIZE_DRIVE \<longrightarrow> unat (hd_byte_no (xthdc s)) < 8) \<and>
    (hd_state (xthdc s) = XTHDC_STATE_READ_SECTOR \<longrightarrow> unat (hd_byte_no (xthdc s)) < 512)"
  using xthdc_reachable_inv [OF assms]
  by (cases "hd_state (xthdc s)") (auto simp: xthdc_inv_def)


text \<open>A controller that has just been selected.\<close>

definition disk_selected :: disk_board where
  "disk_selected = snd (run_state (xthdc_drive_sel_write XTHDC_DRIVE_SEL 0) disk_power_on)"

lemma disk_selected_step: "xthdc_step\<^sup>*\<^sup>* disk_power_on disk_selected" "xthdc disk_power_on = xthdc_init_state"
  unfolding disk_selected_def
  by (rule r_into_rtranclp, rule xthdc_step.drive_sel_write)
    (simp add: disk_power_on_def floppy_board.defs disk_board.defs)

lemma disk_selected_state: "hd_state (xthdc disk_selected) = XTHDC_STATE_COMMAND"
  by (simp add: disk_selected_def xthdc_drive_sel_write_def)

theorem xthdc_status_invariant_witness:
  "hd_status (xthdc disk_selected) \<in> {0x0D, 0x2D}"
  using xthdc_status_invariant [OF disk_selected_step(2,1)] by (simp add: disk_selected_state)


subsection \<open>Image files\<close>

lemma no_index [simp]: "(if n \<le> i \<and> i < n then x else y) = y" for n i :: nat
  by auto

lemma run_zero_loop: "xthdc_zero_loop k n r = r\<lparr>hd_data := (\<lambda>i. if n \<le> i \<and> i < n + k then 0 else hd_data r i)\<rparr>"
  by (induction k arbitrary: n r) (auto simp: fun_eq_iff)

lemma run_load_loop:
  "n + length fh \<le> DISK_SIZE \<Longrightarrow> xthdc_load_loop fh n r = ((n + length fh, True),
     r\<lparr>hd_data := (\<lambda>i. if n \<le> i \<and> i < n + length fh then fh ! (i - n) else hd_data r i)\<rparr>)"
proof (induction fh arbitrary: n r)
  case Nil
  then show ?case by simp
next
  case (Cons c fh)
  then show ?case by (auto simp: fun_eq_iff nth_Cons')
qed

lemma load_loop_too_large:
  "n \<le> DISK_SIZE \<Longrightarrow> DISK_SIZE < n + length fh \<Longrightarrow> snd (fst (xthdc_load_loop fh n r)) = False"
  by (induction fh arbitrary: n r) auto

text \<open>Hard disk images: a file that can be opened and is not larger than the disk is loaded, and
  saving then writes its bytes back, followed by zeros up to the size of the disk, to the same
  file name; a larger or missing file is refused with -1 and leaves nothing to save.\<close>

theorem xthdc_image_roundtrip:
  assumes "length name < 4096"
  shows "let (code, r) = xthdc_image_load fh name r0 in
    (case fh of
       Some bytes \<Rightarrow> if length bytes \<le> DISK_SIZE
         then code = 0 \<and> (\<forall>can_open. can_open name \<longrightarrow> fst (xthdc_image_save can_open None r) =
           (0, Some (name, bytes @ replicate (DISK_SIZE - length bytes) 0)))
         else code = -1 \<and> fst (xthdc_image_save can None r) = (-2, None)
     | None \<Rightarrow> code = -1 \<and> fst (xthdc_image_save can None r) = (-2, None))"
proof (cases fh)
  case None
  then show ?thesis by (simp add: xthdc_image_load_def xthdc_image_save_def)
next
  case (Some bytes)
  show ?thesis
  proof (cases "length bytes \<le> DISK_SIZE")
    case True
    then show ?thesis
      using assms
      by (simp add: Some xthdc_image_load_def xthdc_image_save_def run_load_loop run_zero_loop Let_def)
        (intro impI nth_equalityI; auto simp: nth_append)
  next
    case False
    have "hd_loaded (snd (xthdc_load_loop bs n q)) = hd_loaded q" for bs n q
      by (induction bs arbitrary: n q) auto
    then show ?thesis
      using False load_loop_too_large [of 0 bytes "r0\<lparr>hd_loaded := False\<rparr>"]
      by (auto simp: Some xthdc_image_load_def xthdc_image_save_def case_prod_beta Let_def)
  qed
qed

theorem xthdc_image_roundtrip_witness:
  "let (code, r) = xthdc_image_load (Some [1, 2]) ''hd.img'' xthdc_init_state in
   code = 0 \<and> fst (xthdc_image_save (\<lambda>_. True) None r) =
     (0, Some (''hd.img'', [1, 2] @ replicate 21411838 0))"
proof -
  have "length ''hd.img'' < 4096" by simp
  from xthdc_image_roundtrip [OF this, of "Some [1, 2]" xthdc_init_state "\<lambda>_. True"]
  have "let (code, r) = xthdc_image_load (Some [1, 2]) ''hd.img'' xthdc_init_state in
    code = 0 \<and> (\<forall>can_open. can_open ''hd.img'' \<longrightarrow> fst (xthdc_image_save can_open None r) =
       (0, Some (''hd.img'', [1, 2] @ replicate (DISK_SIZE - length [1, 2 :: u8]) 0)))"
    by (simp add: DISK_SIZE_value Let_def case_prod_beta del: replicate.simps)
  then show ?thesis by (simp add: Let_def case_prod_beta DISK_SIZE_value)
qed

end
