(* ===== verification/Fifo.thy ===== *)
theory Fifo
  imports Prelude
begin

text \<open>
  The byte FIFOs of i8250.c: an array with a head and a tail index, which holds one byte less than
  it has places. \<open>bounded_queue\<close> is what the serial port relies on: a queue of bounded length
  that drops what does not fit.
\<close>

subsection \<open>The interface\<close>

locale bounded_queue =
  fixes valid :: "'q \<Rightarrow> bool"
    and contents :: "'q \<Rightarrow> 'x list"
    and put :: "'x \<Rightarrow> 'q \<Rightarrow> 'q"
    and get :: "'q \<Rightarrow> 'x option \<times> 'q"
    and capacity :: nat
  assumes bounded: "valid q \<Longrightarrow> length (contents q) \<le> capacity"
    and put_valid: "valid q \<Longrightarrow> valid (put x q)"
    and put_contents: "valid q \<Longrightarrow>
      contents (put x q) = (if length (contents q) < capacity then contents q @ [x] else contents q)"
    and get_valid: "valid q \<Longrightarrow> valid (snd (get q))"
    and get_contents: "valid q \<Longrightarrow>
      (case contents q of [] \<Rightarrow> get q = (None, q)
       | x # xs \<Rightarrow> fst (get q) = Some x \<and> contents (snd (get q)) = xs)"
begin

lemma puts_valid: "valid q \<Longrightarrow> valid (fold put xs q)"
  by (induction xs arbitrary: q) (simp_all add: put_valid)

lemma puts_contents:
  "valid q \<Longrightarrow> contents (fold put xs q) = contents q @ take (capacity - length (contents q)) xs"
proof (induction xs arbitrary: q)
  case Nil
  then show ?case by simp
next
  case (Cons x xs)
  then show ?case
    using bounded [OF Cons.prems]
    by (cases "length (contents q) < capacity") (simp_all add: Cons.IH put_valid put_contents take_Cons')
qed

lemma get_None: "valid q \<Longrightarrow> contents q = [] \<Longrightarrow> get q = (None, q)"
  using get_contents [of q] by simp

lemma get_Some:
  "valid q \<Longrightarrow> contents q = x # xs \<Longrightarrow> fst (get q) = Some x \<and> contents (snd (get q)) = xs"
  using get_contents [of q] by simp

end

subsection \<open>The ring\<close>

record ring_t =
  ring_data :: "nat \<Rightarrow> u8"
  ring_head :: nat
  ring_tail :: nat

definition ring_read :: "nat \<Rightarrow> ring_t \<Rightarrow> u8 option \<times> ring_t" where
  "ring_read sz r =
    (if ring_tail r = ring_head r then (None, r)
     else (Some (ring_data r (ring_tail r)), r\<lparr>ring_tail := (ring_tail r + 1) mod sz\<rparr>))"

definition ring_write :: "nat \<Rightarrow> u8 \<Rightarrow> ring_t \<Rightarrow> ring_t" where
  "ring_write sz byte r =
    (if (ring_head r + 1) mod sz = ring_tail r then r
     else let r = r\<lparr>ring_data := (ring_data r)(ring_head r := byte)\<rparr>
          in r\<lparr>ring_head := (ring_head r + 1) mod sz\<rparr>)"

text \<open>The bytes from the tail up to the head, going round.\<close>

definition ring_valid :: "nat \<Rightarrow> ring_t \<Rightarrow> bool" where
  "ring_valid sz r \<longleftrightarrow> ring_head r < sz \<and> ring_tail r < sz"

definition ring_length :: "nat \<Rightarrow> ring_t \<Rightarrow> nat" where
  "ring_length sz r = (ring_head r + sz - ring_tail r) mod sz"

definition ring_contents :: "nat \<Rightarrow> ring_t \<Rightarrow> u8 list" where
  "ring_contents sz r = map (\<lambda>i. ring_data r ((ring_tail r + i) mod sz)) [0..<ring_length sz r]"

lemma mod_step: "a < sz \<Longrightarrow> Suc a mod sz = (if Suc a = sz then 0 else Suc a)" for a sz :: nat
  by auto

lemma mod_wrap: "a < sz \<Longrightarrow> i < sz \<Longrightarrow> (a + i) mod sz = (if a + i < sz then a + i else a + i - sz)"
  for a i sz :: nat
  by (simp add: mod_if)

lemma ring_length_alt:
  "ring_valid sz r \<Longrightarrow> ring_length sz r =
    (if ring_tail r \<le> ring_head r then ring_head r - ring_tail r else ring_head r + sz - ring_tail r)"
  by (auto simp: ring_valid_def ring_length_def mod_if)

lemma ring_full:
  "ring_valid sz r \<Longrightarrow> (ring_head r + 1) mod sz = ring_tail r \<longleftrightarrow> ring_length sz r = sz - 1"
  unfolding ring_length_alt by (auto simp: ring_valid_def mod_step)

lemma ring_bounded: "ring_valid sz r \<Longrightarrow> ring_length sz r \<le> sz - 1"
  unfolding ring_length_alt by (auto simp: ring_valid_def)

lemma ring_index_apart:
  assumes "ring_valid sz r" and "i < ring_length sz r"
  shows "(ring_tail r + i) mod sz \<noteq> ring_head r"
proof -
  have "ring_tail r < sz" "ring_head r < sz" "i < sz"
    using assms unfolding ring_length_alt [OF assms(1)] by (auto simp: ring_valid_def split: if_splits)
  then show ?thesis
    using assms(2) unfolding ring_length_alt [OF assms(1)] by (auto simp: mod_wrap split: if_splits)
qed

lemma ring_last:
  "ring_valid sz r \<Longrightarrow> (ring_tail r + ring_length sz r) mod sz = ring_head r"
  unfolding ring_length_alt by (auto simp: ring_valid_def)

lemma ring_write_contents:
  assumes "ring_valid sz r"
  shows "ring_contents sz (ring_write sz b r) =
    (if length (ring_contents sz r) < sz - 1 then ring_contents sz r @ [b] else ring_contents sz r)"
proof (cases "ring_length sz r = sz - 1")
  case True
  then show ?thesis using ring_full [OF assms] by (simp add: ring_write_def ring_contents_def)
next
  case False
  define w where "w = ring_write sz b r"
  have w: "ring_data w = (ring_data r)(ring_head r := b)" "ring_tail w = ring_tail r"
    "ring_head w = (ring_head r + 1) mod sz"
    using False ring_full [OF assms] by (simp_all add: w_def ring_write_def)
  have "ring_valid sz w" using assms w by (simp add: ring_valid_def)
  then have l: "ring_length sz w = Suc (ring_length sz r)"
    using False assms ring_bounded [OF assms]
    by (auto simp: ring_length_alt w mod_step) (auto simp: ring_valid_def mod_step split: if_splits)
  show ?thesis
    unfolding w_def [symmetric]
    using False ring_bounded [OF assms] ring_index_apart [OF assms]
    by (simp add: ring_contents_def l w ring_last [OF assms])
qed

lemma ring_read_contents:
  assumes "ring_valid sz r"
  shows "case ring_contents sz r of [] \<Rightarrow> ring_read sz r = (None, r)
    | x # xs \<Rightarrow> fst (ring_read sz r) = Some x \<and> ring_contents sz (snd (ring_read sz r)) = xs"
proof (cases "ring_tail r = ring_head r")
  case True
  then have "ring_length sz r = 0" using assms by (simp add: ring_length_alt)
  then show ?thesis by (simp add: ring_contents_def ring_read_def True)
next
  case False
  define t where "t = snd (ring_read sz r)"
  have t: "ring_data t = ring_data r" "ring_head t = ring_head r" "ring_tail t = (ring_tail r + 1) mod sz"
    using False by (simp_all add: t_def ring_read_def)
  have "ring_valid sz t" using assms t by (simp add: ring_valid_def)
  then have l: "ring_length sz r = Suc (ring_length sz t)"
    using False assms by (auto simp: ring_length_alt t) (auto simp: ring_valid_def mod_step split: if_splits)
  have "ring_contents sz r = ring_data r (ring_tail r) # ring_contents sz t"
    using assms unfolding ring_contents_def l upt_conv_Cons [OF zero_less_Suc] map_Suc_upt [symmetric]
    by (simp add: t ring_valid_def mod_add_left_eq add.assoc add.commute [of 1])
  then show ?thesis using False by (simp add: ring_read_def t_def)
qed

lemma ring_queue:
  "0 < sz \<Longrightarrow> bounded_queue (ring_valid sz) (ring_contents sz) (ring_write sz) (ring_read sz) (sz - 1)"
  by unfold_locales
    (use ring_bounded ring_write_contents ring_read_contents in
      \<open>auto simp: ring_contents_def ring_valid_def ring_write_def ring_read_def\<close>)

end
