(* ===== verification/I8250.thy ===== *)
theory I8250
  imports Xthdc Fifo
begin

unbundle bit_operations_syntax

text \<open>
  i8250.c: the serial port. Registers, the two FIFOs and the host terminal behind them. The
  terminal is the host's: its settings, the bytes it delivers (an arbitrary sequence
  \<open>tty_input\<close>, one entry for each poll, \<open>None\<close> when nothing is there), the errors of its system
  calls (\<open>tty_errors\<close>, likewise) and the bytes written to it. For its trace buffer see
  \<open>Trace_Log\<close>.
\<close>

subsection \<open>The host terminal\<close>

datatype speed_t = B50 | B110 | B300 | B600 | B1200 | B2400 | B4800 | B9600 | B19200 | B38400 | B57600 | B115200

datatype csize_t = CS5 | CS6 | CS7 | CS8

text \<open>The part of \<open>struct termios\<close> the code sets; \<open>tio_raw\<close> is what else \<open>cfmakeraw\<close> sets.\<close>

record termios =
  tio_raw :: bool
  tio_csize :: csize_t
  tio_parenb :: bool
  tio_parodd :: bool
  tio_ispeed :: speed_t
  tio_ospeed :: speed_t

record tty_t =
  tty_settings :: termios
  tty_errors :: "nat \<Rightarrow> u32 option"
  tty_calls :: nat
  tty_input :: "nat \<Rightarrow> u8 option"
  tty_polls :: nat
  tty_output :: "u8 list"

subsection \<open>State\<close>

definition I8250_RX_FIFO_SIZE :: nat where "I8250_RX_FIFO_SIZE = 1024"
definition I8250_TX_FIFO_SIZE :: nat where "I8250_TX_FIFO_SIZE = 1024"

record i8250_t =
  ser_ier :: u8
  ser_iir :: u8
  ser_lcr :: u8
  ser_mcr :: u8
  ser_lsr :: u8
  ser_msr :: u8
  ser_scratch :: u8
  ser_divisor :: u16
  rx_fifo :: ring_t
  tx_fifo :: ring_t

record uart_board = disk_board +
  i8250 :: i8250_t
  tty :: tty_t

definition getu :: "(i8250_t \<Rightarrow> 'x) \<Rightarrow> ('a uart_board_scheme, 'x) state" where
  "getu f = gets (\<lambda>s. f (i8250 s))"

definition modu :: "(i8250_t \<Rightarrow> i8250_t) \<Rightarrow> ('a uart_board_scheme, unit) state" where
  "modu f = modify (\<lambda>s. s\<lparr>i8250 := f (i8250 s)\<rparr>)"

definition modtty :: "(tty_t \<Rightarrow> tty_t) \<Rightarrow> ('a uart_board_scheme, unit) state" where
  "modtty f = modify (\<lambda>s. s\<lparr>tty := f (tty s)\<rparr>)"

lemma run_state_getu [simp]: "run_state (getu f) s = (f (i8250 s), s)"
  by (simp add: getu_def)

lemma run_state_modu [simp]: "run_state (modu f) s = ((), s\<lparr>i8250 := f (i8250 s)\<rparr>)"
  by (simp add: modu_def)

lemma run_state_modtty [simp]: "run_state (modtty f) s = ((), s\<lparr>tty := f (tty s)\<rparr>)"
  by (simp add: modtty_def)

lemma uart_only_rom [frame_intros]:
  "preserves rom_view (getu f)" "preserves rom_view (modu g)" "preserves rom_view (modtty h)"
  by (simp_all add: preserves_def rom_view_def)

subsection \<open>Ports and bits\<close>

definition I8250_IO_BASE :: u16 where "I8250_IO_BASE = 0x3F8"
definition I8250_THR :: u16 where "I8250_THR = I8250_IO_BASE + 0"
definition I8250_RBR :: u16 where "I8250_RBR = I8250_IO_BASE + 0"
definition I8250_IER :: u16 where "I8250_IER = I8250_IO_BASE + 1"
definition I8250_IIR :: u16 where "I8250_IIR = I8250_IO_BASE + 2"
definition I8250_FCR :: u16 where "I8250_FCR = I8250_IO_BASE + 2"
definition I8250_LCR :: u16 where "I8250_LCR = I8250_IO_BASE + 3"
definition I8250_MCR :: u16 where "I8250_MCR = I8250_IO_BASE + 4"
definition I8250_LSR :: u16 where "I8250_LSR = I8250_IO_BASE + 5"
definition I8250_MSR :: u16 where "I8250_MSR = I8250_IO_BASE + 6"
definition I8250_SR :: u16 where "I8250_SR = I8250_IO_BASE + 7"

lemmas i8250_port_defs = I8250_IO_BASE_def I8250_THR_def I8250_RBR_def I8250_IER_def I8250_IIR_def
  I8250_FCR_def I8250_LCR_def I8250_MCR_def I8250_LSR_def I8250_MSR_def I8250_SR_def

definition I8250_IER_RBR :: nat where "I8250_IER_RBR = 0"
definition I8250_IER_THR :: nat where "I8250_IER_THR = 1"
definition I8250_IIR_NO_PENDING :: u8 where "I8250_IIR_NO_PENDING = 1"
definition I8250_IIR_THR :: u8 where "I8250_IIR_THR = 2"
definition I8250_IIR_RBR :: u8 where "I8250_IIR_RBR = 4"
definition I8250_LSR_TRANSMIT_SHIFT_EMPTY :: u8 where "I8250_LSR_TRANSMIT_SHIFT_EMPTY = 0x40"
definition I8250_LSR_TRANSMIT_HOLDING_EMPTY :: u8 where "I8250_LSR_TRANSMIT_HOLDING_EMPTY = 0x20"
definition I8250_LSR_DATA_READY :: u8 where "I8250_LSR_DATA_READY = 0x01"
definition I8250_MSR_CARRIER_DETECT :: u8 where "I8250_MSR_CARRIER_DETECT = 0x80"
definition I8250_MSR_DATA_SET_READY :: u8 where "I8250_MSR_DATA_SET_READY = 0x20"
definition I8250_MSR_CLEAR_TO_SEND :: u8 where "I8250_MSR_CLEAR_TO_SEND = 0x10"

lemmas i8250_bit_defs = I8250_IER_RBR_def I8250_IER_THR_def I8250_IIR_NO_PENDING_def I8250_IIR_THR_def
  I8250_IIR_RBR_def I8250_LSR_TRANSMIT_SHIFT_EMPTY_def I8250_LSR_TRANSMIT_HOLDING_EMPTY_def
  I8250_LSR_DATA_READY_def

subsection \<open>FIFOs\<close>

definition i8250_rx_fifo_read :: "('a uart_board_scheme, u8 option) state" where
  "i8250_rx_fifo_read = do {
     r \<leftarrow> getu (\<lambda>r. ring_read I8250_RX_FIFO_SIZE (rx_fifo r));
     modu (\<lambda>u. u\<lparr>rx_fifo := snd r\<rparr>);
     return (fst r)
   }"

definition i8250_rx_fifo_write :: "u8 \<Rightarrow> ('a uart_board_scheme, unit) state" where
  "i8250_rx_fifo_write byte = modu (\<lambda>r. r\<lparr>rx_fifo := ring_write I8250_RX_FIFO_SIZE byte (rx_fifo r)\<rparr>)"

definition i8250_tx_fifo_read :: "('a uart_board_scheme, u8 option) state" where
  "i8250_tx_fifo_read = do {
     r \<leftarrow> getu (\<lambda>r. ring_read I8250_TX_FIFO_SIZE (tx_fifo r));
     modu (\<lambda>u. u\<lparr>tx_fifo := snd r\<rparr>);
     return (fst r)
   }"

definition i8250_tx_fifo_write :: "u8 \<Rightarrow> ('a uart_board_scheme, unit) state" where
  "i8250_tx_fifo_write byte = modu (\<lambda>r. r\<lparr>tx_fifo := ring_write I8250_TX_FIFO_SIZE byte (tx_fifo r)\<rparr>)"

subsection \<open>Terminal settings\<close>

text \<open>The host's calls: \<open>Some errno\<close> for a failed one.\<close>

definition tty_call :: "(tty_t \<Rightarrow> tty_t) \<Rightarrow> ('a uart_board_scheme, u32 option) state" where
  "tty_call effect = do {
     e \<leftarrow> gets (\<lambda>s. tty_errors (tty s) (tty_calls (tty s)));
     modtty (\<lambda>t. t\<lparr>tty_calls := tty_calls t + 1\<rparr>);
     (if e = None then modtty effect else return ());
     return e
   }"

definition cfmakeraw :: "termios \<Rightarrow> termios" where
  "cfmakeraw t = t\<lparr>tio_raw := True, tio_csize := CS8, tio_parenb := False\<rparr>"

definition uart_speed :: "u16 \<Rightarrow> speed_t option" where
  "uart_speed divisor =
    (if divisor = 2304 then Some B50 else if divisor = 1047 then Some B110
     else if divisor = 384 then Some B300 else if divisor = 192 then Some B600
     else if divisor = 96 then Some B1200 else if divisor = 48 then Some B2400
     else if divisor = 24 then Some B4800 else if divisor = 12 then Some B9600
     else if divisor = 6 then Some B19200 else if divisor = 3 then Some B38400
     else if divisor = 2 then Some B57600 else if divisor = 1 then Some B115200
     else None)"

definition uart_termios :: "u8 \<Rightarrow> speed_t \<Rightarrow> termios \<Rightarrow> termios" where
  "uart_termios lcr speed tios =
    (let tios = cfmakeraw tios;
         tios = tios\<lparr>tio_csize := CS5, tio_parenb := False, tio_parodd := False\<rparr>;
         tios = tios\<lparr>tio_csize := (if lcr AND 3 = 0 then CS5 else if lcr AND 3 = 1 then CS6
                                   else if lcr AND 3 = 2 then CS7 else CS8)\<rparr>;
         tios = (if drop_bit 3 lcr AND 3 = 1 then tios\<lparr>tio_parenb := True, tio_parodd := True\<rparr>
                 else if drop_bit 3 lcr AND 3 = 3 then tios\<lparr>tio_parenb := True\<rparr>
                 else tios)
     in tios\<lparr>tio_ispeed := speed, tio_ospeed := speed\<rparr>)"

definition i8250_update_tty_settings :: "('a uart_board_scheme, unit) state" where
  "i8250_update_tty_settings = do {
     divisor \<leftarrow> getu ser_divisor;
     case uart_speed divisor of
       None \<Rightarrow> return ()
     | Some speed \<Rightarrow> do {
         e \<leftarrow> tty_call (\<lambda>t. t);
         case e of
           Some errno \<Rightarrow> panic ''tcgetattr() failed with errno: %d'' [errno]
         | None \<Rightarrow> do {
             tios \<leftarrow> gets (\<lambda>s. tty_settings (tty s));
             lcr \<leftarrow> getu ser_lcr;
             e \<leftarrow> tty_call (\<lambda>t. t\<lparr>tty_settings := uart_termios lcr speed tios\<rparr>);
             case e of
               Some errno \<Rightarrow> panic ''tcsetattr() failed with errno: %d'' [errno]
             | None \<Rightarrow> return ()
           }
       }
   }"

subsection \<open>Registers\<close>

definition i8250_register_read :: "u16 \<Rightarrow> ('a uart_board_scheme, u8) state" where
  "i8250_register_read port = do {
     selected \<leftarrow> mos5720_uart_chip_select;
     if selected = False then return 0
     else if port = I8250_RBR then do {
       lcr \<leftarrow> getu ser_lcr;
       if drop_bit 7 lcr \<noteq> 0 then getu (\<lambda>r. lo8 (ser_divisor r))
       else do {
         iir \<leftarrow> getu ser_iir;
         (if iir = I8250_IIR_RBR then modu (\<lambda>r. r\<lparr>ser_iir := I8250_IIR_NO_PENDING\<rparr>) else return ());
         modu (\<lambda>r. r\<lparr>ser_lsr := ser_lsr r AND NOT I8250_LSR_DATA_READY\<rparr>);
         v \<leftarrow> i8250_rx_fifo_read;
         case v of Some b \<Rightarrow> return b | None \<Rightarrow> return 0
       }
     }
     else if port = I8250_IER then do {
       lcr \<leftarrow> getu ser_lcr;
       if drop_bit 7 lcr \<noteq> 0 then getu (\<lambda>r. hi8 (ser_divisor r)) else getu ser_ier
     }
     else if port = I8250_IIR then do {
       v \<leftarrow> getu ser_iir;
       (if v = I8250_IIR_THR then modu (\<lambda>r. r\<lparr>ser_iir := I8250_IIR_NO_PENDING\<rparr>) else return ());
       return v
     }
     else if port = I8250_LCR then getu ser_lcr
     else if port = I8250_MCR then getu ser_mcr
     else if port = I8250_SR then getu ser_scratch
     else if port = I8250_LSR then getu ser_lsr
     else if port = I8250_MSR then getu ser_msr
     else return 0
   }"

text \<open>The transmitter interrupt, when it is enabled.\<close>

definition i8250_thr_irq :: "('a uart_board_scheme, unit) state" where
  "i8250_thr_irq = do {
     ier \<leftarrow> getu ser_ier;
     if drop_bit I8250_IER_THR ier AND 1 \<noteq> 0 then do {
       modu (\<lambda>r. r\<lparr>ser_iir := I8250_IIR_THR\<rparr>);
       fe2010_irq FE2010_IRQ_COM1
     } else return ()
   }"

definition i8250_register_write :: "u16 \<Rightarrow> u8 \<Rightarrow> ('a uart_board_scheme, unit) state" where
  "i8250_register_write port v = do {
     selected \<leftarrow> mos5720_uart_chip_select;
     if selected = False then return ()
     else if port = I8250_THR then do {
       lcr \<leftarrow> getu ser_lcr;
       if drop_bit 7 lcr \<noteq> 0 then do {
         modu (\<lambda>r. r\<lparr>ser_divisor := word16 v (hi8 (ser_divisor r))\<rparr>);
         i8250_update_tty_settings
       } else do {
         i8250_tx_fifo_write v;
         i8250_thr_irq
       }
     }
     else if port = I8250_IER then do {
       lcr \<leftarrow> getu ser_lcr;
       if drop_bit 7 lcr \<noteq> 0 then do {
         modu (\<lambda>r. r\<lparr>ser_divisor := word16 (lo8 (ser_divisor r)) v\<rparr>);
         i8250_update_tty_settings
       } else do {
         modu (\<lambda>r. r\<lparr>ser_ier := v\<rparr>);
         i8250_thr_irq
       }
     }
     else if port = I8250_FCR then return ()
     else if port = I8250_LCR then do {
       modu (\<lambda>r. r\<lparr>ser_lcr := v\<rparr>);
       i8250_update_tty_settings
     }
     else if port = I8250_MCR then modu (\<lambda>r. r\<lparr>ser_mcr := v\<rparr>)
     else if port = I8250_SR then modu (\<lambda>r. r\<lparr>ser_scratch := v\<rparr>)
     else return ()
   }"

subsection \<open>Initialisation and the main loop\<close>

definition i8250_init_state :: i8250_t where
  "i8250_init_state = (let empty = \<lparr>ring_data = (\<lambda>_. 0), ring_head = 0, ring_tail = 0\<rparr> in
     \<lparr>ser_ier = 0, ser_iir = I8250_IIR_NO_PENDING, ser_lcr = 0, ser_mcr = 0,
      ser_lsr = I8250_LSR_TRANSMIT_SHIFT_EMPTY OR I8250_LSR_TRANSMIT_HOLDING_EMPTY,
      ser_msr = I8250_MSR_CARRIER_DETECT OR I8250_MSR_DATA_SET_READY OR I8250_MSR_CLEAR_TO_SEND,
      ser_scratch = 0, ser_divisor = 0, rx_fifo = empty, tx_fifo = empty\<rparr>)"

definition i8250_ports :: "u16 list" where
  "i8250_ports = [0x3F8, 0x3F9, 0x3FA, 0x3FB, 0x3FC, 0x3FD, 0x3FE, 0x3FF]"

definition i8250_init :: "'a uart_board_scheme io_t \<Rightarrow> 'a uart_board_scheme io_t" where
  "i8250_init io = io_set_write i8250_ports i8250_register_write (io_set_read i8250_ports i8250_register_read io)"

text \<open>\<open>poll\<close> and \<open>read\<close> together deliver a byte or nothing.\<close>

definition tty_poll_read :: "('a uart_board_scheme, u8 option) state" where
  "tty_poll_read = do {
     b \<leftarrow> gets (\<lambda>s. tty_input (tty s) (tty_polls (tty s)));
     modtty (\<lambda>t. t\<lparr>tty_polls := tty_polls t + 1\<rparr>);
     return b
   }"

definition i8250_execute :: "('a uart_board_scheme, unit) state" where
  "i8250_execute = do {
     input \<leftarrow> tty_poll_read;
     (case input of
        None \<Rightarrow> return ()
      | Some byte \<Rightarrow> do {
          i8250_rx_fifo_write byte;
          modu (\<lambda>r. r\<lparr>ser_lsr := ser_lsr r OR I8250_LSR_DATA_READY\<rparr>);
          ier \<leftarrow> getu ser_ier;
          if drop_bit I8250_IER_RBR ier AND 1 \<noteq> 0 then do {
            modu (\<lambda>r. r\<lparr>ser_iir := I8250_IIR_RBR\<rparr>);
            fe2010_irq FE2010_IRQ_COM1
          } else return ()
        });
     output \<leftarrow> i8250_tx_fifo_read;
     (case output of
        None \<Rightarrow> return ()
      | Some byte \<Rightarrow> modtty (\<lambda>t. t\<lparr>tty_output := tty_output t @ [byte]\<rparr>))
   }"

subsection \<open>On the bus\<close>

lemma i8250_parts_rom [frame_intros]:
  "preserves rom_view i8250_rx_fifo_read" "preserves rom_view (i8250_rx_fifo_write b)"
  "preserves rom_view i8250_tx_fifo_read" "preserves rom_view (i8250_tx_fifo_write b)"
  "preserves rom_view (tty_call g)" "preserves rom_view i8250_thr_irq" "preserves rom_view tty_poll_read"
  unfolding i8250_rx_fifo_read_def i8250_rx_fifo_write_def i8250_tx_fifo_read_def i8250_tx_fifo_write_def
    tty_call_def i8250_thr_irq_def tty_poll_read_def
  by (intro frame_intros)+

lemma i8250_settings_rom [frame_intros]: "preserves rom_view i8250_update_tty_settings"
  unfolding i8250_update_tty_settings_def by (intro frame_intros)

lemma i8250_hooks_rom [frame_intros]:
  "preserves rom_view (i8250_register_read p)" "preserves rom_view (i8250_register_write p v)"
  "preserves rom_view i8250_execute"
  unfolding i8250_register_read_def i8250_register_write_def i8250_execute_def
  by (intro frame_intros)+

interpretation i8250_bus: io_device i8250_init i8250_ports rom_view
proof
  show "io_at (i8250_init io) p = io_at io p" if "p \<notin> set i8250_ports" for io :: "'a uart_board_scheme io_t" and p
    using that by (simp add: i8250_init_def)
  show "io_at (i8250_init io) p = io_at (i8250_init io') p" if "io_at io p = io_at io' p" for io io' :: "'a uart_board_scheme io_t" and p
    unfolding i8250_init_def Let_def by (intro io_at_set_cong that)
  show "io_preserves rom_view (i8250_init io)" if "io_preserves rom_view io" for io :: "'a uart_board_scheme io_t"
    unfolding i8250_init_def by (intro io_set_intros frame_intros that)
qed

end
