(* ===== verification/I8250_Lines.thy ===== *)
theory I8250_Lines
  imports I8250
begin

unbundle bit_operations_syntax

text \<open>
  What the serial port does for the guest: the FIFOs are bounded queues, bytes reach the terminal
  and arrive from it in order, and the terminal gets the line settings the guest programs.
\<close>

subsection \<open>The FIFOs are queues\<close>

interpretation rx_queue: bounded_queue "ring_valid I8250_RX_FIFO_SIZE" "ring_contents I8250_RX_FIFO_SIZE"
  "ring_write I8250_RX_FIFO_SIZE" "ring_read I8250_RX_FIFO_SIZE" "I8250_RX_FIFO_SIZE - 1"
  by (rule ring_queue) (simp add: I8250_RX_FIFO_SIZE_def)

interpretation tx_queue: bounded_queue "ring_valid I8250_TX_FIFO_SIZE" "ring_contents I8250_TX_FIFO_SIZE"
  "ring_write I8250_TX_FIFO_SIZE" "ring_read I8250_TX_FIFO_SIZE" "I8250_TX_FIFO_SIZE - 1"
  by (rule ring_queue) (simp add: I8250_TX_FIFO_SIZE_def)

definition rx_bytes :: "'a uart_board_scheme \<Rightarrow> u8 list" where
  "rx_bytes s = ring_contents I8250_RX_FIFO_SIZE (rx_fifo (i8250 s))"

definition tx_bytes :: "'a uart_board_scheme \<Rightarrow> u8 list" where
  "tx_bytes s = ring_contents I8250_TX_FIFO_SIZE (tx_fifo (i8250 s))"

definition uart_valid :: "'a uart_board_scheme \<Rightarrow> bool" where
  "uart_valid s \<longleftrightarrow> ring_valid I8250_RX_FIFO_SIZE (rx_fifo (i8250 s)) \<and>
     ring_valid I8250_TX_FIFO_SIZE (tx_fifo (i8250 s))"

text \<open>The port is selected and its data register, not the divisor, is at the base port.\<close>

definition uart_ready :: "'a uart_board_scheme \<Rightarrow> bool" where
  "uart_ready s \<longleftrightarrow> mos5720_mode (mos5720 s) \<in> {0x89, 0xD9} \<and> \<not> bit (ser_lcr (i8250 s)) 7"

lemma dlab: "drop_bit 7 lcr \<noteq> 0 \<longleftrightarrow> bit lcr 7" for lcr :: u8
proof -
  have "drop_bit 7 lcr = of_bool (bit lcr 7)"
    by (rule byte_eqI) (auto simp: bit_simps dest: bit_imp_le_length)
  then show ?thesis by simp
qed

lemma irq_uart [simp]:
  "i8250 (snd (run_state (fe2010_irq n) s)) = i8250 s" "tty (snd (run_state (fe2010_irq n) s)) = tty s"
  "mos5720 (snd (run_state (fe2010_irq n) s)) = mos5720 s"
  by (simp_all add: run_fe2010_irq i8088_irq_def run_interrupt Let_def)

lemma run_chip_select:
  "run_state mos5720_uart_chip_select s = (mos5720_mode (mos5720 s) \<in> {0x89, 0xD9}, s)"
  by (simp add: mos5720_uart_chip_select_def)

subsection \<open>Transmission\<close>

lemma write_thr:
  fixes v
  assumes "uart_ready s" "uart_valid s"
  defines "t \<equiv> snd (run_state (i8250_register_write I8250_THR v) s)"
  shows "uart_ready t" "uart_valid t" "tty t = tty s" "tx_fifo (i8250 t) = ring_write I8250_TX_FIFO_SIZE v (tx_fifo (i8250 s))"
  using assms(1,2)
  by (simp_all add: t_def uart_ready_def uart_valid_def i8250_register_write_def run_chip_select dlab
      i8250_tx_fifo_write_def i8250_thr_irq_def tx_queue.put_valid case_prod_beta)

lemma write_thrs:
  fixes xs
  assumes "uart_ready s" "uart_valid s"
  defines "t \<equiv> snd (run_state (for_each xs (i8250_register_write I8250_THR)) s)"
  shows "uart_valid t" "tty t = tty s" "tx_fifo (i8250 t) = fold (ring_write I8250_TX_FIFO_SIZE) xs (tx_fifo (i8250 s))"
proof -
  have "uart_ready s \<Longrightarrow> uart_valid s \<Longrightarrow>
      uart_valid (snd (run_state (for_each xs (i8250_register_write I8250_THR)) s)) \<and>
      tty (snd (run_state (for_each xs (i8250_register_write I8250_THR)) s)) = tty s \<and>
      tx_fifo (i8250 (snd (run_state (for_each xs (i8250_register_write I8250_THR)) s))) =
        fold (ring_write I8250_TX_FIFO_SIZE) xs (tx_fifo (i8250 s))" for xs
    by (induction xs arbitrary: s) (simp_all add: write_thr case_prod_beta)
  then show "uart_valid t" "tty t = tty s" "tx_fifo (i8250 t) = fold (ring_write I8250_TX_FIFO_SIZE) xs (tx_fifo (i8250 s))"
    using assms(1,2) by (simp_all add: t_def)
qed

text \<open>One pass of the main loop: at most one byte in, at most one byte out.\<close>

definition uart_input :: "'a uart_board_scheme \<Rightarrow> nat \<Rightarrow> u8 list" where
  "uart_input s n = List.map_filter (\<lambda>i. tty_input (tty s) (tty_polls (tty s) + i)) [0..<n]"

lemma run_execute:
  assumes "uart_valid s"
  defines "t \<equiv> snd (run_state i8250_execute s)"
  shows "uart_valid t" "uart_ready t = uart_ready s" "tx_bytes t = drop 1 (tx_bytes s)"
    "tty_output (tty t) = tty_output (tty s) @ take 1 (tx_bytes s)"
    "rx_bytes t = (case tty_input (tty s) (tty_polls (tty s)) of None \<Rightarrow> rx_bytes s
       | Some b \<Rightarrow> rx_bytes s @ take (I8250_RX_FIFO_SIZE - 1 - length (rx_bytes s)) [b])"
    "tty_input (tty t) = tty_input (tty s)" "tty_polls (tty t) = Suc (tty_polls (tty s))"
proof -
  have v: "ring_valid I8250_RX_FIFO_SIZE (rx_fifo (i8250 s))" "ring_valid I8250_TX_FIFO_SIZE (tx_fifo (i8250 s))"
    using assms(1) by (simp_all add: uart_valid_def)
  note d = t_def i8250_execute_def tty_poll_read_def i8250_rx_fifo_write_def i8250_tx_fifo_read_def
    case_prod_beta uart_valid_def uart_ready_def rx_bytes_def
  note q = v rx_queue.put_valid tx_queue.get_valid rx_queue.put_contents
  show "uart_valid t" "uart_ready t = uart_ready s" "tty_input (tty t) = tty_input (tty s)"
    "tty_polls (tty t) = Suc (tty_polls (tty s))"
    by (simp_all add: d q split: option.split)
  show "rx_bytes t = (case tty_input (tty s) (tty_polls (tty s)) of None \<Rightarrow> rx_bytes s
       | Some b \<Rightarrow> rx_bytes s @ take (I8250_RX_FIFO_SIZE - 1 - length (rx_bytes s)) [b])"
    using rx_queue.bounded [OF v(1)] by (simp add: d q split: option.split)
  show "tx_bytes t = drop 1 (tx_bytes s)" "tty_output (tty t) = tty_output (tty s) @ take 1 (tx_bytes s)"
    using tx_queue.get_None [OF v(2)] tx_queue.get_Some [OF v(2)]
    by (cases "tx_bytes s"; simp add: tx_bytes_def d split: option.split)+
qed

text \<open>The main loop calls \<open>i8250_execute\<close> again and again.\<close>

definition uart_runs :: "nat \<Rightarrow> 'a uart_board_scheme \<Rightarrow> 'a uart_board_scheme" where
  "uart_runs n s = snd (run_state (replicate_m n i8250_execute) s)"

lemma uart_runs_simps:
  "uart_runs 0 s = s" "uart_runs (Suc n) s = snd (run_state i8250_execute (uart_runs n s))"
  by (simp_all add: uart_runs_def run_replicate_m del: replicate_m.simps)

lemma runs_output:
  assumes "uart_valid s"
  shows "uart_valid (uart_runs n s)" "uart_ready (uart_runs n s) = uart_ready s"
    "tx_bytes (uart_runs n s) = drop n (tx_bytes s)"
    "tty_output (tty (uart_runs n s)) = tty_output (tty s) @ take n (tx_bytes s)"
    "tty_input (tty (uart_runs n s)) = tty_input (tty s)"
    "tty_polls (tty (uart_runs n s)) = tty_polls (tty s) + n"
proof (induction n)
  case 0
  show "uart_valid (uart_runs 0 s)" "uart_ready (uart_runs 0 s) = uart_ready s"
    "tx_bytes (uart_runs 0 s) = drop 0 (tx_bytes s)"
    "tty_output (tty (uart_runs 0 s)) = tty_output (tty s) @ take 0 (tx_bytes s)"
    "tty_input (tty (uart_runs 0 s)) = tty_input (tty s)"
    "tty_polls (tty (uart_runs 0 s)) = tty_polls (tty s) + 0"
    using assms by (simp_all add: uart_runs_simps)
next
  case (Suc n)
  note e = run_execute [OF Suc.IH(1), folded uart_runs_simps(2)]
  have "take (Suc n) (tx_bytes s) = take n (tx_bytes s) @ take 1 (drop n (tx_bytes s))"
    using take_add [of n 1 "tx_bytes s"] by simp
  then show "uart_valid (uart_runs (Suc n) s)" "uart_ready (uart_runs (Suc n) s) = uart_ready s"
    "tx_bytes (uart_runs (Suc n) s) = drop (Suc n) (tx_bytes s)"
    "tty_output (tty (uart_runs (Suc n) s)) = tty_output (tty s) @ take (Suc n) (tx_bytes s)"
    "tty_input (tty (uart_runs (Suc n) s)) = tty_input (tty s)"
    "tty_polls (tty (uart_runs (Suc n) s)) = tty_polls (tty s) + Suc n"
    by (simp_all add: e Suc.IH)
qed

lemma runs_input:
  assumes "uart_valid s"
  shows "rx_bytes (uart_runs n s) = rx_bytes s @ take (I8250_RX_FIFO_SIZE - 1 - length (rx_bytes s)) (uart_input s n)"
proof (induction n)
  case 0
  then show ?case by (simp add: uart_runs_simps uart_input_def map_filter_simps)
next
  case (Suc n)
  have i: "uart_input s (Suc n) = uart_input s n @
      (case tty_input (tty s) (tty_polls (tty s) + n) of None \<Rightarrow> [] | Some b \<Rightarrow> [b])"
    by (simp add: uart_input_def List.map_filter_def split: option.split)
  show ?case
    using run_execute(5) [OF runs_output(1) [OF assms], folded uart_runs_simps(2), of n]
    by (cases "length (uart_input s n) \<le> I8250_RX_FIFO_SIZE - Suc (length (rx_bytes s))")
      (simp_all add: i Suc.IH runs_output [OF assms] min_def split: option.split)
qed

text \<open>Transmission: bytes the guest writes to the transmit register reach the host's terminal
  in the order written, behind those already waiting, one for each pass of the main loop; when
  more than 1023 are waiting the rest is dropped, whether or not transmitter interrupts are
  enabled.\<close>

theorem uart_transmit:
  assumes "uart_ready s" "uart_valid s"
  shows "let t = snd (run_state (for_each xs (i8250_register_write I8250_THR)) s);
             waiting = tx_bytes s @ take (1023 - length (tx_bytes s)) xs in
    tty_output (tty (uart_runs n t)) = tty_output (tty s) @ take n waiting \<and>
    tx_bytes (uart_runs n t) = drop n waiting"
proof -
  define t where "t = snd (run_state (for_each xs (i8250_register_write I8250_THR)) s)"
  note w = write_thrs [OF assms, of xs, folded t_def]
  have "tx_bytes t = tx_bytes s @ take (1023 - length (tx_bytes s)) xs"
    using assms(2) tx_queue.puts_contents [of "tx_fifo (i8250 s)" xs]
    by (simp add: tx_bytes_def w(3) uart_valid_def I8250_TX_FIFO_SIZE_def)
  then show ?thesis
    unfolding Let_def t_def [symmetric] by (simp add: runs_output [OF w(1)] w(2))
qed

subsection \<open>Reception\<close>

lemma read_rbr:
  assumes "uart_ready s" "uart_valid s"
  shows "uart_ready (snd (run_state (i8250_register_read I8250_RBR) s))"
    "uart_valid (snd (run_state (i8250_register_read I8250_RBR) s))"
    "fst (run_state (i8250_register_read I8250_RBR) s) = (case rx_bytes s of [] \<Rightarrow> 0 | b # bs \<Rightarrow> b)"
    "rx_bytes (snd (run_state (i8250_register_read I8250_RBR) s)) = drop 1 (rx_bytes s)"
proof -
  have v: "ring_valid I8250_RX_FIFO_SIZE (rx_fifo (i8250 s))" using assms(2) by (simp add: uart_valid_def)
  have r: "mos5720_mode (mos5720 s) = 0x89 \<or> mos5720_mode (mos5720 s) = 0xD9" "\<not> bit (ser_lcr (i8250 s)) 7"
    using assms(1) by (auto simp: uart_ready_def)
  note d = i8250_register_read_def run_chip_select dlab r i8250_rx_fifo_read_def case_prod_beta
  show "uart_ready (snd (run_state (i8250_register_read I8250_RBR) s))"
    "uart_valid (snd (run_state (i8250_register_read I8250_RBR) s))"
    using r assms(2) by (auto simp: d uart_ready_def uart_valid_def rx_queue.get_valid split: option.split)
  show "fst (run_state (i8250_register_read I8250_RBR) s) = (case rx_bytes s of [] \<Rightarrow> 0 | b # bs \<Rightarrow> b)"
    "rx_bytes (snd (run_state (i8250_register_read I8250_RBR) s)) = drop 1 (rx_bytes s)"
    using rx_queue.get_None [OF v] rx_queue.get_Some [OF v] r
    by (cases "rx_bytes s"; auto simp: rx_bytes_def d split: option.split)+
qed

lemma read_rbrs:
  "uart_ready s \<Longrightarrow> uart_valid s \<Longrightarrow>
   fst (run_state (replicate_m n (i8250_register_read I8250_RBR)) s) =
     take n (rx_bytes s) @ replicate (n - length (rx_bytes s)) 0"
proof (induction n arbitrary: s)
  case 0
  then show ?case by simp
next
  case (Suc n)
  show ?case
    using Suc.IH [OF read_rbr(1,2) [OF Suc.prems]]
    by (cases "rx_bytes s") (simp_all add: case_prod_beta read_rbr [OF Suc.prems])
qed

text \<open>C24. Reception: the bytes that arrive at the host's terminal during \<open>n\<close> passes of the main
  loop are read by the guest from the receive register in the order of arrival, behind those
  already waiting; what does not fit into the 1023 places is dropped, and an empty FIFO reads
  as zero.\<close>

theorem uart_receive:
  assumes "uart_ready s" "uart_valid s"
    and "waiting = rx_bytes s @ take (1023 - length (rx_bytes s)) (uart_input s n)"
  shows "fst (run_state (replicate_m k (i8250_register_read I8250_RBR)) (uart_runs n s)) =
    take k waiting @ replicate (k - length waiting) 0"
proof -
  have "uart_ready (uart_runs n s)" "uart_valid (uart_runs n s)" "rx_bytes (uart_runs n s) = waiting"
    using assms by (simp_all add: runs_output runs_input I8250_RX_FIFO_SIZE_def)
  then show ?thesis by (simp add: read_rbrs)
qed


subsection \<open>Line settings\<close>

definition speed_bauds :: "speed_t \<Rightarrow> nat" where
  "speed_bauds speed = (case speed of B50 \<Rightarrow> 50 | B110 \<Rightarrow> 110 | B300 \<Rightarrow> 300 | B600 \<Rightarrow> 600 | B1200 \<Rightarrow> 1200
     | B2400 \<Rightarrow> 2400 | B4800 \<Rightarrow> 4800 | B9600 \<Rightarrow> 9600 | B19200 \<Rightarrow> 19200 | B38400 \<Rightarrow> 38400
     | B57600 \<Rightarrow> 57600 | B115200 \<Rightarrow> 115200)"

definition csize_bits :: "csize_t \<Rightarrow> nat" where
  "csize_bits c = (case c of CS5 \<Rightarrow> 5 | CS6 \<Rightarrow> 6 | CS7 \<Rightarrow> 7 | CS8 \<Rightarrow> 8)"

lemma uart_speed_bauds: "uart_speed d = Some speed \<Longrightarrow> speed_bauds speed * unat d \<in> {115170, 115200}"
  by (auto simp: uart_speed_def speed_bauds_def split: if_splits)

lemma termios_lcr:
  fixes lcr speed tios
  defines "t \<equiv> uart_termios lcr speed tios"
  shows "tio_ispeed t = speed" "tio_ospeed t = speed" "tio_raw t" "csize_bits (tio_csize t) = 5 + unat (lcr AND 3)"
    "tio_parenb t = bit lcr 3" "bit lcr 3 \<Longrightarrow> tio_parodd t = (\<not> bit lcr 4)"
proof -
  have 2: "lcr AND 3 = of_bool (bit lcr 0) OR push_bit 1 (of_bool (bit lcr 1))"
    "drop_bit 3 lcr AND 3 = of_bool (bit lcr 3) OR push_bit 1 (of_bool (bit lcr 4))"
    by (rule byte_eqI; auto simp: bit_simps)+
  note d = t_def uart_termios_def cfmakeraw_def Let_def csize_bits_def 2
  show "tio_ispeed t = speed" "tio_ospeed t = speed" "tio_raw t"
    by (simp_all add: t_def uart_termios_def cfmakeraw_def Let_def)
  show "csize_bits (tio_csize t) = 5 + unat (lcr AND 3)"
    by (cases "bit lcr 0"; cases "bit lcr 1"; cases "bit lcr 3"; cases "bit lcr 4"; simp add: d)
  show "tio_parenb t = bit lcr 3" "bit lcr 3 \<Longrightarrow> tio_parodd t = (\<not> bit lcr 4)"
    by (cases "bit lcr 3"; cases "bit lcr 4"; simp add: d)+
qed
lemma run_update_settings:
  assumes "\<forall>n. tty_errors (tty s) n = None"
  defines "t \<equiv> snd (run_state i8250_update_tty_settings s)"
  shows "i8250 t = i8250 s" "mos5720 t = mos5720 s" "panic_msg t = panic_msg s"
    "tty_errors (tty t) = tty_errors (tty s)"
    "tty_settings (tty t) = (case uart_speed (ser_divisor (i8250 s)) of None \<Rightarrow> tty_settings (tty s)
       | Some speed \<Rightarrow> uart_termios (ser_lcr (i8250 s)) speed (tty_settings (tty s)))"
  using assms(1)
  by (simp_all add: t_def i8250_update_tty_settings_def tty_call_def split: option.split)

text \<open>The sequence by which a driver programs the line: divisor latch on, the two halves of the
  divisor, then the line control register with the latch off.\<close>

definition program_line :: "u16 \<Rightarrow> u8 \<Rightarrow> ('a uart_board_scheme, unit) state" where
  "program_line d lcr = do {
     i8250_register_write I8250_LCR 0x80;
     i8250_register_write I8250_THR (lo8 d);
     i8250_register_write I8250_IER (hi8 d);
     i8250_register_write I8250_LCR lcr
   }"

lemma write_line_registers:
  assumes "\<forall>n. tty_errors (tty s) n = None" "mos5720_mode (mos5720 s) \<in> {0x89, 0xD9}"
  shows "i8250 (snd (run_state (i8250_register_write I8250_LCR v) s)) = (i8250 s)\<lparr>ser_lcr := v\<rparr>"
    "bit (ser_lcr (i8250 s)) 7 \<Longrightarrow> i8250 (snd (run_state (i8250_register_write I8250_THR v) s)) =
      (i8250 s)\<lparr>ser_divisor := word16 v (hi8 (ser_divisor (i8250 s)))\<rparr>"
    "bit (ser_lcr (i8250 s)) 7 \<Longrightarrow> i8250 (snd (run_state (i8250_register_write I8250_IER v) s)) =
      (i8250 s)\<lparr>ser_divisor := word16 (lo8 (ser_divisor (i8250 s))) v\<rparr>"
    "tty_settings (tty (snd (run_state (i8250_register_write I8250_LCR v) s))) =
      (case uart_speed (ser_divisor (i8250 s)) of None \<Rightarrow> tty_settings (tty s)
       | Some speed \<Rightarrow> uart_termios v speed (tty_settings (tty s)))"
  using assms by (auto simp: i8250_register_write_def run_chip_select dlab run_update_settings i8250_port_defs
      case_prod_beta split: option.split)

lemma line_registers_keep:
  assumes "\<forall>n. tty_errors (tty s) n = None" "mos5720_mode (mos5720 s) \<in> {0x89, 0xD9}"
  shows "p = I8250_LCR \<or> bit (ser_lcr (i8250 s)) 7 \<and> (p = I8250_THR \<or> p = I8250_IER) \<Longrightarrow>
    tty_errors (tty (snd (run_state (i8250_register_write p v) s))) = tty_errors (tty s) \<and>
    mos5720 (snd (run_state (i8250_register_write p v) s)) = mos5720 s \<and>
    panic_msg (snd (run_state (i8250_register_write p v) s)) = panic_msg s"
  using assms by (auto simp: i8250_register_write_def run_chip_select dlab run_update_settings i8250_port_defs
      case_prod_beta)

text \<open>Line settings: after a driver has programmed divisor and line control register, the
  host's terminal is raw, runs at the speed of the divisor in both directions, and has the
  number of data bits and the parity of the register.\<close>

theorem uart_line_settings:
  assumes "\<forall>n. tty_errors (tty s) n = None" and "mos5720_mode (mos5720 s) \<in> {0x89, 0xD9}"
    and "uart_speed d = Some speed"
  shows "let t = snd (run_state (program_line d lcr) s); line = tty_settings (tty t) in
    tio_raw line \<and> tio_ispeed line = speed \<and> tio_ospeed line = speed \<and>
    speed_bauds speed * unat d \<in> {115170, 115200} \<and>
    csize_bits (tio_csize line) = 5 + unat (lcr AND 3) \<and> tio_parenb line = bit lcr 3 \<and>
    (bit lcr 3 \<longrightarrow> tio_parodd line = (\<not> bit lcr 4)) \<and>
    ser_divisor (i8250 t) = d \<and> ser_lcr (i8250 t) = lcr \<and> panic_msg t = panic_msg s"
proof -
  define a where "a = snd (run_state (i8250_register_write I8250_LCR 0x80) s)"
  define b where "b = snd (run_state (i8250_register_write I8250_THR (lo8 d)) a)"
  define c where "c = snd (run_state (i8250_register_write I8250_IER (hi8 d)) b)"
  define t where "t = snd (run_state (i8250_register_write I8250_LCR lcr) c)"
  have a: "i8250 a = (i8250 s)\<lparr>ser_lcr := 0x80\<rparr>" "\<forall>n. tty_errors (tty a) n = None"
    "mos5720_mode (mos5720 a) \<in> {0x89, 0xD9}" "panic_msg a = panic_msg s" "bit (ser_lcr (i8250 a)) 7"
    using line_registers_keep [OF assms(1,2), of I8250_LCR] assms(1,2)
    by (simp_all add: a_def write_line_registers)
  have b: "i8250 b = (i8250 a)\<lparr>ser_divisor := word16 (lo8 d) (hi8 (ser_divisor (i8250 a)))\<rparr>"
    "\<forall>n. tty_errors (tty b) n = None"
    "mos5720_mode (mos5720 b) \<in> {0x89, 0xD9}" "panic_msg b = panic_msg s" "bit (ser_lcr (i8250 b)) 7"
    using line_registers_keep [OF a(2,3), of I8250_THR] a
    by (simp_all add: b_def write_line_registers)
  have c: "i8250 c = (i8250 b)\<lparr>ser_divisor := word16 (lo8 (ser_divisor (i8250 b))) (hi8 d)\<rparr>"
    "\<forall>n. tty_errors (tty c) n = None"
    "mos5720_mode (mos5720 c) \<in> {0x89, 0xD9}" "panic_msg c = panic_msg s"
    using line_registers_keep [OF b(2,3), of I8250_IER] b
    by (simp_all add: c_def write_line_registers)
  have d: "ser_divisor (i8250 c) = d" by (simp add: c b)
  have "i8250 t = (i8250 c)\<lparr>ser_lcr := lcr\<rparr>" "panic_msg t = panic_msg s"
    "tty_settings (tty t) = uart_termios lcr speed (tty_settings (tty c))"
    using line_registers_keep [OF c(2,3), of I8250_LCR] c(2-4) assms(3)
    by (simp_all add: t_def write_line_registers d)
  moreover have "snd (run_state (program_line d lcr) s) = t"
    by (simp add: program_line_def a_def b_def c_def t_def case_prod_beta)
  ultimately show ?thesis
    using uart_speed_bauds [OF assms(3)] by (simp add: Let_def termios_lcr d)
qed

subsection \<open>A machine with a serial line\<close>

definition uart_power_on :: uart_board where
  "uart_power_on = disk_board.extend (floppy_board.extend floppy_power_on (disk_board.fields xthdc_init_state))
     (uart_board.fields i8250_init_state \<lparr>tty_settings = \<lparr>tio_raw = False, tio_csize = CS8, tio_parenb = False,
        tio_parodd = False, tio_ispeed = B9600, tio_ospeed = B9600\<rparr>, tty_errors = (\<lambda>_. None), tty_calls = 0,
      tty_input = (\<lambda>n. if n < 3 then Some (of_nat n + 65) else None), tty_polls = 0, tty_output = []\<rparr>)"

definition uart_selected :: uart_board where
  "uart_selected = uart_power_on\<lparr>mos5720 := (mos5720 uart_power_on)\<lparr>mos5720_mode := 0x89\<rparr>\<rparr>"

lemmas uart_demo_defs = Let_def uart_selected_def uart_power_on_def i8250_init_state_def uart_board.defs disk_board.defs
  floppy_board.defs

lemma uart_selected_ready: "uart_ready uart_selected" "uart_valid uart_selected" "tx_bytes uart_selected = []"
  "rx_bytes uart_selected = []"
  by (simp_all add: uart_demo_defs uart_ready_def uart_valid_def ring_valid_def I8250_RX_FIFO_SIZE_def
      I8250_TX_FIFO_SIZE_def tx_bytes_def rx_bytes_def ring_contents_def ring_length_def)

theorem uart_transmit_witness:
  "tty_output (tty (uart_runs 2 (snd (run_state (for_each [72, 105, 33] (i8250_register_write I8250_THR)) uart_selected))))
     = [72, 105]"
proof -
  have "tty_output (tty uart_selected) = []" by (simp add: uart_demo_defs)
  then show ?thesis
    using uart_transmit [OF uart_selected_ready(1,2), of "[72, 105, 33]" 2]
    unfolding Let_def uart_selected_ready(3) by (simp del: for_each.simps)
qed

theorem uart_receive_witness:
  "fst (run_state (replicate_m 4 (i8250_register_read I8250_RBR)) (uart_runs 5 uart_selected)) = [65, 66, 67, 0]"
proof -
  have "uart_input uart_selected 5 = [65, 66, 67]"
    by (simp add: uart_demo_defs uart_input_def List.map_filter_def upt_rec)
  then show ?thesis
    using uart_receive [OF uart_selected_ready(1,2) refl, of 4 5]
    unfolding uart_selected_ready(4) by (simp add: numeral_eq_Suc del: replicate_m.simps)
qed

theorem uart_line_settings_witness:
  "tio_ospeed (tty_settings (tty (snd (run_state (program_line 96 0x1B) uart_selected)))) = B1200"
proof -
  have "\<forall>n. tty_errors (tty uart_selected) n = None" "mos5720_mode (mos5720 uart_selected) \<in> {0x89, 0xD9}"
    "uart_speed 96 = Some B1200"
    by (simp_all add: uart_demo_defs uart_speed_def)
  from uart_line_settings [OF this, of "0x1B"] show ?thesis unfolding Let_def by blast
qed

end
