(* ===== verification/Net_Frame.thy ===== *)
theory Net_Frame
  imports I8250
begin

unbundle bit_operations_syntax

text \<open>
  net.c, first part: the state of the emulated network, the frame to be received by the guest, the
  checksums, and the headers every reply is made of. The sockets are the host's: the system calls
  are recorded in order in \<open>net_calls\<close> and answered by an arbitrary sequence \<open>net_results\<close>. The
  frame is an array of \<open>NET_MTU\<close> bytes; an access outside it is an \<open>undefined_access\<close>.
\<close>

subsection \<open>State\<close>

definition NET_MTU :: nat where "NET_MTU = 1514"
definition NET_SOCKETS_MAX :: nat where "NET_SOCKETS_MAX = 5"
definition NET_SOCKET_INACTIVITY_TIMEOUT :: int where "NET_SOCKET_INACTIVITY_TIMEOUT = 1000000"
definition NET_SOCKET_ACK_WAIT :: int where "NET_SOCKET_ACK_WAIT = 100"
definition NET_MAC_REMOTE :: u8 where "NET_MAC_REMOTE = 0x11"
definition NET_MAC_LOCAL :: u8 where "NET_MAC_LOCAL = 0x22"
definition NET_IP_REMOTE :: u32 where "NET_IP_REMOTE = 0x0A000001"
definition NET_IP_LOCAL :: u32 where "NET_IP_LOCAL = 0x0A000002"

record net_udp_socket_t =
  udp_fd :: int
  udp_inactivity_timeout :: int
  udp_src_port :: u16
  udp_dst_port :: u16
  udp_dst_ip :: u32

record net_tcp_socket_t =
  tcp_fd :: int
  tcp_inactivity_timeout :: int
  tcp_src_port :: u16
  tcp_dst_port :: u16
  tcp_dst_ip :: u32
  tcp_send_seq :: u32
  tcp_recv_seq :: u32
  tcp_fin_ack_sent :: bool
  tcp_ack_wait :: int

record net_t =
  rx_frame :: "nat \<Rightarrow> u8"
  rx_len :: u16
  rx_ready :: bool
  ip_id :: u16
  udp_sockets :: "nat \<Rightarrow> net_udp_socket_t"
  tcp_sockets :: "nat \<Rightarrow> net_tcp_socket_t"

text \<open>A system call and its result: return value, \<open>errno\<close> afterwards, and what it stores: the bytes
  received and the address of their sender.\<close>

datatype net_call =
  Socket_stream | Socket_dgram_nonblock
| Connect int u32 u16
| Fcntl_getfl int | Fcntl_setfl_nonblock int int
| Send int "u8 list" | Sendto int "u8 list" u32 u16
| Recv int nat | Recvfrom int nat
| Close int

record net_result =
  res_value :: int
  res_errno :: int
  res_data :: "u8 list"
  res_ip :: u32
  res_port :: u16

record net_board = uart_board +
  net :: net_t
  net_calls :: "net_call list"
  net_results :: "nat \<Rightarrow> net_result"

definition getn :: "(net_t \<Rightarrow> 'x) \<Rightarrow> ('a net_board_scheme, 'x) state" where
  "getn f = gets (\<lambda>s. f (net s))"

definition modn :: "(net_t \<Rightarrow> net_t) \<Rightarrow> ('a net_board_scheme, unit) state" where
  "modn f = modify (\<lambda>s. s\<lparr>net := f (net s)\<rparr>)"

definition net_syscall :: "net_call \<Rightarrow> ('a net_board_scheme, net_result) state" where
  "net_syscall call = do {
     r \<leftarrow> gets (\<lambda>s. net_results s (length (net_calls s)));
     modify (\<lambda>s. s\<lparr>net_calls := net_calls s @ [call]\<rparr>);
     return r
   }"

lemma run_state_getn [simp]: "run_state (getn f) s = (f (net s), s)"
  by (simp add: getn_def)

lemma run_state_modn [simp]: "run_state (modn f) s = ((), s\<lparr>net := f (net s)\<rparr>)"
  by (simp add: modn_def)

lemma run_net_syscall [simp]:
  "run_state (net_syscall call) s =
    (net_results s (length (net_calls s)), s\<lparr>net_calls := net_calls s @ [call]\<rparr>)"
  by (simp add: net_syscall_def)

lemma net_only_rom [frame_intros]:
  "preserves rom_view (getn f)" "preserves rom_view (modn g)" "preserves rom_view (net_syscall call)"
  by (simp_all add: preserves_def rom_view_def net_syscall_def)

subsection \<open>The frame\<close>

text \<open>Consecutive assignments \<open>rx_frame[pos] = b0; rx_frame[pos + 1] = b1; ...\<close>\<close>

definition frame_put :: "nat \<Rightarrow> u8 list \<Rightarrow> (nat \<Rightarrow> u8) \<Rightarrow> nat \<Rightarrow> u8" where
  "frame_put pos bs f i = (if pos \<le> i \<and> i < pos + length bs then bs ! (i - pos) else f i)"

definition rx_put :: "nat \<Rightarrow> u8 list \<Rightarrow> ('a net_board_scheme, unit) state" where
  "rx_put pos bs =
    (if pos + length bs \<le> NET_MTU then modn (\<lambda>n. n\<lparr>rx_frame := frame_put pos bs (rx_frame n)\<rparr>)
     else undefined_access)"

text \<open>The bytes of a 16-bit and a 32-bit value, the high byte first, and back.\<close>

definition be16_bytes :: "u16 \<Rightarrow> u8 list" where
  "be16_bytes w = [ucast (drop_bit 8 w), ucast (w AND 0xFF)]"

definition be32_bytes :: "u32 \<Rightarrow> u8 list" where
  "be32_bytes w = [ucast (drop_bit 24 w), ucast (drop_bit 16 w), ucast (drop_bit 8 w), ucast w]"

definition be16 :: "(nat \<Rightarrow> u8) \<Rightarrow> nat \<Rightarrow> u16" where
  "be16 f i = push_bit 8 (ucast (f i)) + ucast (f (i + 1))"

definition be32 :: "(nat \<Rightarrow> u8) \<Rightarrow> nat \<Rightarrow> u32" where
  "be32 f i = push_bit 24 (ucast (f i)) + push_bit 16 (ucast (f (i + 1))) + push_bit 8 (ucast (f (i + 2))) +
     ucast (f (i + 3))"

subsection \<open>Checksums\<close>

text \<open>\<open>while (add >> 16) add = (add & 0xFFFF) + (add >> 16);\<close>\<close>

function fold_carry :: "int \<Rightarrow> int" where
  "fold_carry a = (if drop_bit 16 a \<noteq> 0 then fold_carry ((a AND 0xFFFF) + drop_bit 16 a) else a)"
  by auto

lemma and_FFFF: "a AND 0xFFFF = a mod (65536 :: int)"
proof -
  have "(0xFFFF :: int) = mask 16" by (simp add: mask_eq_exp_minus_1)
  then show ?thesis by (simp only: take_bit_eq_mask [symmetric]) (simp add: take_bit_eq_mod)
qed

lemma fold_carry_step: "(a AND 0xFFFF) + drop_bit 16 a = a mod 65536 + a div (65536 :: int)"
  by (simp add: drop_bit_eq_div and_FFFF)

lemma fold_carry_less:
  fixes a :: int
  assumes "a div 65536 \<noteq> 0"
  defines "b \<equiv> a mod 65536 + a div 65536"
  shows "(if b < 0 then 65536 + nat (- b) else nat b) < (if a < 0 then 65536 + nat (- a) else nat a)"
proof -
  define q m where "q = a div 65536" and "m = a mod 65536"
  have a: "a = 65536 * q + m" and m: "0 \<le> m" "m < 65536" and q: "q \<noteq> 0"
    using assms(1) by (simp_all add: q_def m_def)
  have b: "b = m + q" by (simp add: b_def q_def m_def)
  show ?thesis
  proof (cases "q < 0")
    case True
    then show ?thesis using m unfolding a b by auto
  next
    case False
    then show ?thesis using m q unfolding a b by auto
  qed
qed

termination fold_carry
proof (relation "measure (\<lambda>a. if a < 0 then 65536 + nat (- a) else nat a)")
  fix a :: int
  assume "drop_bit 16 a \<noteq> 0"
  then have "a div 65536 \<noteq> 0" by (simp add: drop_bit_eq_div)
  then show "((a AND 0xFFFF) + drop_bit 16 a, a) \<in> measure (\<lambda>a. if a < 0 then 65536 + nat (- a) else nat a)"
    unfolding in_measure fold_carry_step by (rule fold_carry_less)
qed simp

declare fold_carry.simps [simp del]

text \<open>The words of a buffer, an odd last byte filled up with zero, added to a 32-bit variable.\<close>

fun sum_words :: "u8 list \<Rightarrow> u32 \<Rightarrow> u32" where
  "sum_words [] a = a"
| "sum_words [b] a = a + push_bit 8 (int8u b)"
| "sum_words (b # c # bs) a = sum_words bs (a + push_bit 8 (int8u b) + int8u c)"

definition net_ip_checksum :: "u8 list \<Rightarrow> u16" where
  "net_ip_checksum buffer =
    (let add = sum_words buffer (- 1);
         add = fold_carry (sint add)
     in word_of_int (NOT add))"

definition IPPROTO_ICMP :: u8 where "IPPROTO_ICMP = 1"
definition IPPROTO_TCP :: u8 where "IPPROTO_TCP = 6"
definition IPPROTO_UDP :: u8 where "IPPROTO_UDP = 17"

definition net_proto_checksum :: "u8 list \<Rightarrow> u32 \<Rightarrow> u32 \<Rightarrow> u8 \<Rightarrow> u16" where
  "net_proto_checksum buffer src_ip dst_ip proto =
    (let add = 0;
         add = add + drop_bit 16 src_ip;
         add = add + (src_ip AND 0xFFFF);
         add = add + drop_bit 16 dst_ip;
         add = add + (dst_ip AND 0xFFFF);
         add = add + int8u proto;
         add = add + of_nat (length buffer);
         add = sum_words buffer add;
         add = fold_carry (uint add);
         checksum = word_of_int (NOT add)
     in if proto = IPPROTO_UDP \<and> checksum = 0 then 0xFFFF else checksum)"

subsection \<open>What a receiver checks\<close>

text \<open>The sum of the words, and the receiver's test: with the checksum in place, the sum with end
  around carry is 0xFFFF.\<close>

fun word_total :: "u8 list \<Rightarrow> nat" where
  "word_total [] = 0"
| "word_total [b] = unat b * 256"
| "word_total (b # c # bs) = unat b * 256 + unat c + word_total bs"

definition pseudo_total :: "nat \<Rightarrow> u32 \<Rightarrow> u32 \<Rightarrow> u8 \<Rightarrow> nat" where
  "pseudo_total len src dst proto = unat (drop_bit 16 src) + unat (src AND 0xFFFF) + unat (drop_bit 16 dst) +
     unat (dst AND 0xFFFF) + unat proto + len"

definition checksum_ok :: "nat \<Rightarrow> bool" where
  "checksum_ok n \<longleftrightarrow> fold_carry (int n) = 0xFFFF"

lemma fold_carry_unfold:
  "fold_carry a = (if a div 65536 \<noteq> 0 then fold_carry (a mod 65536 + a div 65536) else a)"
  by (subst fold_carry.simps) (simp add: and_FFFF drop_bit_eq_div)

lemma fold_carry_range: "0 \<le> fold_carry a \<and> fold_carry a \<le> 65535"
proof (induction a rule: fold_carry.induct)
  case (1 a)
  show ?case
  proof (cases "a div 65536 = 0")
    case True
    then show ?thesis by (subst (1 2) fold_carry_unfold) (auto simp: div_eq_0_iff)
  next
    case False
    then show ?thesis
      using 1 by (subst (1 2) fold_carry_unfold) (simp add: and_FFFF drop_bit_eq_div)
  qed
qed

lemma fold_carry_mod: "fold_carry a mod 65535 = a mod 65535"
proof (induction a rule: fold_carry.induct)
  case (1 a)
  have "a mod 65536 + a div 65536 = a - 65535 * (a div 65536)"
    using div_mult_mod_eq [of a 65536] by linarith
  then have "(a mod 65536 + a div 65536) mod 65535 = a mod 65535"
    by (metis mod_mult_self4 diff_add_cancel add.commute)
  then show ?case
    using 1 by (subst fold_carry_unfold) (simp add: and_FFFF drop_bit_eq_div)
qed

lemma fold_carry_pos: "0 < a \<Longrightarrow> 0 < fold_carry a"
proof (induction a rule: fold_carry.induct)
  case (1 a)
  have "0 < a mod 65536 + a div 65536"
    using 1(2) div_mult_mod_eq [of a 65536] pos_imp_zdiv_nonneg_iff [of 65536 a] by (smt (verit) pos_mod_sign)
  then show ?case
    using 1 by (subst fold_carry_unfold) (simp add: and_FFFF drop_bit_eq_div)
qed

text \<open>The complement of the folded sum makes the sum valid.\<close>

lemma checksum_completes:
  assumes "c = 65535 - nat (fold_carry (int n)) \<or> c = 65535 \<and> fold_carry (int n) = 65535"
  shows "checksum_ok (n + c)"
proof -
  define r where "r = fold_carry (int n)"
  have r: "0 \<le> r" "r \<le> 65535" "r mod 65535 = int n mod 65535"
    using fold_carry_range [of "int n"] fold_carry_mod [of "int n"] by (simp_all add: r_def)
  have pos: "0 < n + c"
    using assms fold_carry_unfold [of 0] by (cases n) (auto simp: r_def)
  have c: "int c = 65535 - r \<or> int c = 65535 \<and> r = 65535"
    using assms r unfolding r_def by auto
  moreover from r(3) obtain k where "int n = r + 65535 * k" by (auto elim: mod_eqE)
  ultimately have "int (n + c) = 65535 * (k + 1) \<or> int (n + c) = 65535 * (k + 2)" by auto
  then have "int (n + c) mod 65535 = 0" by (metis mod_mult_self1_is_0)
  then have "fold_carry (int (n + c)) mod 65535 = 0" by (simp only: fold_carry_mod)
  moreover have "0 < fold_carry (int (n + c))" using pos by (intro fold_carry_pos) (simp only: of_nat_0_less_iff)
  moreover have "fold_carry (int (n + c)) < 65535 \<Longrightarrow> fold_carry (int (n + c)) mod 65535 = fold_carry (int (n + c))"
    using fold_carry_range [of "int (n + c)"] by (simp only: mod_pos_pos_trivial)
  ultimately show ?thesis
    using fold_carry_range [of "int (n + c)"] unfolding checksum_ok_def by linarith
qed


lemma byte_of_nat: "int8u b = of_nat (unat b)"
  by (rule of_nat_unat [symmetric])

lemma byte_high: "push_bit 8 (int8u b) = of_nat (unat b * 256)"
  by (simp add: push_bit_eq_mult)

lemma sum_words_total: "sum_words bs a = a + of_nat (word_total bs)"
proof (induction bs a rule: sum_words.induct)
  case (3 b c bs a)
  have "sum_words (b # c # bs) a = a + push_bit 8 (int8u b) + int8u c + of_nat (word_total bs)"
    by (simp only: sum_words.simps 3)
  then show ?case
    unfolding byte_high unfolding byte_of_nat by (simp only: word_total.simps of_nat_add add.assoc)
qed (simp_all add: byte_high)

lemma word_total_append:
  "even (length xs) \<Longrightarrow> word_total (xs @ ys) = word_total xs + word_total ys"
  by (induction xs rule: word_total.induct) simp_all

lemma word_total_bound: "word_total bs \<le> 65535 * ((length bs + 1) div 2)"
proof (induction bs rule: word_total.induct)
  case (2 b)
  then show ?case using unat_u8 [of b] by simp
next
  case (3 b c bs)
  then show ?case using unat_u8 [of b] unat_u8 [of c] by simp
qed simp

lemma complement_value:
  assumes "0 \<le> r" "r \<le> 65535"
  shows "(word_of_int (NOT r) :: u16) = of_nat (65535 - nat r)"
    and "unat (word_of_int (NOT r) :: u16) = 65535 - nat r"
proof -
  have "(word_of_int (NOT r) :: u16) = word_of_int (65535 - r)"
    by (simp add: not_int_def)
  moreover have "(word_of_int (65535 - r) :: u16) = of_nat (65535 - nat r)"
    using assms by (simp add: nat_le_eq_zle)
  ultimately show "(word_of_int (NOT r) :: u16) = of_nat (65535 - nat r)" by simp
  then show "unat (word_of_int (NOT r) :: u16) = 65535 - nat r" by (simp add: unat_of_nat)
qed

lemma ip_checksum_value:
  assumes "word_total bs = Suc n" "n < 2 ^ 31"
  shows "unat (net_ip_checksum bs) = 65535 - nat (fold_carry (int n))"
proof -
  have "sum_words bs (- 1) = of_nat n" by (simp add: sum_words_total assms(1))
  moreover have "sint (of_nat n :: u32) = int n"
    using assms(2) by (simp add: sint_uint uint_nat unat_of_nat signed_take_bit_int_eq_self)
  ultimately show ?thesis
    using fold_carry_range [of "int n"] by (simp add: net_ip_checksum_def complement_value(2))
qed

lemma proto_checksum_value:
  fixes src dst proto
  assumes "length bs < 65536"
  defines "n \<equiv> pseudo_total (length bs) src dst proto + word_total bs"
  shows "unat (net_proto_checksum bs src dst proto) = 65535 - nat (fold_carry (int n)) \<or>
    unat (net_proto_checksum bs src dst proto) = 65535 \<and> fold_carry (int n) = 65535"
proof -
  have b: "unat (drop_bit 16 w) < 65536" "unat (w AND 0xFFFF) < 65536" for w :: u32
  proof -
    show "unat (drop_bit 16 w) < 65536"
      using unsigned_less [of w, where 'a = nat]
      by (simp only: unat_drop_bit_eq) (simp add: drop_bit_eq_div less_mult_imp_div_less)
    have "unat (w AND 0xFFFF) \<le> unat (0xFFFF :: u32)" by (simp only: word_le_nat_alt [symmetric] word_and_le1)
    then show "unat (w AND 0xFFFF) < 65536" by simp
  qed
  have "(length bs + 1) div 2 \<le> 32768" using assms(1) by simp
  then have "word_total bs \<le> 65535 * 32768" using word_total_bound [of bs] by simp
  then have "n \<le> 65535 * 4 + 255 + 65535 + 65535 * 32768"
    using word_total_bound [of bs] b [of src] b [of dst] unat_u8 [of proto] assms(1)
    unfolding n_def pseudo_total_def by linarith
  then have n: "n < 2 ^ 32" by simp
  have s: "sum_words bs (0 + drop_bit 16 src + (src AND 0xFFFF) + drop_bit 16 dst + (dst AND 0xFFFF) + int8u proto +
      of_nat (length bs)) = of_nat n"
    by (simp add: sum_words_total n_def pseudo_total_def)
  have u: "uint (of_nat n :: u32) = int n" using n by (simp add: uint_nat unat_of_nat)
  define c :: u16 where "c = word_of_int (NOT (fold_carry (int n)))"
  have "net_proto_checksum bs src dst proto = (if proto = IPPROTO_UDP \<and> c = 0 then 0xFFFF else c)"
    unfolding net_proto_checksum_def Let_def s u c_def by (rule refl)
  moreover have "unat c = 65535 - nat (fold_carry (int n))"
    using fold_carry_range [of "int n"] unfolding c_def by (intro complement_value(2)) simp_all
  moreover from this have "c = 0 \<Longrightarrow> fold_carry (int n) = 65535"
    using fold_carry_range [of "int n"] by (simp, linarith)
  ultimately show ?thesis by auto
qed


subsection \<open>Headers of a reply\<close>

text \<open>The buffer of \<open>len\<close> bytes at \<open>&net->rx_frame[pos]\<close>, as the checksum functions read it.\<close>

definition rx_buffer :: "nat \<Rightarrow> int \<Rightarrow> ('a net_board_scheme, u8 list) state" where
  "rx_buffer pos len =
    (if 0 \<le> len \<and> pos + nat len \<le> NET_MTU then getn (\<lambda>n. map (rx_frame n) [pos..<pos + nat len])
     else do { undefined_access; return [] })"

definition net_ethernet_reply :: "('a net_board_scheme, unit) state" where
  "net_ethernet_reply = do {
     rx_put 0x00 [NET_MAC_LOCAL, NET_MAC_LOCAL, NET_MAC_LOCAL, NET_MAC_LOCAL, NET_MAC_LOCAL, NET_MAC_LOCAL];
     rx_put 0x06 [NET_MAC_REMOTE, NET_MAC_REMOTE, NET_MAC_REMOTE, NET_MAC_REMOTE, NET_MAC_REMOTE, NET_MAC_REMOTE]
   }"

definition net_ipv4_reply :: "u16 \<Rightarrow> u8 \<Rightarrow> u32 \<Rightarrow> ('a net_board_scheme, unit) state" where
  "net_ipv4_reply ip_len proto src_ip = do {
     rx_put 0x0C [0x08, 0x00, 0x45, 0x00];
     rx_put 0x10 (be16_bytes ip_len);
     ident \<leftarrow> getn ip_id;
     rx_put 0x12 (be16_bytes ident);
     rx_put 0x14 [0x00, 0x00, 0x40, proto, 0x00, 0x01];
     rx_put 0x1A (be32_bytes src_ip);
     rx_put 0x1E (be32_bytes NET_IP_LOCAL);
     header \<leftarrow> rx_buffer 0x0E 20;
     rx_put 0x18 (be16_bytes (net_ip_checksum header));
     modn (\<lambda>n. n\<lparr>ip_id := ip_id n + 1\<rparr>)
   }"

definition net_udp_reply :: "int \<Rightarrow> u32 \<Rightarrow> u16 \<Rightarrow> u16 \<Rightarrow> ('a net_board_scheme, unit) state" where
  "net_udp_reply recv_bytes src_ip src_port dst_port = do {
     rx_put 0x22 (be16_bytes src_port);
     rx_put 0x24 (be16_bytes dst_port);
     rx_put 0x26 (be16_bytes (word_of_int (8 + recv_bytes)));
     rx_put 0x28 [0x00, 0x00];
     datagram \<leftarrow> rx_buffer 0x22 (8 + recv_bytes);
     rx_put 0x28 (be16_bytes (net_proto_checksum datagram src_ip NET_IP_LOCAL IPPROTO_UDP))
   }"

definition net_tcp_reply :: "int \<Rightarrow> nat \<Rightarrow> u8 \<Rightarrow> ('a net_board_scheme, unit) state" where
  "net_tcp_reply len socket_index fl = do {
     socket \<leftarrow> getn (\<lambda>n. tcp_sockets n socket_index);
     rx_put 0x22 (be16_bytes (tcp_dst_port socket));
     rx_put 0x24 (be16_bytes (tcp_src_port socket));
     rx_put 0x26 (be32_bytes (tcp_send_seq socket));
     rx_put 0x2A (be32_bytes (tcp_recv_seq socket));
     rx_put 0x2E [0x50, fl, 0xFF, 0x00, 0x00, 0x00, 0x00, 0x00];
     segment \<leftarrow> rx_buffer 0x22 len;
     rx_put 0x32 (be16_bytes (net_proto_checksum segment (tcp_dst_ip socket) NET_IP_LOCAL IPPROTO_TCP))
   }"

subsection \<open>Reading a frame after writes\<close>

lemma run_rx_put [simp]:
  "pos + length bs \<le> NET_MTU \<Longrightarrow> run_state (rx_put pos bs) s = ((), s\<lparr>net := (net s)\<lparr>rx_frame := frame_put pos bs (rx_frame (net s))\<rparr>\<rparr>)"
  by (simp add: rx_put_def)

lemma length_be [simp]: "length (be16_bytes w) = 2" "length (be32_bytes v) = 4"
  by (simp_all add: be16_bytes_def be32_bytes_def)

lemma run_rx_buffer [simp]:
  "0 \<le> len \<Longrightarrow> pos + nat len \<le> NET_MTU \<Longrightarrow>
   run_state (rx_buffer pos len) s = (map (rx_frame (net s)) [pos..<pos + nat len], s)"
  by (simp add: rx_buffer_def)

lemma frame_put_nil [simp]: "frame_put pos [] f i = f i"
  by (auto simp: frame_put_def)

lemma frame_put_Cons: "frame_put pos (b # bs) f i = (if i = pos then b else frame_put (Suc pos) bs f i)"
  by (auto simp: frame_put_def nth_Cons')

lemma frame_put_outside [simp]: "i < pos \<or> pos + length bs \<le> i \<Longrightarrow> frame_put pos bs f i = f i"
  by (auto simp: frame_put_def)

lemma frame_put_inside [simp]: "pos \<le> i \<Longrightarrow> i < pos + length bs \<Longrightarrow> frame_put pos bs f i = bs ! (i - pos)"
  by (simp add: frame_put_def)

definition frame_slice :: "nat \<Rightarrow> nat \<Rightarrow> (nat \<Rightarrow> u8) \<Rightarrow> u8 list" where
  "frame_slice pos len f = map f [pos..<pos + len]"

lemma slice_same [simp]: "frame_slice pos (length bs) (frame_put pos bs f) = bs"
  by (rule nth_equalityI) (simp_all add: frame_slice_def)

lemma slice_other [simp]:
  "pos + len \<le> q \<or> q + length bs \<le> pos \<Longrightarrow> frame_slice pos len (frame_put q bs f) = frame_slice pos len f"
  by (auto simp: frame_slice_def)

lemma be16_bytes_halves: "be16_bytes w = [hi8 w, lo8 w]"
proof -
  have "ucast (w AND 0xFF) = lo8 w" by (rule byte_eqI) (auto simp: lo8_def bit_simps)
  then show ?thesis by (simp add: be16_bytes_def hi8_def)
qed

lemma be16_value: "be16 f i = word16 (f (i + 1)) (f i)"
  by (simp add: be16_def word16_def push_bit_eq_mult)

lemma unat_word16: "unat (word16 lo hi) = unat hi * 256 + unat lo"
proof -
  have "unat (ucast x :: u16) = unat x" for x :: u8
    by (simp add: unsigned_ucast_eq take_bit_nat_eq_self order_less_le_trans [OF unat_u8])
  then show ?thesis using unat_u8 [of lo] unat_u8 [of hi] by (simp add: word16_def unat_word_ariths)
qed

lemma word_total_be16 [simp]: "word_total (be16_bytes w) = unat w"
  using unat_word16 [of "lo8 w" "hi8 w"] by (simp add: be16_bytes_halves)

text \<open>A 16-bit value written into the frame is read back.\<close>

lemma be16_put: "be16 (frame_put pos (be16_bytes w) f) pos = w"
  by (simp add: be16_value be16_bytes_halves)

end
