(* ===== verification/Edfs.thy ===== *)
theory Edfs
  imports Net_Frame
begin

unbundle bit_operations_syntax

text \<open>
  edfs.c: a directory of the host as a DOS drive, served over ethernet frames. Path conversion, the
  table of known paths (the cluster numbers), and one function for each request. The host's file
  system is a parameter, as the sockets are: calls are recorded in \<open>fs_calls\<close> and answered by the
  sequence \<open>fs_results\<close>. C strings are lists of bytes without the terminating zero; a string that
  does not fit its buffer is an \<open>undefined_access\<close>, and what follows it is no longer what the C program
  does: theorems about requests assume, or show, that \<open>wild\<close> is not set. For its trace buffer see
  \<open>Trace_Log\<close>.
\<close>

subsection \<open>State\<close>

type_synonym cstr = "u8 list"

definition EDFS_CLUSTER_MAX :: nat where "EDFS_CLUSTER_MAX = 1024"
definition EDFS_PATH83_MAX :: nat where "EDFS_PATH83_MAX = 260"
definition EDFS_PATH_MAX :: nat where "EDFS_PATH_MAX = 512"
definition PATH_MAX :: nat where "PATH_MAX = 4096"

definition EDFS_RMDIR :: u8 where "EDFS_RMDIR = 0x01"
definition EDFS_MKDIR :: u8 where "EDFS_MKDIR = 0x03"
definition EDFS_CHDIR :: u8 where "EDFS_CHDIR = 0x05"
definition EDFS_CLOSEFILE :: u8 where "EDFS_CLOSEFILE = 0x06"
definition EDFS_READFILE :: u8 where "EDFS_READFILE = 0x08"
definition EDFS_WRITEFILE :: u8 where "EDFS_WRITEFILE = 0x09"
definition EDFS_DISKSPACE :: u8 where "EDFS_DISKSPACE = 0x0C"
definition EDFS_SETATTR :: u8 where "EDFS_SETATTR = 0x0E"
definition EDFS_GETATTR :: u8 where "EDFS_GETATTR = 0x0F"
definition EDFS_RENAME :: u8 where "EDFS_RENAME = 0x11"
definition EDFS_DELETE :: u8 where "EDFS_DELETE = 0x13"
definition EDFS_OPEN :: u8 where "EDFS_OPEN = 0x16"
definition EDFS_CREATE :: u8 where "EDFS_CREATE = 0x17"
definition EDFS_FINDFIRST :: u8 where "EDFS_FINDFIRST = 0x1B"
definition EDFS_FINDNEXT :: u8 where "EDFS_FINDNEXT = 0x1C"
definition EDFS_SPOPNFIL :: u8 where "EDFS_SPOPNFIL = 0x2E"

definition EDFS_RESULT_OK :: u16 where "EDFS_RESULT_OK = 0x00"
definition EDFS_RESULT_INVALID_FUNCTION :: u16 where "EDFS_RESULT_INVALID_FUNCTION = 0x01"
definition EDFS_RESULT_FILE_NOT_FOUND :: u16 where "EDFS_RESULT_FILE_NOT_FOUND = 0x02"
definition EDFS_RESULT_PATH_NOT_FOUND :: u16 where "EDFS_RESULT_PATH_NOT_FOUND = 0x03"
definition EDFS_RESULT_ACCESS_DENIED :: u16 where "EDFS_RESULT_ACCESS_DENIED = 0x05"
definition EDFS_RESULT_NO_MORE_MATCH :: u16 where "EDFS_RESULT_NO_MORE_MATCH = 0x12"

text \<open>Paths, on the host and in 8.3 form; the table is the used part of \<open>edfs_cluster\<close>.\<close>

record edfs_t =
  edfs_inited :: bool
  edfs_root :: cstr
  edfs_cluster :: "(cstr \<times> cstr) list"

datatype fs_kind = Fs_directory | Fs_regular | Fs_other

datatype fs_mode = Mode_wb_plus | Mode_rb | Mode_ab

datatype fs_call =
  Opendir cstr | Closedir | Stat cstr
| Fopen cstr fs_mode | Fread u32 u16 | Fwrite "u8 list" | Fclose
| Rmdir cstr | Mkdir cstr | Rename cstr cstr | Unlink cstr

text \<open>What a call answers: success, the names \<open>readdir\<close> is going to return, the fields of
  \<open>struct stat\<close> (the modification time as \<open>localtime_r\<close> splits it), the bytes read and the number
  of bytes written.\<close>

record fs_result =
  fs_ok :: bool
  fs_names :: "cstr list"
  fs_kind :: fs_kind
  fs_mtime :: tm
  fs_size :: int
  fs_data :: "u8 list"
  fs_count :: u16

record edfs_board = net_board +
  edfs :: edfs_t
  fs_calls :: "fs_call list"
  fs_results :: "nat \<Rightarrow> fs_result"

definition gete :: "(edfs_t \<Rightarrow> 'x) \<Rightarrow> ('a edfs_board_scheme, 'x) state" where
  "gete f = gets (\<lambda>s. f (edfs s))"

definition mode :: "(edfs_t \<Rightarrow> edfs_t) \<Rightarrow> ('a edfs_board_scheme, unit) state" where
  "mode f = modify (\<lambda>s. s\<lparr>edfs := f (edfs s)\<rparr>)"

definition fs_syscall :: "fs_call \<Rightarrow> ('a edfs_board_scheme, fs_result) state" where
  "fs_syscall call = do {
     r \<leftarrow> gets (\<lambda>s. fs_results s (length (fs_calls s)));
     modify (\<lambda>s. s\<lparr>fs_calls := fs_calls s @ [call]\<rparr>);
     return r
   }"

lemma run_state_gete [simp]: "run_state (gete f) s = (f (edfs s), s)"
  by (simp add: gete_def)

lemma run_state_mode [simp]: "run_state (mode f) s = ((), s\<lparr>edfs := f (edfs s)\<rparr>)"
  by (simp add: mode_def)

lemma run_fs_syscall [simp]:
  "run_state (fs_syscall call) s = (fs_results s (length (fs_calls s)), s\<lparr>fs_calls := fs_calls s @ [call]\<rparr>)"
  by (simp add: fs_syscall_def)

lemma edfs_only_rom [frame_intros]:
  "preserves rom_view (gete f)" "preserves rom_view (mode g)" "preserves rom_view (fs_syscall call)"
  by (simp_all add: preserves_def rom_view_def fs_syscall_def)

subsection \<open>Paths\<close>

definition chr_slash :: u8 where "chr_slash = 0x2F"
definition chr_backslash :: u8 where "chr_backslash = 0x5C"
definition chr_dot :: u8 where "chr_dot = 0x2E"
definition chr_space :: u8 where "chr_space = 0x20"
definition chr_question :: u8 where "chr_question = 0x3F"

lemmas chr_defs = chr_slash_def chr_backslash_def chr_dot_def chr_space_def chr_question_def

text \<open>\<open>isprint\<close> and \<open>toupper\<close> of the C locale.\<close>

definition isprint :: "u8 \<Rightarrow> bool" where "isprint c \<longleftrightarrow> 0x20 \<le> c \<and> c \<le> 0x7E"
definition toupper :: "u8 \<Rightarrow> u8" where "toupper c = (if 0x61 \<le> c \<and> c \<le> 0x7A then c - 0x20 else c)"

fun path83_loop :: "cstr \<Rightarrow> bool \<Rightarrow> nat \<Rightarrow> nat \<Rightarrow> cstr" where
  "path83_loop [] in_ext count_8 count_3 = []"
| "path83_loop (c # p) in_ext count_8 count_3 =
     (if c = chr_slash then chr_backslash # path83_loop p False 0 0
      else if c = chr_dot then
        (if in_ext then
           (if count_3 + 1 > 3 then path83_loop p in_ext count_8 (count_3 + 1)
            else chr_dot # path83_loop p in_ext count_8 (count_3 + 1))
         else chr_dot # path83_loop p True count_8 count_3)
      else if isprint c then
        (if in_ext then
           (if count_3 + 1 > 3 then path83_loop p in_ext count_8 (count_3 + 1)
            else toupper c # path83_loop p in_ext count_8 (count_3 + 1))
         else
           (if count_8 + 1 > 8 then path83_loop p in_ext (count_8 + 1) count_3
            else toupper c # path83_loop p in_ext (count_8 + 1) count_3))
      else path83_loop p in_ext count_8 count_3)"

definition unixpath_to_path83 :: "cstr \<Rightarrow> cstr" where
  "unixpath_to_path83 path = path83_loop path False 0 0"

text \<open>\<open>strrchr\<close> on the backslash: the part before the last one and the part after it.\<close>

definition before_last :: "u8 \<Rightarrow> cstr \<Rightarrow> cstr option" where
  "before_last c s = (if c \<in> set s then Some (rev (tl (dropWhile (\<lambda>x. x \<noteq> c) (rev s)))) else None)"

definition after_last :: "u8 \<Rightarrow> cstr \<Rightarrow> cstr" where
  "after_last c s = rev (takeWhile (\<lambda>x. x \<noteq> c) (rev s))"

fun fcb_loop :: "cstr \<Rightarrow> nat \<Rightarrow> bool \<Rightarrow> cstr \<Rightarrow> cstr" where
  "fcb_loop [] n in_ext out = out"
| "fcb_loop (c # p) n in_ext out =
     (if c = chr_dot \<and> in_ext = False then fcb_loop p 8 True out
      else let out = out[n := c]; n = n + 1
           in if n \<ge> 11 then out else fcb_loop p n in_ext out)"

definition path83_to_filefcb :: "cstr \<Rightarrow> cstr" where
  "path83_to_filefcb path =
    (let out = replicate 11 chr_space
     in if path = [chr_dot] then out[0 := chr_dot]
        else if path = [chr_dot, chr_dot] then out[0 := chr_dot, 1 := chr_dot]
        else fcb_loop (after_last chr_backslash path) 0 False out)"

definition path83_dirname :: "cstr \<Rightarrow> cstr" where
  "path83_dirname path = (case before_last chr_backslash path of None \<Rightarrow> path | Some d \<Rightarrow> d)"

definition time_to_dos_time :: "tm \<Rightarrow> u16" where
  "time_to_dos_time tm =
    (let dos_time = word_of_int (tm_sec tm div 2);
         dos_time = dos_time + word_of_int (push_bit 5 (tm_min tm));
         dos_time = dos_time + word_of_int (push_bit 11 (tm_hour tm))
     in dos_time)"

definition time_to_dos_date :: "tm \<Rightarrow> u16" where
  "time_to_dos_date tm =
    (let dos_date = word_of_int (tm_mday tm);
         dos_date = dos_date + word_of_int (push_bit 5 (tm_mon tm + 1));
         dos_date = dos_date + word_of_int (push_bit 9 (tm_year tm - 80))
     in dos_date)"

primrec bsd_checksum_loop :: "u8 list \<Rightarrow> u32 \<Rightarrow> u32" where
  "bsd_checksum_loop [] checksum = checksum"
| "bsd_checksum_loop (b # buffer) checksum =
     (let checksum = drop_bit 1 checksum + push_bit 15 (checksum AND 1);
          checksum = checksum + int8u b;
          checksum = checksum AND 0xFFFF
      in bsd_checksum_loop buffer checksum)"

definition bsd_checksum :: "u8 list \<Rightarrow> u16" where
  "bsd_checksum buffer = ucast (bsd_checksum_loop buffer 0)"

subsection \<open>The table of known paths\<close>

text \<open>A string copied or built in a buffer of \<open>n\<close> bytes, with its terminating zero.\<close>

definition fits :: "nat \<Rightarrow> cstr \<Rightarrow> ('a edfs_board_scheme, unit) state" where
  "fits n str = (if length str < n then return () else undefined_access)"

text \<open>The string found in a field of \<open>n\<close> bytes after \<open>strncpy\<close>: when the source has \<open>n\<close> bytes or more, no
  terminating zero is written, and the string runs on into what lies behind the field. Behind the path
  of an entry lies its 8.3 form; behind that, the next entry, empty as long as it is not used.\<close>

definition strncpy_field :: "nat \<Rightarrow> cstr \<Rightarrow> cstr \<Rightarrow> cstr" where
  "strncpy_field n str behind = (if length str < n then str else take n str @ behind)"

definition edfs_cluster_register :: "cstr \<Rightarrow> cstr \<Rightarrow> ('a edfs_board_scheme, unit) state" where
  "edfs_cluster_register path path83 = do {
     clusters \<leftarrow> gete edfs_cluster;
     if path \<in> set (map fst clusters) then return ()
     else if length clusters \<ge> EDFS_CLUSTER_MAX then panic ''No more EtherDFS clusters available!'' []
     else do {
       fits EDFS_PATH_MAX path;
       fits EDFS_PATH83_MAX path83;
       let field83 = strncpy_field EDFS_PATH83_MAX path83 [];
       mode (\<lambda>e. e\<lparr>edfs_cluster := clusters @ [(strncpy_field EDFS_PATH_MAX path field83, field83)]\<rparr>)
     }
   }"

primrec cluster_blank :: "cstr \<Rightarrow> (cstr \<times> cstr) list \<Rightarrow> (cstr \<times> cstr) list" where
  "cluster_blank path [] = []"
| "cluster_blank path (c # rest) = (if fst c = path then ([], []) # rest else c # cluster_blank path rest)"

definition edfs_cluster_unregister :: "cstr \<Rightarrow> ('a edfs_board_scheme, unit) state" where
  "edfs_cluster_unregister path = mode (\<lambda>e. e\<lparr>edfs_cluster := cluster_blank path (edfs_cluster e)\<rparr>)"

definition edfs_cluster_lookup :: "u16 \<Rightarrow> edfs_t \<Rightarrow> cstr option" where
  "edfs_cluster_lookup cluster e =
    (if unat cluster < EDFS_CLUSTER_MAX then
       (if unat cluster \<ge> length (edfs_cluster e) then None else Some (fst (edfs_cluster e ! unat cluster)))
     else None)"

primrec cluster_find :: "cstr \<Rightarrow> nat \<Rightarrow> (cstr \<times> cstr) list \<Rightarrow> (cstr \<times> u16) option" where
  "cluster_find path83 n [] = None"
| "cluster_find path83 n (c # rest) =
     (if snd c = path83 then Some (fst c, of_nat n) else cluster_find path83 (n + 1) rest)"

definition edfs_cluster_lookup_83 :: "cstr \<Rightarrow> edfs_t \<Rightarrow> (cstr \<times> u16) option" where
  "edfs_cluster_lookup_83 path83 e =
    (if path83 = [] then Some ([], 0)
     else if path83 = [chr_backslash] then Some ([], 0)
     else cluster_find path83 0 (edfs_cluster e))"

definition unixpath_chars :: "cstr \<Rightarrow> cstr" where
  "unixpath_chars src = concat (map (\<lambda>c. if c = chr_backslash then [chr_slash] else if isprint c then [c] else []) src)"

definition path83_to_unixpath :: "cstr \<Rightarrow> ('a edfs_board_scheme, cstr) state" where
  "path83_to_unixpath path = do {
     fits EDFS_PATH83_MAX path;
     let dir83 = path83_dirname path;
     found \<leftarrow> gete (edfs_cluster_lookup_83 dir83);
     let out = (case found of
                  Some (p, _) \<Rightarrow> p @ unixpath_chars (drop (length dir83) path)
                | None \<Rightarrow> unixpath_chars path);
     fits EDFS_PATH_MAX out;
     return out
   }"

definition edfs_init :: "cstr \<Rightarrow> ('a edfs_board_scheme, unit) state" where
  "edfs_init root = do {
     fits EDFS_PATH_MAX root;
     mode (\<lambda>e. e\<lparr>edfs_root := root, edfs_cluster := map (\<lambda>_. ([], [])) (edfs_cluster e)\<rparr>);
     edfs_cluster_register [] [];
     mode (\<lambda>e. e\<lparr>edfs_inited := True\<rparr>)
   }"

text \<open>The path in a request: the bytes from \<open>offset\<close> to the end of the frame, up to a zero. A frame that ends
  before \<open>offset\<close> makes the code write in front of the buffer and copy an enormous length; one with
  \<open>PATH_MAX\<close> bytes or more of path gives a null pointer, which the callers use. In these cases, and when
  the frame is longer than its buffer, the request is not executed any further: \<open>None\<close>.\<close>

definition edfs_path :: "(nat \<Rightarrow> u8) \<Rightarrow> nat \<Rightarrow> nat \<Rightarrow> ('a edfs_board_scheme, cstr option) state" where
  "edfs_path tx_frame tx_len offset =
    (if offset \<le> tx_len \<and> tx_len - offset < PATH_MAX \<and> tx_len \<le> NET_MTU
     then return (Some (takeWhile (\<lambda>c. c \<noteq> 0) (map tx_frame [offset..<tx_len])))
     else do { undefined_access; return None })"

definition edfs_match :: "cstr \<Rightarrow> cstr \<Rightarrow> bool" where
  "edfs_match filefcb pattern =
     list_all (\<lambda>(f, p). p \<noteq> chr_question \<longrightarrow> p = f) (zip (take 11 filefcb) (take 11 pattern))"

definition edfs_set_result :: "u16 \<Rightarrow> ('a edfs_board_scheme, unit) state" where
  "edfs_set_result code = rx_put 0x3A [lo8 code, hi8 code]"

text \<open>\<open>snprintf(tmp_path, PATH_MAX, "%s/%s", a, b)\<close>\<close>

definition join_path :: "cstr \<Rightarrow> cstr \<Rightarrow> cstr" where
  "join_path a b = take (PATH_MAX - 1) (a @ [chr_slash] @ b)"

text \<open>A request that fails: result code and a reply without data.\<close>

definition edfs_fail :: "u16 \<Rightarrow> ('a edfs_board_scheme, u16) state" where
  "edfs_fail code = do { edfs_set_result code; return 0x3C }"

definition le16_bytes :: "u16 \<Rightarrow> u8 list" where
  "le16_bytes w = [lo8 w, hi8 w]"

definition le32_bytes :: "u32 \<Rightarrow> u8 list" where
  "le32_bytes w = [ucast w, ucast (drop_bit 8 w), ucast (drop_bit 16 w), ucast (drop_bit 24 w)]"


subsection \<open>Requests\<close>

definition dot_entry :: "cstr \<Rightarrow> cstr \<Rightarrow> bool" where
  "dot_entry path name =
    (if take 1 name = [chr_dot] then
       (if name = [chr_dot] \<or> name = [chr_dot, chr_dot] then path = [] else True)
     else False)"

text \<open>The data of a directory entry, common to FIND and OPEN.\<close>

definition edfs_put_entry :: "cstr \<Rightarrow> fs_result \<Rightarrow> u16 \<Rightarrow> ('a edfs_board_scheme, unit) state" where
  "edfs_put_entry filefcb st cluster = do {
     rx_put 0x3D filefcb;
     rx_put 0x48 (le16_bytes (time_to_dos_time (fs_mtime st)));
     rx_put 0x4A (le16_bytes (time_to_dos_date (fs_mtime st)));
     rx_put 0x4C (le32_bytes (word_of_int (fs_size st)));
     rx_put 0x50 (le16_bytes cluster)
   }"

text \<open>The loop over the entries of the directory; \<open>fcb_pattern\<close> is the pattern in the form the
  entries are compared with.\<close>

primrec edfs_find_loop ::
  "cstr list \<Rightarrow> u16 \<Rightarrow> u8 \<Rightarrow> cstr \<Rightarrow> cstr \<Rightarrow> u16 \<Rightarrow> u16 \<Rightarrow> ('a edfs_board_scheme, u16) state" where
  "edfs_find_loop [] pos attrib fcb_pattern path cluster target_pos = do {
     _ \<leftarrow> fs_syscall Closedir;
     edfs_fail EDFS_RESULT_NO_MORE_MATCH
   }"
| "edfs_find_loop (name # entries) pos attrib fcb_pattern path cluster target_pos =
     (if dot_entry path name then edfs_find_loop entries pos attrib fcb_pattern path cluster target_pos
      else do {
        root \<leftarrow> gete edfs_root;
        st \<leftarrow> fs_syscall (Stat (take (PATH_MAX - 1) (root @ [chr_slash] @ path @ [chr_slash] @ name)));
        if fs_ok st = False then edfs_fail EDFS_RESULT_PATH_NOT_FOUND
        else if fs_kind st = Fs_directory \<and> attrib AND 0x10 \<noteq> 0x10
        then edfs_find_loop entries (pos + 1) attrib fcb_pattern path cluster target_pos
        else if fs_kind st = Fs_other
        then edfs_find_loop entries pos attrib fcb_pattern path cluster target_pos
        else do {
          let pos = pos + 1;
          rx_put 0x3C [if fs_kind st = Fs_directory then 0x10 else 0x00];
          let full = join_path path name;
          fits EDFS_PATH83_MAX (unixpath_to_path83 full);
          edfs_cluster_register full (unixpath_to_path83 full);
          fits EDFS_PATH83_MAX (unixpath_to_path83 name);
          let filefcb = path83_to_filefcb (unixpath_to_path83 name);
          if edfs_match filefcb fcb_pattern = False
          then edfs_find_loop entries pos attrib fcb_pattern path cluster target_pos
          else do {
            edfs_put_entry filefcb st cluster;
            rx_put 0x52 (le16_bytes pos);
            if target_pos = 0 \<or> unat target_pos + 1 = unat pos then do {
              _ \<leftarrow> fs_syscall Closedir;
              edfs_set_result EDFS_RESULT_OK;
              return 0x54
            } else edfs_find_loop entries pos attrib fcb_pattern path cluster target_pos
          }
        }
      })"

definition edfs_find :: "u8 \<Rightarrow> cstr \<Rightarrow> u16 \<Rightarrow> u16 \<Rightarrow> ('a edfs_board_scheme, u16) state" where
  "edfs_find attrib pattern cluster target_pos =
    (if attrib = 0x08 then edfs_fail EDFS_RESULT_NO_MORE_MATCH
     else do {
       dir \<leftarrow> (if target_pos = 0 then do {
                fits EDFS_PATH83_MAX pattern;
                gete (edfs_cluster_lookup_83 (path83_dirname pattern))
              } else gete (\<lambda>e. map_option (\<lambda>p. (p, cluster)) (edfs_cluster_lookup cluster e)));
       case dir of
         None \<Rightarrow> edfs_fail EDFS_RESULT_PATH_NOT_FOUND
       | Some (path, cluster) \<Rightarrow> do {
           root \<leftarrow> gete edfs_root;
           dh \<leftarrow> fs_syscall (Opendir (join_path root path));
           if fs_ok dh = False then edfs_fail EDFS_RESULT_PATH_NOT_FOUND
           else edfs_find_loop (fs_names dh) 0 attrib
             (if target_pos = 0 then path83_to_filefcb pattern else pattern) path cluster target_pos
         }
     })"

text \<open>Opening and closing a file to create or truncate it; whether that works.\<close>

definition edfs_touch :: "cstr \<Rightarrow> ('a edfs_board_scheme, bool) state" where
  "edfs_touch path = do {
     root \<leftarrow> gete edfs_root;
     fh \<leftarrow> fs_syscall (Fopen (join_path root path) Mode_wb_plus);
     if fs_ok fh = False then return False
     else do { _ \<leftarrow> fs_syscall Fclose; return True }
   }"

definition edfs_open_stat :: "cstr \<Rightarrow> cstr \<Rightarrow> u16 \<Rightarrow> u16 \<Rightarrow> u16 \<Rightarrow> ('a edfs_board_scheme, u16) state" where
  "edfs_open_stat path83 p cluster attrib action = do {
     root \<leftarrow> gete edfs_root;
     st \<leftarrow> fs_syscall (Stat (join_path root p));
     if fs_ok st = False then edfs_fail EDFS_RESULT_PATH_NOT_FOUND
     else if fs_kind st \<noteq> Fs_regular then edfs_fail EDFS_RESULT_FILE_NOT_FOUND
     else do {
       rx_put 0x3C [0x00];
       edfs_put_entry (path83_to_filefcb path83) st cluster;
       (if action AND 0x0F = 0x01 then rx_put 0x52 [0x01]
        else if action AND 0xF0 = 0x10 then rx_put 0x52 [0x02]
        else if action AND 0x0F = 0x02 then rx_put 0x52 [0x03]
        else return ());
       rx_put 0x53 [0x00];
       rx_put 0x54 [ucast (attrib AND 0x7F)];
       edfs_set_result EDFS_RESULT_OK;
       return 0x55
     }
   }"

definition edfs_open :: "cstr \<Rightarrow> u16 \<Rightarrow> u16 \<Rightarrow> ('a edfs_board_scheme, u16) state" where
  "edfs_open path83 attrib action = do {
     found \<leftarrow> gete (edfs_cluster_lookup_83 path83);
     case found of
       None \<Rightarrow>
         if action AND 0xF0 = 0x10 then do {
           path \<leftarrow> path83_to_unixpath path83;
           ok \<leftarrow> edfs_touch path;
           if ok = False then edfs_fail EDFS_RESULT_PATH_NOT_FOUND
           else do {
             edfs_cluster_register path path83;
             found \<leftarrow> gete (edfs_cluster_lookup_83 path83);
             case found of
               None \<Rightarrow> edfs_fail EDFS_RESULT_PATH_NOT_FOUND
             | Some (p, cluster) \<Rightarrow> edfs_open_stat path83 p cluster attrib action
           }
         } else edfs_fail EDFS_RESULT_FILE_NOT_FOUND
     | Some (p, cluster) \<Rightarrow>
         if action AND 0x0F = 0x02 then do {
           path \<leftarrow> path83_to_unixpath path83;
           ok \<leftarrow> edfs_touch path;
           if ok = False then edfs_fail EDFS_RESULT_PATH_NOT_FOUND
           else edfs_open_stat path83 p cluster attrib action
         } else edfs_open_stat path83 p cluster attrib action
   }"

definition edfs_read :: "u32 \<Rightarrow> u16 \<Rightarrow> u16 \<Rightarrow> ('a edfs_board_scheme, u16) state" where
  "edfs_read offset cluster len = do {
     found \<leftarrow> gete (edfs_cluster_lookup cluster);
     case found of
       None \<Rightarrow> edfs_fail EDFS_RESULT_PATH_NOT_FOUND
     | Some p \<Rightarrow>
         if len > 1450 then do {
           panic ''EtherDFS read length > 1450'' [];
           edfs_fail EDFS_RESULT_PATH_NOT_FOUND
         } else do {
           root \<leftarrow> gete edfs_root;
           fh \<leftarrow> fs_syscall (Fopen (join_path root p) Mode_rb);
           if fs_ok fh = False then edfs_fail EDFS_RESULT_ACCESS_DENIED
           else do {
             r \<leftarrow> fs_syscall (Fread offset len);
             let bytes = take (unat len) (fs_data r);
             rx_put 0x3C bytes;
             _ \<leftarrow> fs_syscall Fclose;
             edfs_set_result EDFS_RESULT_OK;
             return (0x3C + of_nat (length bytes))
           }
         }
   }"

definition edfs_write :: "u32 \<Rightarrow> u16 \<Rightarrow> u8 list \<Rightarrow> ('a edfs_board_scheme, u16) state" where
  "edfs_write offset cluster bytes = do {
     found \<leftarrow> gete (edfs_cluster_lookup cluster);
     case found of
       None \<Rightarrow> edfs_fail EDFS_RESULT_PATH_NOT_FOUND
     | Some p \<Rightarrow> do {
         root \<leftarrow> gete edfs_root;
         st \<leftarrow> fs_syscall (Stat (join_path root p));
         if fs_ok st = False then edfs_fail EDFS_RESULT_PATH_NOT_FOUND
         else if fs_size st \<noteq> uint offset then do {
           panic ''EtherDFS write to the middle of a file not supported!'' [];
           edfs_fail EDFS_RESULT_ACCESS_DENIED
         } else do {
           fh \<leftarrow> fs_syscall (Fopen (join_path root p) Mode_ab);
           if fs_ok fh = False then edfs_fail EDFS_RESULT_ACCESS_DENIED
           else do {
             r \<leftarrow> fs_syscall (Fwrite bytes);
             _ \<leftarrow> fs_syscall Fclose;
             rx_put 0x3C (le16_bytes (fs_count r));
             edfs_set_result EDFS_RESULT_OK;
             return 0x3E
           }
         }
       }
   }"

definition edfs_rmdir :: "cstr \<Rightarrow> ('a edfs_board_scheme, u16) state" where
  "edfs_rmdir path83 = do {
     found \<leftarrow> gete (edfs_cluster_lookup_83 path83);
     case found of
       None \<Rightarrow> edfs_fail EDFS_RESULT_PATH_NOT_FOUND
     | Some (p, _) \<Rightarrow> do {
         root \<leftarrow> gete edfs_root;
         r \<leftarrow> fs_syscall (Rmdir (join_path root p));
         (if fs_ok r then do { edfs_cluster_unregister p; edfs_set_result EDFS_RESULT_OK }
          else edfs_set_result EDFS_RESULT_ACCESS_DENIED);
         return 0x3C
       }
   }"

definition edfs_mkdir :: "cstr \<Rightarrow> ('a edfs_board_scheme, u16) state" where
  "edfs_mkdir path83 = do {
     path \<leftarrow> path83_to_unixpath path83;
     root \<leftarrow> gete edfs_root;
     r \<leftarrow> fs_syscall (Mkdir (join_path root path));
     (if fs_ok r then do { edfs_cluster_register path path83; edfs_set_result EDFS_RESULT_OK }
      else edfs_set_result EDFS_RESULT_ACCESS_DENIED);
     return 0x3C
   }"

definition edfs_chdir :: "cstr \<Rightarrow> ('a edfs_board_scheme, u16) state" where
  "edfs_chdir path83 = do {
     found \<leftarrow> gete (edfs_cluster_lookup_83 path83);
     case found of
       None \<Rightarrow> edfs_fail EDFS_RESULT_PATH_NOT_FOUND
     | Some (p, _) \<Rightarrow> do {
         root \<leftarrow> gete edfs_root;
         st \<leftarrow> fs_syscall (Stat (join_path root p));
         if fs_ok st = False then edfs_fail EDFS_RESULT_PATH_NOT_FOUND
         else do {
           (if fs_kind st = Fs_directory then edfs_set_result EDFS_RESULT_OK
            else edfs_set_result EDFS_RESULT_PATH_NOT_FOUND);
           return 0x3C
         }
       }
   }"

definition edfs_rename :: "cstr \<Rightarrow> cstr \<Rightarrow> ('a edfs_board_scheme, u16) state" where
  "edfs_rename path83_src path83_dst = do {
     found \<leftarrow> gete (edfs_cluster_lookup_83 path83_src);
     case found of
       None \<Rightarrow> edfs_fail EDFS_RESULT_FILE_NOT_FOUND
     | Some (p, _) \<Rightarrow> do {
         path \<leftarrow> path83_to_unixpath path83_dst;
         root \<leftarrow> gete edfs_root;
         r \<leftarrow> fs_syscall (Rename (join_path root p) (join_path root path));
         (if fs_ok r then do {
            edfs_cluster_unregister p;
            edfs_cluster_register path path83_dst;
            edfs_set_result EDFS_RESULT_OK
          } else edfs_set_result EDFS_RESULT_ACCESS_DENIED);
         return 0x3C
       }
   }"

definition edfs_delete :: "cstr \<Rightarrow> ('a edfs_board_scheme, u16) state" where
  "edfs_delete path83 = do {
     found \<leftarrow> gete (edfs_cluster_lookup_83 path83);
     case found of
       None \<Rightarrow> edfs_fail EDFS_RESULT_FILE_NOT_FOUND
     | Some (p, _) \<Rightarrow> do {
         root \<leftarrow> gete edfs_root;
         r \<leftarrow> fs_syscall (Unlink (join_path root p));
         (if fs_ok r then do { edfs_cluster_unregister p; edfs_set_result EDFS_RESULT_OK }
          else edfs_set_result EDFS_RESULT_ACCESS_DENIED);
         return 0x3C
       }
   }"

definition edfs_getattr :: "cstr \<Rightarrow> ('a edfs_board_scheme, u16) state" where
  "edfs_getattr path83 = do {
     found \<leftarrow> gete (edfs_cluster_lookup_83 path83);
     case found of
       None \<Rightarrow> edfs_fail EDFS_RESULT_PATH_NOT_FOUND
     | Some (p, _) \<Rightarrow> do {
         root \<leftarrow> gete edfs_root;
         st \<leftarrow> fs_syscall (Stat (join_path root p));
         if fs_ok st = False then edfs_fail EDFS_RESULT_PATH_NOT_FOUND
         else do {
           rx_put 0x44 [if fs_kind st = Fs_directory then 0x10 else 0x00];
           rx_put 0x3C (le16_bytes (time_to_dos_time (fs_mtime st)));
           rx_put 0x3E (le16_bytes (time_to_dos_date (fs_mtime st)));
           rx_put 0x40 (le32_bytes (word_of_int (fs_size st)));
           edfs_set_result EDFS_RESULT_OK;
           return 0x45
         }
       }
   }"


subsection \<open>A request frame\<close>

definition le16 :: "(nat \<Rightarrow> u8) \<Rightarrow> nat \<Rightarrow> u16" where
  "le16 f i = ucast (f i) + push_bit 8 (ucast (f (i + 1)))"

definition le32 :: "(nat \<Rightarrow> u8) \<Rightarrow> nat \<Rightarrow> u32" where
  "le32 f i = ucast (f i) + push_bit 8 (ucast (f (i + 1))) + push_bit 16 (ucast (f (i + 2))) +
     push_bit 24 (ucast (f (i + 3)))"

text \<open>The data of a write request: \<open>tx_len - 0x42\<close> bytes, in 16 bits, from offset 0x42.\<close>

definition edfs_write_data :: "(nat \<Rightarrow> u8) \<Rightarrow> u16 \<Rightarrow> ('a edfs_board_scheme, u8 list) state" where
  "edfs_write_data tx_frame tx_len =
    (let len = unat (tx_len - 0x42)
     in if 0x42 + len \<le> NET_MTU then return (map tx_frame [0x42..<0x42 + len])
        else do { undefined_access; return [] })"

text \<open>A request with a path, and the length of the reply of a request that is executed.\<close>

definition with_path ::
  "(nat \<Rightarrow> u8) \<Rightarrow> nat \<Rightarrow> nat \<Rightarrow> (cstr \<Rightarrow> ('a edfs_board_scheme, u16 option) state) \<Rightarrow> ('a edfs_board_scheme, u16 option) state" where
  "with_path tx_frame tx_len offset request = do {
     path \<leftarrow> edfs_path tx_frame tx_len offset;
     case path of None \<Rightarrow> return None | Some path \<Rightarrow> request path
   }"

definition answered :: "('a edfs_board_scheme, u16) state \<Rightarrow> ('a edfs_board_scheme, u16 option) state" where
  "answered request = do { len \<leftarrow> request; return (Some len) }"

text \<open>The switch over the function code; the value is the length of the reply, \<open>None\<close> when no reply follows
  because the path of the request is undefined.\<close>

definition edfs_dispatch :: "u8 \<Rightarrow> (nat \<Rightarrow> u8) \<Rightarrow> u16 \<Rightarrow> ('a edfs_board_scheme, u16 option) state" where
  "edfs_dispatch func tx_frame tx_len =
    (let n = unat tx_len
     in if func = EDFS_RMDIR then with_path tx_frame n 0x3C (\<lambda>path. answered (edfs_rmdir path))
        else if func = EDFS_MKDIR then with_path tx_frame n 0x3C (\<lambda>path. answered (edfs_mkdir path))
        else if func = EDFS_CHDIR then with_path tx_frame n 0x3C (\<lambda>path. answered (edfs_chdir path))
        else if func = EDFS_CLOSEFILE then answered (edfs_fail EDFS_RESULT_OK)
        else if func = EDFS_READFILE then
          answered (edfs_read (le32 tx_frame 0x3C) (le16 tx_frame 0x40) (le16 tx_frame 0x42))
        else if func = EDFS_WRITEFILE then do {
          bytes \<leftarrow> edfs_write_data tx_frame tx_len;
          answered (edfs_write (le32 tx_frame 0x3C) (le16 tx_frame 0x40) bytes)
        }
        else if func = EDFS_DISKSPACE then do {
          rx_put 0x3A [0x01, 0x00, 0xFF, 0xFF, 0x00, 0x80, 0xFF, 0xFF];
          return (Some 0x42)
        }
        else if func = EDFS_SETATTR then with_path tx_frame n 0x3D (\<lambda>_. answered (edfs_fail EDFS_RESULT_OK))
        else if func = EDFS_GETATTR then with_path tx_frame n 0x3C (\<lambda>path. answered (edfs_getattr path))
        else if func = EDFS_FINDFIRST then
          with_path tx_frame n 0x3D (\<lambda>path. answered (edfs_find (tx_frame 0x3C) path 0 0))
        else if func = EDFS_FINDNEXT then
          with_path tx_frame n 0x41 (\<lambda>path.
            answered (edfs_find (tx_frame 0x40) path (le16 tx_frame 0x3C) (le16 tx_frame 0x3E)))
        else if func = EDFS_RENAME then
          with_path tx_frame (61 + unat (tx_frame 0x3C)) 0x3D (\<lambda>path.
            with_path tx_frame n (0x3D + unat (tx_frame 0x3C)) (\<lambda>path_dst. answered (edfs_rename path path_dst)))
        else if func = EDFS_DELETE then with_path tx_frame n 0x3C (\<lambda>path. answered (edfs_delete path))
        else if func = EDFS_OPEN then
          with_path tx_frame n 0x42 (\<lambda>path. answered (edfs_open path (le16 tx_frame 0x3C) 0x0001))
        else if func = EDFS_CREATE then
          with_path tx_frame n 0x42 (\<lambda>path. answered (edfs_open path 0x0002 0x0012))
        else if func = EDFS_SPOPNFIL then
          with_path tx_frame n 0x42 (\<lambda>path. answered (edfs_open path (le16 tx_frame 0x40) (le16 tx_frame 0x3E)))
        else do {
          panic ''Unhandled EtherDFS function: 0x%02x'' [ucast func];
          answered (edfs_fail EDFS_RESULT_INVALID_FUNCTION)
        })"

definition edfs_reply_frame :: "(nat \<Rightarrow> u8) \<Rightarrow> ('a edfs_board_scheme, unit) state" where
  "edfs_reply_frame tx_frame = do {
     rx_put 0x00 (map tx_frame [0x06, 0x07, 0x08, 0x09, 0x0A, 0x0B]);
     rx_put 0x06 (map tx_frame [0x00, 0x01, 0x02, 0x03, 0x04, 0x05]);
     rx_put 0x0C (map tx_frame [0x0C, 0x0D]);
     len \<leftarrow> getn rx_len;
     rx_put 0x34 (le16_bytes len);
     rx_put 0x38 (map tx_frame [0x38, 0x39]);
     checksum \<leftarrow> (if drop_bit 7 (tx_frame 0x38) \<noteq> 0 then do {
                   buffer \<leftarrow> rx_buffer 0x38 (uint len - 0x38);
                   return (bsd_checksum buffer)
                 } else return 0);
     rx_put 0x36 (le16_bytes checksum);
     modn (\<lambda>n. n\<lparr>rx_ready := True\<rparr>)
   }"

definition edfs_handle_packet :: "(nat \<Rightarrow> u8) \<Rightarrow> u16 \<Rightarrow> ('a edfs_board_scheme, unit) state" where
  "edfs_handle_packet tx_frame tx_len = do {
     inited \<leftarrow> gete edfs_inited;
     if inited = False then return ()
     else do {
       let ver = tx_frame 0x38 AND 0x7F;
       if ver \<noteq> 2 then panic ''Unsupported EtherDFS version: %d'' [ucast ver]
       else do {
         answer \<leftarrow> edfs_dispatch (tx_frame 0x3B) tx_frame tx_len;
         case answer of
           None \<Rightarrow> return ()
         | Some len \<Rightarrow> do { modn (\<lambda>n. n\<lparr>rx_len := len\<rparr>); edfs_reply_frame tx_frame }
       }
     }
   }"

lemma rx_rom [frame_intros]: "preserves rom_view (rx_put pos bs)" "preserves rom_view (rx_buffer pos len)"
  unfolding rx_put_def rx_buffer_def by (intro frame_intros)+

lemma edfs_parts_rom [frame_intros]:
  "preserves rom_view (fits n str)" "preserves rom_view (edfs_cluster_register p q)"
  "preserves rom_view (edfs_cluster_unregister p)" "preserves rom_view (path83_to_unixpath p)"
  "preserves rom_view (edfs_path f n m)" "preserves rom_view (edfs_set_result c)" "preserves rom_view (edfs_fail c)"
  "preserves rom_view (edfs_put_entry fcb st c)" "preserves rom_view (edfs_write_data f len)"
  "preserves rom_view (edfs_init root)"
  unfolding fits_def edfs_cluster_register_def edfs_cluster_unregister_def path83_to_unixpath_def edfs_path_def
    edfs_set_result_def edfs_fail_def edfs_put_entry_def edfs_write_data_def edfs_init_def
  by (intro frame_intros)+

lemma edfs_find_rom [frame_intros]: "preserves rom_view (edfs_find attrib pat clu tp)"
proof -
  have "preserves rom_view (edfs_find_loop names pos attrib fcb path clu tp)" for names pos fcb path clu
    by (induction names arbitrary: pos) (simp only: edfs_find_loop.simps, intro frame_intros, assumption?)+
  then show ?thesis unfolding edfs_find_def by (intro frame_intros)
qed

lemma edfs_file_rom [frame_intros]:
  "preserves rom_view (edfs_touch p)" "preserves rom_view (edfs_open_stat p q c at ac)"
  "preserves rom_view (edfs_open p at ac)" "preserves rom_view (edfs_read off c len)"
  "preserves rom_view (edfs_write off c bs)" "preserves rom_view (edfs_rmdir p)" "preserves rom_view (edfs_mkdir p)"
  "preserves rom_view (edfs_chdir p)" "preserves rom_view (edfs_rename p q)" "preserves rom_view (edfs_delete p)"
  "preserves rom_view (edfs_getattr p)"
  unfolding edfs_touch_def edfs_open_stat_def edfs_open_def edfs_read_def edfs_write_def edfs_rmdir_def
    edfs_mkdir_def edfs_chdir_def edfs_rename_def edfs_delete_def edfs_getattr_def
  by (intro frame_intros)+

lemma with_path_rom [frame_intros]:
  "(\<And>path. preserves rom_view (request path)) \<Longrightarrow> preserves rom_view (with_path f n offset request)"
  "preserves rom_view m \<Longrightarrow> preserves rom_view (answered m)"
  unfolding with_path_def answered_def by (intro frame_intros, assumption?)+

lemma edfs_packet_rom [frame_intros]: "preserves rom_view (edfs_handle_packet f len)"
  unfolding edfs_handle_packet_def edfs_dispatch_def edfs_reply_frame_def
  by (intro frame_intros)

end
