(* ===== verification/Net.thy ===== *)
theory Net
  imports Edfs
begin

unbundle bit_operations_syntax

text \<open>
  net.c, second part: the one remote host of the emulated network. It answers ARP, ICMP echo and
  DHCP requests itself, passes UDP and TCP to sockets of the host, and EtherDFS frames to edfs.c.
\<close>

subsection \<open>ICMP\<close>

definition FLAGS_SYN :: u8 where "FLAGS_SYN = 0x02"
definition FLAGS_RST :: u8 where "FLAGS_RST = 0x04"
definition FLAGS_ACK :: u8 where "FLAGS_ACK = 0x10"
definition FLAGS_FIN_ACK :: u8 where "FLAGS_FIN_ACK = 0x11"
definition FLAGS_SYN_ACK :: u8 where "FLAGS_SYN_ACK = 0x12"
definition FLAGS_RST_ACK :: u8 where "FLAGS_RST_ACK = 0x14"
definition FLAGS_PSH_ACK :: u8 where "FLAGS_PSH_ACK = 0x18"

lemmas tcp_flag_defs = FLAGS_SYN_def FLAGS_RST_def FLAGS_ACK_def FLAGS_FIN_ACK_def FLAGS_SYN_ACK_def
  FLAGS_RST_ACK_def FLAGS_PSH_ACK_def

text \<open>\<open>rx_len = n; rx_ready = true;\<close>\<close>

definition net_deliver :: "u16 \<Rightarrow> ('a net_board_scheme, unit) state" where
  "net_deliver len = do {
     modn (\<lambda>n. n\<lparr>rx_len := len\<rparr>);
     modn (\<lambda>n. n\<lparr>rx_ready := True\<rparr>)
   }"

definition net_handle_icmp :: "(nat \<Rightarrow> u8) \<Rightarrow> u16 \<Rightarrow> ('a net_board_scheme, unit) state" where
  "net_handle_icmp tx_frame tx_len =
    (let type = tx_frame 0x22
     in if type \<noteq> 8 then return ()
        else let dst_ip = be32 tx_frame 0x1E
        in if dst_ip \<noteq> NET_IP_REMOTE then return ()
        else do {
          rx_put 0x22 [0x00, 0x00, 0x00, 0x01];
          for_each [0x26..<unat tx_len] (\<lambda>i. rx_put i [tx_frame i]);
          buffer \<leftarrow> rx_buffer 0x22 (uint tx_len - 0x22);
          rx_put 0x24 (be16_bytes (net_ip_checksum buffer));
          net_ipv4_reply (tx_len - 14) IPPROTO_ICMP NET_IP_REMOTE;
          net_ethernet_reply;
          net_deliver tx_len
        })"

subsection \<open>TCP\<close>

definition mod_udp :: "nat \<Rightarrow> (net_udp_socket_t \<Rightarrow> net_udp_socket_t) \<Rightarrow> ('a net_board_scheme, unit) state" where
  "mod_udp i f = modn (\<lambda>n. n\<lparr>udp_sockets := (udp_sockets n)(i := f (udp_sockets n i))\<rparr>)"

definition mod_tcp :: "nat \<Rightarrow> (net_tcp_socket_t \<Rightarrow> net_tcp_socket_t) \<Rightarrow> ('a net_board_scheme, unit) state" where
  "mod_tcp i f = modn (\<lambda>n. n\<lparr>tcp_sockets := (tcp_sockets n)(i := f (tcp_sockets n i))\<rparr>)"

definition net_udp_close :: "nat \<Rightarrow> ('a net_board_scheme, unit) state" where
  "net_udp_close socket_index = do {
     fd \<leftarrow> getn (\<lambda>n. udp_fd (udp_sockets n socket_index));
     _ \<leftarrow> net_syscall (Close fd);
     mod_udp socket_index (\<lambda>u. u\<lparr>udp_fd := -1\<rparr>)
   }"

text \<open>A segment without data: headers and length.\<close>

definition net_tcp_segment :: "nat \<Rightarrow> u32 \<Rightarrow> ('a net_board_scheme, unit) state" where
  "net_tcp_segment n src_ip = do {
     net_ipv4_reply (20 + 20 + of_nat n) IPPROTO_TCP src_ip;
     net_ethernet_reply;
     net_deliver (14 + 20 + 20 + of_nat n)
   }"

definition net_tcp_close :: "nat \<Rightarrow> u8 \<Rightarrow> ('a net_board_scheme, unit) state" where
  "net_tcp_close socket_index fl = do {
     (if fl > 0 then do {
        net_tcp_reply 20 socket_index fl;
        ip \<leftarrow> getn (\<lambda>n. tcp_dst_ip (tcp_sockets n socket_index));
        net_tcp_segment 0 ip
      } else return ());
     fd \<leftarrow> getn (\<lambda>n. tcp_fd (tcp_sockets n socket_index));
     _ \<leftarrow> net_syscall (Close fd);
     mod_tcp socket_index (\<lambda>t. t\<lparr>tcp_fd := -1\<rparr>);
     mod_tcp socket_index (\<lambda>t. t\<lparr>tcp_send_seq := of_nat socket_index * 0x1000000\<rparr>)
   }"

text \<open>The loops that look for a socket: the first index that satisfies the condition.\<close>

definition find_udp :: "(net_udp_socket_t \<Rightarrow> bool) \<Rightarrow> net_t \<Rightarrow> nat option" where
  "find_udp p n = find (\<lambda>i. p (udp_sockets n i)) [0..<NET_SOCKETS_MAX]"

definition find_tcp :: "(net_tcp_socket_t \<Rightarrow> bool) \<Rightarrow> net_t \<Rightarrow> nat option" where
  "find_tcp p n = find (\<lambda>i. p (tcp_sockets n i)) [0..<NET_SOCKETS_MAX]"

text \<open>A SYN segment: a socket is opened and connected.\<close>

definition net_tcp_open :: "u32 \<Rightarrow> u16 \<Rightarrow> u16 \<Rightarrow> u32 \<Rightarrow> ('a net_board_scheme, unit) state" where
  "net_tcp_open dst_ip src_port dst_port recv_seq = do {
     free \<leftarrow> getn (find_tcp (\<lambda>t. tcp_fd t = -1));
     case free of
       None \<Rightarrow> panic ''No more TCP sockets available!'' []
     | Some i \<Rightarrow> do {
         r \<leftarrow> net_syscall Socket_stream;
         mod_tcp i (\<lambda>t. t\<lparr>tcp_fd := res_value r\<rparr>);
         if res_value r = -1 then panic ''socket() failed with errno: %d'' [word_of_int (res_errno r)]
         else do {
           c \<leftarrow> net_syscall (Connect (res_value r) dst_ip dst_port);
           if res_value c = -1 then net_tcp_close i 0
           else do {
             g \<leftarrow> net_syscall (Fcntl_getfl (res_value r));
             f \<leftarrow> net_syscall (Fcntl_setfl_nonblock (res_value r) (res_value g));
             if res_value f = 1 then do {
               panic ''fcntl() failed with errno: %d'' [word_of_int (res_errno f)];
               net_tcp_close i 0
             } else do {
               mod_tcp i (\<lambda>t. t\<lparr>tcp_src_port := src_port, tcp_dst_port := dst_port, tcp_dst_ip := dst_ip,
                 tcp_recv_seq := recv_seq + 1, tcp_inactivity_timeout := 0, tcp_fin_ack_sent := False,
                 tcp_ack_wait := 0\<rparr>);
               net_tcp_reply 20 i FLAGS_SYN_ACK;
               mod_tcp i (\<lambda>t. t\<lparr>tcp_send_seq := tcp_send_seq t + 1\<rparr>);
               net_tcp_segment 0 dst_ip
             }
           }
         }
       }
   }"

text \<open>The bytes \<open>send\<close> is given: \<open>len\<close> bytes from index \<open>i\<close> on.\<close>

definition tx_bytes_at :: "(nat \<Rightarrow> u8) \<Rightarrow> nat \<Rightarrow> int \<Rightarrow> ('a net_board_scheme, u8 list) state" where
  "tx_bytes_at tx_frame i len =
    (if 0 \<le> len \<and> i + nat len \<le> NET_MTU then return (map tx_frame [i..<i + nat len])
     else do { undefined_access; return [] })"

text \<open>A segment with data for an open connection.\<close>

definition net_tcp_data :: "(nat \<Rightarrow> u8) \<Rightarrow> nat \<Rightarrow> ('a net_board_scheme, unit) state" where
  "net_tcp_data tx_frame i = do {
     mod_tcp i (\<lambda>t. t\<lparr>tcp_ack_wait := 0\<rparr>);
     let data_offset = unat (drop_bit 4 (tx_frame 0x2E));
     let data_len = uint (be16 tx_frame 0x10) - 20 - int (data_offset * 4);
     bytes \<leftarrow> tx_bytes_at tx_frame (0x22 + data_offset * 4) data_len;
     fd \<leftarrow> getn (\<lambda>n. tcp_fd (tcp_sockets n i));
     r \<leftarrow> net_syscall (Send fd bytes);
     if res_value r = -1 then do {
       panic ''send() failed with errno: %d'' [word_of_int (res_errno r)];
       net_tcp_close i FLAGS_RST_ACK
     } else do {
       mod_tcp i (\<lambda>t. t\<lparr>tcp_recv_seq := be32 tx_frame 0x26 + word_of_int data_len\<rparr>);
       net_tcp_reply 20 i FLAGS_ACK;
       net_tcp_segment 0 (be32 tx_frame 0x1E)
     }
   }"

definition net_handle_tcp :: "(nat \<Rightarrow> u8) \<Rightarrow> ('a net_board_scheme, unit) state" where
  "net_handle_tcp tx_frame =
    (let dst_ip = be32 tx_frame 0x1E;
         src_port = be16 tx_frame 0x22;
         dst_port = be16 tx_frame 0x24;
         fl = tx_frame 0x2F
     in if fl = FLAGS_SYN then net_tcp_open dst_ip src_port dst_port (be32 tx_frame 0x26)
        else do {
          conn \<leftarrow> getn (find_tcp (\<lambda>t. tcp_fd t \<noteq> -1 \<and> tcp_src_port t = src_port \<and>
            tcp_dst_port t = dst_port \<and> tcp_dst_ip t = dst_ip));
          case conn of
            None \<Rightarrow> return ()
          | Some i \<Rightarrow> do {
              mod_udp i (\<lambda>u. u\<lparr>udp_inactivity_timeout := 0\<rparr>);
              if fl = FLAGS_ACK then mod_tcp i (\<lambda>t. t\<lparr>tcp_ack_wait := 0\<rparr>)
              else if fl = FLAGS_RST then return ()
              else if fl = FLAGS_PSH_ACK then net_tcp_data tx_frame i
              else if fl = FLAGS_FIN_ACK then do {
                sent \<leftarrow> getn (\<lambda>n. tcp_fin_ack_sent (tcp_sockets n i));
                net_tcp_close i (if sent = True then FLAGS_ACK else FLAGS_RST_ACK)
              }
              else if fl = FLAGS_RST_ACK then net_tcp_close i FLAGS_ACK
              else do {
                panic ''Unhandled TCP flags: %02x'' [ucast fl];
                net_tcp_close i FLAGS_RST_ACK
              }
            }
        })"

subsection \<open>DHCP and UDP\<close>

text \<open>The options behind the magic cookie: message type, subnet mask, gateway, server, lease time.\<close>

definition dhcp_options :: "u8 \<Rightarrow> u8 list" where
  "dhcp_options type =
     [0x35, 0x01, type] @ [0x01, 0x04, 0xFF, 0xFF, 0xFF, 0x00] @
     [0x03, 0x04] @ be32_bytes NET_IP_REMOTE @ [0x36, 0x04] @ be32_bytes NET_IP_REMOTE @
     [0x33, 0x04, 0xFF, 0xFF, 0xFF, 0xFF]"

definition net_handle_dhcp :: "(nat \<Rightarrow> u8) \<Rightarrow> ('a net_board_scheme, unit) state" where
  "net_handle_dhcp tx_frame =
    (if \<not> (tx_frame 0x116 = 0x63 \<and> tx_frame 0x117 = 0x82 \<and> tx_frame 0x118 = 0x53 \<and> tx_frame 0x119 = 0x63)
     then return ()
     else case (if tx_frame 0x11C = 0x01 then Some 0x02
                else if tx_frame 0x11C = 0x03 then Some 0x05 else None) of
       None \<Rightarrow> return ()
     | Some type \<Rightarrow> do {
         rx_put 0x2A [2];
         rx_put 0x2B (map tx_frame [0x2B..<0x32]);
         rx_put 0x32 (replicate 8 0);
         rx_put 0x3A (be32_bytes NET_IP_LOCAL);
         rx_put 0x3E (be32_bytes NET_IP_REMOTE);
         rx_put 0x42 (replicate 4 0);
         rx_put 0x46 (replicate 208 0);
         rx_put 0x116 [0x63, 0x82, 0x53, 0x63];
         rx_put 0x11A (dhcp_options type);
         rx_put 0x135 (replicate (0x24E - 0x135) 0);
         net_udp_reply 548 NET_IP_REMOTE 67 68;
         net_ipv4_reply (20 + 8 + 548) IPPROTO_UDP NET_IP_REMOTE;
         net_ethernet_reply;
         net_deliver (14 + 20 + 8 + 548)
       })"

text \<open>Sending the datagram through the socket found or opened.\<close>

definition net_udp_send :: "(nat \<Rightarrow> u8) \<Rightarrow> nat \<Rightarrow> ('a net_board_scheme, unit) state" where
  "net_udp_send tx_frame i = do {
     mod_udp i (\<lambda>u. u\<lparr>udp_inactivity_timeout := 0\<rparr>);
     fd \<leftarrow> getn (\<lambda>n. udp_fd (udp_sockets n i));
     bytes \<leftarrow> tx_bytes_at tx_frame 0x2A (uint (be16 tx_frame 0x26) - 8);
     r \<leftarrow> net_syscall (Sendto fd bytes (be32 tx_frame 0x1E) (be16 tx_frame 0x24));
     if res_value r = -1 then do {
       panic ''sendto() failed with errno: %d'' [word_of_int (res_errno r)];
       net_udp_close i
     } else return ()
   }"

definition net_handle_udp :: "(nat \<Rightarrow> u8) \<Rightarrow> ('a net_board_scheme, unit) state" where
  "net_handle_udp tx_frame =
    (let dst_ip = be32 tx_frame 0x1E;
         src_port = be16 tx_frame 0x22;
         dst_port = be16 tx_frame 0x24
     in if dst_ip = 0xFFFFFFFF then
          (if dst_port = 67 \<and> src_port = 68 then net_handle_dhcp tx_frame else return ())
        else do {
          used \<leftarrow> getn (find_udp (\<lambda>u. udp_fd u \<noteq> -1 \<and> udp_src_port u = src_port \<and> udp_dst_ip u = dst_ip));
          case used of
            Some i \<Rightarrow> net_udp_send tx_frame i
          | None \<Rightarrow> do {
              free \<leftarrow> getn (find_udp (\<lambda>u. udp_fd u = -1));
              case free of
                None \<Rightarrow> panic ''No more UDP sockets available!'' []
              | Some i \<Rightarrow> do {
                  r \<leftarrow> net_syscall Socket_dgram_nonblock;
                  mod_udp i (\<lambda>u. u\<lparr>udp_fd := res_value r\<rparr>);
                  if res_value r = -1 then panic ''socket() failed with errno: %d'' [word_of_int (res_errno r)]
                  else do {
                    mod_udp i (\<lambda>u. u\<lparr>udp_src_port := src_port, udp_dst_port := dst_port, udp_dst_ip := dst_ip\<rparr>);
                    net_udp_send tx_frame i
                  }
                }
            }
        })"

subsection \<open>Polling the sockets\<close>

text \<open>\<open>EAGAIN\<close> of the host; the bytes received are stored by the call itself.\<close>

definition EAGAIN :: int where "EAGAIN = 11"

definition net_check_tcp_socket :: "nat \<Rightarrow> ('a net_board_scheme, unit) state" where
  "net_check_tcp_socket i = do {
     socket \<leftarrow> getn (\<lambda>n. tcp_sockets n i);
     if tcp_ack_wait socket > 0 then mod_tcp i (\<lambda>t. t\<lparr>tcp_ack_wait := tcp_ack_wait t - 1\<rparr>)
     else do {
       r \<leftarrow> net_syscall (Recv (tcp_fd socket) (NET_MTU - 0x36));
       rx_put 0x36 (take (NET_MTU - 0x36) (res_data r));
       if res_value r = -1 then
         (if res_errno r = EAGAIN then do {
            mod_tcp i (\<lambda>t. t\<lparr>tcp_inactivity_timeout := tcp_inactivity_timeout t + 1\<rparr>);
            timeout \<leftarrow> getn (\<lambda>n. tcp_inactivity_timeout (tcp_sockets n i));
            if timeout > NET_SOCKET_INACTIVITY_TIMEOUT then net_tcp_close i FLAGS_RST_ACK else return ()
          } else do {
            panic ''recv() failed with errno: %d'' [word_of_int (res_errno r)];
            net_tcp_close i FLAGS_RST_ACK
          })
       else if res_value r = 0 \<and> res_errno r = EAGAIN then
         (if tcp_fin_ack_sent socket = False then do {
            net_tcp_reply 20 i FLAGS_FIN_ACK;
            mod_tcp i (\<lambda>t. t\<lparr>tcp_send_seq := tcp_send_seq t + 1\<rparr>);
            net_tcp_segment 0 (tcp_dst_ip socket);
            mod_tcp i (\<lambda>t. t\<lparr>tcp_fin_ack_sent := True\<rparr>)
          } else return ())
       else do {
         mod_tcp i (\<lambda>t. t\<lparr>tcp_inactivity_timeout := 0\<rparr>);
         mod_tcp i (\<lambda>t. t\<lparr>tcp_ack_wait := NET_SOCKET_ACK_WAIT\<rparr>);
         net_tcp_reply (20 + res_value r) i FLAGS_PSH_ACK;
         mod_tcp i (\<lambda>t. t\<lparr>tcp_send_seq := tcp_send_seq t + word_of_int (res_value r)\<rparr>);
         net_tcp_segment (nat (res_value r)) (tcp_dst_ip socket)
       }
     }
   }"

definition net_check_udp_socket :: "nat \<Rightarrow> ('a net_board_scheme, unit) state" where
  "net_check_udp_socket i = do {
     fd \<leftarrow> getn (\<lambda>n. udp_fd (udp_sockets n i));
     r \<leftarrow> net_syscall (Recvfrom fd (NET_MTU - 0x2A));
     rx_put 0x2A (take (NET_MTU - 0x2A) (res_data r));
     if res_value r = -1 then
       (if res_errno r = EAGAIN then do {
          mod_udp i (\<lambda>u. u\<lparr>udp_inactivity_timeout := udp_inactivity_timeout u + 1\<rparr>);
          timeout \<leftarrow> getn (\<lambda>n. udp_inactivity_timeout (udp_sockets n i));
          if timeout > NET_SOCKET_INACTIVITY_TIMEOUT then net_udp_close i else return ()
        } else do {
          panic ''recvfrom() failed with errno: %d'' [word_of_int (res_errno r)];
          net_udp_close i
        })
     else do {
       mod_udp i (\<lambda>u. u\<lparr>udp_inactivity_timeout := 0\<rparr>);
       dst_port \<leftarrow> getn (\<lambda>n. udp_src_port (udp_sockets n i));
       net_udp_reply (res_value r) (res_ip r) (res_port r) dst_port;
       net_ipv4_reply (20 + 8 + word_of_int (res_value r)) IPPROTO_UDP (res_ip r);
       net_ethernet_reply;
       net_deliver (14 + 20 + 8 + word_of_int (res_value r))
     }
   }"


subsection \<open>Frames from the guest\<close>

definition net_handle_ipv4 :: "(nat \<Rightarrow> u8) \<Rightarrow> u16 \<Rightarrow> ('a net_board_scheme, unit) state" where
  "net_handle_ipv4 tx_frame tx_len =
    (let proto = tx_frame 0x17
     in if proto = IPPROTO_ICMP then net_handle_icmp tx_frame tx_len
        else if proto = IPPROTO_TCP then net_handle_tcp tx_frame
        else if proto = IPPROTO_UDP then net_handle_udp tx_frame
        else return ())"

text \<open>The answers to a request for an address: sender MAC and IP.\<close>

definition net_arp_sender :: "u8 \<Rightarrow> u32 \<Rightarrow> ('a net_board_scheme, unit) state" where
  "net_arp_sender mac addr = do {
     rx_put 0x16 [mac, mac, mac, mac, mac, mac];
     rx_put 0x1C (be32_bytes addr)
   }"

definition net_arp_answer :: "('a net_board_scheme, unit) state" where
  "net_arp_answer = do {
     rx_put 0x20 [NET_MAC_LOCAL, NET_MAC_LOCAL, NET_MAC_LOCAL, NET_MAC_LOCAL, NET_MAC_LOCAL, NET_MAC_LOCAL];
     rx_put 0x26 (be32_bytes NET_IP_LOCAL);
     net_ethernet_reply;
     net_deliver 0x2A
   }"

definition net_handle_arp :: "(nat \<Rightarrow> u8) \<Rightarrow> u16 \<Rightarrow> ('a net_board_scheme, unit) state" where
  "net_handle_arp tx_frame tx_len =
    (if tx_len < 0x29 then return ()
     else let oper = be16 tx_frame 0x14
     in if oper \<noteq> 1 then return ()
        else do {
          rx_put 0x0C [0x08, 0x06, 0x00, 0x01, 0x08, 0x00, 0x06, 0x04, 0x00, 0x02];
          let who_has_ip = be32 tx_frame 0x26;
          if who_has_ip = NET_IP_REMOTE then do { net_arp_sender NET_MAC_REMOTE NET_IP_REMOTE; net_arp_answer }
          else if who_has_ip = NET_IP_LOCAL then do { net_arp_sender NET_MAC_LOCAL NET_IP_LOCAL; net_arp_answer }
          else return ()
        })"

definition net_tx_frame :: "(nat \<Rightarrow> u8) \<Rightarrow> u16 \<Rightarrow> ('a edfs_board_scheme, unit) state" where
  "net_tx_frame tx_frame tx_len =
    (let ethertype = be16 tx_frame 0xC
     in if ethertype = 0x0806 then net_handle_arp tx_frame tx_len
        else if ethertype = 0x0800 then net_handle_ipv4 tx_frame tx_len
        else if ethertype = 0xEDF5 then edfs_handle_packet tx_frame tx_len
        else return ())"

subsection \<open>Start and polling\<close>

definition no_udp_socket :: net_udp_socket_t where
  "no_udp_socket = \<lparr>udp_fd = -1, udp_inactivity_timeout = 0, udp_src_port = 0, udp_dst_port = 0, udp_dst_ip = 0\<rparr>"

definition no_tcp_socket :: "u32 \<Rightarrow> net_tcp_socket_t" where
  "no_tcp_socket seq = \<lparr>tcp_fd = -1, tcp_inactivity_timeout = 0, tcp_src_port = 0, tcp_dst_port = 0,
     tcp_dst_ip = 0, tcp_send_seq = seq, tcp_recv_seq = 0, tcp_fin_ack_sent = False, tcp_ack_wait = 0\<rparr>"

definition net_power_on :: net_t where
  "net_power_on = \<lparr>rx_frame = (\<lambda>_. 0), rx_len = 0, rx_ready = False, ip_id = 0,
     udp_sockets = (\<lambda>_. no_udp_socket), tcp_sockets = (\<lambda>i. no_tcp_socket (of_nat i * 0x1000000))\<rparr>"

definition net_init :: "('a net_board_scheme, unit) state" where
  "net_init = modn (\<lambda>_. net_power_on)"

text \<open>The two loops of \<open>net_execute\<close>: a socket is polled unless a frame is waiting for the guest,
  which ends the function. The value says whether the loop came to its end.\<close>

fun net_poll :: "(net_t \<Rightarrow> nat \<Rightarrow> int) \<Rightarrow> (nat \<Rightarrow> ('a net_board_scheme, unit) state) \<Rightarrow> nat list \<Rightarrow>
    ('a net_board_scheme, bool) state" where
  "net_poll fd check [] = return True"
| "net_poll fd check (i # js) = do {
     ready \<leftarrow> getn rx_ready;
     if ready = True then return False
     else do {
       n \<leftarrow> getn (\<lambda>n. fd n i);
       (if n \<noteq> -1 then check i else return ());
       net_poll fd check js
     }
   }"

definition net_execute :: "('a net_board_scheme, unit) state" where
  "net_execute = do {
     done \<leftarrow> net_poll (\<lambda>n i. udp_fd (udp_sockets n i)) net_check_udp_socket [0..<NET_SOCKETS_MAX];
     if done then do {
       _ \<leftarrow> net_poll (\<lambda>n i. tcp_fd (tcp_sockets n i)) net_check_tcp_socket [0..<NET_SOCKETS_MAX];
       return ()
     } else return ()
   }"

subsection \<open>The ROM is out of reach\<close>

lemma net_reply_rom [frame_intros]:
  "preserves rom_view net_ethernet_reply" "preserves rom_view (net_ipv4_reply len p adr)"
  "preserves rom_view (net_udp_reply n adr p1 p2)" "preserves rom_view (net_tcp_reply m i fl)"
  "preserves rom_view (net_deliver len)" "preserves rom_view (mod_udp i f)" "preserves rom_view (mod_tcp i g)"
  unfolding net_ethernet_reply_def net_ipv4_reply_def net_udp_reply_def net_tcp_reply_def net_deliver_def
    mod_udp_def mod_tcp_def
  by (intro frame_intros)+

lemma net_socket_rom [frame_intros]:
  "preserves rom_view (net_tcp_segment n adr)" "preserves rom_view (net_udp_close i)"
  "preserves rom_view (net_tcp_close i fl)" "preserves rom_view (tx_bytes_at f j len)"
  unfolding net_tcp_segment_def net_udp_close_def net_tcp_close_def tx_bytes_at_def
  by (intro frame_intros)+

lemma net_handle_rom [frame_intros]:
  "preserves rom_view (net_tcp_open adr p1 p2 seq)" "preserves rom_view (net_tcp_data f i)"
  "preserves rom_view (net_handle_dhcp f)" "preserves rom_view (net_udp_send f i)"
  "preserves rom_view (net_check_tcp_socket i)" "preserves rom_view (net_check_udp_socket i)"
  "preserves rom_view (net_arp_sender mac adr)" "preserves rom_view net_arp_answer"
  unfolding net_tcp_open_def net_tcp_data_def net_handle_dhcp_def net_udp_send_def net_check_tcp_socket_def
    net_check_udp_socket_def net_arp_sender_def net_arp_answer_def Let_def
  by (intro frame_intros)+

lemma net_proto_rom [frame_intros]:
  "preserves rom_view (net_handle_icmp f len)" "preserves rom_view (net_handle_tcp f)"
  "preserves rom_view (net_handle_udp f)" "preserves rom_view (net_handle_arp f len)"
  unfolding net_handle_icmp_def net_handle_tcp_def net_handle_udp_def net_handle_arp_def Let_def
  by (intro frame_intros)+

lemma net_tx_frame_rom [frame_intros]: "preserves rom_view (net_tx_frame f len)"
  unfolding net_tx_frame_def net_handle_ipv4_def Let_def by (intro frame_intros)

lemma net_poll_rom:
  assumes check: "\<And>i. preserves rom_view (check i)"
  shows "preserves rom_view (net_poll fd check js)"
  by (induction js) (simp only: net_poll.simps, intro frame_intros check, assumption?)+

lemma net_execute_rom [frame_intros]: "preserves rom_view net_execute"
  unfolding net_execute_def by (intro frame_intros net_poll_rom)

end
