(* ===== verification/Dp8390.thy ===== *)
theory Dp8390
  imports Net
begin

unbundle bit_operations_syntax

text \<open>
  dp8390.c: the network card. Its registers in pages, the 64 KB of card memory behind the remote
  DMA port, the transmitter, and the receive ring that frames of the network are copied into. The
  local array \<open>tx_frame\<close> of the transmitter is not initialised: what it holds before is the field
  \<open>tx_stack\<close>, which nothing writes. For its trace buffer see
  \<open>Trace_Log\<close>.
\<close>

subsection \<open>State\<close>

definition DP8390_PAGE_SIZE :: u16 where "DP8390_PAGE_SIZE = 256"

record dp8390_t =
  dp_bnry :: u8
  dp_cr :: u8
  dp_curr :: u8
  dp_imr :: u8
  dp_isr :: u8
  dp_pstart :: u8
  dp_pstop :: u8
  dp_tcr :: u8
  dp_tsr :: u8
  dp_clda :: u16
  dp_crda :: u16
  dp_rbcr :: u16
  dp_rsar :: u16
  dp_tbcr :: u16
  dp_tpsr :: u16
  dp_ring :: "u16 \<Rightarrow> u8"

record dp_board = edfs_board +
  dp8390 :: dp8390_t
  tx_stack :: "nat \<Rightarrow> u8"

definition getdp :: "(dp8390_t \<Rightarrow> 'x) \<Rightarrow> ('a dp_board_scheme, 'x) state" where
  "getdp f = gets (\<lambda>s. f (dp8390 s))"

definition moddp :: "(dp8390_t \<Rightarrow> dp8390_t) \<Rightarrow> ('a dp_board_scheme, unit) state" where
  "moddp f = modify (\<lambda>s. s\<lparr>dp8390 := f (dp8390 s)\<rparr>)"

lemma run_state_getdp [simp]: "run_state (getdp f) s = (f (dp8390 s), s)"
  by (simp add: getdp_def)

lemma run_state_moddp [simp]: "run_state (moddp f) s = ((), s\<lparr>dp8390 := f (dp8390 s)\<rparr>)"
  by (simp add: moddp_def)

lemma dp_only_rom [frame_intros]:
  "preserves rom_view (getdp f)" "preserves rom_view (moddp g)"
  by (simp_all add: preserves_def rom_view_def)

subsection \<open>Ports\<close>

definition DP8390_IO_BASE :: u16 where "DP8390_IO_BASE = 0x300"
definition DP8390_DATA :: u16 where "DP8390_DATA = DP8390_IO_BASE + 0x10"
definition DP8390_DATA_16 :: u16 where "DP8390_DATA_16 = DP8390_IO_BASE + 0x11"
definition DP8390_RESET :: u16 where "DP8390_RESET = DP8390_IO_BASE + 0x1F"
definition DP8390_CR :: u16 where "DP8390_CR = DP8390_IO_BASE + 0x0"
definition DP8390_CLDA0 :: u16 where "DP8390_CLDA0 = DP8390_IO_BASE + 0x1"
definition DP8390_CLDA1 :: u16 where "DP8390_CLDA1 = DP8390_IO_BASE + 0x2"
definition DP8390_BNRY :: u16 where "DP8390_BNRY = DP8390_IO_BASE + 0x3"
definition DP8390_TSR :: u16 where "DP8390_TSR = DP8390_IO_BASE + 0x4"
definition DP8390_ISR :: u16 where "DP8390_ISR = DP8390_IO_BASE + 0x7"
definition DP8390_CRDA0 :: u16 where "DP8390_CRDA0 = DP8390_IO_BASE + 0x8"
definition DP8390_CRDA1 :: u16 where "DP8390_CRDA1 = DP8390_IO_BASE + 0x9"
definition DP8390_PSTART :: u16 where "DP8390_PSTART = DP8390_IO_BASE + 0x1"
definition DP8390_PSTOP :: u16 where "DP8390_PSTOP = DP8390_IO_BASE + 0x2"
definition DP8390_TPSR :: u16 where "DP8390_TPSR = DP8390_IO_BASE + 0x4"
definition DP8390_TBCR0 :: u16 where "DP8390_TBCR0 = DP8390_IO_BASE + 0x5"
definition DP8390_TBCR1 :: u16 where "DP8390_TBCR1 = DP8390_IO_BASE + 0x6"
definition DP8390_RSAR0 :: u16 where "DP8390_RSAR0 = DP8390_IO_BASE + 0x8"
definition DP8390_RSAR1 :: u16 where "DP8390_RSAR1 = DP8390_IO_BASE + 0x9"
definition DP8390_RBCR0 :: u16 where "DP8390_RBCR0 = DP8390_IO_BASE + 0xA"
definition DP8390_RBCR1 :: u16 where "DP8390_RBCR1 = DP8390_IO_BASE + 0xB"
definition DP8390_TCR :: u16 where "DP8390_TCR = DP8390_IO_BASE + 0xD"
definition DP8390_IMR :: u16 where "DP8390_IMR = DP8390_IO_BASE + 0xF"

lemmas dp_port_defs = DP8390_IO_BASE_def DP8390_DATA_def DP8390_DATA_16_def DP8390_RESET_def DP8390_CR_def
  DP8390_CLDA0_def DP8390_CLDA1_def DP8390_BNRY_def DP8390_TSR_def DP8390_ISR_def DP8390_CRDA0_def
  DP8390_CRDA1_def DP8390_PSTART_def DP8390_PSTOP_def DP8390_TPSR_def DP8390_TBCR0_def DP8390_TBCR1_def
  DP8390_RSAR0_def DP8390_RSAR1_def DP8390_RBCR0_def DP8390_RBCR1_def DP8390_TCR_def DP8390_IMR_def

definition dp8390_page :: "dp8390_t \<Rightarrow> u8" where
  "dp8390_page d = drop_bit 6 (dp_cr d)"

subsection \<open>Receiving\<close>

text \<open>The address after \<open>a\<close> in the ring: the page after the last one is the first.\<close>

definition ring_next :: "dp8390_t \<Rightarrow> u16 \<Rightarrow> u16" where
  "ring_next d a =
    (if a + 1 = push_bit 8 (ucast (dp_pstop d)) then push_bit 8 (ucast (dp_pstart d)) else a + 1)"

definition dp8390_ring_rx :: "u8 \<Rightarrow> ('a dp_board_scheme, unit) state" where
  "dp8390_ring_rx byte = do {
     full \<leftarrow> getdp (\<lambda>d. dp_clda d = ucast (dp_bnry d));
     if full then return ()
     else do {
       moddp (\<lambda>d. d\<lparr>dp_ring := (dp_ring d)(dp_clda d := byte)\<rparr>);
       moddp (\<lambda>d. d\<lparr>dp_clda := ring_next d (dp_clda d)\<rparr>)
     }
   }"

text \<open>A bit of the interrupt status register is set, and the request raised when its mask bit is.\<close>

definition dp8390_interrupt :: "nat \<Rightarrow> ('a dp_board_scheme, unit) state" where
  "dp8390_interrupt n = do {
     moddp (\<lambda>d. d\<lparr>dp_isr := dp_isr d OR push_bit n 1\<rparr>);
     imr \<leftarrow> getdp dp_imr;
     if drop_bit n imr AND 1 \<noteq> 0 then fe2010_irq FE2010_IRQ_COM2 else return ()
   }"

definition next_packet_page :: "dp8390_t \<Rightarrow> u16 \<Rightarrow> u8" where
  "next_packet_page d byte_count =
    (let next_packet = dp_curr d + ucast (byte_count div DP8390_PAGE_SIZE) + 1
     in if next_packet \<ge> dp_pstop d then dp_pstart d + (next_packet - dp_pstop d) else next_packet)"

definition dp8390_execute :: "('a dp_board_scheme, unit) state" where
  "dp8390_execute = do {
     ready \<leftarrow> getn rx_ready;
     if ready then do {
       moddp (\<lambda>d. d\<lparr>dp_clda := push_bit 8 (ucast (dp_curr d))\<rparr>);
       len \<leftarrow> getn rx_len;
       let byte_count = len + 4;
       next_packet \<leftarrow> getdp (\<lambda>d. next_packet_page d byte_count);
       moddp (\<lambda>d. d\<lparr>dp_curr := next_packet\<rparr>);
       dp8390_ring_rx 0x01;
       dp8390_ring_rx next_packet;
       dp8390_ring_rx (lo8 byte_count);
       dp8390_ring_rx (hi8 byte_count);
       (if unat len \<le> NET_MTU then return () else undefined_access);
       for_each [0..<unat len] (\<lambda>i. do { b \<leftarrow> getn (\<lambda>n. rx_frame n i); dp8390_ring_rx b });
       dp8390_interrupt 0;
       modn (\<lambda>n. n\<lparr>rx_ready := False\<rparr>)
     } else return ()
   }"

subsection \<open>Transmitting\<close>

text \<open>\<open>tx_frame\<close> after the copying loop: card memory from the transmit page on, the rest of the
  array as it was. A count above its size writes outside it.\<close>

definition dp8390_tx_frame :: "dp8390_t \<Rightarrow> (nat \<Rightarrow> u8) \<Rightarrow> nat \<Rightarrow> u8" where
  "dp8390_tx_frame d stack i = (if i < unat (dp_tbcr d) then dp_ring d (dp_tpsr d + of_nat i) else stack i)"

definition dp8390_transmit_packet :: "('a dp_board_scheme, unit) state" where
  "dp8390_transmit_packet = do {
     moddp (\<lambda>d. d\<lparr>dp_tsr := 0x1\<rparr>);
     dp8390_interrupt 1;
     tbcr \<leftarrow> getdp dp_tbcr;
     (if unat tbcr \<le> NET_MTU then return () else undefined_access);
     stack \<leftarrow> gets tx_stack;
     frame \<leftarrow> getdp (\<lambda>d. dp8390_tx_frame d stack);
     net_tx_frame frame tbcr
   }"

subsection \<open>Registers\<close>

definition dp8390_command :: "u8 \<Rightarrow> ('a dp_board_scheme, unit) state" where
  "dp8390_command v = do {
     moddp (\<lambda>d. d\<lparr>dp_cr := v AND 0xFB\<rparr>);
     (if v AND 1 \<noteq> 0 then moddp (\<lambda>d. d\<lparr>dp_isr := dp_isr d OR 0x80\<rparr>) else return ());
     (if drop_bit 1 v AND 1 \<noteq> 0 then moddp (\<lambda>d. d\<lparr>dp_isr := dp_isr d AND NOT 0x80\<rparr>) else return ());
     (if drop_bit 2 v AND 1 \<noteq> 0 then do { dp8390_transmit_packet; dp8390_execute } else return ());
     (if drop_bit 3 v AND 0x7 \<noteq> 0 then dp8390_interrupt 6 else return ())
   }"

text \<open>A register of page 0 alone.\<close>

definition when_page0 :: "(dp8390_t \<Rightarrow> dp8390_t) \<Rightarrow> ('a dp_board_scheme, unit) state" where
  "when_page0 f = moddp (\<lambda>d. if dp8390_page d = 0 then f d else d)"

definition dp8390_register_write :: "u16 \<Rightarrow> u8 \<Rightarrow> ('a dp_board_scheme, unit) state" where
  "dp8390_register_write port v =
    (if port = DP8390_CR then dp8390_command v
     else if port = DP8390_PSTART then when_page0 (\<lambda>d. d\<lparr>dp_pstart := v\<rparr>)
     else if port = DP8390_PSTOP then when_page0 (\<lambda>d. d\<lparr>dp_pstop := v\<rparr>)
     else if port = DP8390_BNRY then when_page0 (\<lambda>d. d\<lparr>dp_bnry := v\<rparr>)
     else if port = DP8390_ISR then
       moddp (\<lambda>d. if dp8390_page d = 0 then d\<lparr>dp_isr := dp_isr d AND NOT v\<rparr>
                 else if dp8390_page d = 1 then d\<lparr>dp_curr := v\<rparr> else d)
     else if port = DP8390_TPSR then when_page0 (\<lambda>d. d\<lparr>dp_tpsr := push_bit 8 (ucast v)\<rparr>)
     else if port = DP8390_TBCR0 then when_page0 (\<lambda>d. d\<lparr>dp_tbcr := ucast v OR (dp_tbcr d AND 0xFF00)\<rparr>)
     else if port = DP8390_TBCR1 then when_page0 (\<lambda>d. d\<lparr>dp_tbcr := push_bit 8 (ucast v) OR (dp_tbcr d AND 0x00FF)\<rparr>)
     else if port = DP8390_RSAR0 then
       when_page0 (\<lambda>d. d\<lparr>dp_rsar := ucast v OR (dp_rsar d AND 0xFF00), dp_crda := ucast v OR (dp_crda d AND 0xFF00)\<rparr>)
     else if port = DP8390_RSAR1 then
       when_page0 (\<lambda>d. d\<lparr>dp_rsar := push_bit 8 (ucast v) OR (dp_rsar d AND 0x00FF),
         dp_crda := push_bit 8 (ucast v) OR (dp_crda d AND 0x00FF)\<rparr>)
     else if port = DP8390_RBCR0 then when_page0 (\<lambda>d. d\<lparr>dp_rbcr := ucast v OR (dp_rbcr d AND 0xFF00)\<rparr>)
     else if port = DP8390_RBCR1 then when_page0 (\<lambda>d. d\<lparr>dp_rbcr := push_bit 8 (ucast v) OR (dp_rbcr d AND 0x00FF)\<rparr>)
     else if port = DP8390_TCR then when_page0 (\<lambda>d. d\<lparr>dp_tcr := v\<rparr>)
     else if port = DP8390_IMR then when_page0 (\<lambda>d. d\<lparr>dp_imr := v\<rparr>)
     else if port = DP8390_DATA \<or> port = DP8390_DATA_16 then do {
       moddp (\<lambda>d. d\<lparr>dp_ring := (dp_ring d)(dp_crda d := v)\<rparr>);
       moddp (\<lambda>d. d\<lparr>dp_crda := ring_next d (dp_crda d)\<rparr>)
     }
     else if port = DP8390_RESET then moddp (\<lambda>d. d\<lparr>dp_isr := dp_isr d OR 0x80\<rparr>)
     else return ())"

definition dp8390_register_read :: "u16 \<Rightarrow> ('a dp_board_scheme, u8) state" where
  "dp8390_register_read port = do {
     page \<leftarrow> getdp dp8390_page;
     if port = DP8390_CR then getdp dp_cr
     else if port = DP8390_CLDA0 \<and> page = 0 then getdp (\<lambda>d. lo8 (dp_clda d))
     else if port = DP8390_CLDA1 \<and> page = 0 then getdp (\<lambda>d. hi8 (dp_clda d))
     else if port = DP8390_BNRY \<and> page = 0 then getdp dp_bnry
     else if port = DP8390_TSR \<and> page = 0 then getdp dp_tsr
     else if port = DP8390_ISR \<and> page = 0 then getdp dp_isr
     else if port = DP8390_ISR \<and> page = 1 then getdp dp_curr
     else if port = DP8390_CRDA0 \<and> page = 0 then getdp (\<lambda>d. lo8 (dp_crda d))
     else if port = DP8390_CRDA1 \<and> page = 0 then getdp (\<lambda>d. hi8 (dp_crda d))
     else if port = DP8390_DATA \<or> port = DP8390_DATA_16 then do {
       tcr \<leftarrow> getdp dp_tcr;
       if drop_bit 1 tcr AND 0x3 = 1 then return NET_MAC_LOCAL
       else do {
         v \<leftarrow> getdp (\<lambda>d. dp_ring d (dp_crda d));
         moddp (\<lambda>d. d\<lparr>dp_crda := ring_next d (dp_crda d)\<rparr>);
         return v
       }
     }
     else return 0
   }"

subsection \<open>Start\<close>

definition dp8390_init_state :: dp8390_t where
  "dp8390_init_state = \<lparr>dp_bnry = 0, dp_cr = 0, dp_curr = 0, dp_imr = 0, dp_isr = 0, dp_pstart = 0, dp_pstop = 0,
     dp_tcr = 0, dp_tsr = 0, dp_clda = 0, dp_crda = 0, dp_rbcr = 0, dp_rsar = 0, dp_tbcr = 0, dp_tpsr = 0,
     dp_ring = (\<lambda>_. 0)\<rparr>"

definition dp8390_ports :: "u16 list" where
  "dp8390_ports = map (\<lambda>i. DP8390_IO_BASE + of_nat i) [0..<32]"

definition dp8390_init :: "'a dp_board_scheme io_t \<Rightarrow> 'a dp_board_scheme io_t" where
  "dp8390_init io =
     io_set_write dp8390_ports dp8390_register_write (io_set_read dp8390_ports dp8390_register_read io)"

subsection \<open>On the bus\<close>

lemma dp_parts_rom [frame_intros]:
  "preserves rom_view (dp8390_ring_rx b)" "preserves rom_view (dp8390_interrupt n)"
  "preserves rom_view (when_page0 f)"
  unfolding dp8390_ring_rx_def dp8390_interrupt_def when_page0_def by (intro frame_intros)+

lemma dp_execute_rom [frame_intros]:
  "preserves rom_view dp8390_execute" "preserves rom_view dp8390_transmit_packet"
  unfolding dp8390_execute_def dp8390_transmit_packet_def Let_def by (intro frame_intros)+

lemma dp_hooks_rom [frame_intros]:
  "preserves rom_view (dp8390_register_read p)" "preserves rom_view (dp8390_register_write p v)"
  unfolding dp8390_register_read_def dp8390_register_write_def dp8390_command_def
  by (intro frame_intros)+

interpretation dp8390_bus: io_device dp8390_init dp8390_ports rom_view
proof
  show "io_at (dp8390_init io) p = io_at io p" if "p \<notin> set dp8390_ports" for io :: "'a dp_board_scheme io_t" and p
    using that by (simp add: dp8390_init_def)
  show "io_at (dp8390_init io) p = io_at (dp8390_init io') p" if "io_at io p = io_at io' p" for io io' :: "'a dp_board_scheme io_t" and p
    unfolding dp8390_init_def Let_def by (intro io_at_set_cong that)
  show "io_preserves rom_view (dp8390_init io)" if "io_preserves rom_view io" for io :: "'a dp_board_scheme io_t"
    unfolding dp8390_init_def by (intro io_set_intros frame_intros that)
qed

end
