(* ===== verification/Console.thy ===== *)
theory Console
  imports Dp8390 Fifo
begin

unbundle bit_operations_syntax

text \<open>
  console.c: the keyboard, the mouse buttons and the text screen. Curses is the host's: \<open>getch\<close>
  answers an arbitrary sequence \<open>term_input\<close> of keys, and what is drawn is the field \<open>term_cells\<close>,
  one character with its attributes for each place. The values of the \<open>KEY_\<close> and \<open>ACS_\<close> constants
  are those of curses and are kept as constructors; \<open>NCURSES_MOUSE_VERSION\<close> is defined. \<open>isupper\<close>
  is given key codes above 255, for which C does not define it: an \<open>undefined_access\<close>.
\<close>

subsection \<open>State\<close>

datatype mouse_event = Button1_pressed | Button3_pressed | Other_event

datatype key =
  Key_err | Key_char u8 | Key_f nat | Key_mouse mouse_event | Key_other
  | Key_backspace | Key_up | Key_down | Key_left | Key_right | Key_home | Key_end | Key_npage
  | Key_ppage

datatype symbol =
  Ascii u8
  | Acs_vline | Acs_hline | Acs_plus | Acs_ulcorner | Acs_urcorner | Acs_llcorner | Acs_lrcorner
  | Acs_btee | Acs_ttee | Acs_ltee | Acs_rtee | Acs_ckboard | Acs_block | Acs_bullet
  | Acs_darrow | Acs_uarrow | Acs_larrow | Acs_rarrow | Acs_degree | Acs_gequal | Acs_lequal
  | Acs_pi | Acs_plminus

text \<open>A place of the screen; the colour pair when the terminal has colours.\<close>

record cell_t =
  cell_symbol :: symbol
  cell_pair :: "nat option"
  cell_bold :: bool
  cell_blink :: bool

record terminal_t =
  term_input :: "nat \<Rightarrow> key"
  term_polls :: nat
  term_colors :: bool
  term_cells :: "nat \<times> nat \<Rightarrow> cell_t option"
  term_cursor :: "nat \<times> nat"

definition CONSOLE_SCANCODE_FIFO_SIZE :: nat where "CONSOLE_SCANCODE_FIFO_SIZE = 8"

record console_t =
  console_cga_mode :: u8
  console_crtc_register_select :: u8
  console_crtc_register :: "u8 \<Rightarrow> u8"
  console_scancode_fifo :: ring_t
  console_status_toggle :: bool
  console_alt_toggle :: bool

record console_board = dp_board +
  console :: console_t
  terminal :: terminal_t

definition getcon :: "(console_t \<Rightarrow> 'x) \<Rightarrow> ('a console_board_scheme, 'x) state" where
  "getcon f = gets (\<lambda>s. f (console s))"

definition modcon :: "(console_t \<Rightarrow> console_t) \<Rightarrow> ('a console_board_scheme, unit) state" where
  "modcon f = modify (\<lambda>s. s\<lparr>console := f (console s)\<rparr>)"

definition modterm :: "(terminal_t \<Rightarrow> terminal_t) \<Rightarrow> ('a console_board_scheme, unit) state" where
  "modterm f = modify (\<lambda>s. s\<lparr>terminal := f (terminal s)\<rparr>)"

lemma run_state_getcon [simp]: "run_state (getcon f) s = (f (console s), s)"
  by (simp add: getcon_def)

lemma run_state_modcon [simp]: "run_state (modcon f) s = ((), s\<lparr>console := f (console s)\<rparr>)"
  by (simp add: modcon_def)

lemma run_state_modterm [simp]: "run_state (modterm f) s = ((), s\<lparr>terminal := f (terminal s)\<rparr>)"
  by (simp add: modterm_def)

lemma console_only_rom [frame_intros]:
  "preserves rom_view (getcon f)" "preserves rom_view (modcon g)" "preserves rom_view (modterm h)"
  by (simp_all add: preserves_def rom_view_def)

subsection \<open>Scancodes\<close>

text \<open>The characters in the order of the code: digits, letters, signs, the same with shift, control
  characters.\<close>

definition xt_char_table :: "(u8 \<times> u8) list" where
  "xt_char_table = [
     (0x31, 0x02), (0x32, 0x03), (0x33, 0x04), (0x34, 0x05), (0x35, 0x06), (0x36, 0x07), (0x37, 0x08), (0x38, 0x09), (0x39, 0x0A),
     (0x30, 0x0B), (0x61, 0x1E), (0x62, 0x30), (0x63, 0x2E), (0x64, 0x20), (0x65, 0x12), (0x66, 0x21), (0x67, 0x22), (0x68, 0x23),
     (0x69, 0x17), (0x6A, 0x24), (0x6B, 0x25), (0x6C, 0x26), (0x6D, 0x32), (0x6E, 0x31), (0x6F, 0x18), (0x70, 0x19), (0x71, 0x10),
     (0x72, 0x13), (0x73, 0x1F), (0x74, 0x14), (0x75, 0x16), (0x76, 0x2F), (0x77, 0x11), (0x78, 0x2D), (0x79, 0x15), (0x7A, 0x2C),
     (0x20, 0x39), (0x2C, 0x33), (0x2D, 0x0C), (0x2E, 0x34), (0x2F, 0x35), (0x3B, 0x27), (0x3D, 0x0D), (0x5B, 0x1A), (0x27, 0x28),
     (0x5C, 0x2B), (0x0A, 0x1C), (0x09, 0x0F), (0x5D, 0x1B), (0x60, 0x29), (0x1B, 0x01), (0x21, 0x02), (0x40, 0x03), (0x23, 0x04),
     (0x24, 0x05), (0x25, 0x06), (0x5E, 0x07), (0x26, 0x08), (0x2A, 0x09), (0x28, 0x0A), (0x29, 0x0B), (0x41, 0x1E), (0x42, 0x30),
     (0x43, 0x2E), (0x44, 0x20), (0x45, 0x12), (0x46, 0x21), (0x47, 0x22), (0x48, 0x23), (0x49, 0x17), (0x4A, 0x24), (0x4B, 0x25),
     (0x4C, 0x26), (0x4D, 0x32), (0x4E, 0x31), (0x4F, 0x18), (0x50, 0x19), (0x51, 0x10), (0x52, 0x13), (0x53, 0x1F), (0x54, 0x14),
     (0x55, 0x16), (0x56, 0x2F), (0x57, 0x11), (0x58, 0x2D), (0x59, 0x15), (0x5A, 0x2C), (0x3C, 0x33), (0x5F, 0x0C), (0x3E, 0x34),
     (0x3F, 0x35), (0x3A, 0x27), (0x2B, 0x0D), (0x7B, 0x1A), (0x22, 0x28), (0x7C, 0x2B), (0x7D, 0x1B), (0x7E, 0x29), (0x00, 0x03),
     (0x01, 0x1E), (0x02, 0x30), (0x03, 0x2E), (0x04, 0x20), (0x05, 0x12), (0x06, 0x21), (0x07, 0x22), (0x0B, 0x25), (0x0C, 0x26),
     (0x0E, 0x31), (0x0F, 0x18), (0x10, 0x19), (0x11, 0x10), (0x12, 0x13), (0x13, 0x1F), (0x14, 0x14), (0x15, 0x16), (0x16, 0x2F),
     (0x17, 0x11), (0x18, 0x2D), (0x19, 0x15), (0x1A, 0x2C)]"

definition xt_function_table :: "(nat \<times> u8) list" where
  "xt_function_table = [(1, 0x3B), (2, 0x3C), (3, 0x3D), (4, 0x3E), (5, 0x3F), (6, 0x40), (7, 0x41), (8, 0x42), (9, 0x43), (10, 0x44)]"

fun console_xt_keyboard_scancode :: "key \<Rightarrow> u8" where
  "console_xt_keyboard_scancode (Key_char c) = (case map_of xt_char_table c of Some v \<Rightarrow> v | None \<Rightarrow> 0)"
| "console_xt_keyboard_scancode (Key_f n) = (case map_of xt_function_table n of Some v \<Rightarrow> v | None \<Rightarrow> 0)"
| "console_xt_keyboard_scancode Key_backspace = 0x0E"
| "console_xt_keyboard_scancode Key_up = 0x48"
| "console_xt_keyboard_scancode Key_down = 0x50"
| "console_xt_keyboard_scancode Key_left = 0x4B"
| "console_xt_keyboard_scancode Key_right = 0x4D"
| "console_xt_keyboard_scancode Key_home = 0x47"
| "console_xt_keyboard_scancode Key_end = 0x4F"
| "console_xt_keyboard_scancode Key_npage = 0x51"
| "console_xt_keyboard_scancode Key_ppage = 0x49"
| "console_xt_keyboard_scancode _ = 0"

text \<open>\<open>isupper\<close> in the C locale, and the signs typed with shift.\<close>

definition shifted_char :: "u8 \<Rightarrow> bool" where
  "shifted_char c \<longleftrightarrow> (0x41 \<le> c \<and> c \<le> 0x5A) \<or>
     c \<in> set [0x21, 0x40, 0x23, 0x24, 0x25, 0x5E, 0x26, 0x2A, 0x28, 0x29, 0x3C, 0x5F, 0x3E, 0x3F, 0x3A, 0x2B,
       0x7B, 0x22, 0x7C, 0x7D, 0x7E]"

definition console_character_is_shifted :: "key \<Rightarrow> ('a console_board_scheme, bool) state" where
  "console_character_is_shifted k =
    (case k of Key_char c \<Rightarrow> return (shifted_char c) | _ \<Rightarrow> do { undefined_access; return False })"

definition console_character_is_control :: "key \<Rightarrow> bool" where
  "console_character_is_control k =
    (case k of Key_char c \<Rightarrow> (if c = 0x0D \<or> c = 0x0A \<or> c = 0x09 \<or> c = 0x08 then False else c \<le> 0x1A)
     | _ \<Rightarrow> False)"

text \<open>An empty FIFO reads as scancode 0.\<close>

definition console_scancode_fifo_read :: "('a console_board_scheme, u8) state" where
  "console_scancode_fifo_read = do {
     r \<leftarrow> getcon (\<lambda>c. ring_read CONSOLE_SCANCODE_FIFO_SIZE (console_scancode_fifo c));
     modcon (\<lambda>c. c\<lparr>console_scancode_fifo := snd r\<rparr>);
     case fst r of None \<Rightarrow> return 0 | Some code \<Rightarrow> return code
   }"

definition console_scancode_fifo_write :: "u8 \<Rightarrow> ('a console_board_scheme, unit) state" where
  "console_scancode_fifo_write code =
     modcon (\<lambda>c. c\<lparr>console_scancode_fifo := ring_write CONSOLE_SCANCODE_FIFO_SIZE code (console_scancode_fifo c)\<rparr>)"

definition getch :: "('a console_board_scheme, key) state" where
  "getch = do {
     k \<leftarrow> gets (\<lambda>s. term_input (terminal s) (term_polls (terminal s)));
     modterm (\<lambda>t. t\<lparr>term_polls := term_polls t + 1\<rparr>);
     return k
   }"

subsection \<open>Keyboard and mouse\<close>

text \<open>A key with a modifier: the modifier at once, the rest through the FIFO.\<close>

definition console_press_with :: "u8 \<Rightarrow> u8 \<Rightarrow> u8 \<Rightarrow> ('a console_board_scheme, unit) state" where
  "console_press_with modifier code release = do {
     fe2010_keyboard_press (ucast modifier);
     console_scancode_fifo_write code;
     console_scancode_fifo_write (code + 0x80);
     console_scancode_fifo_write release
   }"

definition console_key :: "key \<Rightarrow> ('a console_board_scheme, unit) state" where
  "console_key k = do {
     let code = console_xt_keyboard_scancode k;
     shifted \<leftarrow> console_character_is_shifted k;
     alt \<leftarrow> getcon console_alt_toggle;
     if shifted then console_press_with 0x2A code 0xAA
     else if console_character_is_control k then console_press_with 0x1D code 0x9D
     else if alt then do {
       console_press_with 0x38 code 0xB8;
       modcon (\<lambda>c. c\<lparr>console_alt_toggle := False\<rparr>)
     }
     else do {
       fe2010_keyboard_press (ucast code);
       console_scancode_fifo_write (code + 0x80)
     }
   }"

definition console_execute_keyboard :: "('a console_board_scheme, unit) state" where
  "console_execute_keyboard = do {
     code \<leftarrow> console_scancode_fifo_read;
     if code = 0 then do {
       k \<leftarrow> getch;
       case k of
         Key_mouse ev \<Rightarrow> mos5720_mouse_data (case ev of Button1_pressed \<Rightarrow> 0x60 | Button3_pressed \<Rightarrow> 0xC0 | Other_event \<Rightarrow> 0xE0)
       | Key_err \<Rightarrow> return ()
       | _ \<Rightarrow>
         if k = Key_f 12 then do {
           fe2010_keyboard_press 0x1D;
           console_scancode_fifo_write 0x46;
           console_scancode_fifo_write 0xC6;
           console_scancode_fifo_write 0x9D
         }
         else if k = Key_f 11 then modcon (\<lambda>c. c\<lparr>console_alt_toggle := True\<rparr>)
         else console_key k
     }
     else fe2010_keyboard_press (ucast code)
   }"

subsection \<open>The registers of the CGA\<close>

definition CGA_CRTC_SELECT :: u16 where "CGA_CRTC_SELECT = 0x3D4"
definition CGA_CRTC_REGISTER :: u16 where "CGA_CRTC_REGISTER = 0x3D5"
definition CGA_MODE_REGISTER :: u16 where "CGA_MODE_REGISTER = 0x3D8"
definition CGA_STATUS_REGISTER :: u16 where "CGA_STATUS_REGISTER = 0x3DA"

lemmas cga_port_defs = CGA_CRTC_SELECT_def CGA_CRTC_REGISTER_def CGA_MODE_REGISTER_def CGA_STATUS_REGISTER_def

definition cga_status_read :: "u16 \<Rightarrow> ('a console_board_scheme, u8) state" where
  "cga_status_read port = do {
     toggle \<leftarrow> getcon console_status_toggle;
     if toggle then do { modcon (\<lambda>c. c\<lparr>console_status_toggle := False\<rparr>); return 0x00 }
     else do { modcon (\<lambda>c. c\<lparr>console_status_toggle := True\<rparr>); return 0x09 }
   }"

definition cga_mode_write :: "u16 \<Rightarrow> u8 \<Rightarrow> ('a console_board_scheme, unit) state" where
  "cga_mode_write port v = modcon (\<lambda>c. c\<lparr>console_cga_mode := v\<rparr>)"

definition cga_crtc_select_write :: "u16 \<Rightarrow> u8 \<Rightarrow> ('a console_board_scheme, unit) state" where
  "cga_crtc_select_write port v = modcon (\<lambda>c. c\<lparr>console_crtc_register_select := v\<rparr>)"

text \<open>The array has \<open>UINT8_MAX\<close>, 255, entries.\<close>

definition cga_crtc_register_write :: "u16 \<Rightarrow> u8 \<Rightarrow> ('a console_board_scheme, unit) state" where
  "cga_crtc_register_write port v = do {
     i \<leftarrow> getcon console_crtc_register_select;
     if i < 255 then modcon (\<lambda>c. c\<lparr>console_crtc_register := (console_crtc_register c)(i := v)\<rparr>)
     else undefined_access
   }"

definition cga_crtc_register_read :: "u16 \<Rightarrow> ('a console_board_scheme, u8) state" where
  "cga_crtc_register_read port = do {
     i \<leftarrow> getcon console_crtc_register_select;
     (if i < 255 then return () else undefined_access);
     getcon (\<lambda>c. console_crtc_register c i)
   }"

definition console_init :: "'a console_board_scheme io_t \<Rightarrow> 'a console_board_scheme io_t" where
  "console_init io =
    (let io = io_set_read [CGA_STATUS_REGISTER] cga_status_read io;
         io = io_set_write [CGA_MODE_REGISTER] cga_mode_write io;
         io = io_set_write [CGA_CRTC_SELECT] cga_crtc_select_write io;
         io = io_set_write [CGA_CRTC_REGISTER] cga_crtc_register_write io
     in io_set_read [CGA_CRTC_REGISTER] cga_crtc_register_read io)"

definition console_ports :: "u16 list" where
  "console_ports = [CGA_CRTC_SELECT, CGA_CRTC_REGISTER, CGA_MODE_REGISTER, CGA_STATUS_REGISTER]"

subsection \<open>The screen\<close>

text \<open>Code page 437 in the symbols of curses, in the order of the code.\<close>

definition graphic_table :: "(u8 \<times> symbol) list" where
  "graphic_table = [
     (0xB3, Acs_vline), (0xBA, Acs_vline), (0xC4, Acs_hline), (0xCD, Acs_hline), (0xC5, Acs_plus), (0xCE, Acs_plus),
     (0xD7, Acs_plus), (0xD8, Acs_plus), (0xC9, Acs_ulcorner), (0xD5, Acs_ulcorner), (0xD6, Acs_ulcorner), (0xDA, Acs_ulcorner),
     (0xB7, Acs_urcorner), (0xB8, Acs_urcorner), (0xBB, Acs_urcorner), (0xBF, Acs_urcorner), (0xC0, Acs_llcorner), (0xC8, Acs_llcorner),
     (0xD3, Acs_llcorner), (0xD4, Acs_llcorner), (0xBC, Acs_lrcorner), (0xBD, Acs_lrcorner), (0xBE, Acs_lrcorner), (0xD9, Acs_lrcorner),
     (0xC1, Acs_btee), (0xCA, Acs_btee), (0xCF, Acs_btee), (0xD0, Acs_btee), (0xC2, Acs_ttee), (0xCB, Acs_ttee),
     (0xD1, Acs_ttee), (0xD2, Acs_ttee), (0xC3, Acs_ltee), (0xC6, Acs_ltee), (0xC7, Acs_ltee), (0xCC, Acs_ltee),
     (0xB4, Acs_rtee), (0xB5, Acs_rtee), (0xB6, Acs_rtee), (0xB9, Acs_rtee), (0xB0, Acs_ckboard), (0xB1, Acs_ckboard),
     (0xB2, Acs_ckboard), (0xDB, Acs_block), (0x07, Acs_bullet), (0x09, Acs_bullet), (0x0A, Acs_bullet), (0x19, Acs_darrow),
     (0x1F, Acs_darrow), (0x18, Acs_uarrow), (0x1E, Acs_uarrow), (0x1B, Acs_larrow), (0x1A, Acs_rarrow), (0xF8, Acs_degree),
     (0xF2, Acs_gequal), (0xF3, Acs_lequal), (0xE3, Acs_pi), (0xF1, Acs_plminus)]"

definition console_graphic :: "u8 \<Rightarrow> symbol" where
  "console_graphic byte =
    (if byte \<ge> 0x20 \<and> byte < 0x7F then Ascii byte
     else case map_of graphic_table byte of Some g \<Rightarrow> g | None \<Rightarrow> Ascii 0x2E)"

text \<open>The character and attribute bytes as drawn, with blinking enabled or not.\<close>

definition console_cell :: "bool \<Rightarrow> bool \<Rightarrow> u8 \<Rightarrow> u8 \<Rightarrow> cell_t" where
  "console_cell colors blink_enabled k attrib =
    (let fg = unat (attrib AND 0x7);
         bg = unat (drop_bit 4 attrib AND 0x7)
     in \<lparr>cell_symbol = console_graphic k, cell_pair = (if colors then Some (bg * 8 + fg + 1) else None),
         cell_bold = drop_bit 3 attrib AND 1 \<noteq> 0,
         cell_blink = (if blink_enabled then drop_bit 7 attrib AND 1 \<noteq> 0 else False)\<rparr>)"

definition console_columns :: "console_t \<Rightarrow> nat" where
  "console_columns c = (if console_cga_mode c AND 1 \<noteq> 0 then 80 else 40)"

definition console_draw :: "nat \<Rightarrow> nat \<Rightarrow> ('a console_board_scheme, unit) state" where
  "console_draw columns i = do {
     k \<leftarrow> mem_read (0xB8000 + of_nat (i * 2));
     attrib \<leftarrow> mem_read (0xB8000 + of_nat (i * 2) + 1);
     cga \<leftarrow> getcon console_cga_mode;
     modterm (\<lambda>t. t\<lparr>term_cells := (term_cells t)((i div columns, i mod columns) :=
       Some (console_cell (term_colors t) (drop_bit 5 cga AND 1 \<noteq> 0) k attrib))\<rparr>)
   }"

definition console_execute_screen :: "('a console_board_scheme, unit) state" where
  "console_execute_screen = do {
     columns \<leftarrow> getcon console_columns;
     for_each [0..<25 * columns] (console_draw columns);
     pos \<leftarrow> getcon (\<lambda>c. unat (word16 (console_crtc_register c 0xF) (console_crtc_register c 0xE)));
     modterm (\<lambda>t. t\<lparr>term_cursor := (pos div columns, pos mod columns)\<rparr>)
   }"

subsection \<open>Start\<close>

definition console_init_state :: console_t where
  "console_init_state = \<lparr>console_cga_mode = 0, console_crtc_register_select = 0, console_crtc_register = (\<lambda>_. 0),
     console_scancode_fifo = \<lparr>ring_data = (\<lambda>_. 0), ring_head = 0, ring_tail = 0\<rparr>,
     console_status_toggle = False, console_alt_toggle = False\<rparr>"

subsection \<open>On the bus\<close>

lemma undefined_access_rom [frame_intros]: "preserves rom_view undefined_access"
  by (simp add: preserves_def rom_view_def)

lemma console_hooks_rom [frame_intros]:
  "preserves rom_view (cga_status_read p)" "preserves rom_view (cga_mode_write p v)"
  "preserves rom_view (cga_crtc_select_write p v)" "preserves rom_view (cga_crtc_register_write p v)"
  "preserves rom_view (cga_crtc_register_read p)"
  unfolding cga_status_read_def cga_mode_write_def cga_crtc_select_write_def cga_crtc_register_write_def
    cga_crtc_register_read_def
  by (intro frame_intros)+

lemma console_parts_rom [frame_intros]:
  "preserves rom_view (console_character_is_shifted k)" "preserves rom_view console_scancode_fifo_read"
  "preserves rom_view (console_scancode_fifo_write b)" "preserves rom_view getch" "preserves rom_view (console_draw n i)"
  unfolding console_character_is_shifted_def console_scancode_fifo_read_def console_scancode_fifo_write_def
    getch_def console_draw_def
  by (cases k; simp only: key.case; intro frame_intros) (intro frame_intros)+

lemma console_press_rom [frame_intros]:
  "preserves rom_view (console_press_with m c r)" "preserves rom_view (console_key k)"
  unfolding console_press_with_def console_key_def Let_def by (intro frame_intros)+

lemma case_key_rom [frame_intros]:
  "(\<And>ev. preserves rom_view (f ev)) \<Longrightarrow> preserves rom_view g \<Longrightarrow>
   preserves rom_view (case k of Key_mouse ev \<Rightarrow> f ev | Key_err \<Rightarrow> return () | _ \<Rightarrow> g)"
  by (cases k) (simp_all add: frame_intros)

lemma console_execute_rom [frame_intros]:
  "preserves rom_view console_execute_keyboard" "preserves rom_view console_execute_screen"
  unfolding console_execute_keyboard_def console_execute_screen_def by (intro frame_intros)+

interpretation console_bus: io_device console_init console_ports rom_view
proof
  show "io_at (console_init io) p = io_at io p" if "p \<notin> set console_ports" for io :: "'a console_board_scheme io_t" and p
    using that by (simp add: console_init_def console_ports_def)
  show "io_at (console_init io) p = io_at (console_init io') p" if "io_at io p = io_at io' p" for io io' :: "'a console_board_scheme io_t" and p
    unfolding console_init_def Let_def by (intro io_at_set_cong that)
  show "io_preserves rom_view (console_init io)" if "io_preserves rom_view io" for io :: "'a console_board_scheme io_t"
    unfolding console_init_def Let_def by (intro io_set_intros frame_intros that)
qed

end
