(* ===== verification/Net_Headers.thy ===== *)
theory Net_Headers
  imports Net_Frame
begin

unbundle bit_operations_syntax

text \<open>
  The headers of a reply as a receiver sees them: every reply carries an IPv4 header and, for UDP
  and TCP, a datagram or segment whose checksums verify.
\<close>

subsection \<open>Consecutive writes\<close>

lemma frame_put_join:
  "q = p + length xs \<Longrightarrow> frame_put q ys (frame_put p xs f) = frame_put p (xs @ ys) f"
  by (auto simp: frame_put_def fun_eq_iff nth_append)

lemma frame_put_over:
  "q = p + length xs \<Longrightarrow> length ys = length zs \<Longrightarrow>
   frame_put q ys (frame_put p (xs @ zs @ ws) f) = frame_put p (xs @ ys @ ws) f"
  by (auto simp: frame_put_def fun_eq_iff nth_append)

lemma map_frame_put:
  "q = p + length xs \<Longrightarrow> n = length ys \<Longrightarrow> map (frame_put p (xs @ ys @ zs) f) [q..<q + n] = ys"
  by (rule nth_equalityI) (simp_all add: frame_put_def nth_append)

subsection \<open>IPv4\<close>

text \<open>The header of 20 bytes, and in the frame behind the ethertype.\<close>

definition ipv4_header :: "u16 \<Rightarrow> u16 \<Rightarrow> u8 \<Rightarrow> u32 \<Rightarrow> u16 \<Rightarrow> u8 list" where
  "ipv4_header ip_len ident proto src checksum =
     ([0x45, 0x00] @ be16_bytes ip_len @ be16_bytes ident @ [0x00, 0x00, 0x40, proto]) @
     be16_bytes checksum @ (be32_bytes src @ be32_bytes NET_IP_LOCAL)"

lemma length_ipv4_header [simp]: "length (ipv4_header ip_len ident proto src c) = 20"
  by (simp add: ipv4_header_def)

definition ipv4_checksum :: "u16 \<Rightarrow> u16 \<Rightarrow> u8 \<Rightarrow> u32 \<Rightarrow> u16" where
  "ipv4_checksum ip_len ident proto src = net_ip_checksum (ipv4_header ip_len ident proto src 1)"

lemma run_ipv4_reply:
  "run_state (net_ipv4_reply ip_len proto src) s = ((), s\<lparr>net := (net s)
    \<lparr>rx_frame := frame_put 0x0C ([0x08, 0x00] @
       ipv4_header ip_len (ip_id (net s)) proto src (ipv4_checksum ip_len (ip_id (net s)) proto src)) (rx_frame (net s)),
     ip_id := ip_id (net s) + 1\<rparr>\<rparr>)"
proof -
  let ?id = "ip_id (net s)"
  define h where "h = ipv4_header ip_len ?id proto src"
  have one: "be16_bytes 1 = [0, 1]" by (simp add: be16_bytes_def)
  have f: "frame_put 0x1E (be32_bytes NET_IP_LOCAL) (frame_put 0x1A (be32_bytes src)
      (frame_put 0x14 [0x00, 0x00, 0x40, proto, 0x00, 0x01] (frame_put 0x12 (be16_bytes ?id)
      (frame_put 0x10 (be16_bytes ip_len) (frame_put 0x0C [0x08, 0x00, 0x45, 0x00] f))))) =
      frame_put 0x0C ([0x08, 0x00] @ h 1) f" for f
    by (simp add: frame_put_join h_def ipv4_header_def one)
  have g: "map (frame_put 0x0C ([0x08, 0x00] @ h 1) f) [14..<34] = h 1" for f
    using map_frame_put [of 14 12 "[0x08, 0x00]" 20 "h 1" "[]" f]
    by (simp add: h_def del: upt_rec_numeral)
  have o: "frame_put 0x18 (be16_bytes c) (frame_put 0x0C ([0x08, 0x00] @ h 1) f) = frame_put 0x0C ([0x08, 0x00] @ h c) f"
    for c f
    using frame_put_over [of "0x18" "0x0C" "[0x08, 0x00, 0x45, 0x00] @ be16_bytes ip_len @ be16_bytes ?id @
      [0x00, 0x00, 0x40, proto]" "be16_bytes c" "be16_bytes 1" "be32_bytes src @ be32_bytes NET_IP_LOCAL" f]
    by (simp add: h_def ipv4_header_def)
  show ?thesis
    unfolding net_ipv4_reply_def ipv4_checksum_def h_def [symmetric]
    by (simp add: NET_MTU_def f g [unfolded append.simps] o [unfolded append.simps] del: upt_rec_numeral)
qed
text \<open>The header passes the receiver's test.\<close>

lemma ipv4_header_ok:
  "checksum_ok (word_total (ipv4_header ip_len ident proto src (ipv4_checksum ip_len ident proto src)))"
proof -
  define xs where "xs = [0x45, 0x00] @ be16_bytes ip_len @ be16_bytes ident @ [0x00, 0x00, 0x40, proto]"
  define ys where "ys = be32_bytes src @ be32_bytes NET_IP_LOCAL"
  define n where "n = word_total xs + word_total ys"
  have h: "word_total (ipv4_header ip_len ident proto src c) = n + unat c" for c
    by (simp add: ipv4_header_def xs_def [symmetric] ys_def [symmetric] word_total_append n_def)
      (simp add: xs_def word_total_append)
  have "n \<le> 65535 * 10"
    using word_total_bound [of "ipv4_header ip_len ident proto src 0"] h [of 0] by simp
  then have "n < 2 ^ 31" by simp
  moreover have "word_total (ipv4_header ip_len ident proto src 1) = Suc n" by (simp add: h)
  ultimately have "unat (ipv4_checksum ip_len ident proto src) = 65535 - nat (fold_carry (int n))"
    unfolding ipv4_checksum_def by (intro ip_checksum_value)
  then show ?thesis unfolding h by (intro checksum_completes) simp
qed

subsection \<open>UDP and TCP\<close>

lemma proto_checksum_ok:
  assumes "even (length xs)" "length xs + length ys < 65534"
  shows "checksum_ok (pseudo_total (length xs + 2 + length ys) src dst proto +
    word_total (xs @ be16_bytes (net_proto_checksum (xs @ [0, 0] @ ys) src dst proto) @ ys))"
proof -
  define n where "n = pseudo_total (length xs + 2 + length ys) src dst proto + word_total xs + word_total ys"
  have "pseudo_total (length (xs @ [0, 0] @ ys)) src dst proto + word_total (xs @ [0, 0] @ ys) = n"
    using assms(1) by (simp add: n_def word_total_append)
  moreover have "length (xs @ [0, 0] @ ys) < 65536" using assms(2) by simp
  ultimately have "checksum_ok (n + unat (net_proto_checksum (xs @ [0, 0] @ ys) src dst proto))"
    using proto_checksum_value [of "xs @ [0, 0] @ ys" src dst proto] by (intro checksum_completes) simp
  then show ?thesis using assms(1) by (simp add: n_def word_total_append ac_simps)
qed

definition udp_ports :: "u16 \<Rightarrow> u16 \<Rightarrow> nat \<Rightarrow> u8 list" where
  "udp_ports src_port dst_port n = be16_bytes src_port @ be16_bytes dst_port @ be16_bytes (of_nat (8 + n))"

lemma length_udp_ports [simp]: "length (udp_ports src_port dst_port n) = 6"
  by (simp add: udp_ports_def)

lemma run_udp_reply:
  fixes s :: "'a net_board_scheme"
  assumes "0x2A + n \<le> NET_MTU"
  defines "payload \<equiv> map (rx_frame (net s)) [0x2A..<0x2A + n]"
  shows "run_state (net_udp_reply (int n) src src_port dst_port) s = ((), s\<lparr>net := (net s)
    \<lparr>rx_frame := frame_put 0x22 (udp_ports src_port dst_port n @ be16_bytes (net_proto_checksum
       (udp_ports src_port dst_port n @ [0, 0] @ payload) src NET_IP_LOCAL IPPROTO_UDP)) (rx_frame (net s))\<rparr>\<rparr>)"
proof -
  let ?p = "udp_ports src_port dst_port n"
  have f: "frame_put 0x28 [0, 0] (frame_put 0x26 (be16_bytes (8 + of_nat n)) (frame_put 0x24 (be16_bytes dst_port)
      (frame_put 0x22 (be16_bytes src_port) f))) = frame_put 0x22 (?p @ [0, 0]) f" for f
    by (simp add: frame_put_join udp_ports_def)
  have g: "map (frame_put 0x22 (?p @ [0, 0]) (rx_frame (net s))) [0x22..<0x22 + (8 + n)] = ?p @ [0, 0] @ payload"
    unfolding payload_def by (rule nth_equalityI) (auto simp: frame_put_def nth_append nth_Cons')
  have o: "frame_put 0x28 (be16_bytes c) (frame_put 0x22 (?p @ [0, 0]) f) = frame_put 0x22 (?p @ be16_bytes c) f" for c f
    using frame_put_over [of "0x28" "0x22" ?p "be16_bytes c" "[0, 0]" "[]" f] by simp
  have "nat (8 + int n) = 8 + n" by simp
  then show ?thesis
    using assms(1) unfolding net_udp_reply_def
    by (simp add: NET_MTU_def f g [simplified] o del: upt_rec_numeral upt_Suc)
qed

definition tcp_numbers :: "net_tcp_socket_t \<Rightarrow> u8 \<Rightarrow> u8 list" where
  "tcp_numbers socket fl = be16_bytes (tcp_dst_port socket) @ be16_bytes (tcp_src_port socket) @
     be32_bytes (tcp_send_seq socket) @ be32_bytes (tcp_recv_seq socket) @ [0x50, fl, 0xFF, 0x00]"

lemma length_tcp_numbers [simp]: "length (tcp_numbers socket fl) = 16"
  by (simp add: tcp_numbers_def)

lemma run_tcp_reply:
  fixes s :: "'a net_board_scheme" and i fl
  assumes "0x36 + n \<le> NET_MTU"
  defines "payload \<equiv> map (rx_frame (net s)) [0x36..<0x36 + n]"
    and "socket \<equiv> tcp_sockets (net s) i"
  shows "run_state (net_tcp_reply (20 + int n) i fl) s = ((), s\<lparr>net := (net s)
    \<lparr>rx_frame := frame_put 0x22 (tcp_numbers socket fl @ be16_bytes (net_proto_checksum
       (tcp_numbers socket fl @ [0, 0] @ [0, 0] @ payload) (tcp_dst_ip socket) NET_IP_LOCAL IPPROTO_TCP) @ [0, 0])
       (rx_frame (net s))\<rparr>\<rparr>)"
proof -
  let ?p = "tcp_numbers socket fl"
  have f: "frame_put 0x2E [0x50, fl, 0xFF, 0, 0, 0, 0, 0] (frame_put 0x2A (be32_bytes (tcp_recv_seq socket))
      (frame_put 0x26 (be32_bytes (tcp_send_seq socket)) (frame_put 0x24 (be16_bytes (tcp_src_port socket))
      (frame_put 0x22 (be16_bytes (tcp_dst_port socket)) f)))) = frame_put 0x22 (?p @ [0, 0, 0, 0]) f" for f
    by (simp add: frame_put_join tcp_numbers_def)
  have g: "map (frame_put 0x22 (?p @ [0, 0, 0, 0]) (rx_frame (net s))) [0x22..<0x22 + (20 + n)] =
      ?p @ [0, 0] @ [0, 0] @ payload"
    unfolding payload_def by (rule nth_equalityI) (auto simp: frame_put_def nth_append nth_Cons')
  have o: "frame_put 0x32 (be16_bytes c) (frame_put 0x22 (?p @ [0, 0, 0, 0]) f) =
      frame_put 0x22 (?p @ be16_bytes c @ [0, 0]) f" for c f
    using frame_put_over [of "0x32" "0x22" ?p "be16_bytes c" "[0, 0]" "[0, 0]" f] by simp
  have "nat (20 + int n) = 20 + n" by simp
  then show ?thesis
    using assms(1) unfolding net_tcp_reply_def
    by (simp add: NET_MTU_def f g [simplified] o socket_def [symmetric] del: upt_rec_numeral upt_Suc)
qed

end
