(* ===== verification/Net_Reply.thy ===== *)
theory Net_Reply
  imports Net Net_Headers I8250_Lines
begin

unbundle bit_operations_syntax

text \<open>
  The replies of the emulated host as the guest's network stack receives them: complete ethernet
  frames with an IPv4 header, and an ICMP message, a UDP datagram or a TCP segment whose checksums
  verify.
\<close>

subsection \<open>A frame with an IPv4 packet\<close>

definition ethernet_header :: "u8 list" where
  "ethernet_header = replicate 6 NET_MAC_LOCAL @ replicate 6 NET_MAC_REMOTE @ [0x08, 0x00]"

text \<open>From the remote host to the card: ethertype IPv4, a header with a valid checksum, the payload.\<close>

definition carries_ipv4 :: "(nat \<Rightarrow> u8) \<Rightarrow> u16 \<Rightarrow> u8 \<Rightarrow> u32 \<Rightarrow> u8 list \<Rightarrow> bool" where
  "carries_ipv4 f ident proto src payload \<longleftrightarrow>
     frame_slice 0 14 f = ethernet_header \<and>
     (\<exists>c. frame_slice 0x0E 20 f = ipv4_header (of_nat (20 + length payload)) ident proto src c) \<and>
     checksum_ok (word_total (frame_slice 0x0E 20 f)) \<and>
     frame_slice 0x22 (length payload) f = payload"

definition ipv4_frame :: "u16 \<Rightarrow> u16 \<Rightarrow> u8 \<Rightarrow> u32 \<Rightarrow> (nat \<Rightarrow> u8) \<Rightarrow> nat \<Rightarrow> u8" where
  "ipv4_frame ip_len ident proto src g =
     frame_put 0 (ethernet_header @ ipv4_header ip_len ident proto src (ipv4_checksum ip_len ident proto src)) g"

lemma length_ethernet_header [simp]: "length ethernet_header = 14"
  by (simp add: ethernet_header_def)

lemma slice_put:
  "pos + len \<le> length bs \<Longrightarrow> frame_slice (p + pos) len (frame_put p bs g) = take len (drop pos bs)"
  by (rule nth_equalityI) (simp_all add: frame_slice_def frame_put_def)

lemma slice_put_join:
  "n = length bs + m \<Longrightarrow> frame_slice p n (frame_put p bs g) = bs @ frame_slice (p + length bs) m g"
  by (rule nth_equalityI) (auto simp: frame_slice_def frame_put_def nth_append)

lemma ipv4_frame_carries:
  assumes "ip_len = of_nat (20 + length payload)" "frame_slice 0x22 (length payload) g = payload"
  shows "carries_ipv4 (ipv4_frame ip_len ident proto src g) ident proto src payload"
proof -
  let ?h = "ipv4_header ip_len ident proto src (ipv4_checksum ip_len ident proto src)"
  have e: "frame_slice 0 14 (ipv4_frame ip_len ident proto src g) = ethernet_header"
    using slice_put [of 0 14 "ethernet_header @ ?h" 0 g] by (simp add: ipv4_frame_def)
  have h: "frame_slice 0x0E 20 (ipv4_frame ip_len ident proto src g) = ?h"
    using slice_put [of 14 20 "ethernet_header @ ?h" 0 g] by (simp add: ipv4_frame_def)
  have p: "frame_slice 0x22 (length payload) (ipv4_frame ip_len ident proto src g) = payload"
    unfolding ipv4_frame_def by (subst slice_other) (simp_all add: assms(2))
  show ?thesis
    unfolding carries_ipv4_def using e h p ipv4_header_ok [of ip_len ident proto src] by (auto simp: assms(1))
qed

lemma run_ethernet_reply:
  "run_state net_ethernet_reply s = ((), s\<lparr>net := (net s)\<lparr>rx_frame :=
    frame_put 0 (replicate 6 NET_MAC_LOCAL @ replicate 6 NET_MAC_REMOTE) (rx_frame (net s))\<rparr>\<rparr>)"
proof -
  have "frame_put 6 [b, b, b, b, b, b] (frame_put 0 [a, a, a, a, a, a] f) =
      frame_put 0 (replicate 6 a @ replicate 6 b) f" for a b f
    by (simp add: frame_put_join numeral_eq_Suc)
  then show ?thesis by (simp add: net_ethernet_reply_def NET_MTU_def)
qed

lemma run_net_deliver [simp]:
  "run_state (net_deliver len) s = ((), s\<lparr>net := (net s)\<lparr>rx_len := len, rx_ready := True\<rparr>\<rparr>)"
  by (simp add: net_deliver_def)

text \<open>The calls that end every handler of IPv4 leave this frame.\<close>

lemma ipv4_frame_eq:
  "frame_put 0 (replicate 6 NET_MAC_LOCAL @ replicate 6 NET_MAC_REMOTE) (frame_put 0x0C (0x08 # 0x00 #
    ipv4_header ip_len ident proto src (ipv4_checksum ip_len ident proto src)) g) = ipv4_frame ip_len ident proto src g"
proof -
  have "frame_put 0 (xs @ ys) (frame_put 0x0C ([8, 0] @ zs) f) = frame_put 0 ((xs @ ys @ [8, 0]) @ zs) f"
    if "length xs = 6" "length ys = 6" for xs ys zs :: "u8 list" and f
    using that by (auto simp: frame_put_def fun_eq_iff nth_append nth_Cons')
  from this [of "replicate 6 NET_MAC_LOCAL" "replicate 6 NET_MAC_REMOTE"] show ?thesis
    by (simp add: ipv4_frame_def ethernet_header_def)
qed

lemmas run_ipv4_frame = run_ipv4_reply run_ethernet_reply ipv4_frame_eq

subsection \<open>Echo replies\<close>

lemma frame_put_empty [simp]: "frame_put p [] f = f"
  by (rule ext) simp

lemma run_copy_frame:
  "b \<le> NET_MTU \<Longrightarrow> run_state (for_each [a..<b] (\<lambda>i. rx_put i [tx_frame i])) s =
    ((), s\<lparr>net := (net s)\<lparr>rx_frame := frame_put a (map tx_frame [a..<b]) (rx_frame (net s))\<rparr>\<rparr>)"
proof (induction "b - a" arbitrary: a s)
  case (Suc n)
  have "frame_put (Suc a) ys (frame_put a [y] f) = frame_put a (y # ys) f" for ys y f
    by (simp add: frame_put_join)
  moreover have "[a..<b] = a # [Suc a..<b]" using Suc.hyps(2) by (simp add: upt_conv_Cons)
  moreover have "n = b - Suc a" "a + 1 \<le> b" using Suc.hyps(2) by simp_all
  ultimately show ?case using Suc.hyps(1) [of "Suc a"] Suc.prems by simp
qed (simp add: frame_put_empty)

definition icmp_echo :: "u16 \<Rightarrow> u8 list \<Rightarrow> u8 list" where
  "icmp_echo c rest = [0, 0] @ be16_bytes c @ rest"

lemma icmp_checksum_ok:
  assumes "length rest < 65536"
  shows "checksum_ok (word_total (icmp_echo (net_ip_checksum (icmp_echo 1 rest)) rest))"
proof -
  have h: "word_total (icmp_echo c rest) = unat c + word_total rest" for c
    by (simp add: icmp_echo_def word_total_append)
  have "(length rest + 1) div 2 \<le> 32768" using assms by simp
  then have "word_total rest < 2 ^ 31" using word_total_bound [of rest] by simp
  then have "unat (net_ip_checksum (icmp_echo 1 rest)) = 65535 - nat (fold_carry (int (word_total rest)))"
    by (intro ip_checksum_value) (simp_all add: h)
  then have "checksum_ok (word_total rest + unat (net_ip_checksum (icmp_echo 1 rest)))"
    by (intro checksum_completes) simp
  then show ?thesis by (simp add: h add.commute)
qed

text \<open>C25. An echo request to the remote host is answered by an echo reply of the same length, with the
  request's identifier, sequence number and data, in an IPv4 packet; both checksums verify.\<close>

theorem net_echo_reply:
  fixes s :: "'a net_board_scheme" and tx_frame tx_len
  assumes "tx_frame 0x22 = 8" "be32 tx_frame 0x1E = NET_IP_REMOTE" "0x26 \<le> unat tx_len" "unat tx_len \<le> NET_MTU"
  defines "s' \<equiv> snd (run_state (net_handle_icmp tx_frame tx_len) s)"
    and "rest \<equiv> map tx_frame [0x26..<unat tx_len]"
  shows "s' = s\<lparr>net := net s'\<rparr> \<and>
    rx_ready (net s') \<and>
    rx_len (net s') = tx_len \<and>
    (\<exists>c. carries_ipv4 (rx_frame (net s')) (ip_id (net s)) IPPROTO_ICMP NET_IP_REMOTE (icmp_echo c rest) \<and>
       checksum_ok (word_total (icmp_echo c rest)))"
proof (intro conjI)
  define n where "n = unat tx_len - 0x22"
  define c where "c = net_ip_checksum (icmp_echo 1 rest)"
  define g where "g = frame_put 0x22 (icmp_echo c rest) (rx_frame (net s))"
  have len: "length (icmp_echo d rest) = n" for d using assms(3) by (simp add: icmp_echo_def rest_def n_def)
  have one: "[0, 0, 0, 1] = [0, 0] @ be16_bytes 1" by (simp add: be16_bytes_def)
  have f: "frame_put 0x26 rest (frame_put 0x22 [0, 0, 0, 1] h) = frame_put 0x22 (icmp_echo 1 rest) h" for h
    by (simp add: frame_put_join one icmp_echo_def)
  have b: "map (frame_put 0x22 (icmp_echo 1 rest) h) [0x22..<0x22 + n] = icmp_echo 1 rest" for h
    using map_frame_put [of "0x22" "0x22" "[]" n "icmp_echo 1 rest" "[]" h] len [of 1] by simp
  have o: "frame_put 0x24 (be16_bytes c) (frame_put 0x22 (icmp_echo 1 rest) h) = frame_put 0x22 (icmp_echo c rest) h" for h
    using frame_put_over [of "0x24" "0x22" "[0, 0]" "be16_bytes c" "be16_bytes 1" rest h] by (simp add: icmp_echo_def)
  have i: "0 \<le> uint tx_len - 0x22" "nat (uint tx_len - 0x22) = n" "0x22 + n \<le> NET_MTU"
    using assms(3,4) uint_nat [of tx_len] unfolding n_def NET_MTU_def by linarith+
  have m: "38 \<le> NET_MTU" by (simp add: NET_MTU_def)
  have s': "s' = s\<lparr>net := (net s)\<lparr>rx_frame := ipv4_frame (tx_len - 14) (ip_id (net s)) IPPROTO_ICMP NET_IP_REMOTE g,
      ip_id := ip_id (net s) + 1, rx_len := tx_len, rx_ready := True\<rparr>\<rparr>"
    using assms(1,2,4) i b [of "rx_frame (net s)"] unfolding s'_def net_handle_icmp_def
    by (simp add: m f o run_copy_frame rest_def [symmetric] c_def [symmetric] g_def [symmetric] run_ipv4_frame
      del: upt_rec_numeral upt_Suc)
  have "unat (tx_len - 14) = 20 + n"
    using assms(3) by (simp add: unat_sub_if_size n_def word_size)
  then have "tx_len - 14 = of_nat (20 + length (icmp_echo c rest))"
    unfolding len by (metis of_nat_unat ucast_id)
  moreover have "frame_slice 0x22 (length (icmp_echo c rest)) g = icmp_echo c rest"
    unfolding g_def by (rule slice_same)
  ultimately have "carries_ipv4 (rx_frame (net s')) (ip_id (net s)) IPPROTO_ICMP NET_IP_REMOTE (icmp_echo c rest)"
    unfolding s' by (simp add: ipv4_frame_carries)
  moreover have "length rest < 65536" using assms(4) by (simp add: rest_def NET_MTU_def)
  then have "checksum_ok (word_total (icmp_echo c rest))" unfolding c_def by (rule icmp_checksum_ok)
  ultimately show "\<exists>c. carries_ipv4 (rx_frame (net s')) (ip_id (net s)) IPPROTO_ICMP NET_IP_REMOTE (icmp_echo c rest) \<and>
       checksum_ok (word_total (icmp_echo c rest))" by blast
  show "s' = s\<lparr>net := net s'\<rparr>" "rx_ready (net s')" "rx_len (net s') = tx_len" by (simp_all add: s')
qed


subsection \<open>Datagrams and segments from the sockets\<close>

text \<open>A UDP datagram and a TCP segment with a checksum that verifies over the pseudo header.\<close>

definition udp_datagram :: "u16 \<Rightarrow> u16 \<Rightarrow> u16 \<Rightarrow> u8 list \<Rightarrow> u8 list" where
  "udp_datagram src_port dst_port c payload =
     udp_ports src_port dst_port (length payload) @ be16_bytes c @ payload"

definition tcp_segment :: "net_tcp_socket_t \<Rightarrow> u8 \<Rightarrow> u16 \<Rightarrow> u8 list \<Rightarrow> u8 list" where
  "tcp_segment socket fl c payload = tcp_numbers socket fl @ be16_bytes c @ [0, 0] @ payload"

definition proto_ok :: "u32 \<Rightarrow> u8 \<Rightarrow> u8 list \<Rightarrow> bool" where
  "proto_ok src proto message \<longleftrightarrow>
     checksum_ok (pseudo_total (length message) src NET_IP_LOCAL proto + word_total message)"

lemma udp_frame:
  fixes p q src
  assumes "length payload \<le> 50000" "frame_slice 0x2A (length payload) f = payload"
  defines "c \<equiv> net_proto_checksum (udp_ports p q (length payload) @ [0, 0] @ payload) src NET_IP_LOCAL IPPROTO_UDP"
  shows "carries_ipv4 (ipv4_frame (of_nat (28 + length payload)) ident IPPROTO_UDP src
      (frame_put 0x22 (udp_ports p q (length payload) @ be16_bytes c) f)) ident IPPROTO_UDP src (udp_datagram p q c payload)"
    and "proto_ok src IPPROTO_UDP (udp_datagram p q c payload)"
proof -
  have l: "length (udp_datagram p q c payload) = 8 + length payload" by (simp add: udp_datagram_def)
  have "frame_slice 0x22 (8 + length payload) (frame_put 0x22 (udp_ports p q (length payload) @ be16_bytes c) f) =
      udp_datagram p q c payload"
    by (subst slice_put_join [where m = "length payload"]) (simp_all add: udp_datagram_def assms(2))
  then show "carries_ipv4 (ipv4_frame (of_nat (28 + length payload)) ident IPPROTO_UDP src
      (frame_put 0x22 (udp_ports p q (length payload) @ be16_bytes c) f)) ident IPPROTO_UDP src (udp_datagram p q c payload)"
    by (intro ipv4_frame_carries) (simp_all add: l)
  show "proto_ok src IPPROTO_UDP (udp_datagram p q c payload)"
    using proto_checksum_ok [of "udp_ports p q (length payload)" payload src NET_IP_LOCAL IPPROTO_UDP] assms(1)
    unfolding proto_ok_def by (simp add: udp_datagram_def c_def)
qed

lemma tcp_frame:
  fixes src socket fl
  assumes "length payload \<le> 50000" "frame_slice 0x36 (length payload) f = payload"
  defines "c \<equiv> net_proto_checksum (tcp_numbers socket fl @ [0, 0] @ [0, 0] @ payload) src NET_IP_LOCAL IPPROTO_TCP"
  shows "carries_ipv4 (ipv4_frame (of_nat (40 + length payload)) ident IPPROTO_TCP src
      (frame_put 0x22 (tcp_numbers socket fl @ be16_bytes c @ [0, 0]) f)) ident IPPROTO_TCP src
      (tcp_segment socket fl c payload)"
    and "proto_ok src IPPROTO_TCP (tcp_segment socket fl c payload)"
proof -
  have l: "length (tcp_segment socket fl c payload) = 20 + length payload" by (simp add: tcp_segment_def)
  have "frame_slice 0x22 (20 + length payload) (frame_put 0x22 (tcp_numbers socket fl @ be16_bytes c @ [0, 0]) f) =
      tcp_segment socket fl c payload"
    by (subst slice_put_join [where m = "length payload"]) (simp_all add: tcp_segment_def assms(2))
  then show "carries_ipv4 (ipv4_frame (of_nat (40 + length payload)) ident IPPROTO_TCP src
      (frame_put 0x22 (tcp_numbers socket fl @ be16_bytes c @ [0, 0]) f)) ident IPPROTO_TCP src
      (tcp_segment socket fl c payload)"
    by (intro ipv4_frame_carries) (simp_all add: l)
  show "proto_ok src IPPROTO_TCP (tcp_segment socket fl c payload)"
    using proto_checksum_ok [of "tcp_numbers socket fl" "[0, 0] @ payload" src NET_IP_LOCAL IPPROTO_TCP] assms(1)
    unfolding proto_ok_def by (simp add: tcp_segment_def c_def)
qed

text \<open>A datagram the host's socket receives is handed to the guest whole: addressed to the port the
  guest sent from, its checksums verify, and the socket's inactivity is forgotten.\<close>

theorem net_udp_delivery:
  fixes s :: "'a net_board_scheme" and i
  defines "r \<equiv> net_results s (length (net_calls s))"
    and "u \<equiv> udp_sockets (net s) i"
    and "s' \<equiv> snd (run_state (net_check_udp_socket i) s)"
  assumes "res_value r = int (length (res_data r))" "0x2A + length (res_data r) \<le> NET_MTU"
  shows "s' = s\<lparr>net := net s', net_calls := net_calls s @ [Recvfrom (udp_fd u) (NET_MTU - 0x2A)]\<rparr> \<and>
    rx_ready (net s') \<and>
    unat (rx_len (net s')) = 0x2A + length (res_data r) \<and>
    udp_sockets (net s') = (udp_sockets (net s))(i := u\<lparr>udp_inactivity_timeout := 0\<rparr>) \<and>
    (\<exists>c. carries_ipv4 (rx_frame (net s')) (ip_id (net s)) IPPROTO_UDP (res_ip r)
         (udp_datagram (res_port r) (udp_src_port u) c (res_data r)) \<and>
       proto_ok (res_ip r) IPPROTO_UDP (udp_datagram (res_port r) (udp_src_port u) c (res_data r)))"
proof (intro conjI)
  define n where "n = length (res_data r)"
  define f where "f = frame_put 0x2A (res_data r) (rx_frame (net s))"
  define p where "p = udp_ports (res_port r) (udp_src_port u) n"
  define c where "c = net_proto_checksum (p @ [0, 0] @ res_data r) (res_ip r) NET_IP_LOCAL IPPROTO_UDP"
  have n: "res_value r = int n" "0x2A + n \<le> NET_MTU" "res_value r \<noteq> -1" using assms by (simp_all add: n_def)
  have t: "take (NET_MTU - 0x2A) (res_data r) = res_data r" using n(2) by (simp add: n_def)
  have b: "map f [0x2A..<0x2A + n] = res_data r"
    using slice_same [of "0x2A" "res_data r" "rx_frame (net s)"] by (simp only: f_def n_def frame_slice_def)
  have s': "s' = s\<lparr>net := (net s)\<lparr>rx_frame := ipv4_frame (of_nat (28 + n)) (ip_id (net s)) IPPROTO_UDP (res_ip r)
      (frame_put 0x22 (p @ be16_bytes c) f), ip_id := ip_id (net s) + 1, rx_len := of_nat (42 + n), rx_ready := True,
      udp_sockets := (udp_sockets (net s))(i := u\<lparr>udp_inactivity_timeout := 0\<rparr>)\<rparr>,
      net_calls := net_calls s @ [Recvfrom (udp_fd u) (NET_MTU - 0x2A)]\<rparr>"
    using n b unfolding s'_def net_check_udp_socket_def mod_udp_def
    by (simp add: r_def [symmetric] u_def [symmetric] t n_def [symmetric] f_def [symmetric] p_def [symmetric]
      c_def [symmetric, simplified] run_udp_reply run_ipv4_frame del: upt_rec_numeral upt_Suc)
  show "s' = s\<lparr>net := net s', net_calls := net_calls s @ [Recvfrom (udp_fd u) (NET_MTU - 0x2A)]\<rparr>"
    "rx_ready (net s')" "udp_sockets (net s') = (udp_sockets (net s))(i := u\<lparr>udp_inactivity_timeout := 0\<rparr>)"
    by (simp_all add: s')
  show "unat (rx_len (net s')) = 0x2A + length (res_data r)"
    using n(2) by (simp add: s' n_def NET_MTU_def unat_of_nat del: of_nat_add)
  have "length (res_data r) \<le> 50000" using n(2) by (simp add: n_def NET_MTU_def)
  moreover have "frame_slice 0x2A (length (res_data r)) f = res_data r" by (simp add: f_def)
  ultimately show "\<exists>c. carries_ipv4 (rx_frame (net s')) (ip_id (net s)) IPPROTO_UDP (res_ip r)
         (udp_datagram (res_port r) (udp_src_port u) c (res_data r)) \<and>
       proto_ok (res_ip r) IPPROTO_UDP (udp_datagram (res_port r) (udp_src_port u) c (res_data r))"
    using udp_frame [where payload = "res_data r" and f = f and p = "res_port r" and q = "udp_src_port u" and src = "res_ip r"]
    by (intro exI [of _ c]) (simp add: s' c_def p_def n_def)
qed

text \<open>C26. Bytes received from a connection are handed to the guest whole, in a segment with the numbers
  of the connection and valid checksums; the sequence number advances by their count, and the next
  100 polls wait for the acknowledgement.\<close>

theorem net_tcp_delivery:
  fixes s :: "'a net_board_scheme" and i
  defines "r \<equiv> net_results s (length (net_calls s))"
    and "t \<equiv> tcp_sockets (net s) i"
    and "s' \<equiv> snd (run_state (net_check_tcp_socket i) s)"
  assumes "tcp_ack_wait t \<le> 0" "res_value r = int (length (res_data r))" "res_data r \<noteq> []"
    "0x36 + length (res_data r) \<le> NET_MTU"
  shows "s' = s\<lparr>net := net s', net_calls := net_calls s @ [Recv (tcp_fd t) (NET_MTU - 0x36)]\<rparr> \<and>
    rx_ready (net s') \<and>
    unat (rx_len (net s')) = 0x36 + length (res_data r) \<and>
    tcp_sockets (net s') = (tcp_sockets (net s))(i := t\<lparr>tcp_inactivity_timeout := 0,
       tcp_ack_wait := NET_SOCKET_ACK_WAIT, tcp_send_seq := tcp_send_seq t + of_nat (length (res_data r))\<rparr>) \<and>
    (\<exists>c. carries_ipv4 (rx_frame (net s')) (ip_id (net s)) IPPROTO_TCP (tcp_dst_ip t)
         (tcp_segment t FLAGS_PSH_ACK c (res_data r)) \<and>
       proto_ok (tcp_dst_ip t) IPPROTO_TCP (tcp_segment t FLAGS_PSH_ACK c (res_data r)))"
proof (intro conjI)
  define n where "n = length (res_data r)"
  define f where "f = frame_put 0x36 (res_data r) (rx_frame (net s))"
  define p where "p = tcp_numbers t FLAGS_PSH_ACK"
  define c where "c = net_proto_checksum (p @ [0, 0] @ [0, 0] @ res_data r) (tcp_dst_ip t) NET_IP_LOCAL IPPROTO_TCP"
  define t' where "t' = t\<lparr>tcp_inactivity_timeout := 0, tcp_ack_wait := NET_SOCKET_ACK_WAIT\<rparr>"
  have n: "res_value r = int n" "0x36 + n \<le> NET_MTU" "res_value r \<noteq> -1" "res_value r \<noteq> 0" using assms by (simp_all add: n_def)
  have tk: "take (NET_MTU - 0x36) (res_data r) = res_data r" using n(2) by (simp add: n_def)
  have b: "map f [0x36..<0x36 + n] = res_data r"
    using slice_same [of "0x36" "res_data r" "rx_frame (net s)"] by (simp only: f_def n_def frame_slice_def)
  have p': "tcp_numbers t' FLAGS_PSH_ACK = p" "tcp_dst_ip t' = tcp_dst_ip t" "tcp_send_seq t' = tcp_send_seq t"
    by (simp_all add: t'_def p_def tcp_numbers_def)
  have s': "s' = s\<lparr>net := (net s)\<lparr>rx_frame := ipv4_frame (of_nat (40 + n)) (ip_id (net s)) IPPROTO_TCP (tcp_dst_ip t)
      (frame_put 0x22 (p @ be16_bytes c @ [0, 0]) f), ip_id := ip_id (net s) + 1, rx_len := of_nat (54 + n), rx_ready := True,
      tcp_sockets := (tcp_sockets (net s))(i := t'\<lparr>tcp_send_seq := tcp_send_seq t + of_nat n\<rparr>)\<rparr>,
      net_calls := net_calls s @ [Recv (tcp_fd t) (NET_MTU - 0x36)]\<rparr>"
    using n b assms(4) unfolding s'_def net_check_tcp_socket_def mod_tcp_def net_tcp_segment_def
    by (simp add: r_def [symmetric] t_def [symmetric] tk n_def [symmetric] f_def [symmetric] t'_def [symmetric] p'
      c_def [symmetric, simplified] run_tcp_reply run_ipv4_frame del: upt_rec_numeral upt_Suc)
  show "s' = s\<lparr>net := net s', net_calls := net_calls s @ [Recv (tcp_fd t) (NET_MTU - 0x36)]\<rparr>"
    "rx_ready (net s')" "tcp_sockets (net s') = (tcp_sockets (net s))(i := t\<lparr>tcp_inactivity_timeout := 0,
       tcp_ack_wait := NET_SOCKET_ACK_WAIT, tcp_send_seq := tcp_send_seq t + of_nat (length (res_data r))\<rparr>)"
    by (simp_all add: s' t'_def n_def)
  show "unat (rx_len (net s')) = 0x36 + length (res_data r)"
    using n(2) by (simp add: s' n_def NET_MTU_def unat_of_nat del: of_nat_add)
  have "length (res_data r) \<le> 50000" using n(2) by (simp add: n_def NET_MTU_def)
  moreover have "frame_slice 0x36 (length (res_data r)) f = res_data r" by (simp add: f_def)
  ultimately show "\<exists>c. carries_ipv4 (rx_frame (net s')) (ip_id (net s)) IPPROTO_TCP (tcp_dst_ip t)
         (tcp_segment t FLAGS_PSH_ACK c (res_data r)) \<and>
       proto_ok (tcp_dst_ip t) IPPROTO_TCP (tcp_segment t FLAGS_PSH_ACK c (res_data r))"
    using tcp_frame [where payload = "res_data r" and f = f and socket = t and fl = FLAGS_PSH_ACK and src = "tcp_dst_ip t"]
    by (intro exI [of _ c]) (simp add: s' c_def p_def n_def)
qed

subsection \<open>Address requests and polling\<close>

text \<open>An ARP reply from \<open>mac\<close> that binds \<open>addr\<close> to it, to the card.\<close>

definition arp_reply :: "u8 \<Rightarrow> u32 \<Rightarrow> u8 list" where
  "arp_reply mac addr = replicate 6 NET_MAC_LOCAL @ replicate 6 NET_MAC_REMOTE @
     [0x08, 0x06, 0x00, 0x01, 0x08, 0x00, 0x06, 0x04, 0x00, 0x02] @ replicate 6 mac @ be32_bytes addr @
     replicate 6 NET_MAC_LOCAL @ be32_bytes NET_IP_LOCAL"

text \<open>A request for the address of the remote host or of the card is answered with its owner; a
  request for any other address, and any other ARP frame, delivers nothing.\<close>

lemma run_handle_arp:
  fixes s :: "'a net_board_scheme" and tx_frame tx_len
  defines "s' \<equiv> snd (run_state (net_handle_arp tx_frame tx_len) s)"
    and "request \<equiv> 0x29 \<le> tx_len \<and> be16 tx_frame 0x14 = 1"
    and "owner \<equiv> (if be32 tx_frame 0x26 = NET_IP_REMOTE then Some NET_MAC_REMOTE
       else if be32 tx_frame 0x26 = NET_IP_LOCAL then Some NET_MAC_LOCAL else None)"
  shows "s' = s\<lparr>net := net s'\<rparr>"
    "case (if request then owner else None) of
       Some mac \<Rightarrow> rx_ready (net s') \<and> rx_len (net s') = 0x2A \<and>
         frame_slice 0 0x2A (rx_frame (net s')) = arp_reply mac (be32 tx_frame 0x26)
     | None \<Rightarrow> rx_ready (net s') = rx_ready (net s) \<and> rx_len (net s') = rx_len (net s)"
proof -
  have six: "[b, b, b, b, b, b] = replicate 6 b" for b :: u8 by (simp add: numeral_eq_Suc)
  have run1: "run_state (net_arp_sender mac addr) t = ((), t\<lparr>net := (net t)\<lparr>rx_frame :=
      frame_put 0x16 (replicate 6 mac @ be32_bytes addr) (rx_frame (net t))\<rparr>\<rparr>)" for mac addr and t :: "'a net_board_scheme"
    by (simp add: net_arp_sender_def NET_MTU_def six frame_put_join)
  have run2: "run_state net_arp_answer t = ((), t\<lparr>net := (net t)\<lparr>rx_frame :=
      frame_put 0 (replicate 6 NET_MAC_LOCAL @ replicate 6 NET_MAC_REMOTE)
        (frame_put 0x20 (replicate 6 NET_MAC_LOCAL @ be32_bytes NET_IP_LOCAL) (rx_frame (net t))),
      rx_len := 0x2A, rx_ready := True\<rparr>\<rparr>)" for t :: "'a net_board_scheme"
    by (simp add: net_arp_answer_def NET_MTU_def six frame_put_join run_ethernet_reply)
  have j: "frame_put 0 (replicate 6 NET_MAC_LOCAL @ replicate 6 NET_MAC_REMOTE)
      (frame_put 0x20 (replicate 6 NET_MAC_LOCAL @ be32_bytes NET_IP_LOCAL)
      (frame_put 0x16 (replicate 6 mac @ be32_bytes addr)
      (frame_put 0x0C [0x08, 0x06, 0x00, 0x01, 0x08, 0x00, 0x06, 0x04, 0x00, 0x02] f))) =
      frame_put 0 (arp_reply mac addr) f" for mac addr f
  proof -
    have "frame_put 0 xs (frame_put 0x0C ys f) = frame_put 0 (xs @ ys) f" if "length xs = 12" for xs ys f
      using that by (auto simp: frame_put_def fun_eq_iff nth_append)
    then show ?thesis by (simp add: frame_put_join arp_reply_def)
  qed
  note run = run1 run2 j
  have sl: "frame_slice 0 0x2A (frame_put 0 (arp_reply mac addr) f) = arp_reply mac addr" for mac addr f
    using slice_same [of 0 "arp_reply mac addr" f] by (simp add: arp_reply_def)
  have m: "22 \<le> NET_MTU" by (simp add: NET_MTU_def)
  have ne: "NET_IP_LOCAL \<noteq> NET_IP_REMOTE" by (simp add: NET_IP_LOCAL_def NET_IP_REMOTE_def)
  show "s' = s\<lparr>net := net s'\<rparr>"
    unfolding s'_def net_handle_arp_def by (simp add: Let_def m run)
  show "case (if request then owner else None) of
       Some mac \<Rightarrow> rx_ready (net s') \<and> rx_len (net s') = 0x2A \<and>
         frame_slice 0 0x2A (rx_frame (net s')) = arp_reply mac (be32 tx_frame 0x26)
     | None \<Rightarrow> rx_ready (net s') = rx_ready (net s) \<and> rx_len (net s') = rx_len (net s)"
    unfolding s'_def net_handle_arp_def request_def owner_def by (auto simp: Let_def m run sl ne not_less)
qed

lemma find_first:
  assumes "p i" "i < n"
  shows "\<exists>j \<le> i. find p [0..<n] = Some j"
proof -
  define j where "j = (LEAST k. p k)"
  have "p j" "j \<le> i" "\<And>k. k < j \<Longrightarrow> \<not> p k"
    unfolding j_def using assms(1) by (auto intro: LeastI Least_le dest: not_less_Least)
  then have "find p [0..<n] = Some j"
    using assms(2) by (auto simp: find_Some_iff intro!: exI [of _ j])
  then show ?thesis using \<open>j \<le> i\<close> by blast
qed

text \<open>C27. A SYN segment from the guest opens a connection: the first free socket is connected to the
  address asked for and remembers the connection, and the guest is sent a SYN-ACK that acknowledges
  its sequence number; the next segment of the connection finds this socket or an older one of the
  same connection.\<close>

theorem net_tcp_handshake:
  fixes s :: "'a net_board_scheme" and tx_frame i
  defines "r \<equiv> \<lambda>k. net_results s (length (net_calls s) + k)"
    and "dst_ip \<equiv> be32 tx_frame 0x1E" and "src_port \<equiv> be16 tx_frame 0x22" and "dst_port \<equiv> be16 tx_frame 0x24"
    and "s' \<equiv> snd (run_state (net_handle_tcp tx_frame) s)"
  defines "t \<equiv> \<lparr>tcp_fd = res_value (r 0), tcp_inactivity_timeout = 0, tcp_src_port = src_port,
      tcp_dst_port = dst_port, tcp_dst_ip = dst_ip, tcp_send_seq = tcp_send_seq (tcp_sockets (net s) i),
      tcp_recv_seq = be32 tx_frame 0x26 + 1, tcp_fin_ack_sent = False, tcp_ack_wait = 0\<rparr>"
  assumes "tx_frame 0x2F = FLAGS_SYN" "find_tcp (\<lambda>t. tcp_fd t = -1) (net s) = Some i"
    "res_value (r 0) \<noteq> -1" "res_value (r 1) \<noteq> -1" "res_value (r 3) \<noteq> 1"
  shows "net_calls s' = net_calls s @ [Socket_stream, Connect (res_value (r 0)) dst_ip dst_port,
      Fcntl_getfl (res_value (r 0)), Fcntl_setfl_nonblock (res_value (r 0)) (res_value (r 2))] \<and>
    tcp_sockets (net s') = (tcp_sockets (net s))(i := t\<lparr>tcp_send_seq := tcp_send_seq t + 1\<rparr>) \<and>
    rx_ready (net s') \<and>
    rx_len (net s') = 54 \<and>
    (\<exists>c. carries_ipv4 (rx_frame (net s')) (ip_id (net s)) IPPROTO_TCP dst_ip (tcp_segment t FLAGS_SYN_ACK c []) \<and>
       proto_ok dst_ip IPPROTO_TCP (tcp_segment t FLAGS_SYN_ACK c [])) \<and>
    (\<exists>j. find_tcp (\<lambda>t. tcp_fd t \<noteq> -1 \<and> tcp_src_port t = src_port \<and> tcp_dst_port t = dst_port \<and>
       tcp_dst_ip t = dst_ip) (net s') = Some j \<and> j \<le> i)"
proof (intro conjI)
  define c where "c = net_proto_checksum (tcp_numbers t FLAGS_SYN_ACK @ [0, 0] @ [0, 0] @ []) dst_ip NET_IP_LOCAL IPPROTO_TCP"
  define t1 where "t1 = (tcp_sockets (net s) i)\<lparr>tcp_fd := res_value (r 0), tcp_src_port := src_port,
    tcp_dst_port := dst_port, tcp_dst_ip := dst_ip, tcp_recv_seq := be32 tx_frame 0x26 + 1,
    tcp_inactivity_timeout := 0, tcp_fin_ack_sent := False, tcp_ack_wait := 0\<rparr>"
  have t: "t1 = t" by (simp add: t1_def t_def)
  have tf: "tcp_dst_ip t = dst_ip" by (simp add: t_def)
  have m: "54 \<le> NET_MTU" by (simp add: NET_MTU_def)
  have r: "net_results s (length (net_calls s)) = r 0" "net_results s (Suc (length (net_calls s))) = r 1"
    "net_results s (Suc (Suc (length (net_calls s)))) = r 2" "net_results s (Suc (Suc (Suc (length (net_calls s))))) = r 3"
    by (simp_all add: r_def numeral_eq_Suc)
  have run: "s' = s\<lparr>net := (net s)\<lparr>rx_frame := ipv4_frame 40 (ip_id (net s)) IPPROTO_TCP dst_ip
      (frame_put 0x22 (tcp_numbers t FLAGS_SYN_ACK @ be16_bytes c @ [0, 0]) (rx_frame (net s))),
      ip_id := ip_id (net s) + 1, rx_len := 54, rx_ready := True,
      tcp_sockets := (tcp_sockets (net s))(i := t\<lparr>tcp_send_seq := tcp_send_seq t + 1\<rparr>)\<rparr>,
      net_calls := net_calls s @ [Socket_stream, Connect (res_value (r 0)) dst_ip dst_port,
      Fcntl_getfl (res_value (r 0)), Fcntl_setfl_nonblock (res_value (r 0)) (res_value (r 2))]\<rparr>"
    using assms(7-11) unfolding s'_def net_handle_tcp_def Let_def dst_ip_def [symmetric] src_port_def [symmetric]
      dst_port_def [symmetric]
    by (simp add: net_tcp_open_def r mod_tcp_def net_tcp_segment_def run_tcp_reply [where n = 0, simplified] m
      t1_def [symmetric] t c_def [symmetric, simplified] run_ipv4_frame tf)
  show "net_calls s' = net_calls s @ [Socket_stream, Connect (res_value (r 0)) dst_ip dst_port,
      Fcntl_getfl (res_value (r 0)), Fcntl_setfl_nonblock (res_value (r 0)) (res_value (r 2))]"
    "rx_ready (net s')" "rx_len (net s') = 54"
    "tcp_sockets (net s') = (tcp_sockets (net s))(i := t\<lparr>tcp_send_seq := tcp_send_seq t + 1\<rparr>)"
    by (simp_all add: run)
  show "\<exists>c. carries_ipv4 (rx_frame (net s')) (ip_id (net s)) IPPROTO_TCP dst_ip (tcp_segment t FLAGS_SYN_ACK c []) \<and>
       proto_ok dst_ip IPPROTO_TCP (tcp_segment t FLAGS_SYN_ACK c [])"
    using tcp_frame [where payload = "[]" and f = "rx_frame (net s)" and socket = t and fl = FLAGS_SYN_ACK and src = dst_ip]
    by (intro exI [of _ c]) (simp add: run c_def frame_slice_def)
  let ?p = "\<lambda>j. (\<lambda>t. tcp_fd t \<noteq> -1 \<and> tcp_src_port t = src_port \<and> tcp_dst_port t = dst_port \<and>
       tcp_dst_ip t = dst_ip) (tcp_sockets (net s') j)"
  have "i < NET_SOCKETS_MAX" using assms(8) by (auto simp: find_tcp_def find_Some_iff)
  moreover have "?p i" using assms(9) by (simp add: run t_def)
  ultimately obtain j where "j \<le> i" "find ?p [0..<NET_SOCKETS_MAX] = Some j"
    using find_first [of ?p i NET_SOCKETS_MAX] by blast
  then show "\<exists>j. find_tcp (\<lambda>t. tcp_fd t \<noteq> -1 \<and> tcp_src_port t = src_port \<and> tcp_dst_port t = dst_port \<and>
       tcp_dst_ip t = dst_ip) (net s') = Some j \<and> j \<le> i"
    using \<open>j \<le> i\<close> unfolding find_tcp_def by blast
qed

text \<open>A frame that waits for the guest is never overwritten: the network does nothing until it has
  been taken.\<close>

theorem net_execute_waits:
  "rx_ready (net s) \<Longrightarrow> run_state net_execute s = ((), s)"
  by (simp add: net_execute_def NET_SOCKETS_MAX_def upt_conv_Cons)

subsection \<open>Examples\<close>

text \<open>A card just started, with one host call that answers \<open>Hi!\<close> from port 7 of 10.1.2.3.\<close>

definition net_start :: "int \<Rightarrow> net_board" where
  "net_start n = uart_board.extend uart_power_on (net_board.fields net_power_on []
     (\<lambda>_. \<lparr>res_value = n, res_errno = 0, res_data = [0x48, 0x69, 0x21], res_ip = 0x0A010203, res_port = 7\<rparr>))"

definition demo_frame :: "nat \<Rightarrow> u8" where
  "demo_frame i = (if i = 0x22 then 8 else if i = 0x1E then 10 else if i = 0x21 then 1 else if i = 0x2F then FLAGS_SYN
     else if i < 0x21 then 0 else of_nat i)"

lemma net_start_fields [simp]:
  "net (net_start n) = net_power_on" "net_calls (net_start n) = []" "res_value (net_results (net_start n) k) = n"
  "res_data (net_results (net_start n) k) = [0x48, 0x69, 0x21]" "res_port (net_results (net_start n) k) = 7"
  by (simp_all add: net_start_def net_board.defs uart_board.defs)

theorem net_echo_reply_witness:
  "rx_len (net (snd (run_state (net_handle_icmp demo_frame 0x2A) (net_start 3)))) = 0x2A"
  by (rule net_echo_reply [THEN conjunct2, THEN conjunct2, THEN conjunct1]) (simp_all add: demo_frame_def be32_def NET_IP_REMOTE_def NET_MTU_def)

theorem net_udp_delivery_witness:
  "unat (rx_len (net (snd (run_state (net_check_udp_socket 0) (net_start 3))))) = 45"
  using net_udp_delivery [where s = "net_start 3" and i = 0, THEN conjunct2, THEN conjunct2, THEN conjunct1] by (simp add: NET_MTU_def)

theorem net_tcp_delivery_witness:
  "unat (rx_len (net (snd (run_state (net_check_tcp_socket 0) (net_start 3))))) = 57"
  using net_tcp_delivery [where s = "net_start 3" and i = 0, THEN conjunct2, THEN conjunct2, THEN conjunct1] by (simp add: NET_MTU_def net_power_on_def no_tcp_socket_def)

theorem net_tcp_handshake_witness:
  "rx_len (net (snd (run_state (net_handle_tcp demo_frame) (net_start 3)))) = 54"
proof -
  have "demo_frame 0x2F = FLAGS_SYN" "find_tcp (\<lambda>t. tcp_fd t = -1) (net (net_start 3)) = Some 0"
    by (simp_all add: demo_frame_def find_tcp_def NET_SOCKETS_MAX_def upt_conv_Cons net_power_on_def no_tcp_socket_def)
  then show ?thesis by (rule net_tcp_handshake [THEN conjunct2, THEN conjunct2, THEN conjunct2, THEN conjunct1]) simp_all
qed

theorem net_execute_waits_witness:
  "run_state net_execute ((net_start 3)\<lparr>net := net_power_on\<lparr>rx_ready := True\<rparr>\<rparr>) =
    ((), (net_start 3)\<lparr>net := net_power_on\<lparr>rx_ready := True\<rparr>\<rparr>)"
  by (rule net_execute_waits) simp

end
