(* ===== verification/Dp8390_Ring.thy ===== *)
theory Dp8390_Ring
  imports Dp8390 Net_Reply
begin

unbundle bit_operations_syntax

text \<open>
  The memory of the network card as a ring of pages: consecutive bytes written through the remote
  DMA port or received from the network are read back in order, and a frame of the network reaches
  the driver whole, behind its header.
\<close>

subsection \<open>Addresses in the ring\<close>

definition page_start :: "u8 \<Rightarrow> u16" where
  "page_start page = push_bit 8 (ucast page)"

lemma unat_page_start [simp]: "unat (page_start page) = 256 * unat page"
proof -
  have "unat page < 256" by (rule unat_u8)
  moreover have "unat (ucast page :: u16) = unat page"
    by (simp add: unsigned_ucast_eq take_bit_nat_eq_self order_less_le_trans [OF unat_u8])
  ultimately show ?thesis by (simp add: page_start_def push_bit_eq_mult unat_word_ariths)
qed

text \<open>An address of the ring, and its place counted from the start.\<close>

definition in_ring :: "dp8390_t \<Rightarrow> u16 \<Rightarrow> bool" where
  "in_ring d a \<longleftrightarrow> page_start (dp_pstart d) \<le> a \<and> a < page_start (dp_pstop d)"

definition ring_size :: "dp8390_t \<Rightarrow> nat" where
  "ring_size d = 256 * (unat (dp_pstop d) - unat (dp_pstart d))"

definition ring_place :: "dp8390_t \<Rightarrow> u16 \<Rightarrow> nat" where
  "ring_place d a = unat a - 256 * unat (dp_pstart d)"

lemma in_ring_nat: "in_ring d a \<longleftrightarrow> 256 * unat (dp_pstart d) \<le> unat a \<and> unat a < 256 * unat (dp_pstop d)"
  unfolding in_ring_def word_le_nat_alt word_less_nat_alt by simp

lemma ring_place_less: "in_ring d a \<Longrightarrow> ring_place d a < ring_size d"
  by (auto simp: in_ring_nat ring_place_def ring_size_def)

lemma ring_place_inj: "in_ring d a \<Longrightarrow> in_ring d b \<Longrightarrow> ring_place d a = ring_place d b \<Longrightarrow> a = b"
  by (auto simp: in_ring_nat ring_place_def word_unat_eq_iff)

lemma ring_next_place:
  assumes "in_ring d a"
  shows "in_ring d (ring_next d a)" "ring_place d (ring_next d a) = (ring_place d a + 1) mod ring_size d"
proof -
  have a: "256 * unat (dp_pstart d) \<le> unat a" "unat a < 256 * unat (dp_pstop d)" "256 * unat (dp_pstop d) < 65536"
    using assms unat_u8 [of "dp_pstop d"] by (simp_all add: in_ring_nat)
  then have s: "unat (a + 1) = unat a + 1" by (simp add: unat_word_ariths)
  have e: "a + 1 = page_start (dp_pstop d) \<longleftrightarrow> unat a + 1 = 256 * unat (dp_pstop d)"
    by (metis s unat_page_start word_unat_eq_iff)
  have n: "ring_next d a = (if unat a + 1 = 256 * unat (dp_pstop d) then page_start (dp_pstart d) else a + 1)"
    using e by (simp add: ring_next_def page_start_def)
  show "in_ring d (ring_next d a)"
    using a s unfolding in_ring_nat n by auto
  show "ring_place d (ring_next d a) = (ring_place d a + 1) mod ring_size d"
  proof (cases "unat a + 1 = 256 * unat (dp_pstop d)")
    case True
    then have "ring_place d a + 1 = ring_size d" using a by (simp add: ring_place_def ring_size_def diff_mult_distrib2)
    then show ?thesis using True by (simp add: n ring_place_def [of d "page_start x" for x])
  next
    case False
    then have "ring_place d a + 1 < ring_size d" using a by (simp add: ring_place_def ring_size_def diff_mult_distrib2)
    then show ?thesis using False a s by (simp add: n ring_place_def)
  qed
qed

text \<open>Walking from \<open>a\<close>.\<close>

definition ring_addr :: "dp8390_t \<Rightarrow> u16 \<Rightarrow> nat \<Rightarrow> u16" where
  "ring_addr d a i = (ring_next d ^^ i) a"

lemma ring_addr_simps [simp]:
  "ring_addr d a 0 = a" "ring_addr d a (Suc i) = ring_addr d (ring_next d a) i"
  by (simp_all add: ring_addr_def funpow_swap1)

lemma ring_addr_place:
  "in_ring d a \<Longrightarrow> in_ring d (ring_addr d a i) \<and> ring_place d (ring_addr d a i) = (ring_place d a + i) mod ring_size d"
proof (induction i arbitrary: a)
  case 0
  then show ?case by (simp add: ring_place_less)
next
  case (Suc i)
  then show ?case using ring_next_place [OF Suc.prems] by (simp add: mod_add_left_eq)
qed

lemma ring_addr_distinct:
  assumes "in_ring d a" "0 < i" "i < ring_size d"
  shows "ring_addr d a i \<noteq> a"
proof
  assume "ring_addr d a i = a"
  then have "(ring_place d a + i) mod ring_size d = ring_place d a"
    using ring_addr_place [OF assms(1), of i] by simp
  moreover have "ring_place d a < ring_size d" using assms(1) by (rule ring_place_less)
  ultimately show False
    using assms(2,3) by (cases "ring_place d a + i < ring_size d")
      (simp_all add: mod_if [of "ring_place d a + i"] not_less le_mod_geq)
qed

subsection \<open>Storing and loading\<close>

primrec ring_store :: "dp8390_t \<Rightarrow> u8 list \<Rightarrow> u16 \<Rightarrow> (u16 \<Rightarrow> u8) \<Rightarrow> u16 \<Rightarrow> u8" where
  "ring_store d [] a m = m"
| "ring_store d (b # bs) a m = ring_store d bs (ring_next d a) (m(a := b))"

primrec ring_load :: "dp8390_t \<Rightarrow> nat \<Rightarrow> u16 \<Rightarrow> (u16 \<Rightarrow> u8) \<Rightarrow> u8 list" where
  "ring_load d 0 a m = []"
| "ring_load d (Suc n) a m = m a # ring_load d n (ring_next d a) m"

lemma ring_store_other: "(\<And>i. i < length bs \<Longrightarrow> ring_addr d a i \<noteq> c) \<Longrightarrow> ring_store d bs a m c = m c"
proof (induction bs arbitrary: a m)
  case (Cons b bs)
  have "a \<noteq> c" using Cons.prems [of 0] by simp
  moreover have "ring_addr d (ring_next d a) i \<noteq> c" if "i < length bs" for i
    using Cons.prems [of "Suc i"] that by simp
  ultimately show ?case using Cons.IH by simp
qed simp

text \<open>What fits into the ring is read back.\<close>

lemma ring_load_store:
  "in_ring d a \<Longrightarrow> length bs \<le> ring_size d \<Longrightarrow> ring_load d (length bs) a (ring_store d bs a m) = bs"
proof (induction bs arbitrary: a m)
  case (Cons b bs)
  have "ring_addr d (ring_next d a) i \<noteq> a" if "i < length bs" for i
    using ring_addr_distinct [OF Cons.prems(1), of "Suc i"] Cons.prems(2) that by simp
  then have "ring_store d bs (ring_next d a) (m(a := b)) a = b" by (simp add: ring_store_other)
  then show ?case using Cons ring_next_place(1) [OF Cons.prems(1)] by simp
qed simp

text \<open>Only the page registers matter.\<close>

lemma ring_next_cong: "dp_pstart d = dp_pstart d' \<Longrightarrow> dp_pstop d = dp_pstop d' \<Longrightarrow> ring_next d = ring_next d'"
  by (simp add: ring_next_def fun_eq_iff)

lemma ring_cong:
  assumes "dp_pstart d = dp_pstart d'" "dp_pstop d = dp_pstop d'"
  shows "ring_store d = ring_store d'" "ring_load d = ring_load d'" "in_ring d = in_ring d'" "ring_size d = ring_size d'"
    "ring_addr d = ring_addr d'"
proof -
  note n = ring_next_cong [OF assms]
  have "ring_store d bs a m = ring_store d' bs a m" for bs a m
    by (induction bs arbitrary: a m) (simp_all add: n)
  then show "ring_store d = ring_store d'" by blast
  have "ring_load d k a m = ring_load d' k a m" for k a m
    by (induction k arbitrary: a) (simp_all add: n)
  then show "ring_load d = ring_load d'" by blast
  show "in_ring d = in_ring d'" "ring_size d = ring_size d'" "ring_addr d = ring_addr d'"
    using assms by (simp_all add: in_ring_def ring_size_def ring_addr_def n fun_eq_iff)
qed

lemma ring_updates [simp]:
  "ring_store (d\<lparr>dp_ring := x0\<rparr>) = ring_store d" "ring_store (d\<lparr>dp_crda := x1\<rparr>) = ring_store d" "ring_store (d\<lparr>dp_rsar := x2\<rparr>) = ring_store d" "ring_store (d\<lparr>dp_clda := x3\<rparr>) = ring_store d" "ring_store (d\<lparr>dp_isr := x4\<rparr>) = ring_store d" "ring_store (d\<lparr>dp_curr := x5\<rparr>) = ring_store d" "ring_store (d\<lparr>dp_tsr := x6\<rparr>) = ring_store d" "ring_store (d\<lparr>dp_tpsr := x7\<rparr>) = ring_store d" "ring_store (d\<lparr>dp_tbcr := x8\<rparr>) = ring_store d" "ring_store (d\<lparr>dp_cr := x9\<rparr>) = ring_store d"
  "ring_load (d\<lparr>dp_ring := x0\<rparr>) = ring_load d" "ring_load (d\<lparr>dp_crda := x1\<rparr>) = ring_load d" "ring_load (d\<lparr>dp_rsar := x2\<rparr>) = ring_load d" "ring_load (d\<lparr>dp_clda := x3\<rparr>) = ring_load d" "ring_load (d\<lparr>dp_isr := x4\<rparr>) = ring_load d" "ring_load (d\<lparr>dp_curr := x5\<rparr>) = ring_load d" "ring_load (d\<lparr>dp_tsr := x6\<rparr>) = ring_load d" "ring_load (d\<lparr>dp_tpsr := x7\<rparr>) = ring_load d" "ring_load (d\<lparr>dp_tbcr := x8\<rparr>) = ring_load d" "ring_load (d\<lparr>dp_cr := x9\<rparr>) = ring_load d"
  "ring_addr (d\<lparr>dp_ring := x0\<rparr>) = ring_addr d" "ring_addr (d\<lparr>dp_crda := x1\<rparr>) = ring_addr d" "ring_addr (d\<lparr>dp_rsar := x2\<rparr>) = ring_addr d" "ring_addr (d\<lparr>dp_clda := x3\<rparr>) = ring_addr d" "ring_addr (d\<lparr>dp_isr := x4\<rparr>) = ring_addr d" "ring_addr (d\<lparr>dp_curr := x5\<rparr>) = ring_addr d" "ring_addr (d\<lparr>dp_tsr := x6\<rparr>) = ring_addr d" "ring_addr (d\<lparr>dp_tpsr := x7\<rparr>) = ring_addr d" "ring_addr (d\<lparr>dp_tbcr := x8\<rparr>) = ring_addr d" "ring_addr (d\<lparr>dp_cr := x9\<rparr>) = ring_addr d"
  "in_ring (d\<lparr>dp_ring := x0\<rparr>) = in_ring d" "in_ring (d\<lparr>dp_crda := x1\<rparr>) = in_ring d" "in_ring (d\<lparr>dp_rsar := x2\<rparr>) = in_ring d" "in_ring (d\<lparr>dp_clda := x3\<rparr>) = in_ring d" "in_ring (d\<lparr>dp_isr := x4\<rparr>) = in_ring d" "in_ring (d\<lparr>dp_curr := x5\<rparr>) = in_ring d" "in_ring (d\<lparr>dp_tsr := x6\<rparr>) = in_ring d" "in_ring (d\<lparr>dp_tpsr := x7\<rparr>) = in_ring d" "in_ring (d\<lparr>dp_tbcr := x8\<rparr>) = in_ring d" "in_ring (d\<lparr>dp_cr := x9\<rparr>) = in_ring d"
  "ring_size (d\<lparr>dp_ring := x0\<rparr>) = ring_size d" "ring_size (d\<lparr>dp_crda := x1\<rparr>) = ring_size d" "ring_size (d\<lparr>dp_rsar := x2\<rparr>) = ring_size d" "ring_size (d\<lparr>dp_clda := x3\<rparr>) = ring_size d" "ring_size (d\<lparr>dp_isr := x4\<rparr>) = ring_size d" "ring_size (d\<lparr>dp_curr := x5\<rparr>) = ring_size d" "ring_size (d\<lparr>dp_tsr := x6\<rparr>) = ring_size d" "ring_size (d\<lparr>dp_tpsr := x7\<rparr>) = ring_size d" "ring_size (d\<lparr>dp_tbcr := x8\<rparr>) = ring_size d" "ring_size (d\<lparr>dp_cr := x9\<rparr>) = ring_size d"
  by (rule ring_cong; simp)+

subsection \<open>The remote DMA port\<close>

lemma data_port: "DP8390_DATA = 0x310" "DP8390_CR = 0x300"
  by (simp_all add: dp_port_defs)

lemma run_data_write [simp]:
  "run_state (dp8390_register_write DP8390_DATA v) s = ((), s\<lparr>dp8390 := (dp8390 s)
    \<lparr>dp_ring := (dp_ring (dp8390 s))(dp_crda (dp8390 s) := v), dp_crda := ring_next (dp8390 s) (dp_crda (dp8390 s))\<rparr>\<rparr>)"
  by (simp add: dp8390_register_write_def dp_port_defs ring_next_def)

lemma run_data_read [simp]:
  "drop_bit 1 (dp_tcr (dp8390 s)) AND 0x3 \<noteq> 1 \<Longrightarrow>
   run_state (dp8390_register_read DP8390_DATA) s = (dp_ring (dp8390 s) (dp_crda (dp8390 s)),
     s\<lparr>dp8390 := (dp8390 s)\<lparr>dp_crda := ring_next (dp8390 s) (dp_crda (dp8390 s))\<rparr>\<rparr>)"
  by (simp add: dp8390_register_read_def dp_port_defs ring_next_def)

lemma run_data_writes:
  "run_state (for_each bs (dp8390_register_write DP8390_DATA)) s = ((), s\<lparr>dp8390 := (dp8390 s)
    \<lparr>dp_ring := ring_store (dp8390 s) bs (dp_crda (dp8390 s)) (dp_ring (dp8390 s)),
     dp_crda := ring_addr (dp8390 s) (dp_crda (dp8390 s)) (length bs)\<rparr>\<rparr>)"
proof (induction bs arbitrary: s)
  case (Cons b bs)
  let ?d = "(dp8390 s)\<lparr>dp_ring := (dp_ring (dp8390 s))(dp_crda (dp8390 s) := b), dp_crda := ring_next (dp8390 s) (dp_crda (dp8390 s))\<rparr>"
  have "ring_store ?d = ring_store (dp8390 s)" "ring_addr ?d = ring_addr (dp8390 s)"
    by (rule ring_cong; simp)+
  then show ?case by (simp add: Cons)
qed simp

lemma run_data_reads:
  "drop_bit 1 (dp_tcr (dp8390 s)) AND 0x3 \<noteq> 1 \<Longrightarrow>
   run_state (replicate_m n (dp8390_register_read DP8390_DATA)) s =
    (ring_load (dp8390 s) n (dp_crda (dp8390 s)) (dp_ring (dp8390 s)),
     s\<lparr>dp8390 := (dp8390 s)\<lparr>dp_crda := ring_addr (dp8390 s) (dp_crda (dp8390 s)) n\<rparr>\<rparr>)"
proof (induction n arbitrary: s)
  case (Suc n)
  let ?d = "(dp8390 s)\<lparr>dp_crda := ring_next (dp8390 s) (dp_crda (dp8390 s))\<rparr>"
  have "ring_load ?d = ring_load (dp8390 s)" "ring_addr ?d = ring_addr (dp8390 s)"
    by (rule ring_cong; simp)+
  then show ?case using Suc by simp
qed simp

text \<open>The driver's preparation of a transfer: the address in two registers.\<close>

definition set_remote :: "u16 \<Rightarrow> ('a dp_board_scheme, unit) state" where
  "set_remote a = do { dp8390_register_write DP8390_RSAR0 (lo8 a); dp8390_register_write DP8390_RSAR1 (hi8 a) }"

lemma word_halves:
  "push_bit 8 (ucast (hi8 a)) OR ((ucast (lo8 a) OR (x AND 0xFF00)) AND 0x00FF) = (a :: u16)"
proof -
  have ff: "(0xFF00 :: u16) = push_bit 8 (mask 8)" "(0x00FF :: u16) = mask 8"
    by (simp_all add: mask_eq_exp_minus_1 push_bit_eq_mult)
  show ?thesis
    unfolding ff hi8_def lo8_def by (rule bit_word_eqI) (auto simp: bit_simps)
qed

lemma run_set_remote:
  "dp8390_page (dp8390 s) = 0 \<Longrightarrow> run_state (set_remote a) s = ((), s\<lparr>dp8390 := (dp8390 s)\<lparr>dp_rsar := a, dp_crda := a\<rparr>\<rparr>)"
  by (simp add: set_remote_def dp8390_register_write_def dp_port_defs when_page0_def word_halves)
    (simp add: dp8390_page_def word_halves)

text \<open>C28. What the driver writes into the card's memory through the data port, starting anywhere in the
  ring and across its end, it reads back from there in the same order.\<close>

theorem dp8390_dma_roundtrip:
  fixes s :: "'a dp_board_scheme" and a bs
  assumes "dp8390_page (dp8390 s) = 0" "drop_bit 1 (dp_tcr (dp8390 s)) AND 0x3 \<noteq> 1"
    "in_ring (dp8390 s) a" "length bs \<le> ring_size (dp8390 s)"
  shows "fst (run_state (do { set_remote a; for_each bs (dp8390_register_write DP8390_DATA);
      set_remote a; replicate_m (length bs) (dp8390_register_read DP8390_DATA) }) s) = bs"
  using assms by (simp add: run_set_remote run_data_writes run_data_reads dp8390_page_def ring_load_store)

subsection \<open>Interrupts leave the card alone\<close>

lemma irq_frame [simp]:
  "net (snd (run_state (fe2010_irq n) (s :: 'a dp_board_scheme))) = net s"
  "dp8390 (snd (run_state (fe2010_irq n) s)) = dp8390 s"
  "tx_stack (snd (run_state (fe2010_irq n) s)) = tx_stack s"
  "wild (snd (run_state (fe2010_irq n) s)) = wild s"
  by (simp_all add: run_fe2010_irq i8088_irq_def run_interrupt Let_def)

lemma interrupt_frame [simp]:
  "net (snd (run_state (dp8390_interrupt n) s)) = net s"
  "dp8390 (snd (run_state (dp8390_interrupt n) s)) = (dp8390 s)\<lparr>dp_isr := dp_isr (dp8390 s) OR push_bit n 1\<rparr>"
  "tx_stack (snd (run_state (dp8390_interrupt n) s)) = tx_stack s"
  "wild (snd (run_state (dp8390_interrupt n) s)) = wild s"
  by (simp_all add: dp8390_interrupt_def)

subsection \<open>Receiving\<close>

text \<open>Above page 0 the boundary is never met: the bytes are stored one after the other.\<close>

lemma run_ring_rx:
  "unat (dp_clda (dp8390 s)) \<ge> 256 \<Longrightarrow> run_state (dp8390_ring_rx b) s = ((), s\<lparr>dp8390 := (dp8390 s)
    \<lparr>dp_ring := (dp_ring (dp8390 s))(dp_clda (dp8390 s) := b), dp_clda := ring_next (dp8390 s) (dp_clda (dp8390 s))\<rparr>\<rparr>)"
proof -
  assume a: "unat (dp_clda (dp8390 s)) \<ge> 256"
  have "unat (ucast x :: u16) = unat x" for x :: u8
    by (simp add: unsigned_ucast_eq take_bit_nat_eq_self order_less_le_trans [OF unat_u8])
  then have "dp_clda (dp8390 s) \<noteq> ucast (dp_bnry (dp8390 s))"
    using a unat_u8 [of "dp_bnry (dp8390 s)"] by (metis not_less)
  then show ?thesis by (simp add: dp8390_ring_rx_def ring_next_def)
qed

lemma run_ring_rxs:
  "in_ring (dp8390 s) (dp_clda (dp8390 s)) \<Longrightarrow> 0 < dp_pstart (dp8390 s) \<Longrightarrow>
   run_state (for_each bs dp8390_ring_rx) s = ((), s\<lparr>dp8390 := (dp8390 s)
    \<lparr>dp_ring := ring_store (dp8390 s) bs (dp_clda (dp8390 s)) (dp_ring (dp8390 s)),
     dp_clda := ring_addr (dp8390 s) (dp_clda (dp8390 s)) (length bs)\<rparr>\<rparr>)"
proof (induction bs arbitrary: s)
  case (Cons b bs)
  let ?d = "(dp8390 s)\<lparr>dp_ring := (dp_ring (dp8390 s))(dp_clda (dp8390 s) := b), dp_clda := ring_next (dp8390 s) (dp_clda (dp8390 s))\<rparr>"
  have c: "ring_store ?d = ring_store (dp8390 s)" "ring_addr ?d = ring_addr (dp8390 s)" "in_ring ?d = in_ring (dp8390 s)"
    by (rule ring_cong; simp)+
  have "0 < unat (dp_pstart (dp8390 s))" using Cons.prems(2) by (simp add: word_less_nat_alt)
  then have "256 \<le> unat (dp_clda (dp8390 s))" using Cons.prems(1) by (simp add: in_ring_nat)
  then show ?case
    using Cons.prems ring_next_place(1) [OF Cons.prems(1)] by (simp add: run_ring_rx Cons.IH c) (simp add: fun_upd_def)
qed simp

lemma ring_rx_net [simp]: "net (snd (run_state (dp8390_ring_rx b) s)) = net s"
  by (simp add: dp8390_ring_rx_def)

lemma for_each_frame:
  "run_state (for_each is (\<lambda>i. do { b \<leftarrow> getn (\<lambda>n. rx_frame n i); dp8390_ring_rx b })) s =
   run_state (for_each (map (rx_frame (net s)) is) dp8390_ring_rx) s"
proof (induction "is" arbitrary: s)
  case (Cons i js)
  show ?case using Cons by (simp add: case_prod_beta)
qed simp

text \<open>The page after a packet: the first one behind it, around the end of the ring.\<close>

lemma next_packet_place:
  assumes "in_ring d (page_start (dp_curr d))" "unat len \<le> NET_MTU" "unat (dp_pstop d) + 6 < 256"
    "unat len + 4 < ring_size d"
  defines "k \<equiv> (unat len + 4) div 256 + 1"
  shows "in_ring d (page_start (next_packet_page d (len + 4)))"
    "ring_place d (page_start (next_packet_page d (len + 4))) =
       (ring_place d (page_start (dp_curr d)) + 256 * k) mod ring_size d"
proof -
  define C P S where "C = unat (dp_curr d)" and "P = unat (dp_pstart d)" and "S = unat (dp_pstop d)"
  have c: "P \<le> C" "C < S" "S + 6 < 256" using assms(1,3) by (simp_all add: in_ring_nat C_def P_def S_def)
  have k: "k \<le> 6" "1 \<le> k" "k \<le> S - P"
    using assms(2,4) by (auto simp: k_def NET_MTU_def ring_size_def P_def S_def)
  define N where "N = dp_curr d + ucast ((len + 4) div DP8390_PAGE_SIZE) + 1"
  have "unat (len + 4) = unat len + 4" using assms(2) by (simp add: NET_MTU_def unat_word_ariths)
  then have "unat (ucast ((len + 4) div DP8390_PAGE_SIZE) :: u8) = (unat len + 4) div 256"
    using assms(2) by (simp add: DP8390_PAGE_SIZE_def unsigned_ucast_eq unat_div take_bit_nat_eq_self NET_MTU_def)
  then have N: "unat N = C + k" using c k by (simp add: N_def C_def k_def unat_word_ariths)
  have nx: "next_packet_page d (len + 4) = (if N \<ge> dp_pstop d then dp_pstart d + (N - dp_pstop d) else N)"
    by (simp add: next_packet_page_def N_def)
  show "in_ring d (page_start (next_packet_page d (len + 4)))"
    "ring_place d (page_start (next_packet_page d (len + 4))) =
       (ring_place d (page_start (dp_curr d)) + 256 * k) mod ring_size d"
  proof (atomize (full), cases "dp_pstop d \<le> N")
    case True
    then have le: "S \<le> C + k" using N by (simp add: word_le_nat_alt S_def)
    have "unat (N - dp_pstop d) = C + k - S" using True N by (simp add: unat_sub S_def)
    then have "unat (next_packet_page d (len + 4)) = P + (C + k - S)"
      using True c k by (simp add: nx unat_word_ariths P_def)
    moreover have "(256 * C - 256 * P + 256 * k) mod (256 * (S - P)) = 256 * (P + (C + k - S)) - 256 * P"
    proof -
      have "256 * C - 256 * P + 256 * k = 256 * (C + k - S) + 256 * (S - P)" using le c k by simp
      moreover have "256 * (C + k - S) < 256 * (S - P)" using c k by simp
      ultimately show ?thesis by simp
    qed
    ultimately show "in_ring d (page_start (next_packet_page d (len + 4))) \<and>
      ring_place d (page_start (next_packet_page d (len + 4))) =
       (ring_place d (page_start (dp_curr d)) + 256 * k) mod ring_size d"
      using c k by (simp add: in_ring_nat ring_place_def ring_size_def C_def [symmetric] P_def [symmetric] S_def [symmetric])
  next
    case False
    then have "C + k < S" using N by (simp add: word_le_nat_alt S_def)
    then show "in_ring d (page_start (next_packet_page d (len + 4))) \<and>
      ring_place d (page_start (next_packet_page d (len + 4))) =
       (ring_place d (page_start (dp_curr d)) + 256 * k) mod ring_size d"
      using False N c k by (simp add: nx in_ring_nat ring_place_def ring_size_def C_def [symmetric] P_def [symmetric] S_def [symmetric])
  qed
qed

text \<open>The card is set up for receiving: page 0 of the registers, no loopback, a ring above page 0 of
  which the current page is one.\<close>

definition card_ready :: "dp8390_t \<Rightarrow> bool" where
  "card_ready d \<longleftrightarrow> dp8390_page d = 0 \<and> drop_bit 1 (dp_tcr d) AND 0x3 \<noteq> 1 \<and> 0 < dp_pstart d \<and>
     in_ring d (page_start (dp_curr d)) \<and> unat (dp_pstop d) + 6 < 256"

lemma run_dp8390_execute:
  fixes s :: "'a dp_board_scheme"
  assumes "rx_ready (net s)" "unat (rx_len (net s)) \<le> NET_MTU" "card_ready (dp8390 s)"
  defines "d \<equiv> dp8390 s" and "len \<equiv> rx_len (net s)"
  defines "nx \<equiv> next_packet_page d (len + 4)" and "a \<equiv> page_start (dp_curr d)"
  defines "bs \<equiv> [1, nx, lo8 (len + 4), hi8 (len + 4)] @ map (rx_frame (net s)) [0..<unat len]"
    and "s' \<equiv> snd (run_state dp8390_execute s)"
  shows "dp8390 s' = d\<lparr>dp_curr := nx, dp_ring := ring_store d bs a (dp_ring d), dp_clda := ring_addr d a (length bs),
      dp_isr := dp_isr d OR 1\<rparr>"
    "net s' = (net s)\<lparr>rx_ready := False\<rparr>" "wild s' = wild s"
proof -
  define t where "t = s\<lparr>dp8390 := d\<lparr>dp_clda := a, dp_curr := nx\<rparr>\<rparr>"
  have "nx = next_packet_page (d\<lparr>dp_clda := a\<rparr>) (len + 4)"
    by (simp add: nx_def next_packet_page_def Let_def)
  then have "s' = snd (run_state (do { for_each bs dp8390_ring_rx; dp8390_interrupt 0; modn (\<lambda>n. n\<lparr>rx_ready := False\<rparr>) }) t)"
    using assms(1,2) unfolding s'_def dp8390_execute_def bs_def t_def a_def page_start_def
    by (simp add: len_def [symmetric] d_def [symmetric] for_each_frame case_prod_beta Let_def)
  moreover have "run_state (for_each bs dp8390_ring_rx) t = ((), t\<lparr>dp8390 := (dp8390 t)
      \<lparr>dp_ring := ring_store (dp8390 t) bs (dp_clda (dp8390 t)) (dp_ring (dp8390 t)),
       dp_clda := ring_addr (dp8390 t) (dp_clda (dp8390 t)) (length bs)\<rparr>\<rparr>)"
    using assms(3) by (intro run_ring_rxs) (simp_all add: t_def card_ready_def d_def a_def)
  ultimately have "s' = snd (run_state (do { dp8390_interrupt 0; modn (\<lambda>n. n\<lparr>rx_ready := False\<rparr>) })
      (t\<lparr>dp8390 := d\<lparr>dp_curr := nx, dp_ring := ring_store d bs a (dp_ring d), dp_clda := ring_addr d a (length bs)\<rparr>\<rparr>))"
    by (simp add: t_def)
  then show "dp8390 s' = d\<lparr>dp_curr := nx, dp_ring := ring_store d bs a (dp_ring d), dp_clda := ring_addr d a (length bs),
      dp_isr := dp_isr d OR 1\<rparr>" "net s' = (net s)\<lparr>rx_ready := False\<rparr>" "wild s' = wild s"
    by (simp_all add: case_prod_beta t_def)
qed

lemma read_packet:
  assumes "card_ready d" "length bs < ring_size d" "a = page_start (dp_curr d)"
    "dp8390 s = d\<lparr>dp_curr := p, dp_ring := ring_store d bs a (dp_ring d), dp_clda := c, dp_isr := x\<rparr>"
  shows "fst (run_state (do { set_remote a; replicate_m (length bs) (dp8390_register_read DP8390_DATA) }) s) = bs"
proof -
  have "ring_load d (length bs) a (ring_store d bs a (dp_ring d)) = bs"
    using assms(1-3) by (intro ring_load_store) (simp_all add: card_ready_def)
  then show ?thesis
    using assms(1,4) by (simp add: run_set_remote run_data_reads dp8390_page_def card_ready_def)
qed

text \<open>C29. A frame of the network that fits into the ring reaches the driver whole: behind the status, the
  page of the next packet and the length, in the pages from the current page on; the current page
  then is the first free one, and the network may deliver the next frame.\<close>

theorem dp8390_receive:
  fixes s :: "'a dp_board_scheme"
  assumes "rx_ready (net s)" "unat (rx_len (net s)) \<le> NET_MTU" "card_ready (dp8390 s)"
    "unat (rx_len (net s)) + 4 < ring_size (dp8390 s)"
  defines "d \<equiv> dp8390 s" and "len \<equiv> rx_len (net s)" and "s' \<equiv> snd (run_state dp8390_execute s)"
  shows "fst (run_state (do { set_remote (page_start (dp_curr d));
      replicate_m (unat len + 4) (dp8390_register_read DP8390_DATA) }) s') =
      [1, dp_curr (dp8390 s'), lo8 (len + 4), hi8 (len + 4)] @ map (rx_frame (net s)) [0..<unat len] \<and>
    card_ready (dp8390 s') \<and>
    ring_place d (page_start (dp_curr (dp8390 s'))) =
       (ring_place d (page_start (dp_curr d)) + 256 * ((unat len + 4) div 256 + 1)) mod ring_size d \<and>
    \<not> rx_ready (net s') \<and>
    bit (dp_isr (dp8390 s')) 0 \<and>
    wild s' = wild s"
proof (intro conjI)
  define nx where "nx = next_packet_page d (len + 4)"
  define a where "a = page_start (dp_curr d)"
  define bs where "bs = [1, nx, lo8 (len + 4), hi8 (len + 4)] @ map (rx_frame (net s)) [0..<unat len]"
  have s': "dp8390 s' = d\<lparr>dp_curr := nx, dp_ring := ring_store d bs a (dp_ring d), dp_clda := ring_addr d a (length bs),
      dp_isr := dp_isr d OR 1\<rparr>" "net s' = (net s)\<lparr>rx_ready := False\<rparr>" "wild s' = wild s"
    unfolding s'_def bs_def nx_def a_def d_def len_def by (rule run_dp8390_execute [OF assms(1-3)])+
  have r: "in_ring d a" "dp8390_page d = 0" "drop_bit 1 (dp_tcr d) AND 0x3 \<noteq> 1" "unat (dp_pstop d) + 6 < 256"
    "0 < dp_pstart d"
    using assms(3) by (simp_all add: card_ready_def a_def d_def)
  have l: "length bs = unat len + 4" by (simp add: bs_def)
  have "fst (run_state (do { set_remote a; replicate_m (length bs) (dp8390_register_read DP8390_DATA) }) s') = bs"
    using assms(3,4) by (intro read_packet [OF _ _ a_def s'(1)]) (simp_all add: l d_def len_def)
  then show "fst (run_state (do { set_remote (page_start (dp_curr d));
      replicate_m (unat len + 4) (dp8390_register_read DP8390_DATA) }) s') =
      [1, dp_curr (dp8390 s'), lo8 (len + 4), hi8 (len + 4)] @ map (rx_frame (net s)) [0..<unat len]"
    unfolding l a_def by (simp add: bs_def s')
  note n = next_packet_place [where d = d and len = len, folded a_def nx_def, OF r(1) _ r(4)]
  show "ring_place d (page_start (dp_curr (dp8390 s'))) =
       (ring_place d (page_start (dp_curr d)) + 256 * ((unat len + 4) div 256 + 1)) mod ring_size d"
    using n(2) assms(2,4) by (simp add: s' a_def d_def len_def)
  show "card_ready (dp8390 s')"
    using n(1) assms(2,4) r by (simp add: s' card_ready_def dp8390_page_def d_def len_def)
  show "\<not> rx_ready (net s')" "bit (dp_isr (dp8390 s')) 0" "wild s' = wild s"
    by (simp_all add: s' bit_or_iff)
qed

subsection \<open>Transmitting\<close>

text \<open>The driver's way to send a frame: copy it into the card's memory at a page below the ring, set page
  and count, and give the transmit command.\<close>

definition send_frame :: "u8 \<Rightarrow> u8 list \<Rightarrow> ('a dp_board_scheme, unit) state" where
  "send_frame page bs = do {
     set_remote (page_start page);
     for_each bs (dp8390_register_write DP8390_DATA);
     dp8390_register_write DP8390_TPSR page;
     dp8390_register_write DP8390_TBCR0 (lo8 (of_nat (length bs)));
     dp8390_register_write DP8390_TBCR1 (hi8 (of_nat (length bs)));
     dp8390_register_write DP8390_CR 0x26
   }"

lemma ring_addr_linear:
  assumes "unat a + i < 256 * unat (dp_pstop d)"
  shows "ring_addr d a i = a + of_nat i"
  using assms
proof (induction i arbitrary: a)
  case (Suc i)
  have "256 * unat (dp_pstop d) < 65536" using unat_u8 [of "dp_pstop d"] by simp
  then have s: "unat (a + 1) = unat a + 1" using Suc.prems by (simp add: unat_word_ariths)
  then have "a + 1 \<noteq> page_start (dp_pstop d)" using Suc.prems by (metis unat_page_start add_Suc_right le_add1 not_less_eq_eq leD Suc_eq_plus1)
  then have "ring_next d a = a + 1" by (simp add: ring_next_def page_start_def)
  then show ?case using Suc.IH [of "a + 1"] Suc.prems s by (simp add: ac_simps)
qed simp

lemma ring_store_linear:
  assumes "unat a + length bs < 256 * unat (dp_pstop d)" "i < length bs"
  shows "ring_store d bs a m (a + of_nat i) = bs ! i"
  using assms
proof (induction bs arbitrary: a m i)
  case (Cons b bs)
  have lim: "256 * unat (dp_pstop d) < 65536" using unat_u8 [of "dp_pstop d"] by simp
  have nx: "ring_next d a = a + 1" using ring_addr_linear [of a 1 d] Cons.prems(1) by simp
  have s: "unat (a + 1) = unat a + 1" using Cons.prems(1) lim by (simp add: unat_word_ariths)
  show ?case
  proof (cases i)
    case 0
    have "ring_addr d (a + 1) j \<noteq> a" if "j < length bs" for j
    proof -
      have "ring_addr d (a + 1) j = (a + 1) + of_nat j" using that Cons.prems(1) s by (intro ring_addr_linear) simp
      moreover have "unat ((a + 1) + of_nat j) = unat a + 1 + j"
        using that Cons.prems(1) lim s by (simp add: unat_word_ariths unat_of_nat)
      ultimately show ?thesis by (metis add.assoc add_cancel_right_right plus_1_eq_Suc nat.distinct(1) add_is_0 zero_neq_one)
    qed
    then have "ring_store d bs (a + 1) (m(a := b)) a = b" by (simp add: ring_store_other)
    then show ?thesis using 0 by (simp add: nx)
  next
    case (Suc j)
    have "ring_store d bs (a + 1) (m(a := b)) ((a + 1) + of_nat j) = bs ! j"
      using Cons.prems Suc s by (intro Cons.IH) simp_all
    then show ?thesis using Suc by (simp add: nx ac_simps)
  qed
qed simp

lemma page_updates [simp]:
  "dp8390_page (d\<lparr>dp_rsar := w\<rparr>) = dp8390_page d" "dp8390_page (d\<lparr>dp_crda := w\<rparr>) = dp8390_page d"
  "dp8390_page (d\<lparr>dp_ring := q\<rparr>) = dp8390_page d" "dp8390_page (d\<lparr>dp_tpsr := w\<rparr>) = dp8390_page d"
  "dp8390_page (d\<lparr>dp_tbcr := w\<rparr>) = dp8390_page d"
  by (simp_all add: dp8390_page_def)

lemma run_transmit_registers:
  assumes "dp8390_page (dp8390 s) = 0"
  shows "run_state (dp8390_register_write DP8390_TPSR v) s = ((), s\<lparr>dp8390 := (dp8390 s)\<lparr>dp_tpsr := page_start v\<rparr>\<rparr>)"
    "run_state (dp8390_register_write DP8390_TBCR0 v) s =
      ((), s\<lparr>dp8390 := (dp8390 s)\<lparr>dp_tbcr := ucast v OR (dp_tbcr (dp8390 s) AND 0xFF00)\<rparr>\<rparr>)"
    "run_state (dp8390_register_write DP8390_TBCR1 v) s =
      ((), s\<lparr>dp8390 := (dp8390 s)\<lparr>dp_tbcr := push_bit 8 (ucast v) OR (dp_tbcr (dp8390 s) AND 0x00FF)\<rparr>\<rparr>)"
  using assms by (simp_all add: dp8390_register_write_def dp_port_defs when_page0_def page_start_def)

lemma run_send_frame:
  fixes s :: "'a dp_board_scheme" and page bs
  assumes "dp8390_page (dp8390 s) = 0" "length bs \<le> NET_MTU"
    "256 * unat page + length bs < 256 * unat (dp_pstop (dp8390 s))"
  defines "d \<equiv> dp8390 s" and "n \<equiv> of_nat (length bs) :: u16"
  obtains u f where
    "run_state (send_frame page bs) s = run_state (do { net_tx_frame f n; dp8390_execute; dp8390_interrupt 6 }) u"
    "\<forall>i < length bs. f i = bs ! i" "net u = net s" "wild u = wild s"
    "dp8390 u = d\<lparr>dp_rsar := page_start page, dp_ring := ring_store d bs (page_start page) (dp_ring d),
      dp_crda := ring_addr d (page_start page) (length bs), dp_tpsr := page_start page, dp_tbcr := n,
      dp_cr := 0x22, dp_tsr := 1, dp_isr := dp_isr d AND NOT 0x80 OR 2\<rparr>"
proof -
  define m where "m = ring_store d bs (page_start page) (dp_ring d)"
  define d' where "d' = d\<lparr>dp_rsar := page_start page, dp_ring := m,
      dp_crda := ring_addr d (page_start page) (length bs), dp_tpsr := page_start page, dp_tbcr := n, dp_cr := 0x22, dp_isr := dp_isr d AND NOT 0x80, dp_tsr := 1\<rparr>"
  define u where "u = snd (run_state (dp8390_interrupt 1) (s\<lparr>dp8390 := d'\<rparr>))"
  define f where "f = dp8390_tx_frame (dp8390 u) (tx_stack u)"
  have u: "net u = net s" "wild u = wild s" "dp8390 u = d'\<lparr>dp_isr := dp_isr d' OR 2\<rparr>" "tx_stack u = tx_stack s"
    by (simp_all add: u_def push_bit_eq_mult)
  have n: "unat n = length bs" using assms(2) by (simp add: n_def NET_MTU_def unat_of_nat)
  show thesis
  proof
    show "net u = net s" "wild u = wild s" by (fact u)+
    show "dp8390 u = d\<lparr>dp_rsar := page_start page, dp_ring := ring_store d bs (page_start page) (dp_ring d),
      dp_crda := ring_addr d (page_start page) (length bs), dp_tpsr := page_start page, dp_tbcr := n,
      dp_cr := 0x22, dp_tsr := 1, dp_isr := dp_isr d AND NOT 0x80 OR 2\<rparr>"
      by (simp add: u d'_def m_def)
    show "\<forall>i < length bs. f i = bs ! i"
      using assms(3) by (simp add: f_def u dp8390_tx_frame_def d'_def n m_def ring_store_linear d_def)
    have "run_state (send_frame page bs) s = run_state (dp8390_register_write DP8390_CR 0x26)
        (s\<lparr>dp8390 := d\<lparr>dp_rsar := page_start page, dp_ring := m,
          dp_crda := ring_addr d (page_start page) (length bs), dp_tpsr := page_start page, dp_tbcr := n\<rparr>\<rparr>)"
      using assms(1) by (simp add: send_frame_def run_set_remote run_data_writes m_def d_def n_def [symmetric]
        run_transmit_registers word_halves [simplified])
    also have "\<dots> = run_state (do { net_tx_frame f n; dp8390_execute; dp8390_interrupt 6 }) u"
      using assms(2) n by (simp add: dp8390_register_write_def dp_port_defs dp8390_command_def dp8390_transmit_packet_def
        case_prod_beta u f_def u_def d'_def)
    finally show "run_state (send_frame page bs) s = run_state (do { net_tx_frame f n; dp8390_execute; dp8390_interrupt 6 }) u" .
  qed
qed

subsection \<open>A whole exchange\<close>

text \<open>C30. A driver that sends an ARP request for the remote host or for the card itself through the card's
  ports finds the reply in the ring, in the pages from its current page on, behind a header that
  gives the page of the next packet and the length, and nothing has been accessed out of bounds.\<close>

theorem dp8390_arp_exchange:
  fixes s :: "'a dp_board_scheme" and page bs mac
  defines "d \<equiv> dp8390 s" and "s' \<equiv> snd (run_state (send_frame page bs) s)" and "addr \<equiv> be32 (nth bs) 0x26"
  assumes "card_ready d" "0x2E < ring_size d" "256 * unat page + length bs \<le> 256 * unat (dp_pstart d)"
    "0x2A \<le> length bs" "length bs \<le> NET_MTU"
    "be16 (nth bs) 0x0C = 0x0806" "be16 (nth bs) 0x14 = 1"
    "(addr, mac) \<in> {(NET_IP_REMOTE, NET_MAC_REMOTE), (NET_IP_LOCAL, NET_MAC_LOCAL)}"
  shows "fst (run_state (do { set_remote (page_start (dp_curr d));
      replicate_m 0x2E (dp8390_register_read DP8390_DATA) }) s') =
      [1, dp_curr (dp8390 s'), 0x2E, 0] @ arp_reply mac addr \<and>
    wild s' = wild s"
proof (intro conjI)
  have r: "dp8390_page d = 0" "in_ring d (page_start (dp_curr d))" using assms(4) by (simp_all add: card_ready_def)
  then have lim: "256 * unat page + length bs < 256 * unat (dp_pstop d)" using assms(6) by (simp add: in_ring_nat)
  obtain u f where run: "run_state (send_frame page bs) s =
      run_state (do { net_tx_frame f (of_nat (length bs)); dp8390_execute; dp8390_interrupt 6 }) u"
    and f: "\<forall>i < length bs. f i = bs ! i" and u: "net u = net s" "wild u = wild s"
    "dp8390 u = d\<lparr>dp_rsar := page_start page, dp_ring := ring_store d bs (page_start page) (dp_ring d),
      dp_crda := ring_addr d (page_start page) (length bs), dp_tpsr := page_start page, dp_tbcr := of_nat (length bs),
      dp_cr := 0x22, dp_tsr := 1, dp_isr := dp_isr d AND NOT 0x80 OR 2\<rparr>"
    using run_send_frame [of s bs page] r(1) assms(8) lim unfolding d_def by blast
  define v where "v = snd (run_state (net_handle_arp f (of_nat (length bs))) u)"
  have h: "be16 f 0x0C = 0x0806" "be16 f 0x14 = 1" "be32 f 0x26 = addr"
    using f assms(7,9,10) by (simp_all add: be16_def be32_def addr_def)
  have n: "(of_nat (length bs) :: u16) \<ge> 0x29"
    using assms(7,8) by (simp add: word_le_nat_alt unat_of_nat NET_MTU_def)
  have v: "v = u\<lparr>net := net v\<rparr>" "rx_ready (net v)" "rx_len (net v) = 0x2A"
    "frame_slice 0 0x2A (rx_frame (net v)) = arp_reply mac addr"
    using run_handle_arp [where tx_frame = f and tx_len = "of_nat (length bs)" and s = u] h n assms(11)
    unfolding v_def by (auto simp: NET_IP_REMOTE_def NET_IP_LOCAL_def)
  have dv: "dp8390 v = dp8390 u" "wild v = wild s" by (subst v(1), simp add: u)+
  have cv: "card_ready (dp8390 v)" using assms(4) unfolding dv u card_ready_def by (simp add: dp8390_page_def)
  define p where "p = next_packet_page (dp8390 v) (0x2A + 4)"
  define a where "a = page_start (dp_curr (dp8390 v))"
  define packet where "packet = [1, p, lo8 (0x2A + 4), hi8 (0x2A + 4)] @ map (rx_frame (net v)) [0..<0x2A]"
  define e where "e = snd (run_state dp8390_execute v)"
  have e: "dp8390 e = (dp8390 v)\<lparr>dp_curr := p, dp_ring := ring_store (dp8390 v) packet a (dp_ring (dp8390 v)),
      dp_clda := ring_addr (dp8390 v) a (length packet), dp_isr := dp_isr (dp8390 v) OR 1\<rparr>" "wild e = wild s"
    using run_dp8390_execute [of v] v(2,3) cv dv(2) unfolding e_def p_def a_def packet_def
    by (simp_all add: NET_MTU_def del: upt_rec_numeral)
  have net: "run_state (net_tx_frame f (of_nat (length bs))) u = run_state (net_handle_arp f (of_nat (length bs))) u"
    using h(1) by (simp add: net_tx_frame_def)
  have s': "s' = snd (run_state (dp8390_interrupt 6) e)"
    unfolding s'_def run by (simp add: net case_prod_beta v_def e_def)
  have packet: "packet = [1, p, 0x2E, 0] @ arp_reply mac addr"
    using v(4) by (simp add: packet_def frame_slice_def lo8_def hi8_def del: upt_rec_numeral)
  have l: "length packet = 0x2E" by (simp add: packet_def)
  have "fst (run_state (do { set_remote a; replicate_m (length packet) (dp8390_register_read DP8390_DATA) }) s') = packet"
  proof (rule read_packet [OF cv _ a_def])
    show "length packet < ring_size (dp8390 v)" using assms(5) by (simp add: l dv u)
    show "dp8390 s' = (dp8390 v)\<lparr>dp_curr := p, dp_ring := ring_store (dp8390 v) packet a (dp_ring (dp8390 v)),
      dp_clda := ring_addr (dp8390 v) a (length packet), dp_isr := dp_isr (dp8390 e) OR push_bit 6 1\<rparr>"
      by (simp add: s' e)
  qed
  then have "fst (run_state (do { set_remote a; replicate_m 0x2E (dp8390_register_read DP8390_DATA) }) s') = packet"
    by (simp only: l)
  moreover have "a = page_start (dp_curr d)" "p = dp_curr (dp8390 s')" by (simp_all add: a_def dv u s' e)
  ultimately show "fst (run_state (do { set_remote (page_start (dp_curr d));
      replicate_m 0x2E (dp8390_register_read DP8390_DATA) }) s') =
      [1, dp_curr (dp8390 s'), 0x2E, 0] @ arp_reply mac addr"
    by (simp only: packet)
  show "wild s' = wild s" by (simp add: s' e)
qed

subsection \<open>Examples\<close>

text \<open>A card with its ring in the pages 0x46 to 0x7F, and a frame of three bytes that waits.\<close>

definition no_file :: fs_result where
  "no_file = \<lparr>fs_ok = False, fs_names = [], fs_kind = Fs_other, fs_mtime = \<lparr>tm_sec = 0, tm_min = 0, tm_hour = 0,
     tm_mday = 1, tm_mon = 0, tm_year = 80, tm_wday = 2\<rparr>, fs_size = 0, fs_data = [], fs_count = 0\<rparr>"

definition demo_card :: dp_board where
  "demo_card = edfs_board.extend (net_board.extend (net_start 3)
     (edfs_board.fields \<lparr>edfs_inited = False, edfs_root = [], edfs_cluster = []\<rparr> [] (\<lambda>_. no_file)))
     (dp_board.fields (dp8390_init_state\<lparr>dp_pstart := 0x46, dp_pstop := 0x80, dp_curr := 0x47\<rparr>) (\<lambda>_. 0))"

definition demo_arriving :: dp_board where
  "demo_arriving = demo_card\<lparr>net := net_power_on\<lparr>rx_len := 3, rx_ready := True\<rparr>\<rparr>"

definition demo_arp_request :: "u8 list" where
  "demo_arp_request = replicate 12 0xFF @ [0x08, 0x06] @ replicate 6 0 @ [0x00, 0x01] @ replicate 16 0 @ [10, 0, 0, 1]"

lemma demo_card_fields [simp]:
  "dp8390 demo_card = dp8390_init_state\<lparr>dp_pstart := 0x46, dp_pstop := 0x80, dp_curr := 0x47\<rparr>"
  by (simp add: demo_card_def dp_board.defs edfs_board.defs net_board.defs)

lemma demo_card_ready [simp]:
  "card_ready (dp8390 demo_card)" "ring_size (dp8390 demo_card) = 14848"
  by (simp_all add: card_ready_def dp8390_page_def dp8390_init_state_def in_ring_nat ring_size_def)

theorem dp8390_dma_roundtrip_witness:
  "fst (run_state (do { set_remote 0x46FF; for_each [1, 2, 3] (dp8390_register_write DP8390_DATA);
      set_remote 0x46FF; replicate_m (length [1, 2, 3 :: u8]) (dp8390_register_read DP8390_DATA) }) demo_card) = [1, 2, 3]"
  by (rule dp8390_dma_roundtrip) (simp_all add: dp8390_page_def dp8390_init_state_def in_ring_nat ring_size_def)

theorem dp8390_receive_witness:
  "\<not> rx_ready (net (snd (run_state dp8390_execute demo_arriving)))"
  by (rule dp8390_receive [THEN conjunct2, THEN conjunct2, THEN conjunct2, THEN conjunct1]) (simp_all add: demo_arriving_def NET_MTU_def del: demo_card_fields)

theorem dp8390_arp_exchange_witness:
  "wild (snd (run_state (send_frame 0x40 demo_arp_request) demo_card)) = wild demo_card"
  by (rule dp8390_arp_exchange [where mac = NET_MAC_REMOTE, THEN conjunct2])
    (simp_all add: demo_arp_request_def NET_MTU_def be16_def be32_def NET_IP_REMOTE_def nth_append nth_Cons'
      dp8390_init_state_def del: demo_card_fields, simp_all add: dp8390_init_state_def)

end
