(* ===== verification/Console_Keys.thy ===== *)
theory Console_Keys
  imports Console Dp8390_Ring
begin

unbundle bit_operations_syntax

text \<open>
  What the console does for the guest: a key typed at the terminal arrives as a sequence of scancodes,
  one at each poll, in which every key that goes down comes up again; and the screen shows the text
  memory.
\<close>

subsection \<open>The scancode table\<close>

lemma xt_char_codes: "map_of xt_char_table c = Some v \<Longrightarrow> v < 0x80 \<and> v \<noteq> 0"
proof -
  have "list_all (\<lambda>(c, v). v < 0x80 \<and> v \<noteq> 0) xt_char_table" by (simp add: xt_char_table_def)
  then show "map_of xt_char_table c = Some v \<Longrightarrow> v < 0x80 \<and> v \<noteq> 0"
    by (auto simp: list_all_iff dest!: map_of_SomeD)
qed

lemma xt_function_codes: "map_of xt_function_table n = Some v \<Longrightarrow> v < 0x80"
proof -
  have "list_all (\<lambda>(n, v). v < 0x80) xt_function_table" by (simp add: xt_function_table_def)
  then show "map_of xt_function_table n = Some v \<Longrightarrow> v < 0x80"
    by (auto simp: list_all_iff dest!: map_of_SomeD)
qed

lemma scancode_bound: "console_xt_keyboard_scancode k < 0x80"
  by (cases k) (auto dest: xt_char_codes xt_function_codes split: option.split)

subsection \<open>The queue of scancodes\<close>

interpretation key_fifo: bounded_queue "ring_valid CONSOLE_SCANCODE_FIFO_SIZE" "ring_contents CONSOLE_SCANCODE_FIFO_SIZE"
  "ring_write CONSOLE_SCANCODE_FIFO_SIZE" "ring_read CONSOLE_SCANCODE_FIFO_SIZE" "CONSOLE_SCANCODE_FIFO_SIZE - 1"
  by (rule ring_queue) (simp add: CONSOLE_SCANCODE_FIFO_SIZE_def)

definition key_queue :: "'a console_board_scheme \<Rightarrow> u8 list" where
  "key_queue s = ring_contents CONSOLE_SCANCODE_FIFO_SIZE (console_scancode_fifo (console s))"

text \<open>The queue is well formed and the guest has the keyboard enabled.\<close>

definition keyboard_on :: "'a console_board_scheme \<Rightarrow> bool" where
  "keyboard_on s \<longleftrightarrow> ring_valid CONSOLE_SCANCODE_FIFO_SIZE (console_scancode_fifo (console s)) \<and>
     drop_bit 6 (ctrl (fe2010 s)) AND 1 \<noteq> 0"

lemma irq_console [simp]:
  "console (snd (run_state (fe2010_irq n) s)) = console s" "terminal (snd (run_state (fe2010_irq n) s)) = terminal s"
  "scancode (fe2010 (snd (run_state (fe2010_irq n) s))) = scancode (fe2010 s)"
  "ctrl (fe2010 (snd (run_state (fe2010_irq n) s))) = ctrl (fe2010 s)"
  by (simp_all add: run_fe2010_irq i8088_irq_def run_interrupt Let_def)

lemma ucast_int8u: "ucast (int8u v) = v"
  by (rule byte_eqI) (auto simp: bit_simps dest: bit_imp_le_length)

lemma keyboard_press:
  fixes s :: "'a console_board_scheme" and v
  defines "t \<equiv> snd (run_state (fe2010_keyboard_press (ucast v)) s)"
  assumes "drop_bit 6 (ctrl (fe2010 s)) AND 1 \<noteq> 0"
  shows "scancode (fe2010 t) = v" "ctrl (fe2010 t) = ctrl (fe2010 s)" "console t = console s" "terminal t = terminal s"
  using assms(2) by (simp_all add: t_def fe2010_keyboard_press_def ucast_int8u)

lemma run_fifo_write [simp]:
  "run_state (console_scancode_fifo_write b) s = ((), s\<lparr>console := (console s)\<lparr>console_scancode_fifo :=
     ring_write CONSOLE_SCANCODE_FIFO_SIZE b (console_scancode_fifo (console s))\<rparr>\<rparr>)"
  by (simp add: console_scancode_fifo_write_def)

subsection \<open>Key sequences\<close>

text \<open>The keys that go down for a key of the terminal: a modifier, if any, and the key itself. The
  sequence is these in order, then their releases in the opposite order.\<close>

definition key_makes :: "bool \<Rightarrow> key \<Rightarrow> u8 list" where
  "key_makes alt k =
    (if k = Key_f 12 then [0x1D, 0x46]
     else (if \<exists>c. k = Key_char c \<and> shifted_char c then [0x2A]
           else if console_character_is_control k then [0x1D]
           else if alt then [0x38] else []) @ [console_xt_keyboard_scancode k])"

definition key_codes :: "bool \<Rightarrow> key \<Rightarrow> u8 list" where
  "key_codes alt k = key_makes alt k @ map (\<lambda>c. c + 0x80) (rev (key_makes alt k))"

definition typed_key :: "key \<Rightarrow> bool" where
  "typed_key k \<longleftrightarrow> k \<noteq> Key_err \<and> k \<noteq> Key_f 11 \<and> (\<forall>ev. k \<noteq> Key_mouse ev)"

lemma queue_three:
  assumes "ring_valid CONSOLE_SCANCODE_FIFO_SIZE q" "ring_contents CONSOLE_SCANCODE_FIFO_SIZE q = []"
  defines "put \<equiv> ring_write CONSOLE_SCANCODE_FIFO_SIZE"
  shows "ring_valid CONSOLE_SCANCODE_FIFO_SIZE (put c (put b (put a q)))"
    "ring_contents CONSOLE_SCANCODE_FIFO_SIZE (put c (put b (put a q))) = [a, b, c]"
    "ring_valid CONSOLE_SCANCODE_FIFO_SIZE (put a q)" "ring_contents CONSOLE_SCANCODE_FIFO_SIZE (put a q) = [a]"
  using key_fifo.puts_valid [OF assms(1), of "[a, b, c]"] key_fifo.puts_contents [OF assms(1), of "[a, b, c]"]
    key_fifo.puts_valid [OF assms(1), of "[a]"] key_fifo.puts_contents [OF assms(1), of "[a]"] assms(2)
  by (simp_all add: put_def CONSOLE_SCANCODE_FIFO_SIZE_def)

lemma press_with:
  fixes s :: "'a console_board_scheme" and m c r
  defines "t \<equiv> snd (run_state (console_press_with m c r) s)"
  assumes "keyboard_on s" "key_queue s = []"
  shows "keyboard_on t" "scancode (fe2010 t) = m" "key_queue t = [c, c + 0x80, r]" "terminal t = terminal s"
  using assms(2,3) queue_three(1,2) [where q = "console_scancode_fifo (console s)" and a = c and b = "c + 0x80" and c = r]
  by (simp_all add: t_def console_press_with_def case_prod_beta keyboard_on_def key_queue_def keyboard_press)

lemma press_plain:
  fixes s :: "'a console_board_scheme" and c
  defines "t \<equiv> snd (run_state (do { fe2010_keyboard_press (ucast c); console_scancode_fifo_write (c + 0x80) }) s)"
  assumes "keyboard_on s" "key_queue s = []"
  shows "keyboard_on t" "scancode (fe2010 t) = c" "key_queue t = [c + 0x80]" "terminal t = terminal s"
  using assms(2,3) queue_three(3,4) [where q = "console_scancode_fifo (console s)" and a = "c + 0x80"]
  by (simp_all add: t_def case_prod_beta keyboard_on_def key_queue_def keyboard_press)

lemma alt_release:
  "keyboard_on (s\<lparr>console := (console s)\<lparr>console_alt_toggle := b\<rparr>\<rparr>) = keyboard_on s"
  "key_queue (s\<lparr>console := (console s)\<lparr>console_alt_toggle := b\<rparr>\<rparr>) = key_queue s"
  by (simp_all add: keyboard_on_def key_queue_def)

lemma key_typed:
  fixes s :: "'a console_board_scheme" and k
  defines "t \<equiv> snd (run_state (console_key k) s)" and "codes \<equiv> key_codes (console_alt_toggle (console s)) k"
  assumes "keyboard_on s" "key_queue s = []" "k \<noteq> Key_f 12"
  shows "keyboard_on t \<and> scancode (fe2010 t) = hd codes \<and> key_queue t = tl codes \<and> terminal t = terminal s"
proof -
  let ?code = "console_xt_keyboard_scancode k"
  define sh where "sh = (\<exists>c. k = Key_char c \<and> shifted_char c)"
  obtain u where u: "run_state (console_character_is_shifted k) s = (sh, u)"
    "console u = console s" "fe2010 u = fe2010 s" "terminal u = terminal s"
  proof
    show "run_state (console_character_is_shifted k) s = (sh,
        case k of Key_char c \<Rightarrow> s | _ \<Rightarrow> s\<lparr>wild := True\<rparr>)"
      by (cases k) (simp_all add: console_character_is_shifted_def sh_def)
    show "console (case k of Key_char c \<Rightarrow> s | _ \<Rightarrow> s\<lparr>wild := True\<rparr>) = console s"
      "fe2010 (case k of Key_char c \<Rightarrow> s | _ \<Rightarrow> s\<lparr>wild := True\<rparr>) = fe2010 s"
      "terminal (case k of Key_char c \<Rightarrow> s | _ \<Rightarrow> s\<lparr>wild := True\<rparr>) = terminal s"
      by (cases k; simp)+
  qed
  have on: "keyboard_on u" "key_queue u = []" using assms(3,4) by (simp_all add: keyboard_on_def key_queue_def u)
  have t: "t = (if sh then snd (run_state (console_press_with 0x2A ?code 0xAA) u)
      else if console_character_is_control k then snd (run_state (console_press_with 0x1D ?code 0x9D) u)
      else if console_alt_toggle (console s) then
        (let v = snd (run_state (console_press_with 0x38 ?code 0xB8) u) in v\<lparr>console := (console v)\<lparr>console_alt_toggle := False\<rparr>\<rparr>)
      else snd (run_state (do { fe2010_keyboard_press (ucast ?code); console_scancode_fifo_write (?code + 0x80) }) u))"
    by (simp add: t_def console_key_def u case_prod_beta Let_def)
  note d = codes_def key_codes_def key_makes_def sh_def [symmetric] t Let_def alt_release press_with [OF on] u assms(5)
  show "keyboard_on t \<and> scancode (fe2010 t) = hd codes \<and> key_queue t = tl codes \<and> terminal t = terminal s"
    using press_plain [OF on, where c = ?code] by (auto simp: d)
qed

lemma key_down:
  fixes s :: "'a console_board_scheme"
  defines "t \<equiv> snd (run_state console_execute_keyboard s)" and "k \<equiv> term_input (terminal s) (term_polls (terminal s))"
    and "codes \<equiv> key_codes (console_alt_toggle (console s)) (term_input (terminal s) (term_polls (terminal s)))"
  assumes "keyboard_on s" "key_queue s = []" "typed_key k"
  shows "keyboard_on t \<and> scancode (fe2010 t) = hd codes \<and> key_queue t = tl codes \<and>
    term_input (terminal t) = term_input (terminal s) \<and> term_polls (terminal t) = term_polls (terminal s) + 1" (is ?goal)
proof -
  define u where "u = s\<lparr>terminal := (terminal s)\<lparr>term_polls := Suc (term_polls (terminal s))\<rparr>\<rparr>"
  have v: "ring_valid CONSOLE_SCANCODE_FIFO_SIZE (console_scancode_fifo (console s))"
    "ring_contents CONSOLE_SCANCODE_FIFO_SIZE (console_scancode_fifo (console s)) = []"
    "drop_bit 6 (ctrl (fe2010 s)) AND 1 \<noteq> 0"
    using assms(4,5) by (simp_all add: keyboard_on_def key_queue_def)
  have on: "keyboard_on u" "key_queue u = []" using assms(4,5) by (simp_all add: u_def keyboard_on_def key_queue_def)
  have q: "ring_read CONSOLE_SCANCODE_FIFO_SIZE (console_scancode_fifo (console s)) = (None, console_scancode_fifo (console s))"
    using key_fifo.get_None [OF v(1,2)] .
  show ?goal
  proof (cases "k = Key_f 12")
    case True
    have "t = snd (run_state (console_press_with 0x1D 0x46 0x9D) u)"
      using True q by (simp add: t_def console_execute_keyboard_def console_scancode_fifo_read_def getch_def k_def
        u_def [symmetric] console_press_with_def)
    then show ?thesis
      using press_with [OF on, of "0x1D" "0x46" "0x9D"] True
      by (simp add: codes_def k_def [symmetric] key_codes_def key_makes_def) (simp add: u_def)
  next
    case False
    have "t = snd (run_state (console_key k) u)"
      using False q assms(6) unfolding t_def console_execute_keyboard_def console_scancode_fifo_read_def getch_def
      by (cases k) (simp_all add: k_def [symmetric] u_def [symmetric] typed_key_def)
    then show ?thesis
      using key_typed [OF on False] by (simp add: codes_def k_def [symmetric]) (simp add: u_def)
  qed
qed

lemma key_next:
  fixes s :: "'a console_board_scheme"
  defines "t \<equiv> snd (run_state console_execute_keyboard s)"
  assumes "keyboard_on s" "key_queue s = c # rest" "c \<noteq> 0"
  shows "keyboard_on t" "scancode (fe2010 t) = c" "key_queue t = rest" "terminal t = terminal s"
proof -
  have v: "ring_valid CONSOLE_SCANCODE_FIFO_SIZE (console_scancode_fifo (console s))" "drop_bit 6 (ctrl (fe2010 s)) AND 1 \<noteq> 0"
    using assms(2) by (simp_all add: keyboard_on_def)
  note g = key_fifo.get_Some [OF v(1), folded key_queue_def, OF assms(3)]
  show "keyboard_on t" "scancode (fe2010 t) = c" "key_queue t = rest" "terminal t = terminal s"
    using v g assms(4) key_fifo.get_valid [OF v(1)]
    by (simp_all add: t_def console_execute_keyboard_def console_scancode_fifo_read_def case_prod_beta keyboard_press
      keyboard_on_def key_queue_def)
qed


text \<open>The board after some polls of the keyboard.\<close>

primrec polls :: "nat \<Rightarrow> 'a console_board_scheme \<Rightarrow> 'a console_board_scheme" where
  "polls 0 s = s"
| "polls (Suc n) s = polls n (snd (run_state console_execute_keyboard s))"

lemma polls_drain:
  assumes "keyboard_on s" "0 \<notin> set (key_queue s)"
  shows "(\<forall>n<length (key_queue s). scancode (fe2010 (polls (Suc n) s)) = key_queue s ! n) \<and>
    keyboard_on (polls (length (key_queue s)) s) \<and> key_queue (polls (length (key_queue s)) s) = [] \<and>
    terminal (polls (length (key_queue s)) s) = terminal s"
  using assms
proof (induction "key_queue s" arbitrary: s)
  case Nil
  then show ?case by simp
next
  case (Cons c q)
  let ?t = "snd (run_state console_execute_keyboard s)"
  note k = key_next [OF Cons(3) Cons(2) [symmetric]]
  have c: "c \<noteq> 0" using Cons(4) by (simp add: Cons(2) [symmetric])
  have q: "0 \<notin> set (key_queue ?t)" using Cons(4) by (simp add: k(3) [OF c] Cons(2) [symmetric])
  note ih = Cons(1) [OF k(3) [OF c, symmetric] k(1) [OF c] q]
  show ?case
  proof (intro conjI allI impI)
    fix n assume "n < length (key_queue s)"
    then show "scancode (fe2010 (polls (Suc n) s)) = key_queue s ! n"
      using ih k [OF c] by (cases n) (simp_all add: Cons(2) [symmetric])
  qed (use ih k [OF c] in \<open>simp_all add: Cons(2) [symmetric]\<close>)
qed

lemma make_codes: "console_xt_keyboard_scancode k \<noteq> 0 \<Longrightarrow> c \<in> set (key_makes alt k) \<Longrightarrow> 0 < c \<and> c < 0x80"
  using scancode_bound [of k] by (auto simp: key_makes_def word_neq_0_conv split: if_splits)

lemma break_code: "(c::u8) < 0x80 \<Longrightarrow> c + 0x80 \<noteq> 0"
  by (auto simp: word_less_nat_alt word_unat_eq_iff unat_word_ariths)

lemma key_codes_nonzero: "console_xt_keyboard_scancode k \<noteq> 0 \<Longrightarrow> 0 \<notin> set (key_codes alt k)"
  using make_codes [of k _ alt] break_code by (fastforce simp: key_codes_def)

lemma key_codes_split: "key_codes alt k = hd (key_codes alt k) # tl (key_codes alt k)"
  by (simp add: key_codes_def key_makes_def)

text \<open>C31. A key typed at the terminal reaches the guest as one scancode for each poll of the keyboard: the
  modifier the key needs (Shift, Ctrl, or Alt after F11; Ctrl and Scroll Lock for F12), the key, and then
  their releases in the opposite order, so that every key that goes down comes up; after that the queue is
  empty and the terminal has been asked for one key only.\<close>

theorem console_key_sequence:
  fixes s :: "'a console_board_scheme"
  defines "k \<equiv> term_input (terminal s) (term_polls (terminal s))"
    and "makes \<equiv> key_makes (console_alt_toggle (console s)) (term_input (terminal s) (term_polls (terminal s)))"
  assumes "keyboard_on s" "key_queue s = []" "typed_key k" "console_xt_keyboard_scancode k \<noteq> 0 \<or> k = Key_f 12"
  shows "(\<forall>n<2 * length makes. scancode (fe2010 (polls (Suc n) s)) = (makes @ map (\<lambda>c. c + 0x80) (rev makes)) ! n) \<and>
    key_queue (polls (2 * length makes) s) = [] \<and>
    term_polls (terminal (polls (2 * length makes) s)) = term_polls (terminal s) + 1"
proof -
  define codes where "codes = key_codes (console_alt_toggle (console s)) k"
  let ?t = "snd (run_state console_execute_keyboard s)"
  have z: "0 \<notin> set codes"
    using assms(6) key_codes_nonzero by (auto simp: codes_def) (auto simp: key_codes_def key_makes_def)
  have c: "codes = hd codes # tl codes" unfolding codes_def by (rule key_codes_split)
  have len: "2 * length makes = Suc (length (tl codes))"
    using arg_cong [OF c, of length] by (simp add: codes_def makes_def key_codes_def k_def)
  note d = key_down [OF assms(3,4) assms(5) [unfolded k_def], folded k_def, folded codes_def]
  have "0 \<notin> set (key_queue ?t)" using z c d by (metis list.set_intros(2))
  note p = polls_drain [OF _ this]
  have "scancode (fe2010 (polls (Suc n) s)) = codes ! n" if "n < Suc (length (tl codes))" for n
    using that d p by (subst c) (cases n; simp)
  then show ?thesis using d p by (simp add: len) (simp add: codes_def makes_def key_codes_def k_def)
qed

subsection \<open>The screen\<close>

lemma run_mem_read_below: "a < MEM_SIZE_MAX \<Longrightarrow> run_state (mem_read a) s = (mem_m (mem s) a, s)"
  by (simp add: mem_read_def not_le [symmetric])

lemma text_address: "i < 2000 \<Longrightarrow> (0xB8000 + of_nat (i * 2) :: u32) < MEM_SIZE_MAX"
  "i < 2000 \<Longrightarrow> (0xB8000 + of_nat (i * 2) + 1 :: u32) < MEM_SIZE_MAX"
  by (simp_all add: MEM_SIZE_MAX_def word_less_nat_alt unat_word_ariths unat_of_nat)

definition text_cell :: "'a console_board_scheme \<Rightarrow> nat \<Rightarrow> cell_t" where
  "text_cell s i = console_cell (term_colors (terminal s)) (drop_bit 5 (console_cga_mode (console s)) AND 1 \<noteq> 0)
     (mem_m (mem s) (0xB8000 + of_nat (i * 2))) (mem_m (mem s) (0xB8000 + of_nat (i * 2) + 1))"

lemma run_console_draw:
  "i < 2000 \<Longrightarrow> run_state (console_draw columns i) s =
    ((), s\<lparr>terminal := (terminal s)\<lparr>term_cells := (term_cells (terminal s))
      ((i div columns, i mod columns) \<mapsto> text_cell s i)\<rparr>\<rparr>)"
proof -
  assume i: "i < 2000"
  define a where "a = (0xB8000 + of_nat (i * 2) :: u32)"
  have "a < MEM_SIZE_MAX" "a + 1 < MEM_SIZE_MAX" using text_address [OF i] by (simp_all only: a_def)
  then show ?thesis
    unfolding console_draw_def text_cell_def a_def [symmetric] by (simp add: run_mem_read_below)
qed

lemma text_cell_drawn [simp]:
  "text_cell (s\<lparr>terminal := (terminal s)\<lparr>term_cells := f\<rparr>\<rparr>) i = text_cell s i"
  by (simp add: text_cell_def)

lemma draw_all:
  assumes "\<forall>i\<in>set is'. i < 2000" "0 < columns"
  shows "run_state (for_each is' (console_draw columns)) s =
    ((), s\<lparr>terminal := (terminal s)\<lparr>term_cells := (\<lambda>p. if snd p < columns \<and> fst p * columns + snd p \<in> set is'
      then Some (text_cell s (fst p * columns + snd p)) else term_cells (terminal s) p)\<rparr>\<rparr>)"
  using assms(1)
proof (induction is' arbitrary: s)
  case Nil
  then show ?case by simp
next
  case (Cons i is')
  have e: "p = (i div columns, i mod columns) \<longleftrightarrow> snd p < columns \<and> fst p * columns + snd p = i" for p
    using assms(2) by (cases p) auto
  have "(\<lambda>p. if snd p < columns \<and> fst p * columns + snd p \<in> set is' then Some (text_cell s (fst p * columns + snd p))
      else ((term_cells (terminal s))((i div columns, i mod columns) \<mapsto> text_cell s i)) p) =
    (\<lambda>p. if snd p < columns \<and> fst p * columns + snd p \<in> set (i # is') then Some (text_cell s (fst p * columns + snd p))
      else term_cells (terminal s) p)"
    by (rule ext) (auto simp: fun_upd_def e)
  then show ?case using Cons by (simp add: run_console_draw cong: if_cong)
qed

text \<open>C32. Drawing the screen shows the text memory: in the 80 or 40 columns that the mode register selects, the
  place in row \<open>r\<close> and column \<open>c\<close> gets the symbol and the attributes of the two bytes at
  \<open>0xB8000 + 2 * (r * columns + c)\<close>, whatever was there before, and the cursor goes to the position that the two
  CRTC registers hold.\<close>

theorem console_screen:
  fixes s :: "'a console_board_scheme"
  defines "t \<equiv> snd (run_state console_execute_screen s)" and "columns \<equiv> console_columns (console s)"
  assumes "r < 25" "c < columns"
  shows "term_cells (terminal t) (r, c) = Some (console_cell (term_colors (terminal s))
      (drop_bit 5 (console_cga_mode (console s)) AND 1 \<noteq> 0)
      (mem_m (mem s) (0xB8000 + of_nat ((r * columns + c) * 2)))
      (mem_m (mem s) (0xB8000 + of_nat ((r * columns + c) * 2) + 1))) \<and>
    fst (term_cursor (terminal t)) * columns + snd (term_cursor (terminal t)) =
      256 * unat (console_crtc_register (console s) 0xE) + unat (console_crtc_register (console s) 0xF) \<and>
    mem t = mem s"
proof -
  have n: "columns \<in> {40, 80}" by (simp add: columns_def console_columns_def)
  then have i: "r * columns + c < 25 * columns" and p: "0 < columns" and m: "\<forall>i\<in>set [0..<25 * columns]. i < 2000"
    using assms(3,4) by auto
  have "unat (word16 (console_crtc_register (console s) 0xF) (console_crtc_register (console s) 0xE)) =
      256 * unat (console_crtc_register (console s) 0xE) + unat (console_crtc_register (console s) 0xF)"
    by (simp add: unat_word16)
  then show ?thesis
    using i assms(4) by (simp add: t_def console_execute_screen_def draw_all [OF m p] columns_def [symmetric])
      (simp add: text_cell_def)
qed

subsection \<open>A board with a keyboard\<close>

text \<open>The keyboard is enabled, and the terminal has a capital A, a control character, F12 and an arrow waiting.\<close>

definition demo_console :: console_board where
  "demo_console = dp_board.extend (demo_card\<lparr>fe2010 := fe2010_init_state\<lparr>ctrl := 0x40\<rparr>\<rparr>)
     (console_board.fields (console_init_state\<lparr>console_cga_mode := 1\<rparr>)
       \<lparr>term_input = (\<lambda>n. if n = 0 then Key_char 0x41 else if n = 1 then Key_char 3 else if n = 2 then Key_f 12 else Key_up),
        term_polls = 0, term_colors = True, term_cells = Map.empty, term_cursor = (0, 0)\<rparr>)"

lemma demo_console_fields [simp]:
  "console demo_console = console_init_state\<lparr>console_cga_mode := 1\<rparr>" "ctrl (fe2010 demo_console) = 0x40"
  "term_input (terminal demo_console) 0 = Key_char 0x41" "term_polls (terminal demo_console) = 0"
  by (simp_all add: demo_console_def console_board.defs dp_board.defs)

lemma demo_console_ready: "keyboard_on demo_console" "key_queue demo_console = []"
  by (simp_all add: keyboard_on_def key_queue_def console_init_state_def ring_valid_def ring_contents_def ring_length_def
    CONSOLE_SCANCODE_FIFO_SIZE_def)

theorem console_key_sequence_witness: "scancode (fe2010 (polls 3 demo_console)) = 0x9E"
proof -
  have m: "key_makes (console_alt_toggle (console demo_console)) (Key_char 0x41) = [0x2A, 0x1E]"
    by (simp add: key_makes_def shifted_char_def xt_char_table_def)
  have k: "console_xt_keyboard_scancode (Key_char 0x41) \<noteq> 0" by (simp add: xt_char_table_def)
  have "\<forall>n<4. scancode (fe2010 (polls (Suc n) demo_console)) = [0x2A, 0x1E, 0x9E, 0xAA] ! n"
    using console_key_sequence [OF demo_console_ready] m k by (simp add: typed_key_def del: polls.simps)
  from this [rule_format, of 2] show ?thesis by (simp del: polls.simps)
qed

theorem console_screen_witness:
  "term_cells (terminal (snd (run_state console_execute_screen demo_console))) (24, 79) \<noteq> None"
  using console_screen [of 24 79 demo_console] by (simp add: console_columns_def console_init_state_def)

end
