(* ===== verification/Debugger.thy ===== *)
theory Debugger
  imports Console_Keys
begin

unbundle bit_operations_syntax

text \<open>
  debugger.c, and the memory dump of mem.c: the commands read from the standard input, of which the
  loading and saving of images and the breakpoints change the machine. The host is a parameter: the
  text on the standard input, what \<open>stat\<close> and \<open>fopen\<close> say of a file name. A saved file has the bytes
  that were written to it. Of what is printed only the memory dump is kept; the trace dumps and
  messages are output of the other components and change nothing. \<open>fgets\<close> returns a null pointer at
  the end of the input only. The two integers that \<open>sscanf\<close> fills are not initialised: what they
  hold is the field \<open>dbg_locals\<close>, which nothing writes.
\<close>

subsection \<open>State\<close>

datatype stat_t = Stat_regular | Stat_other | Stat_enoent | Stat_error

record pc_board = console_board +
  dbg_stdin :: string
  dbg_stat :: "string \<Rightarrow> stat_t"
  dbg_files :: "string \<Rightarrow> u8 list option"
  dbg_can_write :: "string \<Rightarrow> bool"
  dbg_locals :: "int \<times> int"
  dbg_dumped :: "string list"
  debugger_breakpoint_cs :: int
  debugger_breakpoint_ip :: int

definition DEBUGGER_ARGS :: nat where "DEBUGGER_ARGS = 3"

subsection \<open>Lines, words and numbers\<close>

definition newline :: char where "newline = CHR 0x0A"

text \<open>\<open>fgets(input, bufsize, stdin)\<close>: what is read and what is left.\<close>

definition fgets :: "nat \<Rightarrow> string \<Rightarrow> (string \<times> string) option" where
  "fgets bufsize input =
    (if input = [] then None
     else let n = min (bufsize - 1) (length (takeWhile (\<lambda>c. c \<noteq> newline) input) + 1)
          in Some (take n input, drop n input))"

text \<open>The line as a C string, without the newline at its end.\<close>

definition strip_newline :: "string \<Rightarrow> string" where
  "strip_newline line =
    (let s = takeWhile (\<lambda>c. c \<noteq> CHR 0x00) line
     in if s \<noteq> [] \<and> last s = newline then butlast s else s)"

text \<open>\<open>strtok(input, " ")\<close>, called until it returns a null pointer.\<close>

function strtok_words :: "string \<Rightarrow> string list" where
  "strtok_words s =
    (let t = dropWhile (\<lambda>c. c = CHR '' '') s
     in if t = [] then []
        else takeWhile (\<lambda>c. c \<noteq> CHR '' '') t # strtok_words (dropWhile (\<lambda>c. c \<noteq> CHR '' '') t))"
  by pat_completeness auto

lemma after_word: "t \<noteq> [] \<Longrightarrow> hd t \<noteq> x \<Longrightarrow> length (dropWhile (\<lambda>c. c \<noteq> x) t) < length t"
  by (cases t) (auto intro: le_imp_less_Suc length_dropWhile_le)

termination strtok_words
proof (relation "measure length", simp, unfold in_measure)
  fix s t :: string
  assume t: "t = dropWhile (\<lambda>c. c = CHR '' '') s" and n: "t \<noteq> []"
  then have "hd t \<noteq> CHR '' ''" using hd_dropWhile by blast
  from after_word [OF n this] show "length (dropWhile (\<lambda>c. c \<noteq> CHR '' '') t) < length s"
    using length_dropWhile_le [of "\<lambda>c. c = CHR '' ''" s] t by simp
qed

declare strtok_words.simps [simp del]

definition debugger_argv :: "string \<Rightarrow> string list" where
  "debugger_argv line = take DEBUGGER_ARGS (strtok_words (strip_newline line))"

text \<open>\<open>sscanf(s, "%wx", &value)\<close>: the value and what is left of the string, \<open>None\<close> when nothing is
  converted.\<close>

definition hex_value :: "char \<Rightarrow> nat option" where
  "hex_value c = (let n = of_char c in
     if 0x30 \<le> n \<and> n \<le> 0x39 then Some (n - 0x30)
     else if 0x41 \<le> n \<and> n \<le> 0x46 then Some (n - 0x37)
     else if 0x61 \<le> n \<and> n \<le> 0x66 then Some (n - 0x57)
     else None)"

primrec hex_digits :: "nat \<Rightarrow> int \<Rightarrow> string \<Rightarrow> int \<times> string" where
  "hex_digits 0 acc s = (acc, s)"
| "hex_digits (Suc w) acc s =
    (case s of [] \<Rightarrow> (acc, [])
     | c # rest \<Rightarrow> (case hex_value c of None \<Rightarrow> (acc, s) | Some d \<Rightarrow> hex_digits w (16 * acc + int d) rest))"

definition c_isspace :: "char \<Rightarrow> bool" where
  "c_isspace c \<longleftrightarrow> c \<in> set [CHR '' '', CHR 0x09, CHR 0x0A, CHR 0x0B, CHR 0x0C, CHR 0x0D]"

definition scan_hex :: "nat \<Rightarrow> string \<Rightarrow> (int \<times> string) option" where
  "scan_hex w s =
    (let s = dropWhile c_isspace s;
         sign = take 1 s;
         (w, s) = (if w > 0 \<and> (sign = ''-'' \<or> sign = ''+'') then (w - 1, drop 1 s) else (w, s));
         (w, s) = (if w > 1 \<and> (take 2 s = ''0x'' \<or> take 2 s = ''0X'') then (w - 2, drop 2 s) else (w, s))
     in if w = 0 \<or> s = [] \<or> hex_value (hd s) = None then None
        else let (v, rest) = hex_digits w 0 s in Some (if sign = ''-'' then - v else v, rest))"

definition scan_into :: "nat \<Rightarrow> string \<Rightarrow> int \<Rightarrow> int" where
  "scan_into w s value = (case scan_hex w s of None \<Rightarrow> value | Some (v, _) \<Rightarrow> v)"

subsection \<open>The memory dump\<close>

definition hex_char :: "nat \<Rightarrow> char" where
  "hex_char n = (if n < 10 then char_of (n + 0x30) else char_of (n + 0x57))"

definition format_hex :: "nat \<Rightarrow> nat \<Rightarrow> string" where
  "format_hex width n = map (\<lambda>i. hex_char (n div 16 ^ i mod 16)) (rev [0..<width])"

text \<open>One row; the addresses are below one megabyte, so that \<open>mem_read\<close> has no effect.\<close>

definition mem_dump_16 :: "mem_t \<Rightarrow> u32 \<Rightarrow> u32 \<Rightarrow> string" where
  "mem_dump_16 mm start end =
    (let base = start AND 0xFFFF0;
         shown = (\<lambda>a. start \<le> a \<and> a \<le> end)
     in format_hex 5 (unat base) @ ''   '' @
        concat (map (\<lambda>i. let a = base + of_nat i in
          (if shown a then format_hex 2 (unat (mem_get mm a)) @ '' '' else ''   '') @
          (if i mod 4 = 3 then '' '' else '''')) [0..<16]) @
        map (\<lambda>i. let a = base + of_nat i; v = mem_get mm a in
          if shown a then (if isprint v then char_of (unat v) else CHR ''.'') else CHR '' '') [0..<16] @
        [newline])"

text \<open>The loop over the rows: \<open>None\<close> when the number of iterations given is not enough. There are fewer
  than \<open>2 ^ 28\<close> rows, so that a loop which has not ended after that many never ends.\<close>

primrec mem_dump_loop :: "nat \<Rightarrow> mem_t \<Rightarrow> u32 \<Rightarrow> u32 \<Rightarrow> string list option" where
  "mem_dump_loop 0 mm i end = None"
| "mem_dump_loop (Suc n) mm i end =
    (if i \<le> end then map_option (\<lambda>rows. mem_dump_16 mm i end # rows) (mem_dump_loop n mm (i + 16) end)
     else Some [])"

definition mem_dump :: "mem_t \<Rightarrow> u32 \<Rightarrow> u32 \<Rightarrow> string list option" where
  "mem_dump mm start end =
    map_option (\<lambda>rows. mem_dump_16 mm start end # rows) (mem_dump_loop 0x10000000 mm ((start AND 0xFFFF0) + 16) end)"

subsection \<open>The commands\<close>

text \<open>The answers are read one character at a time.\<close>

fun overwrite_answer :: "string \<Rightarrow> bool \<times> string" where
  "overwrite_answer [] = (False, [])"
| "overwrite_answer (c # rest) =
    (if c = CHR ''y'' then (True, rest) else if c = CHR ''n'' then (False, rest) else overwrite_answer rest)"

definition debugger_overwrite :: "string \<Rightarrow> ('a pc_board_scheme, bool) state" where
  "debugger_overwrite filename = do {
     st \<leftarrow> gets (\<lambda>s. dbg_stat s filename);
     case st of
       Stat_regular \<Rightarrow> do {
         answer \<leftarrow> gets (\<lambda>s. overwrite_answer (dbg_stdin s));
         modify (\<lambda>s. s\<lparr>dbg_stdin := snd answer\<rparr>);
         return (fst answer)
       }
     | Stat_other \<Rightarrow> return False
     | Stat_enoent \<Rightarrow> return True
     | Stat_error \<Rightarrow> return False
   }"

definition dbg_written :: "(string \<times> u8 list) option \<Rightarrow> ('a pc_board_scheme, unit) state" where
  "dbg_written out =
    (case out of None \<Rightarrow> return ()
     | Some (name, bytes) \<Rightarrow>
         modify (\<lambda>s. s\<lparr>dbg_stat := (dbg_stat s)(name := Stat_regular), dbg_files := (dbg_files s)(name \<mapsto> bytes)\<rparr>))"

definition debugger_load_floppy :: "2 word \<Rightarrow> string list \<Rightarrow> ('a pc_board_scheme, unit) state" where
  "debugger_load_floppy drive argv =
    (if length argv \<ge> 2 then do {
       file \<leftarrow> gets (\<lambda>s. dbg_files s (argv ! 1));
       modd (\<lambda>r. r\<lparr>floppy := (floppy r)(drive := snd (fdc9268_image_load file (argv ! 1) 0 (floppy r drive)))\<rparr>)
     }
     else return ())"

definition debugger_save_floppy :: "2 word \<Rightarrow> string list \<Rightarrow> ('a pc_board_scheme, unit) state" where
  "debugger_save_floppy drive argv = do {
     loaded \<leftarrow> getd (\<lambda>r. floppy_filename (floppy r drive));
     let filename = (if length argv \<ge> 2 then Some (argv ! 1) else None);
     ok \<leftarrow> debugger_overwrite (case filename of Some name \<Rightarrow> name | None \<Rightarrow> loaded);
     if ok then do {
       r \<leftarrow> gets (\<lambda>s. fdc9268_image_save (dbg_can_write s) filename (floppy (fdc s) drive));
       modd (\<lambda>d. d\<lparr>floppy := (floppy d)(drive := snd r)\<rparr>);
       dbg_written (snd (fst r))
     }
     else return ()
   }"

definition debugger_save_disk :: "string list \<Rightarrow> ('a pc_board_scheme, unit) state" where
  "debugger_save_disk argv = do {
     loaded \<leftarrow> getx hd_filename;
     let filename = (if length argv \<ge> 2 then Some (argv ! 1) else None);
     ok \<leftarrow> debugger_overwrite (case filename of Some name \<Rightarrow> name | None \<Rightarrow> loaded);
     if ok then do {
       r \<leftarrow> gets (\<lambda>s. xthdc_image_save (dbg_can_write s) filename (xthdc s));
       modx (\<lambda>_. snd r);
       dbg_written (snd (fst r))
     }
     else return ()
   }"

text \<open>The outcome of a command: leave the program, return to the main loop, wait for the next command, or
  never end.\<close>

datatype dbg_result = Dbg_exit | Dbg_return bool | Dbg_next "int \<times> int" | Dbg_hang

definition debugger_breakpoint :: "string list \<Rightarrow> int \<times> int \<Rightarrow> ('a pc_board_scheme, dbg_result) state" where
  "debugger_breakpoint argv values =
    (if length argv \<ge> 2 then
       (case scan_hex 4 (argv ! 1) of
          Some (v1, rest) \<Rightarrow>
            (case (if take 1 rest = '':'' then scan_hex 4 (drop 1 rest) else None) of
               Some (v2, _) \<Rightarrow> do {
                 modify (\<lambda>s. s\<lparr>debugger_breakpoint_cs := v1 mod 0x10000, debugger_breakpoint_ip := v2 mod 0x10000\<rparr>);
                 return (Dbg_next (v1, v2))
               }
             | None \<Rightarrow> do {
                 modify (\<lambda>s. s\<lparr>debugger_breakpoint_ip := v1 mod 0x10000\<rparr>);
                 return (Dbg_next (v1, snd values))
               })
        | None \<Rightarrow> do {
            modify (\<lambda>s. s\<lparr>debugger_breakpoint_ip := fst values mod 0x10000\<rparr>);
            return (Dbg_next values)
          })
     else do {
       modify (\<lambda>s. s\<lparr>debugger_breakpoint_cs := -1, debugger_breakpoint_ip := -1\<rparr>);
       return (Dbg_next values)
     })"

definition debugger_dump :: "string list \<Rightarrow> int \<times> int \<Rightarrow> ('a pc_board_scheme, dbg_result) state" where
  "debugger_dump argv values =
    (if length argv < 2 then return (Dbg_next values)
     else let v1 = scan_into 5 (argv ! 1) (fst values);
              v2 = (if length argv \<ge> 3 then scan_into 5 (argv ! 2) (snd values)
                    else if v1 + 0xFF > 0xFFFFF then 0xFFFFF else v1 + 0xFF)
          in do {
            rows \<leftarrow> gets (\<lambda>s. mem_dump (mem s) (word_of_int v1) (word_of_int v2));
            case rows of
              None \<Rightarrow> return Dbg_hang
            | Some rows \<Rightarrow> do {
                modify (\<lambda>s. s\<lparr>dbg_dumped := dbg_dumped s @ rows\<rparr>);
                return (Dbg_next (v1, v2))
              }
          })"

definition debugger_command :: "string list \<Rightarrow> int \<times> int \<Rightarrow> ('a pc_board_scheme, dbg_result) state" where
  "debugger_command argv values =
    (let c = hd (hd argv)
     in if c = CHR ''q'' then return Dbg_exit
        else if c = CHR ''c'' then return (Dbg_return False)
        else if c = CHR ''s'' then return (Dbg_return True)
        else if c = CHR ''k'' then debugger_breakpoint argv values
        else if c = CHR ''d'' then debugger_dump argv values
        else if c = CHR ''a'' then do { debugger_load_floppy 0 argv; return (Dbg_next values) }
        else if c = CHR ''b'' then do { debugger_load_floppy 1 argv; return (Dbg_next values) }
        else if c = CHR ''A'' then do { debugger_save_floppy 0 argv; return (Dbg_next values) }
        else if c = CHR ''B'' then do { debugger_save_floppy 1 argv; return (Dbg_next values) }
        else if c = CHR ''W'' then do { debugger_save_disk argv; return (Dbg_next values) }
        else return (Dbg_next values))"

subsection \<open>The command loop\<close>

lemma fgets_shorter: "fgets bufsize input = Some (line, rest) \<Longrightarrow> 1 < bufsize \<Longrightarrow> length rest < length input"
  by (cases input) (auto simp: fgets_def Let_def min_def split: if_splits)

lemma overwrite_answer_shorter: "length (snd (overwrite_answer input)) \<le> length input"
  by (induction input rule: overwrite_answer.induct) auto

lemma dbg_written_stdin [simp]: "dbg_stdin (snd (run_state (dbg_written out) s)) = dbg_stdin s"
  by (auto simp: dbg_written_def split: option.split)

lemma overwrite_stdin: "length (dbg_stdin (snd (run_state (debugger_overwrite name) s))) \<le> length (dbg_stdin s)"
  by (cases "dbg_stat s name") (simp_all add: debugger_overwrite_def overwrite_answer_shorter)

lemma command_stdin: "length (dbg_stdin (snd (run_state (debugger_command argv v) s))) \<le> length (dbg_stdin s)"
proof -
  have "length (dbg_stdin (snd (run_state (debugger_save_floppy drive argv) s))) \<le> length (dbg_stdin s)" for drive
    by (simp add: overwrite_stdin debugger_save_floppy_def case_prod_beta Let_def)
  moreover have "length (dbg_stdin (snd (run_state (debugger_save_disk argv) s))) \<le> length (dbg_stdin s)"
    by (simp add: overwrite_stdin debugger_save_disk_def case_prod_beta Let_def)
  ultimately show ?thesis
    by (simp add: debugger_command_def Let_def debugger_breakpoint_def debugger_dump_def debugger_load_floppy_def
      case_prod_beta split: option.split)
qed

lemma command_stdin_less:
  assumes "fgets 512 (dbg_stdin s) = Some (line, rest)"
    and "(r, t) = run_state (debugger_command argv v) (s\<lparr>dbg_stdin := rest\<rparr>)"
  shows "length (dbg_stdin t) < length (dbg_stdin s)"
  using command_stdin [of argv v "s\<lparr>dbg_stdin := rest\<rparr>"] fgets_shorter [OF assms(1)] assms(2)
  by (cases "run_state (debugger_command argv v) (s\<lparr>dbg_stdin := rest\<rparr>)") simp

function debugger_loop :: "int \<times> int \<Rightarrow> 'a pc_board_scheme \<Rightarrow> dbg_result \<times> 'a pc_board_scheme" where
  "debugger_loop values s =
    (case fgets 512 (dbg_stdin s) of
       None \<Rightarrow> (Dbg_exit, s)
     | Some (line, rest) \<Rightarrow>
         (let s = s\<lparr>dbg_stdin := rest\<rparr>; argv = debugger_argv line
          in if argv = [] then debugger_loop values s
             else case run_state (debugger_command argv values) s of
               (Dbg_next values, s) \<Rightarrow> debugger_loop values s
             | (result, s) \<Rightarrow> (result, s)))"
  by pat_completeness auto

termination debugger_loop
  by (relation "measure (\<lambda>(_, s). length (dbg_stdin s))") (auto dest: fgets_shorter intro: command_stdin_less)

declare debugger_loop.simps [simp del]

definition debugger :: "('a pc_board_scheme, dbg_result) state" where
  "debugger = do {
     values \<leftarrow> gets dbg_locals;
     r \<leftarrow> gets (debugger_loop values);
     modify (\<lambda>_. snd r);
     return (fst r)
   }"

lemma debugger_loop_result: "fst (debugger_loop v s) \<noteq> Dbg_next w"
proof (induction v s rule: debugger_loop.induct)
  case (1 v s)
  then show ?case
    by (subst debugger_loop.simps) (auto simp: Let_def split: option.split prod.split dbg_result.split)
qed

subsection \<open>What the debugger leaves alone\<close>

lemma dbg_parts_rom [frame_intros]:
  "preserves rom_view (debugger_overwrite name)" "preserves rom_view (dbg_written out)"
  "preserves rom_view (debugger_load_floppy drive argv)"
  by (auto simp: preserves_def rom_view_def debugger_overwrite_def dbg_written_def debugger_load_floppy_def
    split: stat_t.split option.split)

lemma debugger_command_rom: "preserves rom_view (debugger_command argv v)"
  unfolding debugger_command_def debugger_save_floppy_def debugger_save_disk_def debugger_breakpoint_def
    debugger_dump_def Let_def
  by (intro frame_intros) (auto simp: preserves_def rom_view_def split: option.split)

lemma debugger_loop_rom: "rom_view (snd (debugger_loop v s)) = rom_view s"
proof (induction v s rule: debugger_loop.induct)
  case (1 v s)
  have r: "rom_view (s\<lparr>dbg_stdin := rest\<rparr>) = rom_view s" for rest by (simp add: rom_view_def)
  have c: "rom_view t = rom_view s"
    if "run_state (debugger_command argv v) (s\<lparr>dbg_stdin := rest\<rparr>) = (x, t)" for argv rest x t
    using preserves_run [OF debugger_command_rom that] r by simp
  show ?case
    using 1 by (subst debugger_loop.simps) (auto simp: Let_def r c split: option.split prod.split dbg_result.split)
qed

lemma debugger_rom [frame_intros]: "preserves rom_view debugger"
  by (simp add: preserves_def debugger_def debugger_loop_rom)

subsection \<open>The dump of a range of memory\<close>

lemma row_aligned: "unat (x :: u32) mod 16 = 0 \<Longrightarrow> unat x \<le> 0xFFFFFFF0"
  using unat_u32 [of x] by presburger

lemma next_row_aligned: "unat (i :: u32) mod 16 = 0 \<Longrightarrow> unat (i + 16) mod 16 = 0"
  by (simp add: unat_word_ariths mod_mod_cancel)

lemma base_aligned: "unat ((start :: u32) AND 0xFFFF0) mod 16 = 0"
proof -
  have "(start AND 0xFFFF0) AND 0xF = 0" by (simp add: and.assoc)
  then have "(start AND 0xFFFF0) mod 16 = 0"
    using take_bit_eq_mod [of 4 "start AND 0xFFFF0"] by (simp add: take_bit_eq_mask mask_eq_exp_minus_1)
  then have "unat ((start AND 0xFFFF0) mod 16) = 0" by simp
  then show ?thesis by (simp only: unat_mod_distrib unsigned_numeral) simp
qed

lemma mem_dump_loop_hangs:
  assumes "0xFFFFFFF0 \<le> end" "unat i mod 16 = 0"
  shows "mem_dump_loop n mm i end = None"
  using assms(2)
proof (induction n arbitrary: i)
  case (Suc n)
  have "i \<le> end" using row_aligned [OF Suc.prems] assms(1) by (simp add: word_le_nat_alt)
  then show ?case using Suc.IH [OF next_row_aligned [OF Suc.prems]] by simp
qed simp

lemma mem_dump_loop_ends:
  assumes "end < 0xFFFFFFF0" "unat end < unat i + 16 * n"
  shows "\<exists>rows. mem_dump_loop (Suc n) mm i end = Some rows \<and> length rows = (unat end + 16 - unat i) div 16"
  using assms(2)
proof (induction n arbitrary: i)
  case 0
  then show ?case by (simp add: word_le_nat_alt)
next
  case (Suc n)
  show ?case
  proof (cases "i \<le> end")
    case True
    then have i: "unat (i + 16) = unat i + 16" using assms(1) by (simp add: word_le_nat_alt word_less_nat_alt unat_word_ariths)
    obtain rows where "mem_dump_loop (Suc n) mm (i + 16) end = Some rows" "length rows = (unat end - unat i) div 16"
      using Suc.IH [of "i + 16"] Suc.prems by (auto simp: i)
    then show ?thesis using True by (simp add: word_le_nat_alt le_div_geq)
  next
    case False
    then show ?thesis by (simp add: word_le_nat_alt)
  qed
qed

text \<open>C35. A memory dump ends exactly when the end of the range is below \<open>0xFFFFFFF0\<close>: from there on the row
  address wraps around to 0 before it can pass the end. It then has the row of the first address and a row
  for each 16 bytes up to the end.\<close>

theorem mem_dump_ends:
  "map_option length (mem_dump mm start end) =
    (if 0xFFFFFFF0 \<le> end then None else Some (1 + (unat end - unat (start AND 0xFFFF0)) div 16))"
proof (cases "0xFFFFFFF0 \<le> end")
  case True
  show ?thesis
    using mem_dump_loop_hangs [OF True next_row_aligned [OF base_aligned]] True by (simp add: mem_dump_def)
next
  case False
  have "unat (start AND 0xFFFF0) \<le> 0xFFFF0" using word_and_le1 [of start "0xFFFF0"] by (simp add: word_le_nat_alt)
  then have b: "unat ((start AND 0xFFFF0) + 16) = unat (start AND 0xFFFF0) + 16" by (simp add: unat_word_ariths)
  have f: "0x10000000 = Suc 0xFFFFFFF" by simp
  have "unat end < unat ((start AND 0xFFFF0) + 16) + 16 * 0xFFFFFFF" using unat_u32 [of "end"] by (simp add: b)
  with False obtain rows where "mem_dump_loop (Suc 0xFFFFFFF) mm ((start AND 0xFFFF0) + 16) end = Some rows"
    "length rows = (unat end - unat (start AND 0xFFFF0)) div 16"
    using mem_dump_loop_ends [where i = "(start AND 0xFFFF0) + 16" and n = "0xFFFFFFF" and mm = mm] by (auto simp: b not_le)
  then show ?thesis using False unfolding mem_dump_def f by simp
qed

subsection \<open>Images\<close>

lemma run_floppy_load:
  "n + length fh \<le> FLOPPY_SIZE_MAX \<Longrightarrow> floppy_load_loop fh n f = ((n + length fh, True),
    f\<lparr>floppy_data := (\<lambda>i. if n \<le> i \<and> i < n + length fh then fh ! (i - n) else floppy_data f i)\<rparr>)"
proof (induction fh arbitrary: n f)
  case Nil
  then show ?case by (simp cong: conj_cong)
next
  case (Cons c fh)
  have "(\<lambda>i. if Suc n \<le> i \<and> i < Suc n + length fh then fh ! (i - Suc n) else ((floppy_data f)(n := c)) i) =
    (\<lambda>i. if n \<le> i \<and> i < n + length (c # fh) then (c # fh) ! (i - n) else floppy_data f i)"
    by (rule ext) (auto simp: nth_Cons' Suc_diff_le)
  then show ?case using Cons by (simp cong: if_cong)
qed

text \<open>C36. A floppy image that is saved under a new name and loaded from there into the other drive is the same disk:
  the same size, the same bytes, and the geometry that its boot sector says.\<close>

theorem debugger_image_copy:
  fixes s :: "'a pc_board_scheme" and name
  defines "f \<equiv> floppy (fdc s) 0" and "t \<equiv> snd (run_state (do { r \<leftarrow> debugger_command [''A'', name] (0, 0);
    debugger_command [''b'', name] (0, 0) }) s)"
  assumes "floppy_loaded f" "dbg_stat s name = Stat_enoent" "dbg_can_write s name"
    "0x18 < floppy_size f" "floppy_size f \<le> FLOPPY_SIZE_MAX" "floppy_data f 0x18 \<in> {9, 18, 36}"
  shows "floppy_loaded (floppy (fdc t) 1) \<and> floppy_size (floppy (fdc t) 1) = floppy_size f \<and>
    floppy_spt (floppy (fdc t) 1) = floppy_data f 0x18 \<and>
    map (floppy_data (floppy (fdc t) 1)) [0..<floppy_size f] = map (floppy_data f) [0..<floppy_size f] \<and>
    dbg_files t name = Some (map (floppy_data f) [0..<floppy_size f]) \<and> mem t = mem s"
proof -
  define bytes where "bytes = map (floppy_data f) [0..<floppy_size f]"
  have b: "length bytes = floppy_size f" "bytes ! 0x18 = floppy_data f 0x18"
    using assms(6) by (simp_all add: bytes_def)
  define u where "u = snd (run_state (debugger_command [''A'', name] (0, 0)) s)"
  have u: "dbg_files u name = Some bytes" "mem u = mem s" "fdc u = (fdc s)\<lparr>floppy := (floppy (fdc s))(0 := f\<lparr>floppy_filename := take 4096 name\<rparr>)\<rparr>"
    using assms(3-5) by (simp_all add: u_def debugger_command_def debugger_save_floppy_def debugger_overwrite_def Let_def
      fdc9268_image_save_def dbg_written_def f_def [symmetric] bytes_def)
  have "t = snd (run_state (debugger_command [''b'', name] (0, 0)) u)"
    by (simp add: t_def u_def case_prod_beta)
  then have t: "mem t = mem s" "dbg_files t name = Some bytes"
    "floppy (fdc t) 1 = snd (fdc9268_image_load (Some bytes) name 0 (floppy (fdc s) 1))"
    by (simp_all add: debugger_command_def debugger_load_floppy_def u)
  show ?thesis
    using assms(6-8) b by (simp add: t fdc9268_image_load_def Let_def run_floppy_load) (auto simp: bytes_def)
qed

text \<open>A disk in drive 0, and an empty working directory on the host.\<close>

definition demo_pc :: pc_board where
  "demo_pc = console_board.extend (demo_console\<lparr>fdc := fdc9268_init_state\<lparr>floppy :=
      (floppy fdc9268_init_state)(0 := demo_disk\<lparr>floppy_data := (\<lambda>_. 9)\<rparr>)\<rparr>\<rparr>)
     (pc_board.fields [] (\<lambda>_. Stat_enoent) Map.empty (\<lambda>_. True) (0, 0) [] (-1) (-1))"

lemma demo_pc_fields [simp]:
  "fdc demo_pc = fdc9268_init_state\<lparr>floppy := (floppy fdc9268_init_state)(0 := demo_disk\<lparr>floppy_data := (\<lambda>_. 9)\<rparr>)\<rparr>"
  "dbg_stat demo_pc name = Stat_enoent" "dbg_can_write demo_pc name"
  by (simp_all add: demo_pc_def pc_board.defs console_board.defs)

theorem debugger_image_copy_witness:
  "floppy_size (floppy (fdc (snd (run_state (do { r \<leftarrow> debugger_command [''A'', ''b.img''] (0, 0);
     debugger_command [''b'', ''b.img''] (0, 0) }) demo_pc))) 1) = 737280"
  using debugger_image_copy [where s = demo_pc and name = "''b.img''"] by (simp add: demo_disk_def FLOPPY_SIZE_MAX_def)

end
