(* ===== verification/Pc.thy ===== *)
theory Pc
  imports Debugger Cpu_Flow
begin

unbundle bit_operations_syntax

text \<open>
  main.c: the options, the start of all components on one bus and the main loop, compiled as the
  Makefile does, with \<open>CPU_RELAX\<close> (which is 1, so that the DOS variant is taken) and \<open>BREAKPOINT\<close>. The
  options that \<open>getopt\<close> finds are a list of letters with their arguments. An interrupt signal may
  arrive in any iteration of the loop: the loop runs over a list that says in which. The time that
  \<open>poll\<close> waits has no effect. Whether the serial device can be opened is the parameter \<open>opens\<close>.
\<close>

subsection \<open>Options\<close>


record pc_options =
  bios_rom_filename :: string
  bios_rom_address :: u32
  floppy_a_image :: "string option"
  floppy_b_image :: "string option"
  hard_disk_image :: "string option"
  tty_device :: "string option"
  edfs_root_dir :: "string option"
  floppy_image_spt :: int
  break_on_start :: bool


text \<open>\<open>atoi\<close>; beyond the range of an int C leaves it undefined.\<close>

definition decimal_value :: "char \<Rightarrow> nat option" where
  "decimal_value c = (let n = of_char c in if 0x30 \<le> n \<and> n \<le> 0x39 then Some (n - 0x30) else None)"

fun decimal_digits :: "int \<Rightarrow> string \<Rightarrow> int" where
  "decimal_digits acc [] = acc"
| "decimal_digits acc (c # s) =
    (case decimal_value c of None \<Rightarrow> acc | Some d \<Rightarrow> decimal_digits (10 * acc + int d) s)"

definition atoi :: "string \<Rightarrow> int" where
  "atoi s = (let s = dropWhile c_isspace s
     in if take 1 s = ''-'' then - decimal_digits 0 (drop 1 s)
        else if take 1 s = ''+'' then decimal_digits 0 (drop 1 s) else decimal_digits 0 s)"

text \<open>The exit code, or the options.\<close>

fun main_options :: "(char \<times> string) list \<Rightarrow> pc_options \<Rightarrow> int + pc_options" where
  "main_options [] opts = Inr opts"
| "main_options ((c, optarg) # rest) opts =
    (if c = CHR ''h'' then Inl 0
     else if c = CHR ''d'' then main_options rest (opts\<lparr>break_on_start := True\<rparr>)
     else if c = CHR ''a'' then main_options rest (opts\<lparr>floppy_a_image := Some optarg\<rparr>)
     else if c = CHR ''b'' then main_options rest (opts\<lparr>floppy_b_image := Some optarg\<rparr>)
     else if c = CHR ''w'' then main_options rest (opts\<lparr>hard_disk_image := Some optarg\<rparr>)
     else if c = CHR ''s'' then main_options rest (opts\<lparr>floppy_image_spt := atoi optarg\<rparr>)
     else if c = CHR ''r'' then main_options rest (opts\<lparr>bios_rom_filename := optarg\<rparr>)
     else if c = CHR ''x'' then main_options rest
       (case scan_hex (length optarg) optarg of None \<Rightarrow> opts | Some (v, _) \<Rightarrow> opts\<lparr>bios_rom_address := word_of_int v\<rparr>)
     else if c = CHR ''t'' then main_options rest (opts\<lparr>tty_device := Some optarg\<rparr>)
     else if c = CHR ''e'' then main_options rest (opts\<lparr>edfs_root_dir := Some optarg\<rparr>)
     else Inl 1)"

subsection \<open>Start\<close>

text \<open>The port table, filled in the order of the code.\<close>

definition main_io :: "bool \<Rightarrow> bool \<Rightarrow> 'a pc_board_scheme io_t" where
  "main_io serial disk =
    (let io = io_init;
         io = fe2010_init io;
         io = mos5720_init io;
         io = fdc9268_init io;
         io = m6242_init io;
         io = dp8390_init io;
         io = (if serial then i8250_init io else io);
         io = console_init io
     in if disk then xthdc_init io else io)"





subsection \<open>The main loop\<close>

datatype main_result = Main_next | Main_exit | Main_hang



definition main_break :: "('a pc_board_scheme, main_result) state" where
  "main_break = do {
     modify (\<lambda>s. s\<lparr>panic_msg := None\<rparr>);
     r \<leftarrow> debugger;
     case r of
       Dbg_exit \<Rightarrow> return Main_exit
     | Dbg_hang \<Rightarrow> return Main_hang
     | Dbg_return b \<Rightarrow> do { modify (\<lambda>s. s\<lparr>debugger_break := b\<rparr>); return Main_next }
     | Dbg_next _ \<Rightarrow> return Main_next
   }"




subsection \<open>The bus\<close>

definition main_devices :: "bool \<Rightarrow> bool \<Rightarrow> (u16 list \<times> ('a pc_board_scheme io_t \<Rightarrow> 'a pc_board_scheme io_t)) list" where
  "main_devices serial disk = [(fe2010_ports, fe2010_init), (mos5720_ports, mos5720_init), (fdc9268_ports, fdc9268_init),
     (m6242_ports, m6242_init), (dp8390_ports, dp8390_init)] @ (if serial then [(i8250_ports, i8250_init)] else []) @
     [(console_ports, console_init)] @ (if disk then [(xthdc_ports, xthdc_init)] else [])"

definition main_ports :: "bool \<Rightarrow> bool \<Rightarrow> u16 list" where
  "main_ports serial disk = fe2010_ports @ mos5720_ports @ fdc9268_ports @ m6242_ports @ dp8390_ports @
     (if serial then i8250_ports else []) @ console_ports @ (if disk then xthdc_ports else [])"

lemma main_devices_ports [simp]: "concat (map fst (main_devices serial disk)) = main_ports serial disk"
  by (simp add: main_devices_def main_ports_def)

lemma main_io_devices: "main_io serial disk = attach_all (main_devices serial disk) io_init"
  by (simp add: main_io_def main_devices_def attach_all_def Let_def)

lemma main_devices_io: "\<forall>d\<in>set (main_devices serial disk). io_device (snd d) (fst d) rom_view"
  by (auto simp: main_devices_def fe2010_bus.io_device_axioms mos5720_bus.io_device_axioms fdc9268_bus.io_device_axioms
    m6242_bus.io_device_axioms dp8390_bus.io_device_axioms i8250_bus.io_device_axioms console_bus.io_device_axioms
    xthdc_bus.io_device_axioms)

lemma main_ports_distinct: "distinct (main_ports serial disk)"
  by (auto simp: main_ports_def fe2010_ports_def mos5720_ports_def fdc9268_ports_def m6242_ports_def dp8390_ports_def
    i8250_ports_def console_ports_def xthdc_ports_def upt_conv_Cons cga_port_defs M6242_S1_def DP8390_IO_BASE_def)


text \<open>C2. On the bus that main puts together no device hides another: at the ports of a device the processor finds what
  that device installs on an empty bus, and a port that no device claims reads as \<open>0xFF\<close>.\<close>

theorem main_bus:
  fixes io :: "'a pc_board_scheme io_t" and serial disk
  defines "io \<equiv> main_io serial disk"
  shows "(\<forall>d\<in>set (main_devices serial disk). \<forall>p\<in>set (fst d). io_at io p = io_at (snd d io_init) p) \<and>
   (\<forall>p. p \<notin> set (main_ports serial disk) \<longrightarrow> io_read io p = return 0xFF)"
proof (intro conjI ballI allI impI)
  show "io_at io p = io_at (snd d io_init) p" if "d \<in> set (main_devices serial disk)" "p \<in> set (fst d)" for d p
    unfolding io_def main_io_devices by (rule attach_all_own [OF main_devices_io _ that]) (simp add: main_ports_distinct)
  fix p assume "p \<notin> set (main_ports serial disk)"
  then have "io_at io p = io_at io_init p"
    unfolding io_def main_io_devices using attach_all_other [OF main_devices_io] by simp
  then show "io_read io p = return 0xFF" by (simp add: io_at_def io_read_def io_init_def)
qed

subsection \<open>The ROM in the running machine\<close>

lemma preserves_case_dbg [frame_intros]:
  "preserves f a \<Longrightarrow> (\<And>b. preserves f (g b)) \<Longrightarrow> (\<And>v. preserves f (h v)) \<Longrightarrow> preserves f c \<Longrightarrow>
   preserves f (case r of Dbg_exit \<Rightarrow> a | Dbg_return b \<Rightarrow> g b | Dbg_next v \<Rightarrow> h v | Dbg_hang \<Rightarrow> c)"
  by (cases r) auto

lemma preserves_case_main [frame_intros]:
  "preserves f a \<Longrightarrow> preserves f b \<Longrightarrow> preserves f c \<Longrightarrow>
   preserves f (case r of Main_next \<Rightarrow> a | Main_exit \<Rightarrow> b | Main_hang \<Rightarrow> c)"
  by (cases r) auto

lemma main_flags_rom [frame_intros]:
  "preserves rom_view (modify (\<lambda>s. s\<lparr>panic_msg := m\<rparr>))" "preserves rom_view (modify (\<lambda>s. s\<lparr>debugger_break := b\<rparr>))"
  by (simp_all add: preserves_def rom_view_def)

lemma main_break_rom [frame_intros]: "preserves rom_view main_break"
  unfolding main_break_def by (intro frame_intros)



text \<open>What main leaves in the memory when it starts.\<close>

lemma start_frame [frame_intros]:
  "preserves mem (modd f)" "preserves mem (modx g)" "preserves mem (modu h)" "preserves mem (mode k)"
  "preserves dbg_files (modu h)" "preserves dbg_files (mode k)" "preserves mem (fits n p)" "preserves dbg_files (fits n p)"
  "preserves mem (gete e)" "preserves dbg_files (gete e)" "preserves mem (panic fm xs)" "preserves dbg_files (panic fm xs)"
  by (simp_all add: preserves_def fits_def)








theorem main_bus_witness: "io_read (main_io True False :: pc_board io_t) 0x320 = return 0xFF"
proof -
  have "0x320 \<notin> set (main_ports True False)"
    by (simp add: main_ports_def fe2010_ports_def mos5720_ports_def fdc9268_ports_def m6242_ports_def dp8390_ports_def
      i8250_ports_def console_ports_def upt_conv_Cons cga_port_defs M6242_S1_def DP8390_IO_BASE_def)
  then show ?thesis using main_bus [where serial = True and disk = False] by blast
qed

end
