(* ===== verification/Edfs_Spec.thy ===== *)
theory Edfs_Spec
  imports Edfs Net_Reply
begin

unbundle bit_operations_syntax

text \<open>
  What the served directory promises to its client: the numbers of the paths stay what they are, every
  reply is a well-formed frame, and names and times have the form DOS expects.
\<close>

subsection \<open>The numbers of the paths\<close>

text \<open>The root is number 0, no two numbers stand for the same path, and every string of the table has its
  terminating zero in its own field; the empty path marks a number whose path is gone.\<close>

definition table_ok :: "edfs_t \<Rightarrow> bool" where
  "table_ok e \<longleftrightarrow>
    (let n = length (edfs_cluster e); path = (\<lambda>i. fst (edfs_cluster e ! i))
     in 0 < n \<and> n \<le> EDFS_CLUSTER_MAX \<and> path 0 = [] \<and>
        (\<forall>i<n. \<forall>j<n. path i = path j \<and> path i \<noteq> [] \<longrightarrow> i = j) \<and>
        (\<forall>i<n. length (path i) < EDFS_PATH_MAX \<and> length (snd (edfs_cluster e ! i)) < EDFS_PATH83_MAX))"

definition table_next :: "edfs_t \<Rightarrow> edfs_t \<Rightarrow> bool" where
  "table_next e e' \<longleftrightarrow> length (edfs_cluster e) \<le> length (edfs_cluster e') \<and>
    (\<forall>i<length (edfs_cluster e). edfs_cluster e' ! i = edfs_cluster e ! i \<or> edfs_cluster e' ! i = ([], []))"

lemma table_next_refl: "table_next e e"
  by (simp add: table_next_def)

lemma table_next_trans:
  assumes "table_next a b" "table_next b c"
  shows "table_next a c"
  unfolding table_next_def
proof (intro conjI allI impI)
  show "length (edfs_cluster a) \<le> length (edfs_cluster c)" using assms by (simp add: table_next_def)
  fix i assume i: "i < length (edfs_cluster a)"
  then have "i < length (edfs_cluster b)" using assms(1) by (simp add: table_next_def)
  then have "edfs_cluster c ! i = edfs_cluster b ! i \<or> edfs_cluster c ! i = ([], [])"
    using assms(2) unfolding table_next_def by blast
  moreover have "edfs_cluster b ! i = edfs_cluster a ! i \<or> edfs_cluster b ! i = ([], [])"
    using assms(1) i unfolding table_next_def by blast
  ultimately show "edfs_cluster c ! i = edfs_cluster a ! i \<or> edfs_cluster c ! i = ([], [])" by auto
qed

text \<open>Nothing takes an undefined access back, so that a run that ends without one had none.\<close>

definition keeps_table :: "('a edfs_board_scheme, 'x) state \<Rightarrow> bool" where
  "keeps_table m \<longleftrightarrow> (\<forall>s. \<not> wild (snd (run_state m s)) \<longrightarrow> \<not> wild s \<and>
     (table_ok (edfs s) \<longrightarrow>
       table_ok (edfs (snd (run_state m s))) \<and> table_next (edfs s) (edfs (snd (run_state m s)))))"

named_theorems table_intros

lemma keeps_table_bind [table_intros]: "keeps_table m \<Longrightarrow> (\<And>x. keeps_table (k x)) \<Longrightarrow> keeps_table (m \<bind> k)"
  unfolding keeps_table_def
proof (intro allI impI)
  fix s :: "'a edfs_board_scheme"
  assume m: "\<forall>s. \<not> wild (snd (run_state m s)) \<longrightarrow> \<not> wild s \<and> (table_ok (edfs s) \<longrightarrow>
      table_ok (edfs (snd (run_state m s))) \<and> table_next (edfs s) (edfs (snd (run_state m s))))"
    and k: "\<And>x. \<forall>s. \<not> wild (snd (run_state (k x) s)) \<longrightarrow> \<not> wild s \<and> (table_ok (edfs s) \<longrightarrow>
      table_ok (edfs (snd (run_state (k x) s))) \<and> table_next (edfs s) (edfs (snd (run_state (k x) s))))"
    and w: "\<not> wild (snd (run_state (m \<bind> k) s))"
  obtain x u where u: "run_state m s = (x, u)" by fastforce
  have r: "run_state (m \<bind> k) s = run_state (k x) u" by (simp add: u)
  show "\<not> wild s \<and> (table_ok (edfs s) \<longrightarrow> table_ok (edfs (snd (run_state (m \<bind> k) s))) \<and>
      table_next (edfs s) (edfs (snd (run_state (m \<bind> k) s))))"
    using m [rule_format, of s] k [rule_format, of x u] w table_next_trans unfolding r u snd_conv by blast
qed

lemma keeps_table_if [table_intros]: "keeps_table a \<Longrightarrow> keeps_table b \<Longrightarrow> keeps_table (if c then a else b)"
  by simp

lemma keeps_table_let [table_intros]: "(\<And>x. keeps_table (k x)) \<Longrightarrow> keeps_table (let x = e in k x)"
  by simp

lemma keeps_table_prod [table_intros]: "(\<And>x y. keeps_table (k x y)) \<Longrightarrow> keeps_table (case p of (x, y) \<Rightarrow> k x y)"
  by (cases p) simp

lemma keeps_table_option [table_intros]:
  "keeps_table a \<Longrightarrow> (\<And>x. keeps_table (k x)) \<Longrightarrow> keeps_table (case p of None \<Rightarrow> a | Some x \<Rightarrow> k x)"
  by (cases p) simp_all

lemma table_untouched [table_intros]:
  "keeps_table (return x)" "keeps_table (gete f)" "keeps_table (getn g)" "keeps_table (modn h)"
  "keeps_table (fs_syscall call)" "keeps_table (panic fm xs)" "keeps_table undefined_access"
  "keeps_table (rx_put pos bs)" "keeps_table (rx_buffer p len)" "keeps_table (fits n str)"
  by (simp_all add: keeps_table_def table_next_refl panic_def fs_syscall_def rx_put_def rx_buffer_def fits_def)

lemma table_nth_append:
  assumes "table_ok e" "length (edfs_cluster e) < EDFS_CLUSTER_MAX" "p \<notin> set (map fst (edfs_cluster e))"
    "length p < EDFS_PATH_MAX" "length q < EDFS_PATH83_MAX"
  shows "table_ok (e\<lparr>edfs_cluster := edfs_cluster e @ [(p, q)]\<rparr>)"
proof -
  have "fst (edfs_cluster e ! i) \<noteq> p" if "i < length (edfs_cluster e)" for i using assms(3) that by auto
  then show ?thesis
    using assms(1,2,4,5) unfolding table_ok_def Let_def by (auto simp: nth_append less_Suc_eq)
qed

lemma register_keeps [table_intros]: "keeps_table (edfs_cluster_register p q)"
proof -
  have n: "table_next e (e\<lparr>edfs_cluster := edfs_cluster e @ [(p', q')]\<rparr>)" for e p' q'
    by (simp add: table_next_def nth_append)
  have f: "run_state (fits m str) s = ((), if length str < m then s else s\<lparr>wild := True\<rparr>)" for m str and s :: "'a edfs_board_scheme"
    by (simp add: fits_def)
  show ?thesis
    unfolding keeps_table_def
    by (auto simp: edfs_cluster_register_def case_prod_beta f table_nth_append n table_next_refl not_le Let_def
        strncpy_field_def panic_def split: if_splits)
qed

lemma length_cluster_blank [simp]: "length (cluster_blank p tab) = length tab"
  by (induction tab) simp_all

lemma cluster_blank_nth: "i < length tab \<Longrightarrow> cluster_blank p tab ! i = tab ! i \<or> cluster_blank p tab ! i = ([], [])"
proof (induction tab arbitrary: i)
  case (Cons a tab)
  then show ?case by (cases i) auto
qed simp

lemma table_ok_next:
  assumes "table_ok e" "table_next e e'" "length (edfs_cluster e') = length (edfs_cluster e)"
  shows "table_ok e'"
proof -
  have e: "edfs_cluster e' ! i = edfs_cluster e ! i \<or> edfs_cluster e' ! i = ([], [])"
    if "i < length (edfs_cluster e)" for i
    using assms(2) that unfolding table_next_def by blast
  have "length (fst (edfs_cluster e' ! i)) < EDFS_PATH_MAX \<and> length (snd (edfs_cluster e' ! i)) < EDFS_PATH83_MAX"
    if "i < length (edfs_cluster e)" for i
    using e [OF that] assms(1) that unfolding table_ok_def Let_def by (auto simp: EDFS_PATH_MAX_def EDFS_PATH83_MAX_def)
  then show ?thesis
    using assms(1,3) e unfolding table_ok_def Let_def by (metis fst_conv)
qed

lemma unregister_keeps [table_intros]: "keeps_table (edfs_cluster_unregister p)"
proof -
  have "table_next e (e\<lparr>edfs_cluster := cluster_blank p (edfs_cluster e)\<rparr>)" for e
    using cluster_blank_nth by (auto simp: table_next_def)
  then show ?thesis
    unfolding keeps_table_def edfs_cluster_unregister_def by (auto intro: table_ok_next)
qed

lemma paths_keep [table_intros]:
  "keeps_table (path83_to_unixpath p)" "keeps_table (edfs_path f n k)" "keeps_table (edfs_set_result c)"
  "keeps_table (edfs_fail c)" "keeps_table (edfs_put_entry fcb st c)" "keeps_table (edfs_write_data f len)"
  unfolding path83_to_unixpath_def edfs_path_def edfs_set_result_def edfs_fail_def edfs_put_entry_def
    edfs_write_data_def Let_def
  by (intro table_intros)+

lemma find_keeps [table_intros]: "keeps_table (edfs_find attrib pat clu tp)"
proof -
  have "keeps_table (edfs_find_loop names pos attrib fcb path clu tp)" for names pos fcb path clu
    by (induction names arbitrary: pos) (simp only: edfs_find_loop.simps, intro table_intros, assumption?)+
  then show ?thesis unfolding edfs_find_def by (intro table_intros)
qed

lemma requests_keep [table_intros]:
  "keeps_table (edfs_touch p)" "keeps_table (edfs_open_stat p q c at ac)"
  "keeps_table (edfs_open p at ac)" "keeps_table (edfs_read off c len)"
  "keeps_table (edfs_write off c bs)" "keeps_table (edfs_rmdir p)" "keeps_table (edfs_mkdir p)"
  "keeps_table (edfs_chdir p)" "keeps_table (edfs_rename p q)" "keeps_table (edfs_delete p)"
  "keeps_table (edfs_getattr p)"
  unfolding edfs_touch_def edfs_open_stat_def edfs_open_def edfs_read_def edfs_write_def edfs_rmdir_def
    edfs_mkdir_def edfs_chdir_def edfs_rename_def edfs_delete_def edfs_getattr_def
  by (intro table_intros)+

lemma with_path_keeps [table_intros]:
  "(\<And>path. keeps_table (request path)) \<Longrightarrow> keeps_table (with_path f n offset request)"
  "keeps_table m \<Longrightarrow> keeps_table (answered m)"
  unfolding with_path_def answered_def by (intro table_intros, assumption?)+

lemma packet_keeps: "keeps_table (edfs_handle_packet f len)"
  unfolding edfs_handle_packet_def edfs_dispatch_def edfs_reply_frame_def
  by (intro table_intros)

lemma packets_keep: "keeps_table (for_each frames (\<lambda>p. edfs_handle_packet (fst p) (snd p)))"
  by (induction frames) (simp_all add: packet_keeps table_intros)

text \<open>The table of a directory that has just been attached.\<close>

lemma edfs_init_table:
  assumes "edfs_cluster (edfs s) = []"
  shows "table_ok (edfs (snd (run_state (edfs_init root) s)))"
proof -
  have f: "run_state (fits m str) s = ((), if length str < m then s else s\<lparr>wild := True\<rparr>)" for m str and s :: "'a edfs_board_scheme"
    by (simp add: fits_def)
  show ?thesis
    using assms by (simp add: edfs_init_def edfs_cluster_register_def f table_ok_def strncpy_field_def
        EDFS_CLUSTER_MAX_def EDFS_PATH_MAX_def EDFS_PATH83_MAX_def)
qed

text \<open>C37. The numbers that stand for paths are stable: after any sequence of request frames in which no access was
  undefined (no frame ended before its path, no path was longer than its buffer), no two numbers stand for the same
  path, a number that has been given out still stands for its path, or its path is gone, and every path of the table
  ends in its own field.\<close>

theorem edfs_clusters_stable:
  fixes s :: "'a edfs_board_scheme" and frames
  defines "t \<equiv> snd (run_state (for_each frames (\<lambda>p. edfs_handle_packet (fst p) (snd p))) s)"
  defines "e \<equiv> edfs t"
  assumes "table_ok (edfs s)" "\<not> wild t" "edfs_cluster_lookup c (edfs s) = Some p"
  shows "(edfs_cluster_lookup c e = Some p \<or> edfs_cluster_lookup c e = Some []) \<and>
    (edfs_cluster_lookup c e = Some q \<and> edfs_cluster_lookup d e = Some q \<and> q \<noteq> [] \<longrightarrow> c = d) \<and>
    (edfs_cluster_lookup d e = Some q \<longrightarrow> length q < EDFS_PATH_MAX)"
proof -
  have k: "table_ok e" "table_next (edfs s) e"
    using packets_keep assms(3,4) unfolding e_def t_def keeps_table_def by blast+
  then show ?thesis
    using assms(5) unfolding table_next_def table_ok_def edfs_cluster_lookup_def Let_def
    by (auto split: if_splits simp: not_le word_unat_eq_iff)
qed

subsection \<open>Replies\<close>

text \<open>The length of the reply a request gives.\<close>

definition gives :: "('x \<Rightarrow> bool) \<Rightarrow> ('s, 'x) state \<Rightarrow> bool" where
  "gives P m \<longleftrightarrow> (\<forall>s. P (fst (run_state m s)))"

named_theorems gives_intros

lemma gives_return: "P x \<Longrightarrow> gives P (return x)"
  by (simp add: gives_def)

lemma gives_bind [gives_intros]: "(\<And>x. gives P (k x)) \<Longrightarrow> gives P (m \<bind> k)"
  by (simp add: gives_def case_prod_beta)

lemma gives_if [gives_intros]: "(c \<Longrightarrow> gives P a) \<Longrightarrow> (\<not> c \<Longrightarrow> gives P b) \<Longrightarrow> gives P (if c then a else b)"
  by simp

lemma gives_prod [gives_intros]: "(\<And>x y. gives P (k x y)) \<Longrightarrow> gives P (case p of (x, y) \<Rightarrow> k x y)"
  by (cases p) simp

lemma gives_option [gives_intros]:
  "gives P a \<Longrightarrow> (\<And>x. gives P (k x)) \<Longrightarrow> gives P (case p of None \<Rightarrow> a | Some x \<Rightarrow> k x)"
  by (cases p) simp_all

definition reply_length :: "u16 \<Rightarrow> bool" where
  "reply_length n \<longleftrightarrow> 0x3C \<le> unat n \<and> unat n \<le> 0x5E6"

lemma reply_lengths [gives_intros]:
  "gives reply_length (return 0x3C)" "gives reply_length (return 0x3E)" "gives reply_length (return 0x42)"
  "gives reply_length (return 0x45)" "gives reply_length (return 0x54)" "gives reply_length (return 0x55)"
  "gives reply_length (edfs_fail code)"
  by (simp_all add: gives_def reply_length_def edfs_fail_def case_prod_beta)

lemma read_length [gives_intros]: "gives reply_length (edfs_read off c len)"
proof -
  have "gives reply_length (return (0x3C + of_nat (length (take (unat len) bytes))))" if "\<not> 1450 < len" for bytes :: "u8 list"
  proof -
    have "length (take (unat len) bytes) \<le> 1450" using that by (simp add: not_less word_le_nat_alt)
    then show ?thesis by (intro gives_return) (simp add: reply_length_def unat_word_ariths unat_of_nat)
  qed
  then show ?thesis unfolding edfs_read_def Let_def by (intro gives_intros)
qed

lemma find_length [gives_intros]: "gives reply_length (edfs_find attrib pat clu tp)"
proof -
  have "gives reply_length (edfs_find_loop names pos attrib fcb path clu tp)" for names pos fcb path clu
    by (induction names arbitrary: pos) (simp only: edfs_find_loop.simps Let_def, intro gives_intros, assumption?)+
  then show ?thesis unfolding edfs_find_def by (intro gives_intros)
qed

lemma request_length [gives_intros]:
  "gives reply_length (edfs_open_stat p q c at ac)" "gives reply_length (edfs_open p at ac)"
  "gives reply_length (edfs_write off c bs)" "gives reply_length (edfs_rmdir p)" "gives reply_length (edfs_mkdir p)"
  "gives reply_length (edfs_chdir p)" "gives reply_length (edfs_rename p q)" "gives reply_length (edfs_delete p)"
  "gives reply_length (edfs_getattr p)"
  unfolding edfs_open_stat_def edfs_open_def edfs_write_def edfs_rmdir_def edfs_mkdir_def edfs_chdir_def
    edfs_rename_def edfs_delete_def edfs_getattr_def
  by (intro gives_intros)+

definition answer_length :: "u16 option \<Rightarrow> bool" where
  "answer_length answer \<longleftrightarrow> (case answer of None \<Rightarrow> True | Some n \<Rightarrow> reply_length n)"

lemma answer_lengths [gives_intros]:
  "gives answer_length (return None)" "gives answer_length (return (Some 0x42))"
  "gives reply_length m \<Longrightarrow> gives answer_length (answered m)"
  by (simp_all add: gives_def answer_length_def reply_length_def answered_def case_prod_beta)

lemma with_path_length [gives_intros]:
  "(\<And>path. gives answer_length (request path)) \<Longrightarrow> gives answer_length (with_path f n offset request)"
  unfolding with_path_def by (intro gives_intros)

lemma dispatch_length:
  fixes s :: "'a edfs_board_scheme"
  shows "answer_length (fst (run_state (edfs_dispatch func f len) s))"
proof -
  have "gives answer_length (edfs_dispatch func f len :: ('a edfs_board_scheme, u16 option) state)"
    unfolding edfs_dispatch_def Let_def by (intro gives_intros)
  then show ?thesis by (simp add: gives_def)
qed

text \<open>The frame that \<open>edfs_reply_frame\<close> makes of the data.\<close>

definition edfs_header :: "(nat \<Rightarrow> u8) \<Rightarrow> u16 \<Rightarrow> (nat \<Rightarrow> u8) \<Rightarrow> nat \<Rightarrow> u8" where
  "edfs_header tx_frame len f = frame_put 0x38 (map tx_frame [0x38, 0x39]) (frame_put 0x34 (le16_bytes len)
     (frame_put 0x0C (map tx_frame [0x0C, 0x0D]) (frame_put 0x06 (map tx_frame [0, 1, 2, 3, 4, 5])
       (frame_put 0 (map tx_frame [6, 7, 8, 9, 0x0A, 0x0B]) f))))"

lemma le16_word: "le16 f i = word16 (f i) (f (i + 1))"
  by (simp add: le16_def word16_def push_bit_eq_mult)

lemma run_reply_frame:
  fixes s :: "'a edfs_board_scheme" and tx_frame
  assumes "0x38 \<le> unat (rx_len (net s))" "unat (rx_len (net s)) \<le> NET_MTU"
  defines "g \<equiv> edfs_header tx_frame (rx_len (net s)) (rx_frame (net s))"
  defines "chk \<equiv> if drop_bit 7 (tx_frame 0x38) \<noteq> 0 then bsd_checksum (map g [0x38..<unat (rx_len (net s))]) else 0"
  shows "run_state (edfs_reply_frame tx_frame) s =
    ((), s\<lparr>net := (net s)\<lparr>rx_frame := frame_put 0x36 (le16_bytes chk) g, rx_ready := True\<rparr>\<rparr>)"
proof -
  have m: "0x3A \<le> NET_MTU" by (simp add: NET_MTU_def)
  have l: "length (le16_bytes w) = 2" for w by (simp add: le16_bytes_def)
  have i: "0 \<le> uint (rx_len (net s)) - 0x38" "0x38 + nat (uint (rx_len (net s)) - 0x38) = unat (rx_len (net s))"
    using assms(1) uint_nat [of "rx_len (net s)"] by linarith+
  show ?thesis
    using m assms(2) i by (simp add: edfs_reply_frame_def l g_def edfs_header_def chk_def del: upt_rec_numeral upt_Suc)
qed

lemma reply_of_answer:
  fixes s :: "'a edfs_board_scheme" and tx_frame tx_len
  defines "t \<equiv> snd (run_state (edfs_handle_packet tx_frame tx_len) s)"
  defines "f \<equiv> rx_frame (net t)" and "len \<equiv> rx_len (net t)"
  assumes "edfs_inited (edfs s)" "tx_frame 0x38 AND 0x7F = 2"
    "run_state (edfs_dispatch (tx_frame 0x3B) tx_frame tx_len) s = (Some n, u)"
  shows "wild t = wild u \<and> rx_ready (net t) \<and> 0x3C \<le> unat len \<and> unat len \<le> 0x5E6 \<and>
    frame_slice 0 6 f = frame_slice 6 6 tx_frame \<and> frame_slice 6 6 f = frame_slice 0 6 tx_frame \<and>
    frame_slice 0x38 2 f = frame_slice 0x38 2 tx_frame \<and> le16 f 0x34 = len \<and>
    le16 f 0x36 = (if drop_bit 7 (tx_frame 0x38) \<noteq> 0 then bsd_checksum (map f [0x38..<unat len]) else 0)"
proof -
  have n: "0x3C \<le> unat n" "unat n \<le> 0x5E6"
    using dispatch_length [of "tx_frame 0x3B" tx_frame tx_len s] assms(6)
    by (simp_all add: answer_length_def reply_length_def)
  define v where "v = u\<lparr>net := (net u)\<lparr>rx_len := n\<rparr>\<rparr>"
  have t: "t = snd (run_state (edfs_reply_frame tx_frame) v)"
    using assms(4-6) by (simp add: t_def edfs_handle_packet_def case_prod_beta Let_def v_def)
  have "0x38 \<le> unat (rx_len (net v))" "unat (rx_len (net v)) \<le> NET_MTU"
    using n by (simp_all add: v_def NET_MTU_def)
  then obtain g c where t: "net t = (net v)\<lparr>rx_frame := frame_put 0x36 (le16_bytes c) g, rx_ready := True\<rparr>"
    and w: "wild t = wild u"
    and g: "g = edfs_header tx_frame n (rx_frame (net v))"
    and c: "c = (if drop_bit 7 (tx_frame 0x38) \<noteq> 0 then bsd_checksum (map g [0x38..<unat n]) else 0)"
    using run_reply_frame [where s = v and tx_frame = tx_frame] by (simp add: v_def t)
  have l: "length (le16_bytes w) = 2" for w by (simp add: le16_bytes_def)
  have e: "map f [0x38..<unat n] = map g [0x38..<unat n]"
    by (rule map_cong [OF refl]) (simp add: f_def t l)
  have "le16 f 0x34 = n"
    by (simp add: f_def t g edfs_header_def le16_word l) (simp add: le16_bytes_def)
  moreover have "le16 f 0x36 = c"
    by (simp add: f_def t le16_word l) (simp add: le16_bytes_def)
  moreover have "frame_slice 0 6 f = frame_slice 6 6 tx_frame" "frame_slice 6 6 f = frame_slice 0 6 tx_frame"
    "frame_slice 0x38 2 f = frame_slice 0x38 2 tx_frame"
    by (simp_all add: f_def t g edfs_header_def frame_slice_def l upt_conv_Cons eval_nat_numeral)
  ultimately show ?thesis using n w c [folded e] by (simp add: len_def t v_def)
qed

subsection \<open>Well-formed requests\<close>

text \<open>What the host and the client have to keep to so that every access of a request is inside its buffer. The
  names in a directory have at most 255 bytes and no slash, as \<open>readdir\<close> promises; the paths of the table are
  short enough that a name fits behind them; and the frame, not longer than its buffer, reaches up to the path of
  the request, which is shorter than 260 bytes.\<close>

definition host_names_ok :: "'a edfs_board_scheme \<Rightarrow> bool" where
  "host_names_ok s \<longleftrightarrow>
    (\<forall>k. list_all (\<lambda>name. length name \<le> 255 \<and> chr_slash \<notin> set name) (fs_names (fs_results s k)))"

definition short_paths :: "edfs_t \<Rightarrow> bool" where
  "short_paths e \<longleftrightarrow> list_all (\<lambda>c. length (fst c) \<le> 246) (edfs_cluster e)"

definition path_at :: "nat \<Rightarrow> nat \<Rightarrow> bool" where
  "path_at offset n \<longleftrightarrow> offset \<le> n \<and> n \<le> NET_MTU \<and> n - offset < EDFS_PATH83_MAX"

definition request_ok :: "(nat \<Rightarrow> u8) \<Rightarrow> nat \<Rightarrow> bool" where
  "request_ok f n \<longleftrightarrow>
    (let func = f 0x3B in
     if func \<in> {EDFS_RMDIR, EDFS_MKDIR, EDFS_CHDIR, EDFS_GETATTR, EDFS_DELETE} then path_at 0x3C n
     else if func \<in> {EDFS_SETATTR, EDFS_FINDFIRST} then path_at 0x3D n
     else if func = EDFS_FINDNEXT then path_at 0x41 n
     else if func \<in> {EDFS_OPEN, EDFS_CREATE, EDFS_SPOPNFIL} then path_at 0x42 n
     else if func = EDFS_RENAME then path_at (0x3D + unat (f 0x3C)) n
     else if func = EDFS_WRITEFILE then 0x42 \<le> n \<and> n \<le> NET_MTU
     else True)"

text \<open>The 8.3 form is not longer than the path, and that of a name has at most twelve characters.\<close>

lemma path83_shrinks: "length (path83_loop p ext c8 c3) \<le> length p"
  by (induction p arbitrary: ext c8 c3) (simp_all add: le_SucI)

lemma path83_name:
  "chr_slash \<notin> set p \<Longrightarrow> length (path83_loop p ext c8 c3) \<le> (if ext then 3 - c3 else (8 - c8) + 4)"
proof (induction p arbitrary: ext c8 c3)
  case (Cons c p)
  then have c: "c \<noteq> chr_slash" "chr_slash \<notin> set p" by auto
  show ?case
    using c Cons.IH [OF c(2), of ext c8 "Suc c3"] Cons.IH [OF c(2), of True c8 c3]
      Cons.IH [OF c(2), of ext "Suc c8" c3] Cons.IH [OF c(2), of ext c8 c3]
    by (cases ext) (auto split: if_splits)
qed simp

lemma path83_join:
  "path83_loop (p @ chr_slash # q) ext c8 c3 = path83_loop p ext c8 c3 @ chr_backslash # path83_loop q False 0 0"
  by (induction p arbitrary: ext c8 c3) simp_all

lemma length_fcb: "length (fcb_loop p n ext out) = length out"
  by (induction p n ext out rule: fcb_loop.induct) (simp_all add: Let_def)

lemma length_filefcb [simp]: "length (path83_to_filefcb path) = 11"
  by (simp add: path83_to_filefcb_def length_fcb Let_def)

lemma fits_wild [frame_intros]: "length str < n \<Longrightarrow> preserves wild (fits n str)"
  by (simp add: fits_def preserves_def)

lemma rx_put_wild [frame_intros]: "pos + length bs \<le> NET_MTU \<Longrightarrow> preserves wild (rx_put pos bs)"
  by (simp add: rx_put_def preserves_def)

lemma edfs_state_wild [frame_intros]:
  "preserves wild (gete f)" "preserves wild (mode g)" "preserves wild (fs_syscall call)" "preserves wild (panic fm xs)"
  by (simp_all add: preserves_def panic_def fs_syscall_def)

lemma edfs_table_wild [frame_intros]:
  "length p < EDFS_PATH_MAX \<Longrightarrow> length q < EDFS_PATH83_MAX \<Longrightarrow> preserves wild (edfs_cluster_register p q)"
  "preserves wild (edfs_cluster_unregister p)"
  unfolding edfs_cluster_register_def edfs_cluster_unregister_def by (intro frame_intros; assumption)+

lemma edfs_result_wild [frame_intros]:
  "preserves wild (edfs_set_result code)" "preserves wild (edfs_fail code)"
  "length filefcb = 11 \<Longrightarrow> preserves wild (edfs_put_entry filefcb st clu)"
  unfolding edfs_set_result_def edfs_fail_def edfs_put_entry_def
  by (intro frame_intros; simp add: NET_MTU_def le16_bytes_def le32_bytes_def)+

lemma edfs_file_wild [frame_intros]:
  "preserves wild (edfs_touch p)" "preserves wild (edfs_open_stat q p c at ac)"
  "preserves wild (edfs_rmdir q)" "preserves wild (edfs_chdir q)" "preserves wild (edfs_delete q)"
  "preserves wild (edfs_getattr q)" "preserves wild (edfs_write off c bs)"
  unfolding edfs_touch_def edfs_open_stat_def edfs_rmdir_def edfs_chdir_def edfs_delete_def edfs_getattr_def
    edfs_write_def
  by (intro frame_intros; simp add: NET_MTU_def le16_bytes_def le32_bytes_def)+

lemma edfs_read_wild [frame_intros]: "preserves wild (edfs_read off c len)"
proof (cases "1450 < len")
  case True
  then show ?thesis unfolding edfs_read_def Let_def by (simp only: if_True) (intro frame_intros)
next
  case False
  then have "0x3C + length (take (unat len) bytes) \<le> NET_MTU" for bytes :: "u8 list"
    by (simp add: NET_MTU_def not_less word_le_nat_alt)
  with False show ?thesis unfolding edfs_read_def Let_def by (simp only: if_False) (intro frame_intros)
qed

text \<open>The directory loop.\<close>

lemma join_short:
  assumes "length path \<le> 246" "length name \<le> 255" "chr_slash \<notin> set name"
  shows "length (join_path path name) < EDFS_PATH_MAX"
    and "length (unixpath_to_path83 (join_path path name)) < EDFS_PATH83_MAX"
    and "length (unixpath_to_path83 name) < EDFS_PATH83_MAX"
proof -
  have j: "join_path path name = path @ chr_slash # name"
    using assms(1,2) by (simp add: join_path_def PATH_MAX_def)
  have n: "length (path83_loop name False 0 0) \<le> 12" using path83_name [OF assms(3), of False 0 0] by simp
  show "length (join_path path name) < EDFS_PATH_MAX" using assms(1,2) by (simp add: j EDFS_PATH_MAX_def)
  show "length (unixpath_to_path83 (join_path path name)) < EDFS_PATH83_MAX"
    using assms(1) n path83_shrinks [of path False 0 0]
    by (simp add: j unixpath_to_path83_def path83_join EDFS_PATH83_MAX_def)
  show "length (unixpath_to_path83 name) < EDFS_PATH83_MAX"
    using n by (simp add: unixpath_to_path83_def EDFS_PATH83_MAX_def)
qed

lemma edfs_find_loop_wild:
  assumes "length path \<le> 246" "list_all (\<lambda>name. length name \<le> 255 \<and> chr_slash \<notin> set name) names"
  shows "preserves wild (edfs_find_loop names pos attrib fcb path clu tp)"
  using assms(2)
proof (induction names arbitrary: pos)
  case Nil
  then show ?case unfolding edfs_find_loop.simps by (intro frame_intros)
next
  case (Cons name names)
  then have "length name \<le> 255" "chr_slash \<notin> set name" by simp_all
  note short = join_short [OF assms(1) this]
  have "list_all (\<lambda>name. length name \<le> 255 \<and> chr_slash \<notin> set name) names" using Cons.prems by simp
  note loop = Cons.IH [OF this]
  show ?case unfolding edfs_find_loop.simps Let_def
    by (intro frame_intros loop short; simp add: NET_MTU_def le16_bytes_def)
qed

text \<open>What a lookup finds is a path of the table.\<close>

lemma lookup_short:
  assumes "short_paths e"
  shows "edfs_cluster_lookup_83 q e = Some (p, c) \<Longrightarrow> length p \<le> 246"
    and "edfs_cluster_lookup c e = Some p \<Longrightarrow> length p \<le> 246"
proof -
  have "cluster_find q n tab = Some (p, c) \<Longrightarrow> list_all (\<lambda>c. length (fst c) \<le> 246) tab \<Longrightarrow> length p \<le> 246" for n tab
    by (induction tab arbitrary: n) (auto split: if_splits)
  then show "edfs_cluster_lookup_83 q e = Some (p, c) \<Longrightarrow> length p \<le> 246"
    using assms by (auto simp: edfs_cluster_lookup_83_def short_paths_def split: if_splits)
  show "edfs_cluster_lookup c e = Some p \<Longrightarrow> length p \<le> 246"
    using assms by (auto simp: edfs_cluster_lookup_def short_paths_def list_all_length split: if_splits)
qed

definition unixpath_of :: "cstr \<Rightarrow> edfs_t \<Rightarrow> cstr" where
  "unixpath_of path e = (case edfs_cluster_lookup_83 (path83_dirname path) e of
      Some (p, _) \<Rightarrow> p @ unixpath_chars (drop (length (path83_dirname path)) path)
    | None \<Rightarrow> unixpath_chars path)"

lemma length_unixpath_chars: "length (unixpath_chars p) \<le> length p"
  by (induction p) (simp_all add: unixpath_chars_def)

lemma unixpath_short:
  assumes "short_paths e" "length path < EDFS_PATH83_MAX"
  shows "length (unixpath_of path e) < EDFS_PATH_MAX"
proof -
  have "length (unixpath_chars (drop n path)) < EDFS_PATH83_MAX" for n
    using assms(2) length_unixpath_chars [of "drop n path"] by simp
  from this [of 0] this [of "length (path83_dirname path)"] show ?thesis
    using lookup_short(1) [OF assms(1)]
    by (auto simp: unixpath_of_def EDFS_PATH_MAX_def EDFS_PATH83_MAX_def split: option.split) fastforce
qed

lemma run_path83:
  assumes "short_paths (edfs s)" "length path < EDFS_PATH83_MAX"
  shows "run_state (path83_to_unixpath path) s = (unixpath_of path (edfs s), s)"
  using assms(2) unixpath_short [OF assms]
  by (simp add: path83_to_unixpath_def fits_def unixpath_of_def Let_def)

text \<open>No access of \<open>m\<close> is undefined when it runs from \<open>s\<close>.\<close>

definition quiet :: "'a edfs_board_scheme \<Rightarrow> ('a edfs_board_scheme, 'x) state \<Rightarrow> bool" where
  "quiet s m \<longleftrightarrow> wild (snd (run_state m s)) = wild s"

lemma quiet_always: "preserves wild m \<Longrightarrow> quiet s m"
  by (simp add: quiet_def preserves_def)

lemma quiet_gete: "quiet s (k (f (edfs s))) \<Longrightarrow> quiet s (gete f \<bind> k)"
  by (simp add: quiet_def)

lemma quiet_path83:
  "short_paths (edfs s) \<Longrightarrow> length path < EDFS_PATH83_MAX \<Longrightarrow> quiet s (k (unixpath_of path (edfs s))) \<Longrightarrow>
   quiet s (path83_to_unixpath path \<bind> k)"
  by (simp add: quiet_def run_path83)

lemma quiet_option:
  "(v = None \<Longrightarrow> quiet s m) \<Longrightarrow> (\<And>x. v = Some x \<Longrightarrow> quiet s (k x)) \<Longrightarrow> quiet s (case v of None \<Rightarrow> m | Some x \<Rightarrow> k x)"
  by (cases v) simp_all

lemma quiet_prod: "(\<And>x y. p = (x, y) \<Longrightarrow> quiet s (k x y)) \<Longrightarrow> quiet s (case p of (x, y) \<Rightarrow> k x y)"
  by (cases p) simp

lemma quiet_if: "(c \<Longrightarrow> quiet s m) \<Longrightarrow> (\<not> c \<Longrightarrow> quiet s n) \<Longrightarrow> quiet s (if c then m else n)"
  by simp

lemma requests_quiet:
  fixes s :: "'a edfs_board_scheme"
  assumes "short_paths (edfs s)" "length path < EDFS_PATH83_MAX"
  shows "quiet s (edfs_mkdir path)" and "quiet s (edfs_rename src path)" and "quiet s (edfs_open path at ac)"
  unfolding edfs_mkdir_def edfs_rename_def edfs_open_def
  by (intro quiet_gete quiet_path83 quiet_option quiet_prod quiet_if assms;
      intro quiet_always frame_intros unixpath_short assms)+

lemma find_quiet:
  fixes s :: "'a edfs_board_scheme"
  assumes "short_paths (edfs s)" "host_names_ok s" "tp = 0 \<Longrightarrow> length path < EDFS_PATH83_MAX"
  shows "quiet s (edfs_find attrib path clu tp)"
proof -
  have loop: "quiet s (do {
       root \<leftarrow> gete edfs_root;
       dh \<leftarrow> fs_syscall (Opendir (join_path root p));
       if fs_ok dh = False then edfs_fail EDFS_RESULT_PATH_NOT_FOUND
       else edfs_find_loop (fs_names dh) 0 attrib fcb p c tp
     })" if "length p \<le> 246" for p fcb c
    using assms(2)
    by (simp add: quiet_def host_names_ok_def edfs_find_loop_wild [OF that, THEN preservesD]
        edfs_result_wild(2) [THEN preservesD])
  show ?thesis
  proof (cases "tp = 0")
    case True
    then have f: "run_state (fits EDFS_PATH83_MAX path) s = ((), s)" using assms(3) by (simp add: fits_def)
    show ?thesis
      using loop lookup_short(1) [OF assms(1)] True f
      by (auto simp: edfs_find_def quiet_def edfs_result_wild(2) [THEN preservesD] split: option.split)
  next
    case False
    then show ?thesis
      using loop lookup_short(2) [OF assms(1)]
      by (auto simp: edfs_find_def quiet_def edfs_result_wild(2) [THEN preservesD] split: option.split)
  qed
qed

text \<open>The request is executed to its end, and no access is undefined.\<close>

definition executed :: "'a edfs_board_scheme \<Rightarrow> ('a edfs_board_scheme, u16 option) state \<Rightarrow> bool" where
  "executed s m \<longleftrightarrow> fst (run_state m s) \<noteq> None \<and> quiet s m"

lemma executed_run:
  assumes "executed s m"
  obtains n u where "run_state m s = (Some n, u)" "wild u = wild s"
  using assms by (cases "run_state m s") (auto simp: executed_def quiet_def)

lemma executed_answered: "quiet s m \<Longrightarrow> executed s (answered m)"
  by (simp add: executed_def quiet_def answered_def case_prod_beta)

lemma executed_if: "(c \<Longrightarrow> executed s m) \<Longrightarrow> (\<not> c \<Longrightarrow> executed s n) \<Longrightarrow> executed s (if c then m else n)"
  by simp

lemma executed_path:
  assumes "path_at offset n" "\<And>path. length path < EDFS_PATH83_MAX \<Longrightarrow> executed s (request path)"
  shows "executed s (with_path f n offset request)"
proof -
  define path where "path = takeWhile (\<lambda>c. c \<noteq> 0) (map f [offset..<n])"
  have "length path \<le> n - offset" using length_takeWhile_le [of _ "map f [offset..<n]"] by (simp add: path_def)
  then have "length path < EDFS_PATH83_MAX" using assms(1) by (simp add: path_at_def)
  moreover have "run_state (edfs_path f n offset) s = (Some path, s)"
    using assms(1) by (simp add: edfs_path_def path_at_def path_def PATH_MAX_def EDFS_PATH83_MAX_def)
  ultimately show ?thesis using assms(2) by (simp add: executed_def quiet_def with_path_def)
qed

lemma dispatch_executed:
  fixes s :: "'a edfs_board_scheme"
  assumes "short_paths (edfs s)" "host_names_ok s" "request_ok f (unat len)"
  shows "executed s (edfs_dispatch (f 0x3B) f len)"
proof -
  have src: "path_at 0x3D (61 + unat (f 0x3C))"
    using unsigned_less [where ?'a = nat, of "f 0x3C"] by (simp add: path_at_def NET_MTU_def EDFS_PATH83_MAX_def)
  have data: "executed s (edfs_write_data f len \<bind> (\<lambda>bytes. answered (edfs_write off c bytes)))"
    if "0x42 \<le> unat len" "unat len \<le> NET_MTU" for off c
  proof -
    have "0x42 + unat (len - 0x42) = unat len" using that(1) by (simp add: unat_sub word_le_nat_alt)
    then have "run_state (edfs_write_data f len) s = (map f [0x42..<unat len], s)"
      using that(2) by (simp add: edfs_write_data_def Let_def)
    then show ?thesis
      using executed_answered [OF quiet_always [OF edfs_file_wild(7)], of s]
      by (simp add: executed_def quiet_def)
  qed
  have space: "executed s (rx_put 0x3A [a, b, c, d, e, g, h, k] \<bind> (\<lambda>_. return (Some 0x42)))" for a b c d e g h k
    by (simp add: executed_def quiet_def rx_put_def NET_MTU_def)
  have plain: "executed s (answered (edfs_fail code))" "executed s (answered (edfs_read off c k))" for code off c k
    by (rule executed_answered, rule quiet_always, rule frame_intros)+
  have paths: "executed s (answered (edfs_rmdir p))" "executed s (answered (edfs_chdir p))"
    "executed s (answered (edfs_delete p))" "executed s (answered (edfs_getattr p))" for p
    by (rule executed_answered, rule quiet_always, rule frame_intros)+
  have short: "executed s (answered (edfs_mkdir p))" "executed s (answered (edfs_rename q p))"
    "executed s (answered (edfs_open p at ac))" "executed s (answered (edfs_find attrib p c tp))"
    if "length p < EDFS_PATH83_MAX" for p q at ac attrib c tp
    using that assms(1,2) requests_quiet find_quiet by (blast intro: executed_answered)+
  have other: "executed s (panic fm xs \<bind> (\<lambda>_. answered (edfs_fail code)))" for fm xs code
    by (simp add: executed_def quiet_def answered_def case_prod_beta edfs_result_wild(2) [THEN preservesD])
  note func = EDFS_RMDIR_def EDFS_MKDIR_def EDFS_CHDIR_def EDFS_GETATTR_def EDFS_DELETE_def EDFS_SETATTR_def
    EDFS_FINDFIRST_def EDFS_FINDNEXT_def EDFS_OPEN_def EDFS_CREATE_def EDFS_SPOPNFIL_def EDFS_RENAME_def
    EDFS_WRITEFILE_def EDFS_CLOSEFILE_def EDFS_READFILE_def EDFS_DISKSPACE_def
  show ?thesis
    unfolding edfs_dispatch_def Let_def
    by (intro executed_if executed_path src space other plain paths short data; (assumption | use assms(3) in \<open>simp add: request_ok_def func\<close>))
qed


text \<open>A request whose frame ends before its path is the undefined access that the hypothesis leaves out.\<close>

lemma short_frame_undefined:
  assumes "edfs_inited (edfs s)" "tx_frame 0x38 AND 0x7F = 2" "tx_frame 0x3B = EDFS_GETATTR" "unat tx_len < 0x3C"
  shows "wild (snd (run_state (edfs_handle_packet tx_frame tx_len) s))"
  using assms
  by (simp add: edfs_handle_packet_def edfs_dispatch_def with_path_def edfs_path_def EDFS_RMDIR_def EDFS_MKDIR_def
      EDFS_CHDIR_def EDFS_GETATTR_def EDFS_SETATTR_def EDFS_WRITEFILE_def EDFS_CLOSEFILE_def EDFS_READFILE_def
      EDFS_DISKSPACE_def)

subsection \<open>Times\<close>

lemma word_fields:
  assumes "0 \<le> n" "n < 65536"
  shows "uint (drop_bit k (word_of_int n :: u16)) = n div 2 ^ k"
    and "uint (drop_bit k (word_of_int n :: u16) AND mask m) = n div 2 ^ k mod 2 ^ m"
proof -
  have u: "uint (word_of_int n :: u16) = n" using assms by (simp add: uint_word_of_int)
  then show d: "uint (drop_bit k (word_of_int n :: u16)) = n div 2 ^ k"
    unfolding unsigned_drop_bit_eq u using assms by (simp add: drop_bit_eq_div take_bit_int_eq_self)
  show "uint (drop_bit k (word_of_int n :: u16) AND mask m) = n div 2 ^ k mod 2 ^ m"
    unfolding take_bit_eq_mask [symmetric] unsigned_take_bit_eq d by (simp add: take_bit_eq_mod)
qed

lemma field_split: "0 \<le> (a::int) \<Longrightarrow> a < p \<Longrightarrow> (a + p * x) mod p = a" "0 \<le> a \<Longrightarrow> a < p \<Longrightarrow> (a + p * x) div p = x"
  by simp_all

text \<open>C40. The DOS time and date of a file give its modification time back: hour, minute and the second rounded down to an
  even one; year, month and day.\<close>

theorem edfs_dos_time:
  assumes "0 \<le> tm_sec t" "tm_sec t < 62" "0 \<le> tm_min t" "tm_min t < 60" "0 \<le> tm_hour t" "tm_hour t < 24"
    "1 \<le> tm_mday t" "tm_mday t \<le> 31" "0 \<le> tm_mon t" "tm_mon t \<le> 11" "80 \<le> tm_year t" "tm_year t \<le> 207"
  shows "2 * uint (time_to_dos_time t AND 0x1F) = tm_sec t - tm_sec t mod 2 \<and>
    uint (drop_bit 5 (time_to_dos_time t) AND 0x3F) = tm_min t \<and> uint (drop_bit 11 (time_to_dos_time t)) = tm_hour t \<and>
    uint (time_to_dos_date t AND 0x1F) = tm_mday t \<and> uint (drop_bit 5 (time_to_dos_date t) AND 0xF) = tm_mon t + 1 \<and>
    uint (drop_bit 9 (time_to_dos_date t)) + 1980 = tm_year t + 1900"
proof -
  define h where "h = tm_sec t div 2"
  define n where "n = h + 32 * (tm_min t + 64 * tm_hour t)"
  define d where "d = tm_mday t + 32 * ((tm_mon t + 1) + 16 * (tm_year t - 80))"
  have w: "time_to_dos_time t = word_of_int n" "time_to_dos_date t = word_of_int d"
    by (simp_all add: time_to_dos_time_def time_to_dos_date_def Let_def push_bit_eq_mult h_def n_def d_def algebra_simps)
  have e: "0 \<le> h" "h < 31" using assms(1,2) unfolding h_def by linarith+
  have b: "0 \<le> n" "n < 65536" using assms(3-6) e unfolding n_def distrib_left by linarith+
  have c: "0 \<le> d" "d < 65536" using assms(7-12) unfolding d_def distrib_left right_diff_distrib by linarith+
  have n: "n mod 32 = h" "n div 32 = tm_min t + 64 * tm_hour t"
    unfolding n_def using e by (intro field_split; simp)+
  have n': "n div 32 mod 64 = tm_min t" "n div 32 div 64 = tm_hour t"
    unfolding n(2) using assms(3,4) by (intro field_split; simp)+
  have d: "d mod 32 = tm_mday t" "d div 32 = (tm_mon t + 1) + 16 * (tm_year t - 80)"
    unfolding d_def using assms(7,8) by (intro field_split; simp)+
  have d': "d div 32 mod 16 = tm_mon t + 1" "d div 32 div 16 = tm_year t - 80"
    unfolding d(2) using assms(9,10) by (intro field_split; simp)+
  have m: "(0x1F :: u16) = mask 5" "(0x3F :: u16) = mask 6" "(0xF :: u16) = mask 4"
    by (simp_all add: mask_eq_exp_minus_1)
  have q: "n div 2048 = n div 32 div 64" "d div 512 = d div 32 div 16" by (simp_all add: zdiv_zmult2_eq [symmetric])
  have s: "2 * h = tm_sec t - tm_sec t mod 2" by (simp add: h_def minus_mod_eq_mult_div)
  show ?thesis
    using word_fields(2) [OF b, where k = 0 and m = 5] word_fields(2) [OF b, where k = 5 and m = 6]
      word_fields(1) [OF b, where k = 11] word_fields(2) [OF c, where k = 0 and m = 5]
      word_fields(2) [OF c, where k = 5 and m = 4] word_fields(1) [OF c, where k = 9]
    unfolding w m by (simp add: q n(1) n' d(1) d' s)
qed

subsection \<open>Names\<close>

lemma path83_prefix:
  "path83_loop p ext c8 c3 = ys @ zs \<Longrightarrow> chr_backslash \<notin> set ys \<Longrightarrow> length ys \<le> (if ext then 3 - c3 else (8 - c8) + 4)"
proof (induction p ext c8 c3 arbitrary: ys rule: path83_loop.induct)
  case (2 c p ext c8 c3)
  show ?case
  proof (cases ys)
    case (Cons y ys')
    then show ?thesis using 2 by (fastforce split: if_splits)
  qed simp
qed simp

lemma path83_infix:
  "path83_loop p ext c8 c3 = xs @ ys @ zs \<Longrightarrow> chr_backslash \<notin> set ys \<Longrightarrow> length ys \<le> 12"
proof (induction p ext c8 c3 arbitrary: xs rule: path83_loop.induct)
  case (2 c p ext c8 c3)
  show ?case
  proof (cases xs)
    case Nil
    then have "length ys \<le> (if ext then 3 - c3 else (8 - c8) + 4)" using path83_prefix [of "c # p" ext c8 c3 ys zs] 2 by simp
    then show ?thesis by (simp split: if_splits)
  next
    case (Cons x xs')
    then show ?thesis using 2 by (auto split: if_splits)
  qed
qed simp

lemma toupper_char: "isprint c \<Longrightarrow> isprint (toupper c) \<and> toupper (toupper c) = toupper c"
  by (auto simp: isprint_def toupper_def word_le_nat_alt unat_sub_if_size word_size)

lemma path83_chars: "c \<in> set (path83_loop p ext c8 c3) \<Longrightarrow> isprint c \<and> toupper c = c"
proof (induction p ext c8 c3 rule: path83_loop.induct)
  case (2 d p ext c8 c3)
  have "isprint chr_dot \<and> toupper chr_dot = chr_dot" "isprint chr_backslash \<and> toupper chr_backslash = chr_backslash"
    by (simp_all add: isprint_def toupper_def chr_defs)
  then show ?case using 2 toupper_char [of d] by (auto split: if_splits)
qed simp

lemma upd_block: "n < length out \<Longrightarrow> take (Suc n) (out[n := c]) = take n out @ [c]"
  by (simp add: take_Suc_conv_app_nth)

lemma fcb_ext: "n + length ext \<le> 11 \<Longrightarrow> length out = 11 \<Longrightarrow> fcb_loop ext n True out = take n out @ ext @ drop (n + length ext) out"
proof (induction ext arbitrary: n out)
  case (Cons c ext)
  then have n: "n < 11" by simp
  show ?case
  proof (cases "n = 10")
    case True
    then have "ext = []" using Cons.prems by simp
    then show ?thesis using True Cons.prems by (simp add: upd_conv_take_nth_drop)
  next
    case False
    then show ?thesis
      using Cons n by (simp add: Let_def upd_block drop_update_cancel)
  qed
qed simp

lemma fcb_base:
  "chr_dot \<notin> set base \<Longrightarrow> n + length base \<le> 8 \<Longrightarrow> length out = 11 \<Longrightarrow>
   fcb_loop (base @ rest) n False out = fcb_loop rest (n + length base) False (take n out @ base @ drop (n + length base) out)"
proof (induction base arbitrary: n out)
  case (Cons c base)
  then have "c \<noteq> chr_dot" by auto
  then show ?case using Cons by (simp add: Let_def upd_block drop_update_cancel)
qed simp

text \<open>A file name in 8.3 form is what a directory entry of DOS holds: for a path in a directory, the base of at most
  eight characters and the extension of at most three, each filled up with spaces.\<close>

theorem edfs_directory_entry:
  assumes "chr_dot \<notin> set base" "chr_backslash \<notin> set base" "chr_backslash \<notin> set ext" "length base \<le> 8" "length ext \<le> 3"
  shows "path83_to_filefcb (dir @ [chr_backslash] @ base @ [chr_dot] @ ext) =
    base @ replicate (8 - length base) chr_space @ ext @ replicate (3 - length ext) chr_space"
proof -
  define name where "name = base @ [chr_dot] @ ext"
  have bs: "chr_backslash \<notin> set name" using assms(2,3) by (auto simp: name_def chr_defs)
  then have a: "after_last chr_backslash (dir @ [chr_backslash] @ name) = name"
    by (simp add: after_last_def) (metis (mono_tags, lifting) append_Nil2 rev_rev_ident set_rev takeWhile_append2 takeWhile.simps(2))
  have "path83_to_filefcb (dir @ [chr_backslash] @ name) = fcb_loop name 0 False (replicate 11 chr_space)"
    using a by (auto simp: path83_to_filefcb_def Let_def chr_defs Cons_eq_append_conv append_eq_Cons_conv)
  also have "\<dots> = fcb_loop ([chr_dot] @ ext) (length base) False (base @ replicate (11 - length base) chr_space)"
    using fcb_base [OF assms(1), of 0 "replicate 11 chr_space" "[chr_dot] @ ext"] assms(4) by (simp add: name_def)
  also have "\<dots> = take 8 (base @ replicate (11 - length base) chr_space) @ ext @ drop (8 + length ext) (base @ replicate (11 - length base) chr_space)"
    using fcb_ext [of 8 ext "base @ replicate (11 - length base) chr_space"] assms(4,5) by simp
  also have "\<dots> = base @ replicate (8 - length base) chr_space @ ext @ replicate (3 - length ext) chr_space"
    using assms(4,5) by (simp add: min_def)
  finally show ?thesis by (simp only: name_def)
qed

text \<open>C39. Whatever the name of a file on the host, its 8.3 form consists of printable characters, none of them a small
  letter, and has at most twelve of them between two backslashes.\<close>

theorem edfs_83_names:
  assumes "unixpath_to_path83 path = before @ name @ after" "chr_backslash \<notin> set name"
  shows "length name \<le> 12 \<and> list_all (\<lambda>c. isprint c \<and> toupper c = c) name"
proof -
  have "length name \<le> 12" using path83_infix assms unfolding unixpath_to_path83_def by blast
  moreover have "isprint c \<and> toupper c = c" if "c \<in> set name" for c
    using path83_chars [of c path False 0 0] assms(1) that unfolding unixpath_to_path83_def by simp
  ultimately show ?thesis by (simp add: list_all_iff)
qed

subsection \<open>A served directory\<close>

text \<open>The client asks for the attributes of \<open>A.TXT\<close>, with a checksum, in version 2 of the protocol.\<close>

definition demo_edfs :: edfs_t where
  "demo_edfs = \<lparr>edfs_inited = True, edfs_root = [0x2E], edfs_cluster = [([], []), ([0x61], [0x41])]\<rparr>"

definition demo_request :: "nat \<Rightarrow> u8" where
  "demo_request i = (if i = 0x38 then 0x82 else if i = 0x3B then EDFS_GETATTR else if i = 0x3C then 0x41 else 0)"

definition demo_served :: edfs_board where
  "demo_served = net_board.extend (net_start 3) (edfs_board.fields demo_edfs []
     (\<lambda>_. \<lparr>fs_ok = True, fs_names = [], fs_kind = Fs_regular, fs_mtime = \<lparr>tm_sec = 1, tm_min = 2, tm_hour = 3,
        tm_mday = 4, tm_mon = 5, tm_year = 99, tm_wday = 0\<rparr>, fs_size = 6, fs_data = [], fs_count = 0\<rparr>))"

lemma demo_served_edfs [simp]: "edfs demo_served = demo_edfs"
  by (simp add: demo_served_def edfs_board.defs net_board.defs)

lemma demo_not_wild: "\<not> wild demo_served"
  by (simp add: demo_served_def net_start_def edfs_board.defs net_board.defs uart_power_on_def uart_board.defs
      disk_board.defs floppy_board.defs floppy_power_on_def)

lemma demo_conditions:
  "demo_request 0x38 AND 0x7F = 2" "request_ok demo_request (unat (0x3D :: u16))"
  "short_paths (edfs demo_served)" "host_names_ok demo_served"
  by (simp_all add: demo_request_def request_ok_def path_at_def EDFS_RMDIR_def EDFS_MKDIR_def EDFS_CHDIR_def
      EDFS_GETATTR_def NET_MTU_def EDFS_PATH83_MAX_def short_paths_def demo_edfs_def host_names_ok_def)
    (simp add: demo_served_def edfs_board.defs net_board.defs)

lemma demo_quiet: "wild (snd (run_state (edfs_handle_packet demo_request 0x3D) demo_served)) = wild demo_served"
proof -
  obtain n u where d: "run_state (edfs_dispatch (demo_request 0x3B) demo_request 0x3D) demo_served = (Some n, u)"
    "wild u = wild demo_served"
    by (rule executed_run [OF dispatch_executed [OF demo_conditions(3,4,2)]])
  show ?thesis using reply_of_answer [OF _ demo_conditions(1) d(1)] d(2) by (simp add: demo_edfs_def)
qed

theorem edfs_clusters_stable_witness:
  "edfs_cluster_lookup 1 (edfs (snd (run_state (for_each [(demo_request, 0x3D)]
     (\<lambda>p. edfs_handle_packet (fst p) (snd p))) demo_served))) \<in> {Some [0x61], Some []}"
proof -
  have w: "\<not> wild (snd (run_state (for_each [(demo_request, 0x3D)] (\<lambda>p. edfs_handle_packet (fst p) (snd p))) demo_served))"
    by (simp add: demo_quiet demo_not_wild)
  have ok: "table_ok (edfs demo_served)"
    by (auto simp: table_ok_def demo_edfs_def EDFS_CLUSTER_MAX_def EDFS_PATH_MAX_def EDFS_PATH83_MAX_def less_Suc_eq)
  have l: "edfs_cluster_lookup 1 (edfs demo_served) = Some [0x61]"
    by (simp add: edfs_cluster_lookup_def demo_edfs_def EDFS_CLUSTER_MAX_def)
  show ?thesis using edfs_clusters_stable [OF ok w l] by blast
qed


theorem edfs_dos_time_witness:
  "uint (drop_bit 11 (time_to_dos_time (fs_mtime (fs_results demo_served 0)))) = 3"
  by (subst edfs_dos_time [THEN conjunct2, THEN conjunct2, THEN conjunct1])
    (simp_all add: demo_served_def edfs_board.defs net_board.defs)

theorem edfs_directory_entry_witness:
  "path83_to_filefcb [0x44, 0x5C, 0x41, 0x2E, 0x43] = [0x41] @ replicate 7 0x20 @ [0x43] @ replicate 2 0x20"
  using edfs_directory_entry [of "[0x41]" "[0x43]" "[0x44]"] by (simp add: chr_defs)

theorem edfs_83_names_witness:
  "length [0x41, 0x42, 0x2E, 0x54, 0x45, 0x58 :: u8] \<le> 12"
  by (rule edfs_83_names [where path = "[0x64, 0x2F, 0x61, 0x62, 0x2E, 0x74, 0x65, 0x78, 0x74]" and before = "[0x44, 0x5C]"
      and after = "[]", THEN conjunct1])
    (simp_all add: unixpath_to_path83_def chr_defs isprint_def toupper_def)

end
