(* ===== verification/Trace_Log.thy ===== *)
theory Trace_Log
  imports Debugger
begin

text \<open>
  The trace buffers the debugger prints: i8088_trace.c, and the buffer of lines that each of fdc9268.c,
  xthdc.c, i8250.c, dp8390.c, net.c and edfs.c keeps in the same way. A buffer is an array with the index of
  the next entry; \<open>trace_ring\<close> is what the dumps rely on: seen from that index on, it holds the latest
  entries in order. The components write to the buffers and never read them, so that their models leave the
  calls out; a line is here the text \<open>vsnprintf\<close> makes. A line is printed as the format of \<open>fprintf\<close>: with a
  percent sign in it the result is undefined, here \<open>None\<close>.
\<close>

subsection \<open>The contract of a ring of entries\<close>

locale trace_ring =
  fixes ok :: "'l \<Rightarrow> bool" and view :: "'l \<Rightarrow> 'e list" and add :: "'e \<Rightarrow> 'l \<Rightarrow> 'l" and places :: nat
  assumes places_view: "ok l \<Longrightarrow> length (view l) = places"
    and ok_add: "ok l \<Longrightarrow> ok (add e l)"
    and view_add: "ok l \<Longrightarrow> view (add e l) = tl (view l) @ [e]"
begin

lemma ok_adds: "ok l \<Longrightarrow> ok (fold add entries l)"
  by (induction entries arbitrary: l) (simp_all add: ok_add)

lemma view_adds:
  "ok l \<Longrightarrow> 0 < places \<Longrightarrow> view (fold add entries l) = drop (length entries) (view l @ entries)"
proof (induction entries arbitrary: l)
  case Nil
  then show ?case by simp
next
  case (Cons x xs)
  then have "view l \<noteq> []" using places_view by fastforce
  then show ?case using Cons by (cases "view l") (simp_all add: ok_add view_add del: drop_append)
qed

text \<open>Once the ring is full, it holds the last entries; until then, what it held first is before them.\<close>

lemma view_last:
  assumes "ok l" and "0 < places"
  shows "view (fold add entries l) =
    drop (length entries) (view l) @ drop (length entries - places) entries"
  using view_adds [OF assms] places_view [OF assms(1)] by simp

end

subsection \<open>Lines of text\<close>

record text_log =
  log_lines :: "nat \<Rightarrow> string"
  log_n :: nat

definition log_init :: text_log where
  "log_init = \<lparr>log_lines = (\<lambda>_. ''''), log_n = 0\<rparr>"

definition log_put :: "nat \<Rightarrow> string \<Rightarrow> text_log \<Rightarrow> text_log" where
  "log_put places line l = l\<lparr>log_lines := (log_lines l)(log_n l := line),
     log_n := (if log_n l + 1 \<ge> places then 0 else log_n l + 1)\<rparr>"

definition log_add :: "nat \<Rightarrow> nat \<Rightarrow> string \<Rightarrow> text_log \<Rightarrow> text_log" where
  "log_add places width line = log_put places (take (width - 1) line)"

definition log_view :: "nat \<Rightarrow> text_log \<Rightarrow> string list" where
  "log_view places l = map (log_lines l) ([log_n l..<places] @ [0..<log_n l])"

definition printed :: "string list \<Rightarrow> string option" where
  "printed lines = (if CHR ''%'' \<in> set (concat lines) then None else Some (concat lines))"

definition log_dump :: "nat \<Rightarrow> text_log \<Rightarrow> string option" where
  "log_dump places l = printed (filter (\<lambda>line. line \<noteq> '''') (log_view places l))"

definition log_ok :: "nat \<Rightarrow> text_log \<Rightarrow> bool" where
  "log_ok places l \<longleftrightarrow> log_n l < places"

lemma ring_view:
  fixes f :: "nat \<Rightarrow> 'e"
  assumes "n < places"
  shows "map (f(n := e)) ((if n + 1 \<ge> places then [0..<places] else [n + 1..<places] @ [0..<n + 1])) =
    tl (map f ([n..<places] @ [0..<n])) @ [e]"
proof -
  have u: "[n..<places] = n # [Suc n..<places]" using assms by (rule upt_conv_Cons)
  show ?thesis
  proof (cases "n + 1 \<ge> places")
    case True
    then have "places = Suc n" using assms by simp
    then show ?thesis by simp
  next
    case False
    then show ?thesis by (simp add: u)
  qed
qed

lemma text_ring: "trace_ring (log_ok places) (log_view places) (log_put places) places"
proof
  show "length (log_view places l) = places" if "log_ok places l" for l
    using that by (simp add: log_view_def log_ok_def)
  show "log_ok places (log_put places e l)" if "log_ok places l" for e l
    using that by (simp add: log_ok_def log_put_def)
  show "log_view places (log_put places e l) = tl (log_view places l) @ [e]" if "log_ok places l" for e l
    using ring_view [of "log_n l" places "log_lines l" e] that
    by (auto simp: log_view_def log_put_def log_ok_def split: if_splits)
qed

text \<open>The buffers of the components.\<close>

definition FDC_TRACE_BUFFER_SIZE :: nat where "FDC_TRACE_BUFFER_SIZE = 256"
definition FDC_TRACE_MAX :: nat where "FDC_TRACE_MAX = 80"
definition XTHDC_TRACE_BUFFER_SIZE :: nat where "XTHDC_TRACE_BUFFER_SIZE = 256"
definition XTHDC_TRACE_MAX :: nat where "XTHDC_TRACE_MAX = 80"
definition I8250_TRACE_BUFFER_SIZE :: nat where "I8250_TRACE_BUFFER_SIZE = 256"
definition I8250_TRACE_MAX :: nat where "I8250_TRACE_MAX = 80"
definition DP8390_TRACE_BUFFER_SIZE :: nat where "DP8390_TRACE_BUFFER_SIZE = 2048"
definition DP8390_TRACE_MAX :: nat where "DP8390_TRACE_MAX = 80"
definition NET_TRACE_BUFFER_SIZE :: nat where "NET_TRACE_BUFFER_SIZE = 256"
definition NET_TRACE_MAX :: nat where "NET_TRACE_MAX = 80"
definition EDFS_TRACE_BUFFER_SIZE :: nat where "EDFS_TRACE_BUFFER_SIZE = 2048"
definition EDFS_TRACE_MAX :: nat where "EDFS_TRACE_MAX = 256"

definition fdc_trace :: "string \<Rightarrow> text_log \<Rightarrow> text_log" where
  "fdc_trace = log_add FDC_TRACE_BUFFER_SIZE FDC_TRACE_MAX"
definition fdc9268_trace_dump :: "text_log \<Rightarrow> string option" where
  "fdc9268_trace_dump = log_dump FDC_TRACE_BUFFER_SIZE"
definition xthdc_trace :: "string \<Rightarrow> text_log \<Rightarrow> text_log" where
  "xthdc_trace = log_add XTHDC_TRACE_BUFFER_SIZE XTHDC_TRACE_MAX"
definition xthdc_trace_dump :: "text_log \<Rightarrow> string option" where
  "xthdc_trace_dump = log_dump XTHDC_TRACE_BUFFER_SIZE"
definition i8250_trace :: "string \<Rightarrow> text_log \<Rightarrow> text_log" where
  "i8250_trace = log_add I8250_TRACE_BUFFER_SIZE I8250_TRACE_MAX"
definition i8250_trace_dump :: "text_log \<Rightarrow> string option" where
  "i8250_trace_dump = log_dump I8250_TRACE_BUFFER_SIZE"
definition dp8390_trace :: "string \<Rightarrow> text_log \<Rightarrow> text_log" where
  "dp8390_trace = log_add DP8390_TRACE_BUFFER_SIZE DP8390_TRACE_MAX"
definition dp8390_trace_dump :: "text_log \<Rightarrow> string option" where
  "dp8390_trace_dump = log_dump DP8390_TRACE_BUFFER_SIZE"
definition net_trace :: "string \<Rightarrow> text_log \<Rightarrow> text_log" where
  "net_trace = log_add NET_TRACE_BUFFER_SIZE NET_TRACE_MAX"
definition net_trace_dump :: "text_log \<Rightarrow> string option" where
  "net_trace_dump = log_dump NET_TRACE_BUFFER_SIZE"
definition edfs_trace :: "string \<Rightarrow> text_log \<Rightarrow> text_log" where
  "edfs_trace = log_add EDFS_TRACE_BUFFER_SIZE EDFS_TRACE_MAX"
definition edfs_trace_dump :: "text_log \<Rightarrow> string option" where
  "edfs_trace_dump = log_dump EDFS_TRACE_BUFFER_SIZE"

interpretation lines: trace_ring "log_ok places" "log_view places" "log_put places" places for places
  by (rule text_ring)

lemma log_adds: "fold (log_add places width) ls l = fold (log_put places) (map (take (width - 1)) ls) l"
  by (induction ls arbitrary: l) (simp_all add: log_add_def)

lemma log_init_view: "log_ok places log_init \<longleftrightarrow> 0 < places" "log_view places log_init = replicate places ''''"
  by (simp_all add: log_ok_def log_init_def log_view_def map_replicate_const)

lemma filter_nonempty: "concat (filter (\<lambda>l. l \<noteq> []) ls) = concat ls"
  by (induction ls) auto

lemma log_dump_view: "log_dump places l = printed (log_view places l)"
  by (simp add: log_dump_def printed_def filter_nonempty)

text \<open>A dump prints the last lines in the order in which they were written, each cut to the width of the
  buffer, as long as no line has a percent sign.\<close>

lemma log_dump_last:
  assumes "0 < places"
  shows "log_dump places (fold (log_add places width) entries log_init) =
    printed (drop (length entries - places) (map (take (width - 1)) entries))"
  using assms by (simp add: log_dump_view log_adds lines.view_last log_init_view printed_def drop_map)

end
