(* ===== verification/Cpu_Trace.thy ===== *)
theory Cpu_Trace
  imports Trace_Log Cpu_Data
begin

unbundle bit_operations_syntax

text \<open>
  i8088_trace.c: the trace of the executed instructions and of the interrupts. The functions that record a part
  of an instruction write to the entry \<open>trace_buffer[trace_buffer_n]\<close>; they are here functions on that
  entry, and \<open>on_entry\<close> applies them. A buffer of characters is the text up to its end; what \<open>i8088.c\<close>
  passes is shorter than the buffer it is copied to. The text of an operand, which the code gives as a format
  with its arguments, is the formatted text. The dump prints every instruction with the registers before it.
\<close>

subsection \<open>State\<close>

definition I8088_TRACE_BUFFER_SIZE :: nat where "I8088_TRACE_BUFFER_SIZE = 512"
definition I8088_TRACE_MC_MAX :: nat where "I8088_TRACE_MC_MAX = 8"
definition I8088_TRACE_OP_PREFIX_MAX :: nat where "I8088_TRACE_OP_PREFIX_MAX = 8"
definition I8088_TRACE_OP_SEG_MAX :: nat where "I8088_TRACE_OP_SEG_MAX = 3"
definition I8088_TRACE_OP_MNEMONIC_MAX :: nat where "I8088_TRACE_OP_MNEMONIC_MAX = 8"
definition I8088_TRACE_OP_DST_MAX :: nat where "I8088_TRACE_OP_DST_MAX = 16"
definition I8088_TRACE_OP_SRC_MAX :: nat where "I8088_TRACE_OP_SRC_MAX = 16"
definition I8088_TRACE_INT_BUFFER_SIZE :: nat where "I8088_TRACE_INT_BUFFER_SIZE = 256"
definition I8088_TRACE_INT_MAX :: nat where "I8088_TRACE_INT_MAX = 80"

record i8088_trace_t =
  trace_cpu :: i8088
  trace_code :: "u8 list"
  mc_n :: nat
  op_prefix :: string
  op_seg_override :: string
  op_seg_default :: string
  op_mnemonic :: string
  op_dst :: string
  op_src :: string
  op_dst_eaddr :: bool
  op_src_eaddr :: bool
  op_disp :: u16
  op_disp_used :: bool
  op_bit_size :: nat

record i8088_trace =
  trace_buffer :: "nat \<Rightarrow> i8088_trace_t"
  trace_buffer_n :: nat
  trace_int_log :: text_log

definition trace_zero_cpu :: i8088 where
  "trace_zero_cpu = \<lparr>es = 0, cs = 0, ss = 0, ds = 0, ip = 0, sp = 0, bp = 0, si = 0, di = 0, ax = 0, bx = 0,
     cx = 0, dx = 0, flags = 0, segment_override = SEGMENT_NONE, repeat_mode = REPEAT_NONE, halt = False\<rparr>"

definition trace_zero :: i8088_trace_t where
  "trace_zero = \<lparr>trace_cpu = trace_zero_cpu, trace_code = replicate I8088_TRACE_MC_MAX 0, mc_n = 0,
     op_prefix = '''', op_seg_override = '''', op_seg_default = '''', op_mnemonic = '''', op_dst = '''', op_src = '''',
     op_dst_eaddr = False, op_src_eaddr = False, op_disp = 0, op_disp_used = False, op_bit_size = 0\<rparr>"

definition i8088_trace_init :: i8088_trace where
  "i8088_trace_init = \<lparr>trace_buffer = (\<lambda>_. trace_zero), trace_buffer_n = 0, trace_int_log = log_init\<rparr>"

subsection \<open>Recording\<close>

text \<open>The start of an instruction leaves the default segment and the displacement of the entry that is replaced.\<close>

definition i8088_trace_start :: "i8088 \<Rightarrow> i8088_trace_t \<Rightarrow> i8088_trace_t" where
  "i8088_trace_start r t = t\<lparr>trace_cpu := r, mc_n := 0, op_prefix := '''', op_seg_override := '''',
     op_mnemonic := '''', op_dst := '''', op_src := '''', op_dst_eaddr := False, op_src_eaddr := False,
     op_disp_used := False, op_bit_size := 0\<rparr>"

definition i8088_trace_mc :: "u8 \<Rightarrow> i8088_trace_t \<Rightarrow> i8088_trace_t" where
  "i8088_trace_mc b t = t\<lparr>trace_code := (trace_code t)[mc_n t := b],
     mc_n := (if mc_n t + 1 \<ge> I8088_TRACE_MC_MAX then 0 else mc_n t + 1)\<rparr>"

definition i8088_trace_op_prefix :: "string \<Rightarrow> i8088_trace_t \<Rightarrow> i8088_trace_t" where
  "i8088_trace_op_prefix name t = t\<lparr>op_prefix := take I8088_TRACE_OP_PREFIX_MAX name\<rparr>"

definition i8088_trace_op_seg_override :: "string \<Rightarrow> i8088_trace_t \<Rightarrow> i8088_trace_t" where
  "i8088_trace_op_seg_override name t = t\<lparr>op_seg_override := take I8088_TRACE_OP_SEG_MAX name\<rparr>"

definition i8088_trace_op_seg_default :: "string \<Rightarrow> i8088_trace_t \<Rightarrow> i8088_trace_t" where
  "i8088_trace_op_seg_default name t = t\<lparr>op_seg_default := take I8088_TRACE_OP_SEG_MAX name\<rparr>"

definition i8088_trace_op_mnemonic :: "string \<Rightarrow> i8088_trace_t \<Rightarrow> i8088_trace_t" where
  "i8088_trace_op_mnemonic name t = t\<lparr>op_mnemonic := take I8088_TRACE_OP_MNEMONIC_MAX name\<rparr>"

definition i8088_trace_op_dst :: "bool \<Rightarrow> string \<Rightarrow> i8088_trace_t \<Rightarrow> i8088_trace_t" where
  "i8088_trace_op_dst eaddr name t =
    t\<lparr>op_dst_eaddr := eaddr, op_dst := take (I8088_TRACE_OP_DST_MAX - 1) name\<rparr>"

definition i8088_trace_op_src :: "bool \<Rightarrow> string \<Rightarrow> i8088_trace_t \<Rightarrow> i8088_trace_t" where
  "i8088_trace_op_src eaddr name t =
    t\<lparr>op_src_eaddr := eaddr, op_src := take (I8088_TRACE_OP_SRC_MAX - 1) name\<rparr>"

definition i8088_trace_op_disp :: "u16 \<Rightarrow> i8088_trace_t \<Rightarrow> i8088_trace_t" where
  "i8088_trace_op_disp disp t = t\<lparr>op_disp := disp, op_disp_used := True\<rparr>"

definition i8088_trace_op_bit_size :: "nat \<Rightarrow> i8088_trace_t \<Rightarrow> i8088_trace_t" where
  "i8088_trace_op_bit_size bits t = t\<lparr>op_bit_size := bits\<rparr>"

text \<open>The names of the registers, which the code writes twice.\<close>

definition trace_reg_name :: "nat \<Rightarrow> u8 \<Rightarrow> string option" where
  "trace_reg_name bits n =
    (if bits = 8 then
       if n = REG8_AL then Some ''al'' else if n = REG8_CL then Some ''cl''
       else if n = REG8_DL then Some ''dl'' else if n = REG8_BL then Some ''bl''
       else if n = REG8_AH then Some ''ah'' else if n = REG8_CH then Some ''ch''
       else if n = REG8_DH then Some ''dh'' else if n = REG8_BH then Some ''bh'' else None
     else if bits = 16 then
       if n = REG16_AX then Some ''ax'' else if n = REG16_CX then Some ''cx''
       else if n = REG16_DX then Some ''dx'' else if n = REG16_BX then Some ''bx''
       else if n = REG16_SP then Some ''sp'' else if n = REG16_BP then Some ''bp''
       else if n = REG16_SI then Some ''si'' else if n = REG16_DI then Some ''di'' else None
     else None)"

definition trace_memory :: "string \<Rightarrow> string \<Rightarrow> i8088_trace_t \<Rightarrow> i8088_trace_t" where
  "trace_memory name segment t = i8088_trace_op_seg_default segment (i8088_trace_op_dst True name t)"

definition i8088_trace_op_dst_modrm_rm :: "u8 \<Rightarrow> nat \<Rightarrow> i8088_trace_t \<Rightarrow> i8088_trace_t" where
  "i8088_trace_op_dst_modrm_rm modrm bits t =
    (case if modrm_mod modrm = MOD_REGISTER then trace_reg_name bits (modrm_rm modrm) else None of
       Some name \<Rightarrow> i8088_trace_op_dst False name t
     | None \<Rightarrow>
       (let rm = modrm_rm modrm in
        if rm = EADDR_BX_SI then trace_memory ''bx+si'' ''ds'' t
        else if rm = EADDR_BX_DI then trace_memory ''bx+di'' ''ds'' t
        else if rm = EADDR_BP_SI then trace_memory ''bp+si'' ''ss'' t
        else if rm = EADDR_BP_DI then trace_memory ''bp+di'' ''ss'' t
        else if rm = EADDR_SI then trace_memory ''si'' ''ds'' t
        else if rm = EADDR_DI then trace_memory ''di'' ''ds'' t
        else if rm = EADDR_BP then
          if modrm_mod modrm = MOD_DISP_ZERO then trace_memory '''' ''ds'' t else trace_memory ''bp'' ''ss'' t
        else if rm = EADDR_BX then trace_memory ''bx'' ''ds'' t
        else t))"

definition i8088_trace_op_dst_modrm_reg :: "u8 \<Rightarrow> nat \<Rightarrow> i8088_trace_t \<Rightarrow> i8088_trace_t" where
  "i8088_trace_op_dst_modrm_reg modrm bits t =
    (case trace_reg_name bits (modrm_reg modrm) of Some name \<Rightarrow> i8088_trace_op_dst False name t | None \<Rightarrow> t)"

definition on_entry :: "(i8088_trace_t \<Rightarrow> i8088_trace_t) \<Rightarrow> i8088_trace \<Rightarrow> i8088_trace" where
  "on_entry f s = s\<lparr>trace_buffer := (trace_buffer s)(trace_buffer_n s := f (trace_buffer s (trace_buffer_n s)))\<rparr>"

definition i8088_trace_end :: "i8088_trace \<Rightarrow> i8088_trace" where
  "i8088_trace_end s = s\<lparr>trace_buffer_n :=
    (if trace_buffer_n s + 1 \<ge> I8088_TRACE_BUFFER_SIZE then 0 else trace_buffer_n s + 1)\<rparr>"

definition i8088_trace_int :: "u8 \<Rightarrow> i8088 \<Rightarrow> i8088_trace \<Rightarrow> i8088_trace" where
  "i8088_trace_int int_no r s = s\<lparr>trace_int_log := log_add I8088_TRACE_INT_BUFFER_SIZE I8088_TRACE_INT_MAX
    (''int'' @ format_hex 2 (unat int_no) @ '' : ax='' @ format_hex 4 (unat (ax r)) @
     '' bx='' @ format_hex 4 (unat (bx r)) @ '' cx='' @ format_hex 4 (unat (cx r)) @
     '' dx='' @ format_hex 4 (unat (dx r)) @ '' si='' @ format_hex 4 (unat (si r)) @
     '' di='' @ format_hex 4 (unat (di r)) @ '' cs:ip='' @ format_hex 4 (unat (cs r)) @
     '':'' @ format_hex 4 (unat (ip r)) @ [newline]) (trace_int_log s)\<rparr>"

text \<open>The calls that \<open>i8088_execute\<close> makes for one instruction, between the start and the end of it.\<close>

datatype trace_call = Trace_mc u8 | Trace_prefix string | Trace_seg_override string | Trace_seg_default string |
  Trace_mnemonic string | Trace_dst bool string | Trace_src bool string | Trace_disp u16 | Trace_bit_size nat |
  Trace_dst_rm u8 nat | Trace_dst_reg u8 nat

fun run_trace_call :: "trace_call \<Rightarrow> i8088_trace_t \<Rightarrow> i8088_trace_t" where
  "run_trace_call (Trace_mc b) = i8088_trace_mc b"
| "run_trace_call (Trace_prefix name) = i8088_trace_op_prefix name"
| "run_trace_call (Trace_seg_override name) = i8088_trace_op_seg_override name"
| "run_trace_call (Trace_seg_default name) = i8088_trace_op_seg_default name"
| "run_trace_call (Trace_mnemonic name) = i8088_trace_op_mnemonic name"
| "run_trace_call (Trace_dst eaddr name) = i8088_trace_op_dst eaddr name"
| "run_trace_call (Trace_src eaddr name) = i8088_trace_op_src eaddr name"
| "run_trace_call (Trace_disp disp) = i8088_trace_op_disp disp"
| "run_trace_call (Trace_bit_size bits) = i8088_trace_op_bit_size bits"
| "run_trace_call (Trace_dst_rm modrm bits) = i8088_trace_op_dst_modrm_rm modrm bits"
| "run_trace_call (Trace_dst_reg modrm bits) = i8088_trace_op_dst_modrm_reg modrm bits"

definition trace_entry :: "i8088 \<Rightarrow> trace_call list \<Rightarrow> i8088_trace_t \<Rightarrow> i8088_trace_t" where
  "trace_entry r calls t = fold run_trace_call calls (i8088_trace_start r t)"

text \<open>An execution of \<open>i8088_execute\<close>: the processor before it, the calls, and whether it comes to
  \<open>i8088_trace_end\<close>. \<open>AAM\<close> with a zero operand does not: it returns after the divide error, so that the
  entry of the next instruction takes the place of its own.\<close>

record traced =
  insn_cpu :: i8088
  insn_calls :: "trace_call list"
  insn_ends :: bool

definition trace_instruction :: "traced \<Rightarrow> i8088_trace \<Rightarrow> i8088_trace" where
  "trace_instruction insn s =
    (let s = on_entry (i8088_trace_start (insn_cpu insn)) s;
         s = fold (\<lambda>c. on_entry (run_trace_call c)) (insn_calls insn) s
     in if insn_ends insn then i8088_trace_end s else s)"

subsection \<open>Printing\<close>

definition upper_hex_char :: "nat \<Rightarrow> char" where
  "upper_hex_char n = (if n < 10 then char_of (n + 0x30) else char_of (n + 0x37))"

definition format_HEX :: "nat \<Rightarrow> nat \<Rightarrow> string" where
  "format_HEX width n = map (\<lambda>i. upper_hex_char (n div 16 ^ i mod 16)) (rev [0..<width])"

text \<open>The format \<open>FMT_U\<close>, which is \<open>%Xh\<close>: no leading zeros.\<close>

definition FMT_U :: "nat \<Rightarrow> string" where
  "FMT_U n = (let digits = dropWhile (\<lambda>c. c = CHR ''0'') (format_HEX 8 n)
    in (if digits = '''' then ''0'' else digits) @ ''h'')"

text \<open>An operand; the code has this text for the destination and again for the source.\<close>

definition trace_operand :: "bool \<Rightarrow> string \<Rightarrow> i8088_trace_t \<Rightarrow> string" where
  "trace_operand eaddr name t =
    (if eaddr then
       (if op_bit_size t = 8 then ''byte '' else if op_bit_size t = 16 then ''word ''
        else if op_bit_size t = 32 then ''dword '' else '''') @
       ''['' @
       (if op_seg_override t \<noteq> '''' then op_seg_override t @ '':''
        else if op_seg_default t \<noteq> '''' then op_seg_default t @ '':'' else '''') @
       (if name \<noteq> '''' then
          name @ (if op_disp_used t then
              if op_disp t \<ge> 0x8000 then ''-'' @ FMT_U (0x10000 - unat (op_disp t)) else ''+'' @ FMT_U (unat (op_disp t))
            else '''')
        else if op_disp_used t then FMT_U (unat (op_disp t)) else '''') @
       '']''
     else name)"

definition trace_string_mnemonics :: "string list" where
  "trace_string_mnemonics = [''movs'', ''cmps'', ''stos'', ''lods'', ''scas'']"

definition i8088_trace_op_decode :: "i8088_trace_t \<Rightarrow> string" where
  "i8088_trace_op_decode t =
    (if take 4 (op_mnemonic t) \<in> set trace_string_mnemonics \<and> op_seg_override t \<noteq> ''''
     then op_seg_override t @ '' '' else '''') @
    (if op_prefix t \<noteq> '''' then op_prefix t @ '' '' else '''') @
    op_mnemonic t @
    (if op_dst t \<noteq> '''' \<or> op_dst_eaddr t then '' '' @ trace_operand (op_dst_eaddr t) (op_dst t) t else '''') @
    (if op_src t \<noteq> '''' \<or> op_src_eaddr t then '', '' @ trace_operand (op_src_eaddr t) (op_src t) t else '''')"

definition spaces :: "nat \<Rightarrow> string" where "spaces n = replicate n (CHR '' '')"

definition TRACE_DECODE_MAX :: nat where "TRACE_DECODE_MAX = 40"

text \<open>The text of an instruction goes into a buffer of 40 characters; a longer text runs over its end, here
  \<open>None\<close>.\<close>

definition i8088_trace_print :: "bool \<Rightarrow> i8088_trace_t \<Rightarrow> string option" where
  "i8088_trace_print extended t =
    (let r = trace_cpu t; decoded = i8088_trace_op_decode t; hex = (\<lambda>v. format_hex 4 (unat v)) in
     if length decoded \<ge> TRACE_DECODE_MAX then None
     else Some
      (format_HEX 4 (unat (cs r)) @ '':'' @ format_HEX 4 (unat (ip r)) @ ''  '' @
       (if extended
        then concat (map (\<lambda>b. format_HEX 2 (unat b)) (take (mc_n t) (trace_code t))) @
          spaces (2 * (I8088_TRACE_MC_MAX + 1 - mc_n t))
        else '''') @
       decoded @ spaces (29 - length decoded) @
       hex (ax r) @ '' '' @ hex (bx r) @ '' '' @ hex (cx r) @ '' '' @ hex (dx r) @ '' '' @
       hex (ss r) @ '':'' @ hex (sp r) @ '' '' @
       (if extended
        then hex (bp r) @ '' '' @ hex (ds r) @ '':'' @ hex (si r) @ '' '' @ hex (es r) @ '':'' @ hex (di r) @ '' ''
        else '''') @
       map (\<lambda>(f, c). if f then c else CHR ''-'')
         [(flag_o r, CHR ''O''), (flag_d r, CHR ''D''), (flag_i r, CHR ''I''), (flag_t r, CHR ''T''),
          (flag_s r, CHR ''S''), (flag_z r, CHR ''Z''), (flag_a r, CHR ''A''), (flag_p r, CHR ''P''),
          (flag_c r, CHR ''C'')] @
       [newline]))"

definition trace_heading :: "bool \<Rightarrow> string" where
  "trace_heading extended =
    (if extended
     then ''  CS:IP    Code              Disassembly                  '' @
       ''AX   BX   CX   DX     SS:SP   BP     DS:SI     ES:DI   Flags'' @ [newline]
     else ''  CS:IP    Disassembly                  '' @ ''AX   BX   CX   DX     SS:SP   Flags'' @ [newline])"

definition trace_shown :: "i8088_trace_t \<Rightarrow> bool" where
  "trace_shown t \<longleftrightarrow> mc_n t \<noteq> 0 \<and> op_mnemonic t \<noteq> ''''"

definition trace_view :: "i8088_trace \<Rightarrow> i8088_trace_t list" where
  "trace_view s = map (trace_buffer s) ([trace_buffer_n s..<I8088_TRACE_BUFFER_SIZE] @ [0..<trace_buffer_n s])"

definition trace_text :: "bool \<Rightarrow> i8088_trace_t list \<Rightarrow> string option" where
  "trace_text extended entries = map_option (\<lambda>printed_lines. trace_heading extended @ concat printed_lines)
    (those (map (i8088_trace_print extended) (filter trace_shown entries)))"

definition i8088_trace_dump :: "bool \<Rightarrow> i8088_trace \<Rightarrow> string option" where
  "i8088_trace_dump extended s = trace_text extended (trace_view s)"

definition i8088_trace_int_dump :: "i8088_trace \<Rightarrow> string option" where
  "i8088_trace_int_dump s = log_dump I8088_TRACE_INT_BUFFER_SIZE (trace_int_log s)"

subsection \<open>The operand that is named\<close>

text \<open>What a name stands for: a register, a segment register, and the sum of registers in brackets.\<close>

definition reg8_named :: "string \<Rightarrow> i8088 \<Rightarrow> u8" where
  "reg8_named name r =
    (if name = ''al'' then al r else if name = ''ah'' then ah r else if name = ''bl'' then bl r
     else if name = ''bh'' then bh r else if name = ''cl'' then cl r else if name = ''ch'' then ch r
     else if name = ''dl'' then dl r else if name = ''dh'' then dh r else 0)"

definition reg16_named :: "string \<Rightarrow> i8088 \<Rightarrow> u16" where
  "reg16_named name r =
    (if name = ''ax'' then ax r else if name = ''bx'' then bx r else if name = ''cx'' then cx r
     else if name = ''dx'' then dx r else if name = ''si'' then si r else if name = ''di'' then di r
     else if name = ''bp'' then bp r else if name = ''sp'' then sp r
     else if name = ''ds'' then ds r else if name = ''es'' then es r
     else if name = ''ss'' then ss r else if name = ''cs'' then cs r else 0)"

fun sum_named :: "string \<Rightarrow> i8088 \<Rightarrow> u16" where
  "sum_named (a # b # rest) r = reg16_named [a, b] r + sum_named (drop 1 rest) r"
| "sum_named _ r = 0"

lemma field_values:
  "modrm_rm m = 0 \<or> modrm_rm m = 1 \<or> modrm_rm m = 2 \<or> modrm_rm m = 3 \<or>
   modrm_rm m = 4 \<or> modrm_rm m = 5 \<or> modrm_rm m = 6 \<or> modrm_rm m = 7"
  "modrm_reg m = 0 \<or> modrm_reg m = 1 \<or> modrm_reg m = 2 \<or> modrm_reg m = 3 \<or>
   modrm_reg m = 4 \<or> modrm_reg m = 5 \<or> modrm_reg m = 6 \<or> modrm_reg m = 7"
  using field_3_cases [OF modrm_rm_def [of m]] field_3_cases [OF modrm_reg_def [of m]] by blast+

lemma reg_names:
  assumes "n = 0 \<or> n = 1 \<or> n = 2 \<or> n = 3 \<or> n = 4 \<or> n = 5 \<or> n = 6 \<or> n = (7::u8)"
  shows "\<exists>name. trace_reg_name 8 n = Some name \<and> length name = 2 \<and> reg8_named name r = get_reg8 n r"
    and "\<exists>name. trace_reg_name 16 n = Some name \<and> length name = 2 \<and> reg16_named name r = get_reg16 n r"
  using assms by (elim disjE; simp add: trace_reg_name_def reg8_named_def reg16_named_def get_reg8_def
      get_reg16_def reg8_defs reg16_defs)+

lemma trace_memory_fields:
  "length name < 16 \<Longrightarrow> length segment < 4 \<Longrightarrow>
   op_dst (trace_memory name segment t) = name \<and> op_dst_eaddr (trace_memory name segment t) \<and>
   op_seg_default (trace_memory name segment t) = segment"
  by (simp add: trace_memory_def i8088_trace_op_dst_def i8088_trace_op_seg_default_def
      I8088_TRACE_OP_DST_MAX_def I8088_TRACE_OP_SEG_MAX_def)

lemma dst_register:
  "length name = 2 \<Longrightarrow> op_dst (i8088_trace_op_dst False name t) = name \<and>
    \<not> op_dst_eaddr (i8088_trace_op_dst False name t)"
  by (simp add: i8088_trace_op_dst_def I8088_TRACE_OP_DST_MAX_def)

lemma dst_modrm_register:
  assumes "modrm_mod m = MOD_REGISTER"
  shows "op_dst_eaddr (i8088_trace_op_dst_modrm_rm m 8 t) = False \<and>
      reg8_named (op_dst (i8088_trace_op_dst_modrm_rm m 8 t)) r = get_reg8 (modrm_rm m) r"
    and "op_dst_eaddr (i8088_trace_op_dst_modrm_rm m 16 t) = False \<and>
      reg16_named (op_dst (i8088_trace_op_dst_modrm_rm m 16 t)) r = get_reg16 (modrm_rm m) r"
  using reg_names [OF field_values(1), of m r] assms
  by (auto simp: i8088_trace_op_dst_modrm_rm_def dst_register)

lemma dst_modrm_memory:
  assumes "modrm_mod m \<noteq> MOD_REGISTER"
  shows "op_dst_eaddr (i8088_trace_op_dst_modrm_rm m bits t) \<and>
    fst (run_state (modrm_address m d) s) =
      (reg16_named (op_seg_default (i8088_trace_op_dst_modrm_rm m bits t)) (cpu s),
       sum_named (op_dst (i8088_trace_op_dst_modrm_rm m bits t)) (cpu s) +
       (if is_direct m then word16 (code_byte s (ip (cpu s))) (code_byte s (ip (cpu s) + 1)) else d))"
  using field_values(1) [of m] assms
  by (elim disjE; simp add: i8088_trace_op_dst_modrm_rm_def eaddr_defs trace_memory_fields run_modrm_address
      modrm_segment_def address_value_def is_direct_def reg16_named_def Let_def)

text \<open>C33. The operand that the trace names is the one the processor uses. For every ModRM byte
  \<open>i8088_trace_op_dst_modrm_rm\<close> writes the name of the register that the operand functions access, or, for a
  form with an address, the registers whose sum with the displacement (or with the direct address in the code)
  is the offset and the name of the default segment; \<open>i8088_trace_op_dst_modrm_reg\<close> names the register of the
  other field.\<close>

theorem trace_names_operand:
  fixes s :: "'a machine_scheme"
  shows "(let t8 = i8088_trace_op_dst_modrm_rm m 8 t; t16 = i8088_trace_op_dst_modrm_rm m 16 t in
     if modrm_mod m = MOD_REGISTER
     then \<not> op_dst_eaddr t8 \<and> reg8_named (op_dst t8) (cpu s) = get_reg8 (modrm_rm m) (cpu s) \<and>
       \<not> op_dst_eaddr t16 \<and> reg16_named (op_dst t16) (cpu s) = get_reg16 (modrm_rm m) (cpu s)
     else t16 = t8 \<and> op_dst_eaddr t8 \<and>
       fst (run_state (modrm_address m d) s) =
         (reg16_named (op_seg_default t8) (cpu s),
          sum_named (op_dst t8) (cpu s) +
          (if is_direct m then word16 (code_byte s (ip (cpu s))) (code_byte s (ip (cpu s) + 1)) else d))) \<and>
   reg8_named (op_dst (i8088_trace_op_dst_modrm_reg m 8 t)) (cpu s) = get_reg8 (modrm_reg m) (cpu s) \<and>
   reg16_named (op_dst (i8088_trace_op_dst_modrm_reg m 16 t)) (cpu s) = get_reg16 (modrm_reg m) (cpu s)"
  using reg_names [OF field_values(2), of m "cpu s"] dst_modrm_register [of m t "cpu s"] dst_modrm_memory [of m 8 t d s]
  by (auto simp: i8088_trace_op_dst_modrm_reg_def dst_register Let_def i8088_trace_op_dst_modrm_rm_def)

subsection \<open>The last instructions\<close>

text \<open>The ring of the instructions, with an instruction as one entry.\<close>

definition trace_put :: "i8088_trace_t \<Rightarrow> i8088_trace \<Rightarrow> i8088_trace" where
  "trace_put e s = i8088_trace_end (on_entry (\<lambda>_. e) s)"

definition trace_ok :: "i8088_trace \<Rightarrow> bool" where
  "trace_ok s \<longleftrightarrow> trace_buffer_n s < I8088_TRACE_BUFFER_SIZE"

lemma trace_put_view: "trace_ok s \<Longrightarrow> trace_view (trace_put e s) = tl (trace_view s) @ [e]"
  using ring_view [of "trace_buffer_n s" I8088_TRACE_BUFFER_SIZE "trace_buffer s" e]
  by (auto simp: trace_view_def trace_put_def trace_ok_def i8088_trace_end_def on_entry_def split: if_splits)

interpretation instructions: trace_ring trace_ok trace_view trace_put I8088_TRACE_BUFFER_SIZE
proof
  show "length (trace_view s) = I8088_TRACE_BUFFER_SIZE" if "trace_ok s" for s
    using that by (simp add: trace_view_def trace_ok_def)
  show "trace_ok (trace_put e s)" if "trace_ok s" for e s
    using that by (simp add: trace_put_def trace_ok_def i8088_trace_end_def on_entry_def)
qed (rule trace_put_view)

lemma on_entry_fold: "fold (\<lambda>c. on_entry (f c)) calls (on_entry g s) = on_entry (fold f calls \<circ> g) s"
  by (induction calls arbitrary: g) (simp_all add: on_entry_def comp_def)

text \<open>The entry of an instruction that does not end stays where it is, and the next one replaces it.\<close>

definition trace_hold :: "i8088_trace_t option \<Rightarrow> i8088_trace \<Rightarrow> i8088_trace" where
  "trace_hold p s = (case p of None \<Rightarrow> s | Some e \<Rightarrow> on_entry (\<lambda>_. e) s)"

lemma trace_hold_put [simp]: "trace_put e (trace_hold p s) = trace_put e s"
  by (cases p) (simp_all add: trace_hold_def trace_put_def on_entry_def)

lemma trace_hold_hold [simp]: "trace_hold (Some e) (trace_hold p s) = trace_hold (Some e) s"
  by (cases p) (simp_all add: trace_hold_def on_entry_def)

lemma trace_hold_view:
  assumes "trace_ok s"
  shows "trace_view (trace_hold (Some e) s) = e # tl (trace_view s)"
  using assms upt_conv_Cons [of "trace_buffer_n s" I8088_TRACE_BUFFER_SIZE]
  by (simp add: trace_hold_def trace_view_def on_entry_def trace_ok_def)

lemma trace_instruction_put:
  fixes s
  defines "e \<equiv> \<lambda>insn. trace_entry (insn_cpu insn) (insn_calls insn) (trace_buffer s (trace_buffer_n s))"
  shows "trace_instruction insn s = (if insn_ends insn then trace_put (e insn) s else trace_hold (Some (e insn)) s)"
  unfolding trace_instruction_def Let_def on_entry_fold
  by (simp add: trace_put_def trace_hold_def trace_entry_def on_entry_def e_def)

text \<open>What the entry held before does not show, when the default segment is given with every operand in
  brackets, as \<open>i8088.c\<close> does.\<close>

fun names_memory :: "trace_call \<Rightarrow> bool" where
  "names_memory (Trace_dst eaddr _) = eaddr"
| "names_memory (Trace_src eaddr _) = eaddr"
| "names_memory (Trace_dst_rm modrm bits) \<longleftrightarrow> modrm_mod modrm \<noteq> MOD_REGISTER \<or> bits \<notin> {8, 16}"
| "names_memory _ = False"

fun sets_segment :: "trace_call \<Rightarrow> bool" where
  "sets_segment (Trace_seg_default _) = True"
| "sets_segment (Trace_dst_rm modrm bits) \<longleftrightarrow> modrm_mod modrm \<noteq> MOD_REGISTER \<or> bits \<notin> {8, 16}"
| "sets_segment _ = False"

definition segments_given :: "traced \<Rightarrow> bool" where
  "segments_given insn \<longleftrightarrow> (list_ex names_memory (insn_calls insn) \<longrightarrow> list_ex sets_segment (insn_calls insn))"

definition same_entry :: "bool \<Rightarrow> i8088_trace_t \<Rightarrow> i8088_trace_t \<Rightarrow> bool" where
  "same_entry given t u \<longleftrightarrow>
    trace_cpu u = trace_cpu t \<and> mc_n u = mc_n t \<and> op_prefix u = op_prefix t \<and>
    op_seg_override u = op_seg_override t \<and> op_mnemonic u = op_mnemonic t \<and> op_dst u = op_dst t \<and>
    op_src u = op_src t \<and> op_dst_eaddr u = op_dst_eaddr t \<and> op_src_eaddr u = op_src_eaddr t \<and>
    op_disp_used u = op_disp_used t \<and> op_bit_size u = op_bit_size t \<and>
    length (trace_code t) = I8088_TRACE_MC_MAX \<and> length (trace_code u) = I8088_TRACE_MC_MAX \<and>
    mc_n t < I8088_TRACE_MC_MAX \<and> take (mc_n t) (trace_code u) = take (mc_n t) (trace_code t) \<and>
    (given \<longrightarrow> op_seg_default u = op_seg_default t) \<and> (op_disp_used t \<longrightarrow> op_disp u = op_disp t)"

lemmas trace_call_defs = i8088_trace_mc_def i8088_trace_op_prefix_def i8088_trace_op_seg_override_def
  i8088_trace_op_seg_default_def i8088_trace_op_mnemonic_def i8088_trace_op_dst_def i8088_trace_op_src_def
  i8088_trace_op_disp_def i8088_trace_op_bit_size_def trace_memory_def

lemma same_entry_rm:
  assumes "same_entry given t u"
  shows "same_entry (given \<or> sets_segment (Trace_dst_rm m bits))
    (i8088_trace_op_dst_modrm_rm m bits t) (i8088_trace_op_dst_modrm_rm m bits u)"
proof -
  have mem: "same_entry True (trace_memory name segment t) (trace_memory name segment u)" for name segment
    using assms by (simp add: same_entry_def trace_call_defs)
  have reg: "same_entry given (i8088_trace_op_dst False name t) (i8088_trace_op_dst False name u)" for name
    using assms by (simp add: same_entry_def trace_call_defs)
  have weak: "same_entry True a b \<Longrightarrow> same_entry x a b" for x a b by (auto simp: same_entry_def)
  show ?thesis
  proof (cases "modrm_mod m = MOD_REGISTER \<and> bits \<in> {8, 16}")
    case True
    then obtain name where "trace_reg_name bits (modrm_rm m) = Some name"
      using reg_names [OF field_values(1), of m trace_zero_cpu] by auto
    then show ?thesis using True reg by (simp add: i8088_trace_op_dst_modrm_rm_def)
  next
    case False
    then have n: "(if modrm_mod m = MOD_REGISTER then trace_reg_name bits (modrm_rm m) else None) = None"
      by (auto simp: trace_reg_name_def)
    show ?thesis unfolding i8088_trace_op_dst_modrm_rm_def n Let_def
      using field_values(1) [of m] weak [OF mem]
      by (elim disjE; simp add: eaddr_defs)
  qed
qed

lemma same_entry_call:
  assumes "same_entry given t u"
  shows "same_entry (given \<or> sets_segment c) (run_trace_call c t) (run_trace_call c u)"
proof (cases c)
  case (Trace_mc b)
  have cut: "take (Suc n) (xs[n := b]) = take n xs @ [b]" if "n < length xs" for n and xs :: "u8 list"
    using that by (simp add: take_Suc_conv_app_nth)
  show ?thesis using assms Trace_mc cut by (auto simp: same_entry_def i8088_trace_mc_def)
next
  case (Trace_dst_rm m bits)
  then show ?thesis using same_entry_rm [OF assms] by simp
next
  case (Trace_dst_reg m bits)
  then show ?thesis using assms
    by (simp add: same_entry_def trace_call_defs i8088_trace_op_dst_modrm_reg_def split: option.split)
qed (use assms in \<open>simp add: same_entry_def trace_call_defs\<close>)+

lemma same_entry_calls:
  "same_entry given t u \<Longrightarrow>
   same_entry (given \<or> list_ex sets_segment calls) (fold run_trace_call calls t) (fold run_trace_call calls u)"
proof (induction calls arbitrary: given t u)
  case Nil
  then show ?case by simp
next
  case (Cons c calls)
  then show ?case using Cons.IH [OF same_entry_call [OF Cons.prems, of c]] by (simp add: disj_assoc)
qed

lemma eaddr_named:
  assumes "list_all (\<lambda>c. \<not> names_memory c) calls" and "\<not> op_dst_eaddr t" and "\<not> op_src_eaddr t"
  shows "\<not> op_dst_eaddr (fold run_trace_call calls t) \<and> \<not> op_src_eaddr (fold run_trace_call calls t)"
  using assms
proof (induction calls arbitrary: t)
  case Nil
  then show ?case by simp
next
  case (Cons c calls)
  have "\<not> op_dst_eaddr (run_trace_call c t) \<and> \<not> op_src_eaddr (run_trace_call c t)"
  proof (cases c)
    case (Trace_dst_rm m bits)
    then have "modrm_mod m = MOD_REGISTER" and "bits \<in> {8, 16}" using Cons.prems by auto
    moreover from this obtain name where "trace_reg_name bits (modrm_rm m) = Some name"
      using reg_names [OF field_values(1), of m trace_zero_cpu] by auto
    ultimately show ?thesis using Cons.prems Trace_dst_rm
      by (simp add: i8088_trace_op_dst_modrm_rm_def trace_call_defs)
  qed (use Cons.prems in \<open>auto simp: trace_call_defs i8088_trace_op_dst_modrm_reg_def split: option.split\<close>)
  then show ?case using Cons by simp
qed

lemma same_entry_shows:
  assumes "same_entry given t u" and "given \<or> \<not> op_dst_eaddr t \<and> \<not> op_src_eaddr t"
  shows "i8088_trace_print extended u = i8088_trace_print extended t" and "trace_shown u = trace_shown t"
proof -
  have "trace_operand (op_dst_eaddr t) name u = trace_operand (op_dst_eaddr t) name t"
    "trace_operand (op_src_eaddr t) name u = trace_operand (op_src_eaddr t) name t" for name
    using assms by (auto simp: same_entry_def trace_operand_def)
  then have "i8088_trace_op_decode u = i8088_trace_op_decode t"
    using assms(1) by (simp add: same_entry_def i8088_trace_op_decode_def)
  then show "i8088_trace_print extended u = i8088_trace_print extended t"
    using assms(1) unfolding i8088_trace_print_def same_entry_def Let_def by simp
  show "trace_shown u = trace_shown t" using assms(1) by (simp add: same_entry_def trace_shown_def)
qed

definition code_room :: "i8088_trace_t \<Rightarrow> bool" where
  "code_room t \<longleftrightarrow> length (trace_code t) = I8088_TRACE_MC_MAX"

lemma trace_entry_shows:
  assumes "segments_given insn" and "code_room t" and "code_room u"
  shows "i8088_trace_print extended (trace_entry (insn_cpu insn) (insn_calls insn) u) =
      i8088_trace_print extended (trace_entry (insn_cpu insn) (insn_calls insn) t)"
    and "trace_shown (trace_entry (insn_cpu insn) (insn_calls insn) u) = trace_shown (trace_entry (insn_cpu insn) (insn_calls insn) t)"
proof -
  have start: "same_entry False (i8088_trace_start r t) (i8088_trace_start r u)" for r
    using assms(2,3) by (simp add: same_entry_def i8088_trace_start_def code_room_def I8088_TRACE_MC_MAX_def)
  have e: "same_entry (list_ex sets_segment (insn_calls insn))
      (trace_entry (insn_cpu insn) (insn_calls insn) t) (trace_entry (insn_cpu insn) (insn_calls insn) u)"
    using same_entry_calls [OF start] by (simp add: trace_entry_def)
  have g: "list_ex sets_segment (insn_calls insn) \<or> \<not> op_dst_eaddr (trace_entry (insn_cpu insn) (insn_calls insn) t) \<and>
      \<not> op_src_eaddr (trace_entry (insn_cpu insn) (insn_calls insn) t)"
  proof (cases "list_ex sets_segment (insn_calls insn)")
    case False
    then have "list_all (\<lambda>c. \<not> names_memory c) (insn_calls insn)"
      using assms(1) by (auto simp: segments_given_def list_ex_iff list_all_iff)
    then show ?thesis using eaddr_named by (simp add: trace_entry_def i8088_trace_start_def)
  qed simp
  from same_entry_shows [OF e g]
  show "i8088_trace_print extended (trace_entry (insn_cpu insn) (insn_calls insn) u) =
      i8088_trace_print extended (trace_entry (insn_cpu insn) (insn_calls insn) t)"
    and "trace_shown (trace_entry (insn_cpu insn) (insn_calls insn) u) = trace_shown (trace_entry (insn_cpu insn) (insn_calls insn) t)"
    by simp_all
qed

lemma room_setters:
  "code_room (trace_memory name segment t) = code_room t"
  "code_room (i8088_trace_op_dst e name t) = code_room t"
  "code_room (i8088_trace_mc b t) = code_room t"
  by (simp_all add: code_room_def trace_call_defs)

lemma room_call: "code_room (run_trace_call c t) = code_room t"
proof (cases c)
  case (Trace_dst_rm m bits)
  have "code_room (i8088_trace_op_dst_modrm_rm m bits t) = code_room t"
    unfolding i8088_trace_op_dst_modrm_rm_def Let_def by (simp only: option.split if_split room_setters) blast
  then show ?thesis using Trace_dst_rm by simp
next
  case (Trace_dst_reg m bits)
  then show ?thesis by (simp add: i8088_trace_op_dst_modrm_reg_def room_setters split: option.split)
qed (simp_all add: room_setters, simp_all add: code_room_def trace_call_defs)

lemma room_entry: "code_room t \<Longrightarrow> code_room (trace_entry r calls t)"
proof -
  have "code_room t \<Longrightarrow> code_room (fold run_trace_call calls t)" for t
    by (induction calls arbitrary: t) (simp_all add: room_call)
  moreover have "code_room (i8088_trace_start r t) = code_room t"
    by (simp add: code_room_def i8088_trace_start_def)
  ultimately show "code_room t \<Longrightarrow> code_room (trace_entry r calls t)" by (simp add: trace_entry_def)
qed

definition entry_of :: "i8088_trace_t \<Rightarrow> traced \<Rightarrow> bool" where
  "entry_of e insn \<longleftrightarrow> (\<exists>t. code_room t \<and> e = trace_entry (insn_cpu insn) (insn_calls insn) t)"

text \<open>What the buffer holds after a run: the entries of the instructions that ended, and the entry of the last one
  if it did not.\<close>

definition held :: "traced list \<Rightarrow> i8088_trace_t option \<Rightarrow> bool" where
  "held insns p \<longleftrightarrow> (case p of None \<Rightarrow> insns = [] \<or> insn_ends (last insns)
     | Some e \<Rightarrow> insns \<noteq> [] \<and> \<not> insn_ends (last insns) \<and> entry_of e (last insns))"

lemma instructions_put:
  assumes "\<forall>n. code_room (trace_buffer s n)"
  shows "(\<forall>n. code_room (trace_buffer (fold trace_instruction insns s) n)) \<and>
    (\<exists>entries p. list_all2 entry_of entries (filter insn_ends insns) \<and> held insns p \<and>
      fold trace_instruction insns s = trace_hold p (fold trace_put entries s))"
proof (induction insns rule: rev_induct)
  case Nil
  have "held [] None" "trace_hold None s = s" by (simp_all add: held_def trace_hold_def)
  then show ?case using assms by (intro conjI exI [of _ "[]"] exI [of _ None]) simp_all
next
  case (snoc insn insns)
  define u where "u = fold trace_instruction insns s"
  from snoc obtain entries p where room: "\<forall>n. code_room (trace_buffer u n)"
    and entries: "list_all2 entry_of entries (filter insn_ends insns)"
    and u: "u = trace_hold p (fold trace_put entries s)"
    unfolding u_def by blast
  define e where "e = trace_entry (insn_cpu insn) (insn_calls insn) (trace_buffer u (trace_buffer_n u))"
  have e: "entry_of e insn" "code_room e" using room by (auto simp: e_def entry_of_def room_entry)
  have run: "fold trace_instruction (insns @ [insn]) s = (if insn_ends insn then trace_put e u else trace_hold (Some e) u)"
    by (simp add: trace_instruction_put e_def u_def)
  have r: "\<forall>n. code_room (trace_buffer (fold trace_instruction (insns @ [insn]) s) n)"
    using room e(2) unfolding run
    by (simp add: trace_put_def trace_hold_def on_entry_def i8088_trace_end_def)
  show ?case
  proof (cases "insn_ends insn")
    case True
    have "list_all2 entry_of (entries @ [e]) (filter insn_ends (insns @ [insn]))"
      using entries e True by (simp add: list_all2_appendI)
    moreover have "held (insns @ [insn]) None" using True by (simp add: held_def)
    moreover have "fold trace_instruction (insns @ [insn]) s = trace_hold None (fold trace_put (entries @ [e]) s)"
      unfolding run using True by (simp add: u) (simp add: trace_hold_def)
    ultimately show ?thesis using r by blast
  next
    case False
    have "list_all2 entry_of entries (filter insn_ends (insns @ [insn]))" using entries False by simp
    moreover have "held (insns @ [insn]) (Some e)" using False e by (simp add: held_def)
    moreover have "fold trace_instruction (insns @ [insn]) s = trace_hold (Some e) (fold trace_put entries s)"
      unfolding run using False by (simp add: u)
    ultimately show ?thesis using r by blast
  qed
qed

text \<open>The count of the code bytes starts again after eight: an instruction of eight bytes, such as \<open>MOV\<close> of an
  immediate word to \<open>[BP+disp16]\<close> after a segment and a repeat prefix, is one that the dump leaves out.\<close>

lemma trace_mc_wraps: "mc_n t < 8 \<Longrightarrow> mc_n (fold i8088_trace_mc bytes t) = (mc_n t + length bytes) mod 8"
proof (induction bytes arbitrary: t)
  case Nil
  then show ?case by simp
next
  case (Cons b bytes)
  have "mc_n (i8088_trace_mc b t) = (mc_n t + 1) mod 8"
    using Cons.prems by (cases "mc_n t = 7") (auto simp: i8088_trace_mc_def I8088_TRACE_MC_MAX_def)
  then show ?case using Cons by (simp add: mod_simps)
qed

lemma eight_bytes_hidden:
  "length bytes = 8 \<Longrightarrow> \<not> trace_shown (i8088_trace_op_mnemonic name (fold i8088_trace_mc bytes (i8088_trace_start r t)))"
  using trace_mc_wraps [of "i8088_trace_start r t" bytes]
  by (simp add: trace_shown_def i8088_trace_op_mnemonic_def i8088_trace_start_def)

text \<open>Which instructions leave a line: those that were given a name, unlike an opcode that is not handled, and
  whose number of code bytes is not a multiple of eight.\<close>

definition code_bytes :: "traced \<Rightarrow> nat" where
  "code_bytes insn = length (filter (\<lambda>c. case c of Trace_mc _ \<Rightarrow> True | _ \<Rightarrow> False) (insn_calls insn))"

definition name_given :: "traced \<Rightarrow> string" where
  "name_given insn = fold (\<lambda>c name. case c of Trace_mnemonic m \<Rightarrow> m | _ \<Rightarrow> name) (insn_calls insn) ''''"

definition listed :: "traced \<Rightarrow> bool" where
  "listed insn \<longleftrightarrow> name_given insn \<noteq> '''' \<and> code_bytes insn mod 8 \<noteq> 0"

definition trace_line :: "bool \<Rightarrow> traced \<Rightarrow> string option" where
  "trace_line extended insn =
    i8088_trace_print extended (trace_entry (insn_cpu insn) (insn_calls insn) trace_zero)"

lemma modrm_keeps_counts:
  "mc_n (i8088_trace_op_dst_modrm_rm m bits t) = mc_n t \<and>
   op_mnemonic (i8088_trace_op_dst_modrm_rm m bits t) = op_mnemonic t"
  "mc_n (i8088_trace_op_dst_modrm_reg m bits t) = mc_n t \<and>
   op_mnemonic (i8088_trace_op_dst_modrm_reg m bits t) = op_mnemonic t"
proof -
  define P where "P u \<longleftrightarrow> mc_n u = mc_n t \<and> op_mnemonic u = op_mnemonic t" for u :: i8088_trace_t
  have s: "P (trace_memory name segment t)" "P (i8088_trace_op_dst e name t)" "P t" for name segment e
    by (simp_all add: P_def trace_call_defs)
  have "P (i8088_trace_op_dst_modrm_rm m bits t)"
    unfolding i8088_trace_op_dst_modrm_rm_def Let_def by (simp only: option.split if_split s) blast
  then show "mc_n (i8088_trace_op_dst_modrm_rm m bits t) = mc_n t \<and>
      op_mnemonic (i8088_trace_op_dst_modrm_rm m bits t) = op_mnemonic t" by (simp add: P_def)
  have "P (i8088_trace_op_dst_modrm_reg m bits t)"
    by (simp add: i8088_trace_op_dst_modrm_reg_def s split: option.split)
  then show "mc_n (i8088_trace_op_dst_modrm_reg m bits t) = mc_n t \<and>
      op_mnemonic (i8088_trace_op_dst_modrm_reg m bits t) = op_mnemonic t" by (simp add: P_def)
qed

lemma call_counts:
  assumes "mc_n t < 8"
  shows "mc_n (run_trace_call c t) = (mc_n t + (case c of Trace_mc _ \<Rightarrow> 1 | _ \<Rightarrow> 0)) mod 8"
    and "op_mnemonic (run_trace_call c t) = (case c of Trace_mnemonic m \<Rightarrow> take 8 m | _ \<Rightarrow> op_mnemonic t)"
  using assms trace_mc_wraps [of t "[b]" for b]
  by (cases c; simp add: trace_call_defs modrm_keeps_counts I8088_TRACE_MC_MAX_def I8088_TRACE_OP_MNEMONIC_MAX_def)+

lemma calls_counts:
  "mc_n t < 8 \<Longrightarrow> mc_n (fold run_trace_call calls t) =
     (mc_n t + length (filter (\<lambda>c. case c of Trace_mc _ \<Rightarrow> True | _ \<Rightarrow> False) calls)) mod 8 \<and>
   op_mnemonic (fold run_trace_call calls t) =
     fold (\<lambda>c name. case c of Trace_mnemonic m \<Rightarrow> take 8 m | _ \<Rightarrow> name) calls (op_mnemonic t)"
proof (induction calls arbitrary: t)
  case (Cons c calls)
  have "mc_n (run_trace_call c t) < 8" using call_counts(1) [OF Cons.prems] by simp
  from Cons.IH [OF this] show ?case
    using call_counts [OF Cons.prems, of c] by (cases c) (simp_all add: mod_simps)
qed simp

lemma take_names:
  "(fold (\<lambda>c name. case c of Trace_mnemonic m \<Rightarrow> take 8 m | _ \<Rightarrow> name) calls (take 8 n)) =
   take 8 (fold (\<lambda>c name. case c of Trace_mnemonic m \<Rightarrow> m | _ \<Rightarrow> name) calls n)"
proof (induction calls arbitrary: n)
  case (Cons c calls)
  then show ?case by (cases c) simp_all
qed simp

lemma shown_listed: "trace_shown (trace_entry (insn_cpu insn) (insn_calls insn) t) = listed insn"
proof -
  have "mc_n (i8088_trace_start (insn_cpu insn) t) = 0" "op_mnemonic (i8088_trace_start (insn_cpu insn) t) = ''''"
    by (simp_all add: i8088_trace_start_def)
  then show ?thesis
    using calls_counts [of "i8088_trace_start (insn_cpu insn) t" "insn_calls insn"] take_names [of "insn_calls insn" "''''"]
    by (simp add: trace_entry_def trace_shown_def listed_def code_bytes_def name_given_def conj_commute)
qed

lemma trace_text_lines:
  assumes "list_all2 entry_of entries insns" and "list_all segments_given insns"
    and "list_all (\<lambda>t. \<not> trace_shown t) old"
  shows "trace_text extended (old @ entries) =
    map_option (\<lambda>ls. trace_heading extended @ concat ls) (those (map (trace_line extended) (filter listed insns)))"
proof -
  have zero: "code_room trace_zero" by (simp add: code_room_def trace_zero_def)
  have "map (i8088_trace_print extended) (filter trace_shown entries) = map (trace_line extended) (filter listed insns)"
    using assms(1,2)
  proof (induction rule: list_all2_induct)
    case (Cons e es insn insns)
    then obtain u where u: "code_room u" "e = trace_entry (insn_cpu insn) (insn_calls insn) u" by (auto simp: entry_of_def)
    have "trace_shown e = listed insn" unfolding u(2) by (rule shown_listed)
    moreover have "i8088_trace_print extended e = trace_line extended insn"
      unfolding u(2) trace_line_def using Cons.prems by (intro trace_entry_shows(1) zero u(1)) simp
    ultimately show ?case using Cons by simp
  qed simp
  moreover have "filter trace_shown old = []" using assms(3) by (simp add: filter_empty_conv list_all_iff)
  ultimately show ?thesis by (simp add: trace_text_def)
qed

text \<open>C34. The dump shows what the ring holds, in the order in which it was executed. The ring holds the last 512
  of the instructions that came to their end, or all while there are fewer; an instruction that did not (\<open>AAM\<close> with
  zero) is lost when the next one starts, and when it is the last one it stands first, before the last 511. After
  the heading there is one line for each of them that has a name and a number of code bytes that is not a multiple of
  eight, made from what was recorded of that instruction alone, although an entry of the ring is used again without
  being cleared. The other instructions, those with an opcode that is not handled and those of eight bytes, count
  among the 512 but have no line.\<close>

theorem trace_dump_last:
  fixes insns
  defines "ended \<equiv> filter insn_ends insns"
  assumes "list_all segments_given insns"
  shows "i8088_trace_dump extended (fold trace_instruction insns i8088_trace_init) =
    map_option (\<lambda>ls. trace_heading extended @ concat ls) (those (map (trace_line extended) (filter listed
      (if insns = [] \<or> insn_ends (last insns) then drop (length ended - 512) ended
       else last insns # drop (length ended - 511) ended))))"
proof -
  have "code_room trace_zero" by (simp add: code_room_def trace_zero_def)
  then have "\<forall>n. code_room (trace_buffer i8088_trace_init n)" by (simp add: i8088_trace_init_def)
  from instructions_put [OF this, of insns] obtain entries p where
    entries: "list_all2 entry_of entries ended" and p: "held insns p" and
    run: "fold trace_instruction insns i8088_trace_init = trace_hold p (fold trace_put entries i8088_trace_init)"
    unfolding ended_def by blast
  have len: "length entries = length ended" using entries by (rule list_all2_lengthD)
  have ok: "trace_ok i8088_trace_init" by (simp add: trace_ok_def i8088_trace_init_def I8088_TRACE_BUFFER_SIZE_def)
  define blank where "blank = drop (length entries) (trace_view i8088_trace_init)"
  have view: "trace_view (fold trace_put entries i8088_trace_init) = blank @ drop (length entries - 512) entries"
    using instructions.view_last [OF ok, of entries] by (simp add: I8088_TRACE_BUFFER_SIZE_def blank_def)
  have hidden: "list_all (\<lambda>t. \<not> trace_shown t) (drop n blank)" for n
    by (auto simp: blank_def list_all_iff trace_view_def i8088_trace_init_def trace_shown_def trace_zero_def
        dest!: in_set_dropD)
  have given: "list_all segments_given (drop n ended)" for n
    using assms(2) unfolding ended_def by (auto simp: list_all_iff dest!: in_set_dropD)
  show ?thesis
  proof (cases p)
    case None
    then have "insns = [] \<or> insn_ends (last insns)" using p by (simp add: held_def)
    moreover have "i8088_trace_dump extended (fold trace_instruction insns i8088_trace_init) =
        trace_text extended (drop 0 blank @ drop (length entries - 512) entries)"
      by (simp add: i8088_trace_dump_def run None trace_hold_def view)
    ultimately show ?thesis
      using trace_text_lines [OF list_all2_dropI [OF entries] given hidden [of 0]] len by simp
  next
    case (Some e)
    then have last: "insns \<noteq> []" "\<not> insn_ends (last insns)" "entry_of e (last insns)" using p by (simp_all add: held_def)
    have e: "list_all2 entry_of (e # drop n entries) (last insns # drop n ended)" for n
      using last(3) list_all2_dropI [OF entries] by simp
    have g: "list_all segments_given (last insns # drop n ended)" for n
      using given assms(2) last(1) by (simp add: list_all_iff)
    have "trace_view (trace_hold p (fold trace_put entries i8088_trace_init)) =
        e # tl (blank @ drop (length entries - 512) entries)"
      unfolding Some view [symmetric] by (rule trace_hold_view) (rule instructions.ok_adds [OF ok])
    also have "tl (blank @ drop (length entries - 512) entries) = drop 1 blank @ drop (length entries - 511) entries"
    proof (cases "length entries < 512")
      case True
      then have "blank \<noteq> []"
        by (simp add: blank_def trace_view_def i8088_trace_init_def I8088_TRACE_BUFFER_SIZE_def)
      then show ?thesis using True by (simp add: drop_Suc)
    next
      case False
      then have "blank = []"
        by (simp add: blank_def trace_view_def i8088_trace_init_def I8088_TRACE_BUFFER_SIZE_def)
      moreover have "Suc (length entries - 512) = length entries - 511" using False by simp
      then have "tl (drop (length entries - 512) entries) = drop (length entries - 511) entries"
        by (simp add: tl_drop drop_Suc [symmetric])
      ultimately show ?thesis by simp
    qed
    finally have "i8088_trace_dump extended (fold trace_instruction insns i8088_trace_init) =
        trace_text extended (e # drop 1 blank @ drop (length entries - 511) entries)"
      by (simp add: i8088_trace_dump_def run)
    also have "\<dots> = trace_text extended (drop 1 blank @ e # drop (length entries - 511) entries)"
      using hidden [of 1] by (simp add: trace_text_def filter_empty_conv list_all_iff)
    finally show ?thesis
      using trace_text_lines [OF e g hidden [of 1]] len last by simp
  qed
qed

definition demo_insns :: "traced list" where
  "demo_insns =
    [\<lparr>insn_cpu = trace_zero_cpu\<lparr>cs := 0xF000, ip := 0xE05B\<rparr>,
      insn_calls = [Trace_mc 0xB0, Trace_mnemonic ''mov'', Trace_mc 0x10, Trace_dst False ''al'', Trace_src False ''10h''],
      insn_ends = True\<rparr>,
     \<lparr>insn_cpu = trace_zero_cpu\<lparr>cs := 0xF000, ip := 0xE05D\<rparr>,
      insn_calls = [Trace_mc 0xD4, Trace_mnemonic ''aam'', Trace_mc 0, Trace_dst False ''0h''], insn_ends = False\<rparr>,
     \<lparr>insn_cpu = trace_zero_cpu\<lparr>cs := 0xF000, ip := 0xE05F\<rparr>,
      insn_calls = Trace_seg_override ''es'' # map Trace_mc [0x26, 0xF3, 0xC7, 0x86, 0, 1, 2, 3] @
        [Trace_prefix ''repe'', Trace_mnemonic ''mov'', Trace_bit_size 16, Trace_disp 0x100, Trace_dst_rm 0x86 16,
         Trace_src False ''302h''],
      insn_ends = True\<rparr>,
     \<lparr>insn_cpu = trace_zero_cpu\<lparr>cs := 0xF000, ip := 0xE067, ax := 0x10, bp := 0x80\<rparr>,
      insn_calls = [Trace_mc 0xF6, Trace_mc 0x66, Trace_mc 0xFE, Trace_mnemonic ''mul'', Trace_bit_size 8,
        Trace_disp 0xFFFE, Trace_dst_rm 0x66 8, Trace_src False ''''],
      insn_ends = True\<rparr>]"

lemma upt_8: "rev [0..<8] = [7, 6, 5, 4, 3, 2, 1, 0]" "rev [0..<4] = [3, 2, 1, 0]" "rev [0..<2] = [1, 0]"
  by (simp_all add: upt_rec)

lemmas trace_max_defs = I8088_TRACE_MC_MAX_def I8088_TRACE_OP_PREFIX_MAX_def I8088_TRACE_OP_SEG_MAX_def
  I8088_TRACE_OP_MNEMONIC_MAX_def I8088_TRACE_OP_DST_MAX_def I8088_TRACE_OP_SRC_MAX_def TRACE_DECODE_MAX_def

lemma char_codes:
  "char_of (48::nat) = CHR ''0''" "char_of (49::nat) = CHR ''1''" "char_of (50::nat) = CHR ''2''"
  "char_of (51::nat) = CHR ''3''" "char_of (52::nat) = CHR ''4''" "char_of (53::nat) = CHR ''5''"
  "char_of (54::nat) = CHR ''6''" "char_of (55::nat) = CHR ''7''" "char_of (56::nat) = CHR ''8''"
  "char_of (57::nat) = CHR ''9''" "char_of (65::nat) = CHR ''A''" "char_of (66::nat) = CHR ''B''"
  "char_of (67::nat) = CHR ''C''" "char_of (68::nat) = CHR ''D''" "char_of (69::nat) = CHR ''E''"
  "char_of (70::nat) = CHR ''F''"
  by code_simp+

lemma demo_fill:
  "replicate 8 (0::u8) = [0, 0, 0, 0, 0, 0, 0, 0]"
  "replicate 18 (CHR '' '') = ''                  ''" "replicate 10 (CHR '' '') = ''          ''"
  by (simp_all add: numeral_eq_Suc)

lemma demo_listed:
  "list_all segments_given demo_insns" "insn_ends (last demo_insns)"
  "filter listed (filter insn_ends demo_insns) = [demo_insns ! 0, demo_insns ! 3]"
  "length (filter insn_ends demo_insns) = 3"
  by (simp_all add: demo_insns_def segments_given_def listed_def name_given_def code_bytes_def)

lemma demo_entries:
  "trace_entry (insn_cpu (demo_insns ! 0)) (insn_calls (demo_insns ! 0)) trace_zero =
     trace_zero\<lparr>trace_cpu := trace_zero_cpu\<lparr>cs := 0xF000, ip := 0xE05B\<rparr>, trace_code := [0xB0, 0x10, 0, 0, 0, 0, 0, 0],
       mc_n := 2, op_mnemonic := ''mov'', op_dst := ''al'', op_src := ''10h''\<rparr>"
  "trace_entry (insn_cpu (demo_insns ! 3)) (insn_calls (demo_insns ! 3)) trace_zero =
     trace_zero\<lparr>trace_cpu := trace_zero_cpu\<lparr>cs := 0xF000, ip := 0xE067, ax := 0x10, bp := 0x80\<rparr>,
       trace_code := [0xF6, 0x66, 0xFE, 0, 0, 0, 0, 0], mc_n := 3, op_mnemonic := ''mul'', op_bit_size := 8,
       op_disp := 0xFFFE, op_disp_used := True, op_dst := ''bp'', op_dst_eaddr := True, op_seg_default := ''ss''\<rparr>"
  by (simp_all add: demo_insns_def trace_entry_def i8088_trace_start_def trace_zero_def trace_call_defs
      i8088_trace_op_dst_modrm_rm_def modrm_mod_def modrm_rm_def mod_defs eaddr_defs trace_max_defs demo_fill)

lemma demo_decode:
  "i8088_trace_op_decode (trace_entry (insn_cpu (demo_insns ! 0)) (insn_calls (demo_insns ! 0)) trace_zero) = ''mov al, 10h''"
  "i8088_trace_op_decode (trace_entry (insn_cpu (demo_insns ! 3)) (insn_calls (demo_insns ! 3)) trace_zero) =
    ''mul byte [ss:bp-2h]''"
  unfolding demo_entries
  by (simp_all add: i8088_trace_op_decode_def trace_operand_def trace_zero_def trace_string_mnemonics_def FMT_U_def
      format_HEX_def upt_8 upper_hex_char_def char_codes Let_def)

lemma demo_lines:
  "trace_line False (demo_insns ! 0) =
     Some (''F000:E05B  mov al, 10h                  0000 0000 0000 0000 0000:0000 ---------'' @ [newline])"
  "trace_line False (demo_insns ! 3) =
     Some (''F000:E067  mul byte [ss:bp-2h]          0010 0000 0000 0000 0000:0000 ---------'' @ [newline])"
  unfolding trace_line_def using demo_decode unfolding demo_entries
  by (simp_all add: i8088_trace_print_def trace_zero_def trace_zero_cpu_def
      format_HEX_def format_hex_def upt_8 upper_hex_char_def hex_char_def char_codes
      demo_fill spaces_def flag_def trace_max_defs Let_def)

lemma trace_dump_last_witness:
  "list_all segments_given demo_insns \<and>
   i8088_trace_dump False (fold trace_instruction demo_insns i8088_trace_init) =
     Some (trace_heading False @
       ''F000:E05B  mov al, 10h                  0000 0000 0000 0000 0000:0000 ---------'' @ [newline] @
       ''F000:E067  mul byte [ss:bp-2h]          0010 0000 0000 0000 0000:0000 ---------'' @ [newline])"
  using demo_listed demo_lines trace_dump_last [OF demo_listed(1), of False] by simp

end
