(* ===== verification/Spec2Isabelle.thy ===== *)
theory Spec2Isabelle
  imports Cpu_String Cpu_Data Fdc_Protocol Fdc_Transfer Xthdc_Protocol I8250_Lines Pc Edfs_Spec Cpu_Trace
begin

text \<open>
  A model of the PC 20-III emulator: an 8088 with memory and I/O ports, the FE2010 chipset, floppy and hard
  disk controllers, clock, mouse, serial port, network card with the network behind it, a directory served
  as a DOS drive, and the console; main.c puts them on one bus and runs them in turn.

  The state. Each C struct is a record of the same name, and every component adds its record to the ones
  before it: \<open>host\<close> (what \<open>panic\<close> sets), \<open>bus\<close> (memory), \<open>machine\<close> (processor), \<open>board\<close> (chipset),
  \<open>mouse_board\<close>, \<open>clock_board\<close>, \<open>floppy_board\<close>, \<open>disk_board\<close>, \<open>uart_board\<close>, \<open>net_board\<close>, \<open>edfs_board\<close>,
  \<open>dp_board\<close>, \<open>console_board\<close> and \<open>pc_board\<close>. A C function is a computation of the state monad on the record
  that has what it needs, so that it runs unchanged on every larger one. A callback (an I/O hook, a DMA
  callback) is a computation, and a null pointer is \<open>None\<close>. Machine integers are words of their width; C's
  promotion to \<open>int\<close> is written out as 32-bit words or integers. A computation that would access an array
  outside its bounds, or use what C leaves undefined in the same way, is an \<open>undefined_access\<close>, which sets
  the flag \<open>wild\<close>. What the model does after that stands for nothing in particular, so that theorems about code
  with such accesses show that the flag is not set, or assume it; nothing resets it.

  The theories and the code.
  \<^item> \<open>Prelude\<close>: words, bits, overflow, state monad, and \<open>preserves\<close>, the frame rules that the rest uses
    (collection \<open>frame_intros\<close>). \<open>Host\<close>: \<open>panic\<close> of main.c.
  \<^item> \<open>Memory\<close>: mem.c and the contract \<open>byte_store\<close> of a store with read-only parts. \<open>Cpu_State\<close>: i8088.h.
  \<^item> \<open>Alu_Arith\<close>, \<open>Alu_Shift\<close>, \<open>ModRM\<close>, \<open>Cpu_Ops\<close>, \<open>Opcode_Groups\<close>, \<open>Execute\<close>: i8088.c, from the arithmetic
    routines to \<open>i8088_execute\<close>, one definition for each routine and for each row of the opcode switch.
    \<open>Machine\<close>: fetch, stack, interrupts and the port table of io.c. \<open>Io_Device\<close>: the contract \<open>io_device\<close> of
    whatever is attached to the ports; every device of the model is an interpretation of it.
  \<^item> \<open>Cpu_Flow\<close>, \<open>Cpu_Data\<close>, \<open>Cpu_String\<close>: what programs rely on. Runs of instructions and interrupts as a step
    relation, interrupt and return, conditional jumps, termination of decoding; operands, stack and division;
    the repeated string operations.
  \<^item> \<open>Fe2010\<close>: fe2010.c. \<open>Mos5720\<close>, \<open>M6242\<close>: the mouse and clock chips.
  \<^item> \<open>Fdc9268\<close>: fdc9268.c; \<open>Fdc_Protocol\<close> (its status register as an invariant of the state machine) and
    \<open>Fdc_Transfer\<close> (a sector between image and memory). \<open>Xthdc\<close>: xthdc.c; \<open>Xthdc_Disk\<close> (refinement of a linear
    disk, bounds) and \<open>Xthdc_Protocol\<close>.
  \<^item> \<open>Fifo\<close> (the contract \<open>bounded_queue\<close>), \<open>I8250\<close> and \<open>I8250_Lines\<close>: i8250.c. \<open>Console\<close> and \<open>Console_Keys\<close>: console.c,
    which has a queue of the same kind.
  \<^item> \<open>Net_Frame\<close>, \<open>Net\<close>: net.c; \<open>Net_Headers\<close> and \<open>Net_Reply\<close>: the frames it builds and their checksums. \<open>Edfs\<close>: edfs.c;
    \<open>Edfs_Spec\<close>: the table of paths, well-formed requests and their replies, names and times. \<open>Dp8390\<close>: dp8390.c; \<open>Dp8390_Ring\<close>: its memory as a
    ring, and an exchange from the ports of the card through the network and back.
  \<^item> \<open>Debugger\<close>: debugger.c and the memory dump of mem.c. \<open>Pc\<close>: main.c, the whole machine.
  \<^item> \<open>Trace_Log\<close>: the trace buffers of the devices, with the contract \<open>trace_ring\<close> of a ring that keeps the latest
    entries. \<open>Cpu_Trace\<close>: i8088_trace.c, the trace of the instructions; it names the operands that the processor
    uses, and its dump lists the last instructions, with the exceptions that the theorem states.

  What is proved, from the whole to the parts. The BIOS stays what the file says in every run of the main loop, with
  all devices, the network, the user and the debugger acting in any way; on the bus no device hides another. The
  processor decodes in bounded time, computes as the word operations say, with the flags that the conditional
  jumps need, divides or raises the divide error, and its block operations copy, compare and search. Interrupt
  requests are kept and delivered in order. The status registers of both disk controllers are invariants of
  their state machines, a driver that follows them ends every command, and data arrives where it should.
  The serial port, the card's ring and the keyboard queue deliver every byte in order. Replies of the network and
  of the served directory carry the right addresses, numbers and checksums.

  Bounds. \<open>i8088_prefixes\<close> has fuel \<open>0x10000\<close>: a code segment has that many bytes, so that a decoder which has not
  ended by then has come round to where it started and never ends; \<open>Cpu_Flow\<close> proves both halves. The loop of
  a repeat prefix runs \<open>unat cx\<close> times, which \<open>Cpu_String\<close> shows to be the loop of the code. The memory dump has
  \<open>2 ^ 28\<close> rows of fuel, more than the address space has. The other loops are bounded by their data; the main
  loop runs over a list that says in which iterations an interrupt signal arrives, of any length.

  Parameters. The files and images, the host's clock (\<open>host_clock\<close>), the serial terminal (\<open>tty\<close>), the sockets
  (\<open>net_results\<close>), the file system behind the served directory (\<open>fs_results\<close>), the keys and the screen of curses
  (\<open>terminal\<close>), the standard input and \<open>stat\<close> of the debugger, and \<open>getopt\<close> are not code of the repository. They
  are fields with arbitrary answers that nothing writes, next to a record of the calls made; so a theorem about every
  state covers every behaviour of theirs. The same holds for uninitialised variables (\<open>uninit\<close>, \<open>tx_stack\<close>,
  \<open>dbg_locals\<close>).

  Not modelled. The help texts, the messages and the dumps other than those of memory and of the traces. The
  traces are models of their own: nothing of the machine reads them, so that the calls which write to them are
  left out of the other theories. The calls that
  set up, suspend and end curses have no effect in the model, and neither has the time that \<open>poll\<close> waits. The
  assignment of addresses and the use of C's undefined shifts and overflows follow the usual machine, as noted where
  they occur.
\<close>

end
